(* ===== verification/Prelude.thy ===== *)
theory Prelude
  imports Main "HOL-Library.Word" "HOL-Library.Multiset"
begin

text \<open>
  Shared vocabulary of the development.

  \<^item> Results: a Rust \<open>Result\<close> is a sum with the error on the left; \<open>and_then\<close> is the
    question-mark operator, \<open>collect_results\<close> is \<open>collect\<close> of an iterator of results, and
    \<open>transpose_result\<close> is \<open>Option::transpose\<close>.
  \<^item> Machine integers: \<open>u8\<close> to \<open>u64\<close> are words; \<open>checked_add\<close>, \<open>checked_mul\<close>,
    \<open>saturating_add\<close>, \<open>saturating_sub\<close> and \<open>try_from_int\<close> are the methods of the Rust
    standard library that the code calls. A signed 64-bit value of the database is an \<open>int\<close>.
  \<^item> Tables: a database table with a primary key is an association list in insertion order;
    the statements the code issues are \<open>insert_row\<close>, \<open>insert_or_ignore\<close>, \<open>upsert_row\<close>,
    \<open>update_where\<close> and \<open>delete_where\<close>. The locale \<open>keyed_table\<close> is the contract a client
    of a table relies on.
  \<^item> Transition systems: \<open>reach\<close> and the locales \<open>invariant_system\<close> and
    \<open>monotone_system\<close>, which lift one-step facts to all reachable states and to whole runs.
\<close>

named_theorems result_simps \<open>evaluation of results\<close>
named_theorems rust_int \<open>meaning of the checked and saturating integer operations\<close>
named_theorems table_simps \<open>lookups after table statements\<close>

section \<open>Results\<close>

type_synonym ('e, 'a) result = "'e + 'a"

definition and_then :: "'e + 'a \<Rightarrow> ('a \<Rightarrow> 'e + 'b) \<Rightarrow> 'e + 'b" where
  "and_then r f = (case r of Inl e \<Rightarrow> Inl e | Inr x \<Rightarrow> f x)"

definition ok_or :: "'a option \<Rightarrow> 'e \<Rightarrow> 'e + 'a" where
  "ok_or v e = (case v of None \<Rightarrow> Inl e | Some x \<Rightarrow> Inr x)"

fun transpose_result :: "('e + 'a) option \<Rightarrow> 'e + 'a option" where
  "transpose_result None = Inr None"
| "transpose_result (Some (Inl e)) = Inl e"
| "transpose_result (Some (Inr x)) = Inr (Some x)"

fun collect_results :: "('e + 'a) list \<Rightarrow> 'e + 'a list" where
  "collect_results [] = Inr []"
| "collect_results (Inl e # rs) = Inl e"
| "collect_results (Inr x # rs) =
     (case collect_results rs of Inl e \<Rightarrow> Inl e | Inr xs \<Rightarrow> Inr (x # xs))"

lemma and_then_Inl [simp, result_simps]: "and_then (Inl e) f = Inl e"
  by (simp add: and_then_def)

lemma and_then_Inr [simp, result_simps]: "and_then (Inr x) f = f x"
  by (simp add: and_then_def)

lemma ok_or_None [simp, result_simps]: "ok_or None e = Inl e"
  by (simp add: ok_or_def)

lemma ok_or_Some [simp, result_simps]: "ok_or (Some x) e = Inr x"
  by (simp add: ok_or_def)

lemma and_then_eq_Inr: "and_then r f = Inr y \<longleftrightarrow> (\<exists>x. r = Inr x \<and> f x = Inr y)"
  by (cases r) auto

lemma and_then_InrE:
  assumes "and_then r f = Inr y"
  obtains x where "r = Inr x" and "f x = Inr y"
  using assms by (auto simp: and_then_eq_Inr)

lemma and_then_eq_Inl:
  "and_then r f = Inl e \<longleftrightarrow> r = Inl e \<or> (\<exists>x. r = Inr x \<and> f x = Inl e)"
  by (cases r) auto

lemma ok_or_eq_Inr [simp]: "ok_or v e = Inr x \<longleftrightarrow> v = Some x"
  by (cases v) auto

lemma transpose_result_Inr_Some:
  "transpose_result v = Inr (Some x) \<longleftrightarrow> v = Some (Inr x)"
  by (cases v rule: transpose_result.cases) auto

lemma collect_results_Inr:
  "collect_results rs = Inr xs \<longleftrightarrow> rs = map Inr xs"
proof (induction rs arbitrary: xs)
  case (Cons r rs)
  show ?case
  proof (cases r)
    case (Inr x)
    show ?thesis
    proof (cases "collect_results rs")
      case (Inl e)
      then have "rs \<noteq> map Inr ys" for ys using Cons.IH [of ys] by simp
      with Inl Inr show ?thesis by (cases xs) simp_all
    next
      case rs: (Inr ys)
      then have "rs = map Inr ys" using Cons.IH by simp
      with rs Inr show ?thesis by (cases xs) (auto simp: inj_map_eq_map)
    qed
  qed (cases xs; simp)
qed auto

lemma collect_results_map_ok:
  assumes "\<And>x. x \<in> set xs \<Longrightarrow> \<exists>y. f x = Inr y"
  shows "\<exists>ys. collect_results (map f xs) = Inr ys \<and> length ys = length xs"
  using assms
proof (induction xs)
  case (Cons x xs)
  then obtain y ys where "f x = Inr y" "collect_results (map f xs) = Inr ys" "length ys = length xs"
    by (metis list.set_intros)
  then show ?case by simp
qed simp

section \<open>Machine integers\<close>

type_synonym u8 = "8 word"
type_synonym u16 = "16 word"
type_synonym u32 = "32 word"
type_synonym u64 = "64 word"
type_synonym bytes = "u8 list"

definition checked_add :: "'a::len word \<Rightarrow> 'a word \<Rightarrow> 'a word option" where
  "checked_add a b = (if unat a + unat b < 2 ^ LENGTH('a) then Some (a + b) else None)"

definition checked_mul :: "'a::len word \<Rightarrow> 'a word \<Rightarrow> 'a word option" where
  "checked_mul a b = (if unat a * unat b < 2 ^ LENGTH('a) then Some (a * b) else None)"

definition saturating_add :: "'a::len word \<Rightarrow> 'a word \<Rightarrow> 'a word" where
  "saturating_add a b = (case checked_add a b of None \<Rightarrow> - 1 | Some c \<Rightarrow> c)"

definition saturating_sub :: "'a::len word \<Rightarrow> 'a word \<Rightarrow> 'a word" where
  "saturating_sub a b = (if a < b then 0 else a - b)"

definition try_from_int :: "int \<Rightarrow> 'a::len word option" where
  "try_from_int i = (if 0 \<le> i \<and> i < 2 ^ LENGTH('a) then Some (word_of_int i) else None)"

definition try_from_word :: "'b::len word \<Rightarrow> 'a::len word option" where
  "try_from_word w = (if unat w < 2 ^ LENGTH('a) then Some (of_nat (unat w)) else None)"

lemma unat_bounds:
  "unat (a :: u8) < 256" "unat (b :: u16) < 65536" "unat (c :: u32) < 4294967296"
  "unat (d :: u64) < 18446744073709551616"
  using unsigned_less [of a, where 'a=nat] unsigned_less [of b, where 'a=nat]
    unsigned_less [of c, where 'a=nat] unsigned_less [of d, where 'a=nat] by simp_all

lemma unat_max_word: "unat (- 1 :: 'a::len word) = 2 ^ LENGTH('a) - 1"
  by (simp add: unsigned_minus_1_eq_mask mask_eq_exp_minus_1)

lemma checked_add_Some [rust_int]:
  "checked_add a b = Some (c :: 'a::len word) \<longleftrightarrow> unat c = unat a + unat b"
proof
  assume "checked_add a b = Some c"
  then show "unat c = unat a + unat b"
    by (auto simp: checked_add_def unat_word_ariths split: if_splits)
next
  assume c: "unat c = unat a + unat b"
  then have "unat a + unat b < 2 ^ LENGTH('a)" by (metis unsigned_less)
  moreover from this c have "c = a + b"
    by (simp add: word_unat_eq_iff unat_word_ariths)
  ultimately show "checked_add a b = Some c" by (simp add: checked_add_def)
qed

lemma checked_add_None [rust_int]:
  "checked_add a b = None \<longleftrightarrow> 2 ^ LENGTH('a) \<le> unat (a :: 'a::len word) + unat b"
  by (simp add: checked_add_def linorder_not_less)

lemma checked_mul_Some [rust_int]:
  "checked_mul a b = Some (c :: 'a::len word) \<longleftrightarrow> unat c = unat a * unat b"
proof
  assume "checked_mul a b = Some c"
  then show "unat c = unat a * unat b"
    by (auto simp: checked_mul_def unat_word_ariths split: if_splits)
next
  assume c: "unat c = unat a * unat b"
  then have "unat a * unat b < 2 ^ LENGTH('a)" by (metis unsigned_less)
  moreover from this c have "c = a * b"
    by (simp add: word_unat_eq_iff unat_word_ariths)
  ultimately show "checked_mul a b = Some c" by (simp add: checked_mul_def)
qed

lemma unat_saturating_sub [rust_int]:
  "unat (saturating_sub a b) = unat a - unat b"
  by (auto simp: saturating_sub_def word_less_nat_alt unat_sub_if')

lemma unat_saturating_add [rust_int]:
  "unat (saturating_add a (b :: 'a::len word)) = min (2 ^ LENGTH('a) - 1) (unat a + unat b)"
proof (cases "checked_add a b")
  case None
  moreover from None have "2 ^ LENGTH('a) \<le> unat a + unat b" by (simp add: checked_add_None)
  ultimately show ?thesis by (simp add: saturating_add_def unat_max_word)
next
  case (Some c)
  then have "unat c = unat a + unat b" by (simp add: checked_add_Some)
  moreover have "unat c \<le> 2 ^ LENGTH('a) - 1"
    using unsigned_less [of c] by (metis One_nat_def Suc_pred less_Suc_eq_le zero_less_numeral zero_less_power)
  ultimately show ?thesis using Some by (simp add: saturating_add_def)
qed

lemma try_from_int_Some [rust_int]:
  "try_from_int i = Some (w :: 'a::len word) \<longleftrightarrow> i = int (unat w)"
proof
  assume "try_from_int i = Some w"
  then show "i = int (unat w)"
    by (auto simp: try_from_int_def unsigned_of_int take_bit_int_eq_self split: if_splits)
next
  assume "i = int (unat w)"
  then show "try_from_int i = Some w"
    using unsigned_less [of w] by (simp add: try_from_int_def)
qed

lemma try_from_int_None [rust_int]:
  "(try_from_int i :: 'a::len word option) = None \<longleftrightarrow> i < 0 \<or> 2 ^ LENGTH('a) \<le> i"
  by (auto simp: try_from_int_def)

lemma try_from_word_Some [rust_int]:
  "try_from_word w = Some (v :: 'a::len word) \<longleftrightarrow> unat v = unat (w :: 'b::len word)"
proof
  assume "try_from_word w = Some v"
  then show "unat v = unat w"
    by (auto simp: try_from_word_def unsigned_ucast_eq take_bit_nat_eq_self split: if_splits)
next
  assume v: "unat v = unat w"
  then have "unat w < 2 ^ LENGTH('a)" by (metis unsigned_less)
  moreover have "v = of_nat (unat w)" using v by (metis of_nat_unat ucast_id)
  ultimately show "try_from_word w = Some v" by (simp add: try_from_word_def)
qed

section \<open>Evaluation of lists at numerals\<close>

named_theorems list_eval \<open>list functions at numeral arguments\<close>

lemma list_update_Cons_numeral [list_eval]:
  "(x # xs)[numeral n := y] = x # xs[pred_numeral n := y]"
  by (simp add: numeral_eq_Suc)

lemma replicate_numeral [list_eval]: "replicate (numeral n) x = x # replicate (pred_numeral n) x"
  by (simp add: numeral_eq_Suc)

lemma upt_one_Bit [list_eval]:
  "[Suc 0..<numeral (num.Bit0 n)] = Suc 0 # [2..<numeral (num.Bit0 n)]"
  "[Suc 0..<numeral (num.Bit1 n)] = Suc 0 # [2..<numeral (num.Bit1 n)]"
  by (simp_all add: upt_conv_Cons numeral_2_eq_2)

section \<open>Tables with a primary key\<close>

type_synonym ('k, 'v) tbl = "('k \<times> 'v) list"

text \<open>\<open>tbl_exists\<close> is \<open>EXISTS (SELECT 1 ... WHERE key = ?)\<close>.\<close>

definition tbl_exists :: "('k, 'v) tbl \<Rightarrow> 'k \<Rightarrow> bool" where
  "tbl_exists t k = (map_of t k \<noteq> None)"

text \<open>\<open>INSERT\<close>: \<open>None\<close> is the primary-key constraint error.\<close>

definition insert_row :: "'k \<Rightarrow> 'v \<Rightarrow> ('k, 'v) tbl \<Rightarrow> ('k, 'v) tbl option" where
  "insert_row k v t = (if tbl_exists t k then None else Some (t @ [(k, v)]))"

text \<open>\<open>INSERT ... ON CONFLICT DO NOTHING\<close> and \<open>INSERT OR IGNORE\<close>.\<close>

definition insert_or_ignore :: "'k \<Rightarrow> 'v \<Rightarrow> ('k, 'v) tbl \<Rightarrow> ('k, 'v) tbl" where
  "insert_or_ignore k v t = (if tbl_exists t k then t else t @ [(k, v)])"

text \<open>\<open>UPDATE ... SET ... WHERE\<close> on the rows that match; \<open>matching\<close> counts them.\<close>

definition update_where :: "('k \<Rightarrow> 'v \<Rightarrow> bool) \<Rightarrow> ('v \<Rightarrow> 'v) \<Rightarrow> ('k, 'v) tbl \<Rightarrow> ('k, 'v) tbl" where
  "update_where p f t = map (\<lambda>(k, v). (k, if p k v then f v else v)) t"

definition matching :: "('k \<Rightarrow> 'v \<Rightarrow> bool) \<Rightarrow> ('k, 'v) tbl \<Rightarrow> nat" where
  "matching p t = length (filter (\<lambda>(k, v). p k v) t)"

text \<open>\<open>INSERT ... ON CONFLICT DO UPDATE SET\<close> every column.\<close>

definition upsert_row :: "'k \<Rightarrow> 'v \<Rightarrow> ('k, 'v) tbl \<Rightarrow> ('k, 'v) tbl" where
  "upsert_row k v t =
     (if tbl_exists t k then update_where (\<lambda>k' _. k' = k) (\<lambda>_. v) t else t @ [(k, v)])"

definition delete_where :: "('k \<Rightarrow> 'v \<Rightarrow> bool) \<Rightarrow> ('k, 'v) tbl \<Rightarrow> ('k, 'v) tbl" where
  "delete_where p t = filter (\<lambda>(k, v). \<not> p k v) t"

text \<open>The key invariant of a table: no two rows share the primary key.\<close>

definition keyed :: "('k, 'v) tbl \<Rightarrow> bool" where
  "keyed t = distinct (map fst t)"

lemma tbl_exists_iff [table_simps]: "tbl_exists t k \<longleftrightarrow> k \<in> fst ` set t"
  by (simp add: tbl_exists_def map_of_eq_None_iff)

lemma tbl_exists_Some: "map_of t k = Some v \<Longrightarrow> tbl_exists t k"
  by (simp add: tbl_exists_def)

lemma insert_row_Some:
  "insert_row k v t = Some t' \<longleftrightarrow> \<not> tbl_exists t k \<and> t' = t @ [(k, v)]"
  by (auto simp: insert_row_def)

lemma map_add_new [table_simps]:
  "\<not> tbl_exists t k \<Longrightarrow> [k \<mapsto> v] ++ map_of t = (map_of t)(k \<mapsto> v)"
  by (auto simp: fun_eq_iff map_add_def tbl_exists_def split: option.splits)

lemma map_of_snoc_new:
  "\<not> tbl_exists t k \<Longrightarrow> map_of (t @ [(k, v)]) k' = (if k' = k then Some v else map_of t k')"
  by (simp add: map_add_new)

lemma map_of_insert_or_ignore [table_simps]:
  "map_of (insert_or_ignore k v t) k' =
     (if k' = k \<and> \<not> tbl_exists t k then Some v else map_of t k')"
  by (auto simp: insert_or_ignore_def map_add_new)

lemma map_of_update_where [table_simps]:
  "map_of (update_where p f t) k = map_option (\<lambda>v. if p k v then f v else v) (map_of t k)"
  by (induction t) (auto simp: update_where_def)

lemma map_of_upsert_row [table_simps]:
  "map_of (upsert_row k v t) k' = (if k' = k then Some v else map_of t k')"
proof (cases "tbl_exists t k")
  case True
  then show ?thesis
    by (auto simp: upsert_row_def map_of_update_where tbl_exists_def map_option_case
        split: option.splits)
next
  case False
  then show ?thesis by (simp add: upsert_row_def map_add_new)
qed

lemma map_of_delete_where [table_simps]:
  "keyed t \<Longrightarrow>
   map_of (delete_where p t) k =
     (case map_of t k of None \<Rightarrow> None | Some v \<Rightarrow> if p k v then None else Some v)"
proof (induction t)
  case (Cons r t)
  obtain k' v where r: "r = (k', v)" by fastforce
  have "k' \<notin> fst ` set t" "keyed t" using Cons.prems by (simp_all add: r keyed_def)
  then have "map_of (delete_where p t) k' = None"
    by (auto simp: map_of_eq_None_iff delete_where_def)
  with Cons.IH [OF \<open>keyed t\<close>] show ?case by (auto simp: r delete_where_def)
qed (simp add: delete_where_def)

lemma keyed_Nil [simp]: "keyed []"
  by (simp add: keyed_def)

lemma keyed_snoc [table_simps]: "keyed (t @ [(k, v)]) \<longleftrightarrow> keyed t \<and> \<not> tbl_exists t k"
  by (auto simp: keyed_def tbl_exists_iff)

lemma keys_update_where [simp]: "map fst (update_where p f t) = map fst t"
  by (simp add: update_where_def split_beta)

lemma keyed_update_where [table_simps]: "keyed (update_where p f t) = keyed t"
  by (simp add: keyed_def)

lemma keyed_insert_row: "insert_row k v t = Some t' \<Longrightarrow> keyed t \<Longrightarrow> keyed t'"
  by (auto simp: insert_row_Some keyed_snoc)

lemma keyed_insert_or_ignore [table_simps]: "keyed t \<Longrightarrow> keyed (insert_or_ignore k v t)"
  by (simp add: insert_or_ignore_def keyed_snoc)

lemma keyed_upsert_row [table_simps]: "keyed t \<Longrightarrow> keyed (upsert_row k v t)"
  by (simp add: upsert_row_def keyed_snoc keyed_update_where)

lemma keyed_delete_where [table_simps]: "keyed t \<Longrightarrow> keyed (delete_where p t)"
  by (simp add: keyed_def delete_where_def distinct_map_filter)

lemma tbl_exists_update_where [table_simps]:
  "tbl_exists (update_where p f t) k = tbl_exists t k"
  by (simp add: tbl_exists_def map_of_update_where)

lemma tbl_exists_insert_or_ignore [table_simps]:
  "tbl_exists (insert_or_ignore k v t) k' \<longleftrightarrow> k' = k \<or> tbl_exists t k'"
  by (auto simp: tbl_exists_def map_of_insert_or_ignore)

lemma tbl_exists_upsert_row [table_simps]:
  "tbl_exists (upsert_row k v t) k' \<longleftrightarrow> k' = k \<or> tbl_exists t k'"
  by (auto simp: tbl_exists_def map_of_upsert_row)

lemma tbl_exists_snoc [table_simps]:
  "tbl_exists (t @ [(k, v)]) k' \<longleftrightarrow> k' = k \<or> tbl_exists t k'"
  by (auto simp: tbl_exists_iff)

lemma matching_key [table_simps]:
  assumes "keyed t"
  shows "matching (\<lambda>k' v. k' = k \<and> p v) t =
     (case map_of t k of None \<Rightarrow> 0 | Some v \<Rightarrow> if p v then 1 else 0)"
  using assms
proof (induction t)
  case (Cons r t)
  obtain k' v where r: "r = (k', v)" by fastforce
  have nk: "k' \<notin> fst ` set t" and "keyed t" using Cons.prems by (simp_all add: r keyed_def)
  from nk have "matching (\<lambda>k'' v. k'' = k' \<and> p v) t = 0"
    by (force simp: matching_def filter_empty_conv)
  with Cons.IH [OF \<open>keyed t\<close>] show ?case by (auto simp: r matching_def)
qed (simp add: matching_def)

text \<open>
  The contract of a table with a primary key: what a client may rely on without knowing the
  representation of the rows.
\<close>

locale keyed_table =
  fixes get :: "'t \<Rightarrow> 'k \<Rightarrow> 'v option"
    and ins :: "'k \<Rightarrow> 'v \<Rightarrow> 't \<Rightarrow> 't option"
    and upd :: "('k \<Rightarrow> 'v \<Rightarrow> bool) \<Rightarrow> ('v \<Rightarrow> 'v) \<Rightarrow> 't \<Rightarrow> 't"
    and wf :: "'t \<Rightarrow> bool"
  assumes ins_get: "ins k v t = Some t' \<Longrightarrow> get t' = (get t)(k := Some v)"
    and ins_fresh: "(\<exists>t'. ins k v t = Some t') \<longleftrightarrow> get t k = None"
    and ins_wf: "wf t \<Longrightarrow> ins k v t = Some t' \<Longrightarrow> wf t'"
    and upd_get: "get (upd p f t) k = map_option (\<lambda>v. if p k v then f v else v) (get t k)"
    and upd_wf: "wf t \<Longrightarrow> wf (upd p f t)"
begin

lemma ins_keeps:
  assumes "ins k v t = Some t'" and "get t k' = Some v'"
  shows "get t' k' = Some v'"
proof -
  from assms(1) have "get t k = None" using ins_fresh by blast
  with assms show ?thesis by (auto simp: ins_get)
qed

lemma ins_twice: "ins k v t = Some t' \<Longrightarrow> ins k v' t' = None"
  using ins_fresh [of k v' t'] by (cases "ins k v' t'") (auto simp: ins_get)

lemma upd_keeps: "get t k = Some v \<Longrightarrow> \<not> p k v \<Longrightarrow> get (upd p f t) k = Some v"
  by (simp add: upd_get)

lemma upd_dom: "dom (get (upd p f t)) = dom (get t)"
  by (auto simp: upd_get)

end

interpretation sql: keyed_table map_of insert_row update_where keyed
proof
  fix k :: 'k and v :: 'v and t t' :: "('k, 'v) tbl"
  show "insert_row k v t = Some t' \<Longrightarrow> map_of t' = (map_of t)(k := Some v)"
    by (auto simp: insert_row_Some map_add_new)
  show "(\<exists>t'. insert_row k v t = Some t') \<longleftrightarrow> map_of t k = None"
    by (auto simp: insert_row_Some tbl_exists_def)
qed (auto simp: map_of_update_where keyed_update_where intro: keyed_insert_row)

lemma matching_snoc [table_simps]:
  "matching p (t @ [(k, v)]) = matching p t + (if p k v then 1 else 0)"
  by (simp add: matching_def)

lemma matching_mono:
  assumes "\<And>k v. (k, v) \<in> set t \<Longrightarrow> p k v \<Longrightarrow> q k v"
  shows "matching p t \<le> matching q t"
proof -
  have "filter (\<lambda>(k, v). p k v) t = filter (\<lambda>(k, v). p k v) (filter (\<lambda>(k, v). q k v) t)"
    using assms by (auto intro!: filter_cong)
  then show ?thesis unfolding matching_def by (metis length_filter_le)
qed

lemma matching_cong:
  assumes "\<And>k v. (k, v) \<in> set t \<Longrightarrow> p k v = q k v"
  shows "matching p t = matching q t"
  using assms by (intro antisym matching_mono) auto

text \<open>
  A table whose rows satisfy a predicate and refer to rows of a parent table: what a foreign
  key and the decoders of the rows need.
\<close>

definition child_ok :: "('k \<Rightarrow> 'v \<Rightarrow> bool) \<Rightarrow> ('k, 'p) tbl \<Rightarrow> ('k, 'v) tbl \<Rightarrow> bool" where
  "child_ok P parents t \<longleftrightarrow> keyed t \<and> (\<forall>(k, v) \<in> set t. P k v \<and> tbl_exists parents k)"

named_theorems child_intros \<open>preservation of \<open>child_ok\<close> by the statements\<close>

lemma child_ok_Nil [simp]: "child_ok P parents []"
  by (simp add: child_ok_def)

lemma child_ok_keyed: "child_ok P parents t \<Longrightarrow> keyed t"
  by (simp add: child_ok_def)

lemma child_ok_row: "child_ok P parents t \<Longrightarrow> map_of t k = Some v \<Longrightarrow> P k v"
  by (auto simp: child_ok_def dest: map_of_SomeD)

lemma child_ok_parent: "child_ok P parents t \<Longrightarrow> tbl_exists t k \<Longrightarrow> tbl_exists parents k"
  by (auto simp: child_ok_def tbl_exists_def dest: map_of_SomeD)

lemma child_ok_snoc [child_intros]:
  "child_ok P parents t \<Longrightarrow> \<not> tbl_exists t k \<Longrightarrow> P k v \<Longrightarrow> tbl_exists parents k \<Longrightarrow>
   child_ok P parents (t @ [(k, v)])"
  by (auto simp: child_ok_def keyed_snoc)

lemma child_ok_insert_row [child_intros]:
  "insert_row k v t = Some t' \<Longrightarrow> child_ok P parents t \<Longrightarrow> P k v \<Longrightarrow> tbl_exists parents k \<Longrightarrow>
   child_ok P parents t'"
  by (auto simp: insert_row_Some intro: child_ok_snoc)

lemma child_ok_insert_or_ignore [child_intros]:
  "child_ok P parents t \<Longrightarrow> P k v \<Longrightarrow> tbl_exists t k \<or> tbl_exists parents k \<Longrightarrow>
   child_ok P parents (insert_or_ignore k v t)"
  by (auto simp: insert_or_ignore_def intro: child_ok_snoc)

lemma child_ok_update_where [child_intros]:
  assumes "child_ok P parents t" and "\<And>k v. P k v \<Longrightarrow> p k v \<Longrightarrow> P k (f v)"
  shows "child_ok P parents (update_where p f t)"
  using assms unfolding child_ok_def keyed_update_where
  by (auto simp: update_where_def split: if_splits)

lemma child_ok_upsert_row [child_intros]:
  "child_ok P parents t \<Longrightarrow> P k v \<Longrightarrow> tbl_exists parents k \<Longrightarrow> child_ok P parents (upsert_row k v t)"
  unfolding upsert_row_def by (auto intro: child_ok_snoc child_ok_update_where)

lemma child_ok_delete_where [child_intros]:
  "child_ok P parents t \<Longrightarrow> child_ok P parents (delete_where p t)"
  by (auto simp: child_ok_def keyed_delete_where) (auto simp: delete_where_def)

lemma child_ok_parents_snoc [child_intros]:
  "child_ok P parents t \<Longrightarrow> child_ok P (parents @ [(k, v)]) t"
  by (auto simp: child_ok_def tbl_exists_snoc)

text \<open>
  A later version of a table: every row is still there, under the same key, and has changed at
  most as \<open>R\<close> allows. With equality for \<open>R\<close> the rows are permanent.
\<close>

definition extends :: "('v \<Rightarrow> 'v \<Rightarrow> bool) \<Rightarrow> ('k, 'v) tbl \<Rightarrow> ('k, 'v) tbl \<Rightarrow> bool" where
  "extends R t t' \<longleftrightarrow> (\<forall>k v. map_of t k = Some v \<longrightarrow> (\<exists>v'. map_of t' k = Some v' \<and> R v v'))"

named_theorems extends_intros \<open>the statements that only extend a table\<close>

lemma extendsD:
  assumes "extends R t t'" and "map_of t k = Some v"
  obtains v' where "map_of t' k = Some v'" and "R v v'"
  using assms by (auto simp: extends_def)

lemma extends_eqD: "extends (=) t t' \<Longrightarrow> map_of t k = Some v \<Longrightarrow> map_of t' k = Some v"
  by (auto simp: extends_def)

lemma extends_exists: "extends R t t' \<Longrightarrow> tbl_exists t k \<Longrightarrow> tbl_exists t' k"
  by (auto simp: extends_def tbl_exists_def)

lemma extends_refl: "(\<And>v. R v v) \<Longrightarrow> extends R t t"
  by (auto simp: extends_def)

lemma extends_trans:
  assumes "extends R t u" and "extends R u w" and "\<And>x y z. R x y \<Longrightarrow> R y z \<Longrightarrow> R x z"
  shows "extends R t w"
  unfolding extends_def
proof (intro allI impI)
  fix k v assume "map_of t k = Some v"
  with assms(1) obtain v1 where v1: "map_of u k = Some v1" "R v v1" by (rule extendsD)
  from assms(2) v1(1) obtain v2 where "map_of w k = Some v2" "R v1 v2" by (rule extendsD)
  with v1 assms(3) show "\<exists>v'. map_of w k = Some v' \<and> R v v'" by blast
qed

lemma extends_snoc [extends_intros]:
  "(\<And>v. R v v) \<Longrightarrow> \<not> tbl_exists t k \<Longrightarrow> extends R t (t @ [(k, v)])"
  by (auto simp: extends_def map_add_new tbl_exists_def)

lemma extends_insert_or_ignore [extends_intros]:
  "(\<And>v. R v v) \<Longrightarrow> extends R t (insert_or_ignore k v t)"
  by (auto simp: extends_def map_of_insert_or_ignore tbl_exists_def)

lemma extends_update_where [extends_intros]:
  assumes "\<And>v. R v v" and "\<And>k v. p k v \<Longrightarrow> R v (f v)"
  shows "extends R t (update_where p f t)"
  using assms by (auto simp: extends_def map_of_update_where)

section \<open>Transition systems\<close>

text \<open>The states a step relation reaches from its initial states.\<close>

inductive reach :: "('s \<Rightarrow> bool) \<Rightarrow> ('s \<Rightarrow> 's \<Rightarrow> bool) \<Rightarrow> 's \<Rightarrow> bool" for init step where
  reach_init: "init s \<Longrightarrow> reach init step s"
| reach_step: "reach init step s \<Longrightarrow> step s t \<Longrightarrow> reach init step t"

locale invariant_system =
  fixes init :: "'s \<Rightarrow> bool" and step :: "'s \<Rightarrow> 's \<Rightarrow> bool" and inv :: "'s \<Rightarrow> bool"
  assumes inv_init: "init s \<Longrightarrow> inv s"
    and inv_step: "inv s \<Longrightarrow> step s t \<Longrightarrow> inv t"
begin

lemma inv_reach: "reach init step s \<Longrightarrow> inv s"
  by (induction rule: reach.induct) (auto intro: inv_init inv_step)

lemma inv_run: "inv s \<Longrightarrow> step\<^sup>*\<^sup>* s t \<Longrightarrow> inv t"
  by (rotate_tac 1, induction rule: rtranclp_induct) (auto intro: inv_step)

end

text \<open>
  A relation between an earlier and a later state that every step from a state with the
  invariant establishes: facts that only grow, rows that never change.
\<close>

locale monotone_system = invariant_system +
  fixes rel :: "'s \<Rightarrow> 's \<Rightarrow> bool"
  assumes rel_refl: "rel s s"
    and rel_trans: "rel s t \<Longrightarrow> rel t u \<Longrightarrow> rel s u"
    and rel_step: "inv s \<Longrightarrow> step s t \<Longrightarrow> rel s t"
begin

lemma rel_run:
  assumes "inv s" and "step\<^sup>*\<^sup>* s t"
  shows "rel s t"
  using assms(2)
proof (induction rule: rtranclp_induct)
  case base
  show ?case by (rule rel_refl)
next
  case (step t u)
  from assms(1) step.hyps(1) have "inv t" by (rule inv_run)
  with step show ?case by (blast intro: rel_step rel_trans)
qed

end

end
