(* ===== verification/Denominations.thy ===== *)
theory Denominations
  imports Prelude
begin

text \<open>
  Locked-payment denominations (\<open>crates/locked-payments/src/denominations.rs\<close> and the
  refund part of \<open>locked_payment.rs\<close>).

  \<^item> \<open>quote_denominations\<close> splits a price into mint tiers greedily, highest first.
  \<^item> \<open>refund_denominations\<close> chooses refund outputs whose cost (amount plus output fee)
    equals a target exactly: a greedy pass, then a bounded dynamic program
    (\<open>minimum_coin_representation\<close>) that repairs the remainder.

  An \<open>Amount\<close> is its \<open>u64\<close> of millisatoshis. \<open>usize\<close> is 64 bits, so the conversion of a
  cost to \<open>usize\<close> never fails. The closure \<open>output_fee\<close> is a parameter.
\<close>

section \<open>Definitions\<close>

type_synonym amount = u64

definition MAX_LOCKED_PAYMENT_NOTES :: nat where
  "MAX_LOCKED_PAYMENT_NOTES = 64"

text \<open>\<open>sort_unstable_by(|a, b| b.cmp(a))\<close>: equal keys are equal values, so stability is moot.\<close>

definition sort_desc :: "'a::linorder list \<Rightarrow> 'a list" where
  "sort_desc xs = rev (sort xs)"

text \<open>The loop of \<open>quote_denominations\<close> over the sorted, deduplicated tiers.\<close>

fun quote_loop :: "amount list \<Rightarrow> u64 \<Rightarrow> amount list \<Rightarrow> (u64 \<times> amount list) option" where
  "quote_loop [] remaining selected = Some (remaining, selected)"
| "quote_loop (tier # tiers) remaining selected =
     (if tier = 0 then quote_loop tiers remaining selected
      else let count = remaining div tier;
               remaining_capacity = MAX_LOCKED_PAYMENT_NOTES - length selected
           in if unat count > remaining_capacity then None
              else quote_loop tiers (remaining mod tier)
                     (selected @ replicate (unat count) tier))"

definition quote_denominations :: "u64 \<Rightarrow> amount list \<Rightarrow> amount list option" where
  "quote_denominations price_msats available =
     (case quote_loop (remdups_adj (sort_desc available)) price_msats [] of
        None \<Rightarrow> None
      | Some (remaining, selected) \<Rightarrow> if remaining \<noteq> 0 then None else Some selected)"

text \<open>
  The mint-v2 denominations both roles use: the consensus set of \<open>fedimint-mintv2-common\<close>,
  a parameter, without the dust tiers.
\<close>

definition economical_mint_v2_denominations :: "amount list \<Rightarrow> amount list" where
  "economical_mint_v2_denominations consensus = filter (\<lambda>d. d > 100) consensus"

datatype locked_payment_error =
    IssuanceCountMismatch
  | IssuanceMismatch
  | UnsupportedDenomination amount
  | InvalidMintSignature
  | DuplicateNoteNonce
  | NoSignatureShares
  | InvalidRefundAmount
  | UnrepresentableRefund

text \<open>A coin is a tier with its cost, the amount plus its output fee.\<close>

type_synonym coin = "amount \<times> u64"

definition REPAIR_LIMIT_MSATS :: u64 where
  "REPAIR_LIMIT_MSATS = 1000000"

definition USIZE_MAX :: nat where
  "USIZE_MAX = 2 ^ 64 - 1"

text \<open>\<open>filter_map\<close> of the tiers: a tier whose cost overflows or is zero is dropped.\<close>

fun refund_coins :: "(amount \<Rightarrow> amount) \<Rightarrow> amount list \<Rightarrow> coin list" where
  "refund_coins output_fee [] = []"
| "refund_coins output_fee (a # as) =
     (case checked_add a (output_fee a) of
        None \<Rightarrow> refund_coins output_fee as
      | Some cost \<Rightarrow> if cost = 0 then refund_coins output_fee as
                     else (a, cost) # refund_coins output_fee as)"

text \<open>Descending by cost, then by amount; \<open>dedup_by_key\<close> keeps the first of a run.\<close>

definition sort_coins :: "coin list \<Rightarrow> coin list" where
  "sort_coins coins = rev (sort_key (\<lambda>c. (snd c)) (sort_key fst coins))"

fun dedup_by_cost :: "coin list \<Rightarrow> coin list" where
  "dedup_by_cost (c # d # cs) =
     (if snd c = snd d then dedup_by_cost (c # cs) else c # dedup_by_cost (d # cs))"
| "dedup_by_cost cs = cs"

text \<open>The greedy pass over the coins.\<close>

fun refund_greedy :: "coin list \<Rightarrow> u64 \<Rightarrow> coin list \<Rightarrow> (u64 \<times> coin list) option" where
  "refund_greedy [] remainder selected = Some (remainder, selected)"
| "refund_greedy ((amount, cost) # coins) remainder selected =
     (let count = remainder div cost;
          remaining_capacity = MAX_LOCKED_PAYMENT_NOTES - length selected
      in if unat count > remaining_capacity then None
         else refund_greedy coins (remainder mod cost)
                (selected @ replicate (unat count) (amount, cost)))"

text \<open>
  The dynamic program. The state is the pair of vectors \<open>counts\<close> and \<open>previous\<close>;
  \<open>relax\<close> is the body of the inner loop for one coin.
\<close>

type_synonym dp_state = "nat list \<times> (nat \<times> nat) option list"

definition relax :: "nat \<Rightarrow> nat \<Rightarrow> nat \<times> coin \<Rightarrow> dp_state \<Rightarrow> dp_state" where
  "relax max_coins value = (\<lambda>(coin_index, (_, cost)) (counts, previous).
     let cost = unat cost in
     if cost \<le> value \<and> counts ! (value - cost) \<noteq> USIZE_MAX
     then let candidate = counts ! (value - cost) + 1 in
          if candidate \<le> max_coins \<and> candidate < counts ! value
          then (counts[value := candidate], previous[value := Some (value - cost, coin_index)])
          else (counts, previous)
     else (counts, previous))"

definition dp_row :: "coin list \<Rightarrow> nat \<Rightarrow> nat \<Rightarrow> dp_state \<Rightarrow> dp_state" where
  "dp_row coins max_coins value st = fold (relax max_coins value) (enumerate 0 coins) st"

definition dp_init :: "nat \<Rightarrow> dp_state" where
  "dp_init target = ((replicate (target + 1) USIZE_MAX)[0 := 0], replicate (target + 1) None)"

definition dp_table :: "coin list \<Rightarrow> nat \<Rightarrow> nat \<Rightarrow> dp_state" where
  "dp_table coins target max_coins =
     fold (dp_row coins max_coins) [1..<target + 1] (dp_init target)"

text \<open>
  The walk back through \<open>previous\<close>. The outer option is the fuel: \<open>None\<close> means that the
  loop was still running; the inner option is the code's own \<open>None\<close>.
\<close>

fun backtrack :: "nat \<Rightarrow> coin list \<Rightarrow> (nat \<times> nat) option list \<Rightarrow> nat \<Rightarrow> coin list
    \<Rightarrow> coin list option option" where
  "backtrack 0 coins previous value result = None"
| "backtrack (Suc fuel) coins previous value result =
     (if value = 0 then Some (Some result)
      else case previous ! value of
             None \<Rightarrow> Some None
           | Some (prior, coin_index) \<Rightarrow>
               backtrack fuel coins previous prior (result @ [coins ! coin_index]))"

definition minimum_coin_representation :: "coin list \<Rightarrow> nat \<Rightarrow> nat \<Rightarrow> coin list option" where
  "minimum_coin_representation coins target max_coins =
     (let (counts, previous) = dp_table coins target max_coins in
      if counts ! target = USIZE_MAX then None
      else case backtrack (target + 1) coins previous target [] of
             None \<Rightarrow> None
           | Some r \<Rightarrow> r)"

text \<open>The repair loop: try the dynamic program, else give back the last selected coin.\<close>

function refund_repair :: "coin list \<Rightarrow> u64 \<Rightarrow> coin list \<Rightarrow> locked_payment_error + amount list" where
  "refund_repair coins remainder selected =
     (case (if remainder \<le> REPAIR_LIMIT_MSATS
            then minimum_coin_representation coins (unat remainder)
                   (MAX_LOCKED_PAYMENT_NOTES - length selected)
            else None) of
        Some repair \<Rightarrow> Inr (sort_desc (map fst (selected @ repair)))
      | None \<Rightarrow>
          (if selected = [] then Inl UnrepresentableRefund
           else case checked_add remainder (snd (last selected)) of
                  None \<Rightarrow> Inl UnrepresentableRefund
                | Some remainder' \<Rightarrow>
                    (if remainder' > REPAIR_LIMIT_MSATS then Inl UnrepresentableRefund
                     else refund_repair coins remainder' (butlast selected))))"
  by pat_completeness auto
termination
  by (relation "measure (\<lambda>(coins, remainder, selected). length selected)") auto

definition refund_denominations ::
  "amount list \<Rightarrow> (amount \<Rightarrow> amount) \<Rightarrow> u64 \<Rightarrow> locked_payment_error + amount list" where
  "refund_denominations available output_fee target_msats =
     (let coins = dedup_by_cost (sort_coins (refund_coins output_fee available)) in
      if coins = [] then Inl UnrepresentableRefund
      else case refund_greedy coins target_msats [] of
             None \<Rightarrow> Inl UnrepresentableRefund
           | Some (remainder, selected) \<Rightarrow> refund_repair coins remainder selected)"

section \<open>The greedy split on natural numbers\<close>

text \<open>The number of notes a greedy split uses and what it leaves over.\<close>

fun greedy_count :: "nat list \<Rightarrow> nat \<Rightarrow> nat" where
  "greedy_count [] r = 0"
| "greedy_count (t # ts) r =
     (if t = 0 then greedy_count ts r else r div t + greedy_count ts (r mod t))"

fun greedy_rest :: "nat list \<Rightarrow> nat \<Rightarrow> nat" where
  "greedy_rest [] r = r"
| "greedy_rest (t # ts) r = (if t = 0 then greedy_rest ts r else greedy_rest ts (r mod t))"

lemma greedy_count_add_multiple:
  assumes "0 < u" "u dvd t" "0 < t"
  shows "greedy_count (u # us) x + k \<le> greedy_count (u # us) (x + k * t)"
proof -
  obtain q where t: "t = u * q" using assms(2) by (elim dvdE)
  have q: "0 < q" using assms(3) t by simp
  have "k * t = (k * q) * u" by (simp add: t)
  then have "(x + k * t) div u = x div u + k * q" and "(x + k * t) mod u = x mod u"
    using assms(1) by (simp_all only: mod_mult_self1 div_mult_self1)
  moreover have "k \<le> k * q" using q by simp
  ultimately show ?thesis using assms(1) by simp
qed

lemma length_sum_count_split:
  fixes xs :: "nat list"
  shows "length xs = count_list xs t + length (filter (\<lambda>x. x \<noteq> t) xs)"
    and "sum_list xs = count_list xs t * t + sum_list (filter (\<lambda>x. x \<noteq> t) xs)"
  by (induction xs) auto

text \<open>On a divisor chain no representation has fewer notes than the greedy one.\<close>

lemma greedy_count_minimal:
  "sorted_wrt (\<lambda>a b. b dvd a) ts \<Longrightarrow> 0 \<notin> set ts \<Longrightarrow> set alt \<subseteq> set ts \<Longrightarrow>
   greedy_count ts (sum_list alt) \<le> length alt"
proof (induction ts arbitrary: alt)
  case (Cons t ts)
  define c alt' r where "c = count_list alt t" and "alt' = filter (\<lambda>x. x \<noteq> t) alt"
    and "r = sum_list alt"
  have t: "0 < t" using Cons.prems(2) by auto
  have sub: "set alt' \<subseteq> set ts" using Cons.prems(3) by (auto simp: alt'_def)
  have len: "length alt = c + length alt'" and r: "r = c * t + sum_list alt'"
    unfolding c_def alt'_def r_def by (rule length_sum_count_split)+
  have IH: "greedy_count ts (sum_list alt') \<le> length alt'"
    using Cons.prems sub by (intro Cons.IH) auto
  have c: "c \<le> r div t" using t by (simp add: r div_mult_self1 add.commute)
  define k where "k = r div t - c"
  have rest: "sum_list alt' = r mod t + k * t"
  proof -
    have "r = r div t * t + r mod t" by simp
    also have "r div t * t = c * t + k * t" using c by (simp add: k_def distrib_right [symmetric])
    finally show ?thesis using r by simp
  qed
  have "r div t + greedy_count ts (r mod t) \<le> c + length alt'"
  proof (cases ts)
    case Nil
    with sub have "alt' = []" by simp
    with rest t r show ?thesis by (simp add: Nil)
  next
    case (Cons u us)
    with Cons.prems have "0 < u" "u dvd t" by auto
    then have "greedy_count ts (r mod t) + k \<le> greedy_count ts (sum_list alt')"
      unfolding rest Cons using t by (rule greedy_count_add_multiple)
    with IH c show ?thesis by (simp add: k_def)
  qed
  with t len show ?case by (simp add: r_def)
qed simp

lemma greedy_powers_of_two:
  "r < 2 ^ n \<Longrightarrow> greedy_count (rev (map (\<lambda>k. 2 ^ k) [0..<n])) r \<le> n"
  "r < 2 ^ n \<Longrightarrow> greedy_rest (rev (map (\<lambda>k. 2 ^ k) [0..<n])) r = 0"
proof (induction n arbitrary: r)
  case (Suc n)
  {
    case 1
    have "r div 2 ^ n < 2" using 1 by (simp add: less_mult_imp_div_less)
    with Suc.IH(1) [of "r mod 2 ^ n"] show ?case by simp
  next
    case 2
    with Suc.IH(2) [of "r mod 2 ^ n"] show ?case by simp
  }
qed simp_all

section \<open>The quote loop\<close>

text \<open>The loop on words follows the greedy split on naturals.\<close>

lemma quote_loop_None:
  "length sel \<le> MAX_LOCKED_PAYMENT_NOTES \<Longrightarrow>
   quote_loop ts r sel = None \<longleftrightarrow>
   MAX_LOCKED_PAYMENT_NOTES < length sel + greedy_count (map unat ts) (unat r)"
proof (induction ts r sel rule: quote_loop.induct)
  case (2 t ts r sel)
  show ?case
  proof (cases "t = 0")
    case True
    with 2 show ?thesis by simp
  next
    case False
    let ?c = "unat (r div t)"
    show ?thesis
    proof (cases "MAX_LOCKED_PAYMENT_NOTES - length sel < ?c")
      case True
      with False "2.prems" show ?thesis by (auto simp: unat_div unat_eq_0)
    next
      case small: False
      then have "length (sel @ replicate ?c t) \<le> MAX_LOCKED_PAYMENT_NOTES"
        using "2.prems" by simp
      with 2(2) [OF False refl refl small] False small show ?thesis
        by (simp add: Let_def unat_div unat_mod unat_eq_0 add.assoc)
    qed
  qed
qed simp

lemma sorted_wrt_replicate_refl: "sorted_wrt (\<ge>) (replicate n (x :: 'a::order))"
  by (induction n) auto

lemma quote_loop_Some:
  assumes "quote_loop ts r sel = Some (r', sel')" "length sel \<le> MAX_LOCKED_PAYMENT_NOTES"
    "sorted_wrt (\<ge>) ts"
  shows "\<exists>added. sel' = sel @ added \<and> unat r = unat r' + sum_list (map unat added)
    \<and> set added \<subseteq> set ts - {0} \<and> length sel' \<le> MAX_LOCKED_PAYMENT_NOTES
    \<and> length added = greedy_count (map unat ts) (unat r)
    \<and> unat r' = greedy_rest (map unat ts) (unat r) \<and> sorted_wrt (\<ge>) added"
  using assms
proof (induction ts r sel rule: quote_loop.induct)
  case (2 t ts r sel)
  show ?case
  proof (cases "t = 0")
    case True
    have "quote_loop ts r sel = Some (r', sel')" using "2.prems"(1) True by simp
    moreover have "sorted_wrt (\<ge>) ts" using "2.prems"(3) by simp
    moreover have "set (t # ts) - {0} = set ts - {0}" using True by auto
    ultimately show ?thesis using 2(1) [OF True _ "2.prems"(2)] True by simp
  next
    case False
    let ?c = "unat (r div t)"
    have small: "\<not> MAX_LOCKED_PAYMENT_NOTES - length sel < ?c"
      and rec: "quote_loop ts (r mod t) (sel @ replicate ?c t) = Some (r', sel')"
      using "2.prems"(1) False by (auto simp: Let_def split: if_splits)
    then have len: "length (sel @ replicate ?c t) \<le> MAX_LOCKED_PAYMENT_NOTES"
      using "2.prems"(2) by simp
    from "2.prems"(3) have "sorted_wrt (\<ge>) ts" by simp
    from 2(2) [OF False refl refl small rec len this] obtain added where
      a: "sel' = (sel @ replicate ?c t) @ added"
        "unat (r mod t) = unat r' + sum_list (map unat added)"
        "set added \<subseteq> set ts - {0}" "length sel' \<le> MAX_LOCKED_PAYMENT_NOTES"
        "length added = greedy_count (map unat ts) (unat (r mod t))"
        "unat r' = greedy_rest (map unat ts) (unat (r mod t))" "sorted_wrt (\<ge>) added"
      by blast
    have sum: "unat r = unat r' + sum_list (map unat (replicate ?c t @ added))"
    proof -
      have "unat r = unat r div unat t * unat t + unat r mod unat t" by simp
      also have "unat r mod unat t = unat r' + sum_list (map unat added)"
        using a(2) by (simp add: unat_mod)
      finally show ?thesis by (simp add: unat_div sum_list_replicate)
    qed
    have "sorted_wrt (\<ge>) (replicate ?c t @ added)"
      using a(3,7) "2.prems"(3) by (auto simp: sorted_wrt_append sorted_wrt_replicate_refl)
    moreover have "length (replicate ?c t @ added) = greedy_count (map unat (t # ts)) (unat r)"
      using a(5) False by (simp add: unat_div unat_mod unat_eq_0)
    moreover have "unat r' = greedy_rest (map unat (t # ts)) (unat r)"
      using a(6) False by (simp add: unat_mod unat_eq_0)
    moreover have "set (replicate ?c t @ added) \<subseteq> set (t # ts) - {0}"
      using a(3) False by auto
    ultimately show ?thesis using a(1,4) sum by (metis append.assoc)
  qed
qed simp

lemma set_sort_desc [simp]: "set (sort_desc xs) = set xs"
  by (simp add: sort_desc_def)

lemma sorted_tiers: "sorted_wrt (\<ge>) (remdups_adj (sort_desc (xs :: 'a::linorder list)))"
proof -
  have "sorted_wrt (\<ge>) (rev (sort xs))" by (simp add: sorted_wrt_rev)
  moreover have "remdups_adj (rev (sort xs)) = rev (remdups_adj (sort xs))" by simp
  ultimately show ?thesis
    by (simp add: sort_desc_def sorted_wrt_rev sorted_remdups_adj)
qed

lemma distinct_remdups_adj_sorted:
  "sorted xs \<Longrightarrow> distinct (remdups_adj (xs :: 'a::linorder list))"
  by (induction xs rule: remdups_adj.induct) (auto simp: antisym)

lemma distinct_tiers: "distinct (remdups_adj (sort_desc (xs :: 'a::linorder list)))"
  by (simp add: sort_desc_def distinct_remdups_adj_sorted)

text \<open>The exact behaviour of the quote: it refuses precisely on a remainder or a 65th note.\<close>

lemma quote_denominations_None_iff:
  fixes available :: "amount list"
  defines "T \<equiv> map unat (remdups_adj (sort_desc available))"
  shows "quote_denominations p available = None \<longleftrightarrow>
    greedy_rest T (unat p) \<noteq> 0 \<or> MAX_LOCKED_PAYMENT_NOTES < greedy_count T (unat p)"
proof (cases "quote_loop (remdups_adj (sort_desc available)) p []")
  case None
  then show ?thesis
    using quote_loop_None [of "[]" "remdups_adj (sort_desc available)" p]
    by (simp add: quote_denominations_def T_def)
next
  case (Some rs)
  obtain r' sel where rs: "rs = (r', sel)" by fastforce
  from quote_loop_Some [OF Some [unfolded rs] _ sorted_tiers]
  have "unat r' = greedy_rest T (unat p)" unfolding T_def by fastforce
  moreover have "\<not> MAX_LOCKED_PAYMENT_NOTES < greedy_count T (unat p)"
    using quote_loop_None [of "[]" "remdups_adj (sort_desc available)" p] Some
    by (simp add: T_def)
  ultimately show ?thesis
    using Some unat_eq_0 [of r'] by (simp add: quote_denominations_def rs)
qed

lemma quote_denominations_Some:
  assumes "quote_denominations p available = Some selected"
  shows "sum_list (map unat selected) = unat p" "set selected \<subseteq> set available - {0}"
    "length selected \<le> MAX_LOCKED_PAYMENT_NOTES" "sorted_wrt (\<ge>) selected"
    "length selected = greedy_count (map unat (remdups_adj (sort_desc available))) (unat p)"
proof -
  from assms have "quote_loop (remdups_adj (sort_desc available)) p [] = Some (0, selected)"
    by (auto simp: quote_denominations_def split: option.splits if_splits)
  from quote_loop_Some [OF this _ sorted_tiers]
  show "sum_list (map unat selected) = unat p" "set selected \<subseteq> set available - {0}"
    "length selected \<le> MAX_LOCKED_PAYMENT_NOTES" "sorted_wrt (\<ge>) selected"
    "length selected = greedy_count (map unat (remdups_adj (sort_desc available))) (unat p)"
    by auto
qed

section \<open>The dynamic program\<close>

text \<open>
  The reference: the representations of a value by a list of coins drawn from \<open>coins\<close>, and
  the least number of coins of such a representation.
\<close>

definition coin_cost :: "coin list \<Rightarrow> nat" where
  "coin_cost cs = sum_list (map (\<lambda>c. unat (snd c)) cs)"

definition representable :: "coin list \<Rightarrow> nat \<Rightarrow> nat \<Rightarrow> bool" where
  "representable coins n v \<longleftrightarrow> (\<exists>cs. set cs \<subseteq> set coins \<and> coin_cost cs = v \<and> length cs = n)"

lemma coin_cost_simps [simp]:
  "coin_cost [] = 0" "coin_cost (c # cs) = unat (snd c) + coin_cost cs"
  "coin_cost (cs @ ds) = coin_cost cs + coin_cost ds"
  by (simp_all add: coin_cost_def)

lemma coin_cost_replicate [simp]: "coin_cost (replicate n c) = n * unat (snd c)"
  by (induction n) auto

text \<open>
  What the table says about values below \<open>b\<close>: an entry is either the sentinel, and then no
  representation with at most \<open>m\<close> coins exists, or the least number of coins; and
  \<open>previous\<close> links each entry to a smaller one with one coin less.
\<close>

definition entry_ok :: "coin list \<Rightarrow> nat \<Rightarrow> dp_state \<Rightarrow> nat \<Rightarrow> bool" where
  "entry_ok coins m st v \<longleftrightarrow>
     (fst st ! v \<noteq> USIZE_MAX \<longrightarrow> fst st ! v \<le> m) \<and>
     (\<forall>n \<le> m. representable coins n v \<longrightarrow> fst st ! v \<le> n) \<and>
     (0 < v \<longrightarrow> fst st ! v \<noteq> USIZE_MAX \<longrightarrow>
       (\<exists>p i. snd st ! v = Some (p, i) \<and> i < length coins \<and>
          v = p + unat (snd (coins ! i)) \<and> fst st ! v = fst st ! p + 1))"

definition dp_ok :: "coin list \<Rightarrow> nat \<Rightarrow> nat \<Rightarrow> nat \<Rightarrow> dp_state \<Rightarrow> bool" where
  "dp_ok coins m target b st \<longleftrightarrow>
     length (fst st) = target + 1 \<and> length (snd st) = target + 1 \<and> fst st ! 0 = 0 \<and>
     (\<forall>v < b. entry_ok coins m st v) \<and>
     (\<forall>v. b \<le> v \<longrightarrow> v \<le> target \<longrightarrow> fst st ! v = USIZE_MAX)"

text \<open>The state of the inner loop for \<open>value\<close> after the coins with index below \<open>j\<close>.\<close>

definition row_ok :: "coin list \<Rightarrow> nat \<Rightarrow> nat \<Rightarrow> nat \<Rightarrow> dp_state \<Rightarrow> dp_state \<Rightarrow> bool" where
  "row_ok coins m value j st0 st \<longleftrightarrow>
     length (fst st) = length (fst st0) \<and> length (snd st) = length (snd st0) \<and>
     (\<forall>v. v \<noteq> value \<longrightarrow> fst st ! v = fst st0 ! v \<and> snd st ! v = snd st0 ! v) \<and>
     (fst st ! value \<noteq> USIZE_MAX \<longrightarrow> fst st ! value \<le> m \<and>
       (\<exists>p i. snd st ! value = Some (p, i) \<and> i < j \<and>
          value = p + unat (snd (coins ! i)) \<and> fst st ! value = fst st0 ! p + 1)) \<and>
     (\<forall>i < j. unat (snd (coins ! i)) \<le> value \<longrightarrow>
        fst st0 ! (value - unat (snd (coins ! i))) \<noteq> USIZE_MAX \<longrightarrow>
        fst st0 ! (value - unat (snd (coins ! i))) + 1 \<le> m \<longrightarrow>
        fst st ! value \<le> fst st0 ! (value - unat (snd (coins ! i))) + 1)"

lemma relax_row_ok:
  assumes row: "row_ok coins m value j st0 st" and j: "j < length coins"
    and pos: "0 < unat (snd (coins ! j))" and m: "m < USIZE_MAX"
    and len: "value < length (fst st0)" "length (snd st0) = length (fst st0)"
  shows "row_ok coins m value (Suc j) st0 (relax m value (j, coins ! j) st)"
proof -
  obtain counts previous where st: "st = (counts, previous)" by fastforce
  obtain a c where cj: "coins ! j = (a, c)" by fastforce
  let ?k = "unat c"
  let ?cand = "counts ! (value - ?k) + 1"
  have k: "0 < ?k" using pos cj by simp
  have old: "counts ! (value - ?k) = fst st0 ! (value - ?k)" if "?k \<le> value"
    using row that k by (simp add: row_ok_def st)
  show ?thesis
  proof (cases "?k \<le> value \<and> counts ! (value - ?k) \<noteq> USIZE_MAX \<and> ?cand \<le> m \<and> ?cand < counts ! value")
    case better: True
    then have new: "relax m value (j, coins ! j) st =
        (counts[value := ?cand], previous[value := Some (value - ?k, j)])"
      by (simp add: relax_def st cj Let_def)
    have len': "value < length counts" "value < length previous"
      using row len by (simp_all add: row_ok_def st)
    have old': "counts ! (value - ?k) = fst st0 ! (value - ?k)" using better old by simp
    show ?thesis
      unfolding new row_ok_def fst_conv snd_conv
    proof (intro conjI allI impI)
      show "length (counts[value := ?cand]) = length (fst st0)"
        "length (previous[value := Some (value - ?k, j)]) = length (snd st0)"
        using row by (simp_all add: row_ok_def st)
      show "counts[value := ?cand] ! v = fst st0 ! v"
        "previous[value := Some (value - ?k, j)] ! v = snd st0 ! v" if "v \<noteq> value" for v
        using row that by (simp_all add: row_ok_def st)
      show "counts[value := ?cand] ! value \<le> m" using better len' by simp
      show "\<exists>p i. previous[value := Some (value - ?k, j)] ! value = Some (p, i) \<and> i < Suc j \<and>
          value = p + unat (snd (coins ! i)) \<and> counts[value := ?cand] ! value = fst st0 ! p + 1"
        using better len' old' by (intro exI [of _ "value - ?k"] exI [of _ j]) (simp add: cj)
      fix i
      assume i: "i < Suc j" "unat (snd (coins ! i)) \<le> value"
        "fst st0 ! (value - unat (snd (coins ! i))) \<noteq> USIZE_MAX"
        "fst st0 ! (value - unat (snd (coins ! i))) + 1 \<le> m"
      show "counts[value := ?cand] ! value \<le> fst st0 ! (value - unat (snd (coins ! i))) + 1"
      proof (cases "i = j")
        case True
        then show ?thesis using len' old' by (simp add: cj)
      next
        case False
        then have "counts ! value \<le> fst st0 ! (value - unat (snd (coins ! i))) + 1"
          using row i by (simp add: row_ok_def st)
        then show ?thesis using better len' by simp
      qed
    qed
  next
    case False
    then have same: "relax m value (j, coins ! j) st = st"
      by (auto simp: relax_def st cj Let_def)
    have new: "counts ! value \<le> fst st0 ! (value - ?k) + 1"
      if "?k \<le> value" "fst st0 ! (value - ?k) \<noteq> USIZE_MAX" "fst st0 ! (value - ?k) + 1 \<le> m"
      using False that old by auto
    have "fst st ! value \<le> fst st0 ! (value - unat (snd (coins ! i))) + 1"
      if "i < Suc j" "unat (snd (coins ! i)) \<le> value"
        "fst st0 ! (value - unat (snd (coins ! i))) \<noteq> USIZE_MAX"
        "fst st0 ! (value - unat (snd (coins ! i))) + 1 \<le> m" for i
      using new row that by (cases "i = j") (simp_all add: row_ok_def st cj)
    moreover have "\<exists>p i. snd st ! value = Some (p, i) \<and> i < Suc j \<and>
        value = p + unat (snd (coins ! i)) \<and> fst st ! value = fst st0 ! p + 1"
      if "fst st ! value \<noteq> USIZE_MAX"
    proof -
      from row that obtain p i where "snd st ! value = Some (p, i)" "i < j"
        "value = p + unat (snd (coins ! i))" "fst st ! value = fst st0 ! p + 1"
        unfolding row_ok_def by blast
      then show ?thesis by (intro exI [of _ p] exI [of _ i]) simp
    qed
    ultimately show ?thesis
      unfolding same using row by (simp add: row_ok_def)
  qed
qed

lemma dp_row_row_ok:
  assumes pos: "\<forall>c \<in> set coins. 0 < unat (snd c)" and m: "m < USIZE_MAX"
    and len: "value < length (fst st0)" "length (snd st0) = length (fst st0)"
    and start: "fst st0 ! value = USIZE_MAX"
  shows "row_ok coins m value (length coins) st0 (dp_row coins m value st0)"
proof -
  have "row_ok coins m value j st0 (fold (relax m value) (take j (enumerate 0 coins)) st0)"
    if "j \<le> length coins" for j
    using that
  proof (induction j)
    case 0
    then show ?case using start by (simp add: row_ok_def)
  next
    case (Suc j)
    then have "row_ok coins m value (Suc j) st0
        (relax m value (j, coins ! j) (fold (relax m value) (take j (enumerate 0 coins)) st0))"
      using pos m len by (intro relax_row_ok) auto
    with Suc.prems show ?case
      by (simp add: take_Suc_conv_app_nth nth_enumerate_eq)
  qed
  from this [of "length coins"] show ?thesis by (simp add: dp_row_def)
qed

lemma representable_Suc_split:
  assumes "representable coins n v" "0 < v"
  obtains i n' where "n = Suc n'" "i < length coins" "unat (snd (coins ! i)) \<le> v"
    "representable coins n' (v - unat (snd (coins ! i)))"
proof -
  from assms obtain cs where cs: "set cs \<subseteq> set coins" "coin_cost cs = v" "length cs = n"
    by (auto simp: representable_def)
  with assms(2) obtain c cs' where "cs = c # cs'" by (cases cs) auto
  with cs show thesis
    using that by (fastforce simp: representable_def in_set_conv_nth)
qed

lemma dp_row_ok:
  assumes ok: "dp_ok coins m target b st" and b: "0 < b" "b \<le> target"
    and pos: "\<forall>c \<in> set coins. 0 < unat (snd c)" and m: "m < USIZE_MAX"
  shows "dp_ok coins m target (Suc b) (dp_row coins m b st)"
proof -
  let ?st = "dp_row coins m b st"
  have row: "row_ok coins m b (length coins) st ?st"
    using ok b by (intro dp_row_row_ok [OF pos m]) (auto simp: dp_ok_def)
  have same: "v \<noteq> b \<Longrightarrow> fst ?st ! v = fst st ! v \<and> snd ?st ! v = snd st ! v" for v
    using row by (simp add: row_ok_def)
  have "entry_ok coins m ?st v" if "v < b" for v
  proof -
    have "entry_ok coins m st v" using ok that by (simp add: dp_ok_def)
    moreover have "fst ?st ! p = fst st ! p" if "v = p + k" for p k
      using \<open>v < b\<close> that same by simp
    ultimately show ?thesis using same that unfolding entry_ok_def by (auto; fastforce)
  qed
  moreover have "entry_ok coins m ?st b"
    unfolding entry_ok_def
  proof (intro conjI allI impI)
    show "fst ?st ! b \<le> m" if "fst ?st ! b \<noteq> USIZE_MAX"
      using row that by (simp add: row_ok_def)
    show "fst ?st ! b \<le> n" if n: "n \<le> m" and rep: "representable coins n b" for n
    proof -
      from rep b(1) obtain i n' where i: "n = Suc n'" "i < length coins"
        "unat (snd (coins ! i)) \<le> b" "representable coins n' (b - unat (snd (coins ! i)))"
        by (rule representable_Suc_split)
      let ?p = "b - unat (snd (coins ! i))"
      have "?p < b" using b i pos by (metis diff_less nth_mem)
      then have "fst st ! ?p \<le> n'" using ok i n by (simp add: dp_ok_def entry_ok_def)
      moreover from this have "fst ?st ! b \<le> fst st ! ?p + 1"
        using row i n m by (simp add: row_ok_def)
      ultimately show ?thesis using i(1) by simp
    qed
    assume "fst ?st ! b \<noteq> USIZE_MAX"
    with row obtain p i where p: "snd ?st ! b = Some (p, i)" "i < length coins"
      "b = p + unat (snd (coins ! i))" "fst ?st ! b = fst st ! p + 1"
      by (auto simp: row_ok_def)
    moreover from this pos have "p \<noteq> b" by auto
    ultimately show "\<exists>p i. snd ?st ! b = Some (p, i) \<and> i < length coins \<and>
        b = p + unat (snd (coins ! i)) \<and> fst ?st ! b = fst ?st ! p + 1"
      using same by auto
  qed
  ultimately show ?thesis using ok b row same
    by (auto simp: dp_ok_def less_Suc_eq row_ok_def)
qed

lemma dp_table_ok:
  assumes pos: "\<forall>c \<in> set coins. 0 < unat (snd c)" and m: "m < USIZE_MAX"
  shows "dp_ok coins m target (target + 1) (dp_table coins target m)"
proof -
  have "dp_ok coins m target (b + 1) (fold (dp_row coins m) [1..<b + 1] (dp_init target))"
    if "b \<le> target" for b
    using that
  proof (induction b)
    case 0
    show ?case by (auto simp: dp_ok_def dp_init_def entry_ok_def nth_list_update)
  next
    case (Suc b)
    then have "dp_ok coins m target (Suc (b + 1))
        (dp_row coins m (b + 1) (fold (dp_row coins m) [1..<b + 1] (dp_init target)))"
      using pos m by (intro dp_row_ok) auto
    then show ?case by simp
  qed
  then show ?thesis by (simp add: dp_table_def)
qed

lemma backtrack_correct:
  assumes ok: "dp_ok coins m target (target + 1) (counts, previous)"
    and pos: "\<forall>c \<in> set coins. 0 < unat (snd c)" and m: "m < USIZE_MAX"
  shows "v \<le> target \<Longrightarrow> counts ! v \<noteq> USIZE_MAX \<Longrightarrow> v < fuel \<Longrightarrow>
    \<exists>cs. backtrack fuel coins previous v acc = Some (Some (acc @ cs)) \<and>
      set cs \<subseteq> set coins \<and> coin_cost cs = v \<and> length cs = counts ! v"
proof (induction fuel arbitrary: v acc)
  case (Suc fuel)
  show ?case
  proof (cases "v = 0")
    case True
    with ok show ?thesis by (simp add: dp_ok_def)
  next
    case False
    have e: "entry_ok coins m (counts, previous) v" using ok Suc.prems by (simp add: dp_ok_def)
    with False Suc.prems obtain p i where p: "previous ! v = Some (p, i)" "i < length coins"
      "v = p + unat (snd (coins ! i))" "counts ! v = counts ! p + 1"
      by (auto simp: entry_ok_def)
    have "counts ! v \<le> m" using e Suc.prems by (simp add: entry_ok_def)
    with p m have "counts ! p \<noteq> USIZE_MAX" by simp
    moreover have "p < v" using p pos by simp
    ultimately obtain cs where
      "backtrack fuel coins previous p (acc @ [coins ! i]) = Some (Some ((acc @ [coins ! i]) @ cs))"
      "set cs \<subseteq> set coins" "coin_cost cs = p" "length cs = counts ! p"
      using Suc.IH [of p "acc @ [coins ! i]"] Suc.prems by auto
    with p False show ?thesis by (intro exI [of _ "coins ! i # cs"]) auto
  qed
qed simp

text \<open>The dynamic program against its reference, on every target.\<close>

lemma minimum_coin_representation_Some:
  assumes "minimum_coin_representation coins target m = Some r"
    and pos: "\<forall>c \<in> set coins. 0 < unat (snd c)" and m: "m < USIZE_MAX"
  shows "set r \<subseteq> set coins" "coin_cost r = target" "length r \<le> m"
    "representable coins n target \<Longrightarrow> length r \<le> n"
proof -
  obtain counts previous where st: "dp_table coins target m = (counts, previous)" by fastforce
  note ok = dp_table_ok [OF pos m, of target, unfolded st]
  have t: "counts ! target \<noteq> USIZE_MAX"
    using assms(1) by (auto simp: minimum_coin_representation_def st split: if_splits)
  from backtrack_correct [OF ok pos m _ t] obtain cs where
    cs: "backtrack (target + 1) coins previous target [] = Some (Some cs)"
      "set cs \<subseteq> set coins" "coin_cost cs = target" "length cs = counts ! target"
    by fastforce
  have r: "r = cs" using assms(1) cs(1) t by (simp add: minimum_coin_representation_def st)
  have e: "entry_ok coins m (counts, previous) target" using ok by (simp add: dp_ok_def)
  with t cs r show len: "length r \<le> m" by (simp add: entry_ok_def)
  from cs r show "set r \<subseteq> set coins" "coin_cost r = target" by simp_all
  show "length r \<le> n" if "representable coins n target"
    using e that cs r len by (cases "n \<le> m") (auto simp: entry_ok_def)
qed

lemma minimum_coin_representation_None:
  assumes "minimum_coin_representation coins target m = None"
    and pos: "\<forall>c \<in> set coins. 0 < unat (snd c)" and m: "m < USIZE_MAX"
    and "n \<le> m"
  shows "\<not> representable coins n target"
proof
  assume rep: "representable coins n target"
  obtain counts previous where st: "dp_table coins target m = (counts, previous)" by fastforce
  note ok = dp_table_ok [OF pos m, of target, unfolded st]
  have "entry_ok coins m (counts, previous) target" using ok by (simp add: dp_ok_def)
  with rep assms(4) have "counts ! target \<le> n" by (simp add: entry_ok_def)
  with assms(4) m have t: "counts ! target \<noteq> USIZE_MAX" by simp
  from backtrack_correct [OF ok pos m _ t, of "target + 1" "[]"]
  show False using assms(1) t by (auto simp: minimum_coin_representation_def st)
qed

text \<open>Evaluation of the dynamic program on concrete coins.\<close>

lemma backtrack_numeral:
  "backtrack (numeral n) coins previous value result =
     (if value = 0 then Some (Some result)
      else case previous ! value of
             None \<Rightarrow> Some None
           | Some (prior, coin_index) \<Rightarrow>
               backtrack (pred_numeral n) coins previous prior (result @ [coins ! coin_index]))"
  by (simp add: numeral_eq_Suc)

lemmas dp_eval = minimum_coin_representation_def dp_table_def dp_init_def dp_row_def relax_def
  USIZE_MAX_def Let_def backtrack_numeral list_eval

section \<open>Refund outputs\<close>

text \<open>What a refund output costs the transaction, as a natural number.\<close>

definition output_cost :: "(amount \<Rightarrow> amount) \<Rightarrow> amount \<Rightarrow> nat" where
  "output_cost output_fee a = unat a + unat (output_fee a)"

text \<open>The coins offered to the selection: available tiers, paired with their nonzero cost.\<close>

definition coins_ok :: "(amount \<Rightarrow> amount) \<Rightarrow> amount list \<Rightarrow> coin list \<Rightarrow> bool" where
  "coins_ok output_fee available cs \<longleftrightarrow>
     (\<forall>c \<in> set cs. fst c \<in> set available \<and> unat (snd c) = output_cost output_fee (fst c) \<and>
        0 < unat (snd c))"

lemma coins_ok_simps [simp]:
  "coins_ok f av []"
  "coins_ok f av (cs @ ds) \<longleftrightarrow> coins_ok f av cs \<and> coins_ok f av ds"
  by (auto simp: coins_ok_def)

lemma coins_ok_mono: "coins_ok f av cs \<Longrightarrow> set ds \<subseteq> set cs \<Longrightarrow> coins_ok f av ds"
  by (auto simp: coins_ok_def)

lemma coins_ok_refund_coins: "coins_ok f (pre @ av) (refund_coins f av)"
proof (induction av arbitrary: pre)
  case (Cons a av)
  have "coins_ok f (pre @ a # av) (refund_coins f av)" using Cons [of "pre @ [a]"] by simp
  then show ?case
    by (auto simp: coins_ok_def output_cost_def checked_add_Some unat_gt_0 split: option.splits)
qed simp

lemma set_dedup_by_cost: "set (dedup_by_cost cs) \<subseteq> set cs"
  by (induction cs rule: dedup_by_cost.induct) auto

lemma dedup_by_cost_Nil [simp]: "dedup_by_cost cs = [] \<longleftrightarrow> cs = []"
  by (induction cs rule: dedup_by_cost.induct) auto

lemma coins_ok_candidates:
  "coins_ok f av (dedup_by_cost (sort_coins (refund_coins f av)))"
proof (rule coins_ok_mono)
  show "coins_ok f av (refund_coins f av)" using coins_ok_refund_coins [of f "[]" av] by simp
  show "set (dedup_by_cost (sort_coins (refund_coins f av))) \<subseteq> set (refund_coins f av)"
    using set_dedup_by_cost [of "sort_coins (refund_coins f av)"] by (simp add: sort_coins_def)
qed

lemma coin_cost_output_cost:
  "coins_ok f av cs \<Longrightarrow> coin_cost cs = sum_list (map (output_cost f) (map fst cs))"
  unfolding coin_cost_def map_map by (rule arg_cong [of _ _ sum_list]) (auto simp: coins_ok_def)

lemma refund_greedy_Some:
  assumes "refund_greedy coins r sel = Some (r', sel')" "coins_ok f av coins" "coins_ok f av sel"
    "length sel \<le> MAX_LOCKED_PAYMENT_NOTES"
  shows "coins_ok f av sel' \<and> coin_cost sel' + unat r' = coin_cost sel + unat r
    \<and> length sel' \<le> MAX_LOCKED_PAYMENT_NOTES"
  using assms
proof (induction coins r sel rule: refund_greedy.induct)
  case (2 a c coins r sel)
  let ?n = "unat (r div c)"
  have rec: "refund_greedy coins (r mod c) (sel @ replicate ?n (a, c)) = Some (r', sel')"
    and small: "?n \<le> MAX_LOCKED_PAYMENT_NOTES - length sel"
    using "2.prems"(1) by (auto simp: Let_def split: if_splits)
  have ok: "coins_ok f av (sel @ replicate ?n (a, c))" "coins_ok f av coins"
    using "2.prems"(2,3) by (auto simp: coins_ok_def)
  have "coins_ok f av sel' \<and>
      coin_cost sel' + unat r' = coin_cost (sel @ replicate ?n (a, c)) + unat (r mod c)
      \<and> length sel' \<le> MAX_LOCKED_PAYMENT_NOTES"
    using 2(1) [OF refl refl _ rec] small ok "2.prems"(4) by simp
  moreover have "?n * unat c + unat (r mod c) = unat r" by (simp add: unat_div unat_mod)
  ultimately show ?case by simp
qed simp

lemma refund_repair_Inr:
  assumes "refund_repair coins r sel = Inr result" "coins_ok f av coins" "coins_ok f av sel"
    "length sel \<le> MAX_LOCKED_PAYMENT_NOTES"
  shows "set result \<subseteq> set av \<and> length result \<le> MAX_LOCKED_PAYMENT_NOTES \<and>
    sum_list (map (output_cost f) result) = coin_cost sel + unat r \<and> sorted_wrt (\<ge>) result"
  using assms
proof (induction coins r sel rule: refund_repair.induct)
  case (1 coins r sel)
  let ?m = "MAX_LOCKED_PAYMENT_NOTES - length sel"
  show ?case
  proof (cases "if r \<le> REPAIR_LIMIT_MSATS then minimum_coin_representation coins (unat r) ?m else None")
    case (Some repair)
    have min: "minimum_coin_representation coins (unat r) ?m = Some repair"
      using Some by (simp split: if_splits)
    have m: "?m < USIZE_MAX" by (simp add: USIZE_MAX_def MAX_LOCKED_PAYMENT_NOTES_def)
    have pos: "\<forall>c \<in> set coins. 0 < unat (snd c)" using "1.prems"(2) unfolding coins_ok_def by blast
    note rep = minimum_coin_representation_Some [OF min pos m]
    have ok: "coins_ok f av (sel @ repair)"
      using "1.prems"(2,3) rep(1) by (auto intro: coins_ok_mono)
    have result: "result = sort_desc (map fst (sel @ repair))"
      using "1.prems"(1) Some by (simp add: refund_repair.simps [of coins r sel])
    have "sum_list (map (output_cost f) result) = coin_cost (sel @ repair)"
      unfolding coin_cost_output_cost [OF ok] result sort_desc_def
      by (simp only: rev_map [symmetric] sum_list_rev, simp only: sum_mset_sum_list [symmetric]
          mset_map mset_sort)
    moreover have "set result \<subseteq> set av" using ok by (auto simp: result coins_ok_def)
    moreover have "length result \<le> MAX_LOCKED_PAYMENT_NOTES"
      using rep(3) "1.prems"(4) by (simp add: result sort_desc_def)
    moreover have "sorted_wrt (\<ge>) result" by (simp add: result sort_desc_def sorted_wrt_rev)
    ultimately show ?thesis using rep(2) by simp
  next
    case None
    then obtain r2 where sel: "sel \<noteq> []" and r2: "checked_add r (snd (last sel)) = Some r2"
      and lim: "\<not> REPAIR_LIMIT_MSATS < r2" and rec: "refund_repair coins r2 (butlast sel) = Inr result"
      using "1.prems"(1)
      by (auto simp: refund_repair.simps [of coins r sel] split: if_splits option.splits)
    have split: "sel = butlast sel @ [last sel]" using sel by simp
    have "coin_cost sel = coin_cost (butlast sel) + unat (snd (last sel))"
      by (subst split) simp
    moreover have "unat r2 = unat r + unat (snd (last sel))" using r2 by (simp add: checked_add_Some)
    moreover have "coins_ok f av (butlast sel)"
      using "1.prems"(3) by (rule coins_ok_mono) (auto dest: in_set_butlastD)
    moreover have "length (butlast sel) \<le> MAX_LOCKED_PAYMENT_NOTES" using "1.prems"(4) by simp
    ultimately show ?thesis
      using "1.IH" [OF None sel r2 lim rec "1.prems"(2)] by simp
  qed
qed

lemma unat_two_power: "k < 64 \<Longrightarrow> unat (2 ^ k :: u64) = 2 ^ k"
proof -
  assume k: "k < 64"
  have "unat (of_nat (2 ^ k) :: u64) = 2 ^ k mod 2 ^ 64" by (simp add: unat_of_nat del: of_nat_power)
  also have "\<dots> = 2 ^ k" using k by (intro mod_less power_strict_increasing) simp_all
  finally show ?thesis by simp
qed

lemma standard_tiers:
  fixes available :: "amount list"
  assumes "set available = (\<lambda>k. 2 ^ k) ` {..<64}"
  shows "map unat (remdups_adj (sort_desc available)) = rev (map (\<lambda>k. 2 ^ k) [0..<64])"
proof -
  let ?T = "map unat (remdups_adj (sort_desc available))"
  have "sorted (rev ?T)"
    using sorted_tiers [of available] by (simp add: sorted_wrt_rev sorted_wrt_map word_le_nat_alt)
  moreover have "distinct (rev ?T)"
    using distinct_tiers [of available] by (simp add: distinct_map inj_on_def word_unat_eq_iff)
  moreover have "sorted (map (\<lambda>k. 2 ^ k :: nat) [0..<64])"
    by (simp add: sorted_map sorted_wrt_iff_nth_less)
  moreover have "distinct (map (\<lambda>k. 2 ^ k :: nat) [0..<64])"
    by (simp add: distinct_map inj_on_def)
  moreover have "set (rev ?T) = set (map (\<lambda>k. 2 ^ k :: nat) [0..<64])"
    using assms by (auto simp: unat_two_power image_iff atLeast0LessThan)
  ultimately have "rev ?T = map (\<lambda>k. 2 ^ k) [0..<64]"
    by (rule sorted_distinct_set_unique)
  then show ?thesis by (metis rev_rev_ident)
qed

section \<open>Properties\<close>

text \<open>
  C27. A quote that is given pays the price exactly: the notes sum to it, every note is an
  available nonzero tier, there are at most 64 notes, and they are listed from the largest
  down.
\<close>

theorem quote_denominations_exact:
  assumes "quote_denominations price available = Some notes"
  shows "sum_list (map unat notes) = unat price \<and> set notes \<subseteq> set available - {0} \<and>
    length notes \<le> 64 \<and> sorted_wrt (\<ge>) notes"
  using quote_denominations_Some [OF assms] by (simp add: MAX_LOCKED_PAYMENT_NOTES_def)

theorem quote_denominations_exact_witness:
  "sum_list (map unat [4, 1 :: u64]) = unat (5 :: u64) \<and>
   set [4, 1 :: u64] \<subseteq> set [1, 4, 2, 0, 4] - {0} \<and>
   length [4, 1 :: u64] \<le> 64 \<and> sorted_wrt (\<ge>) [4, 1 :: u64]"
  by (rule quote_denominations_exact) code_simp

text \<open>
  With the standard power-of-two tiers, in any order and with repetitions, every
  \<open>u64\<close> price is quoted: the greedy split never refuses.
\<close>

lemma quote_denominations_standard_total:
  assumes "set available = (\<lambda>k. 2 ^ k) ` {..<64}"
  shows "\<exists>notes. quote_denominations price available = Some notes"
proof -
  have "unat price < 2 ^ 64" using unsigned_less [of price] by simp
  with greedy_powers_of_two [of "unat price" 64]
  have "quote_denominations price available \<noteq> None"
    by (simp add: quote_denominations_None_iff standard_tiers [OF assms]
        MAX_LOCKED_PAYMENT_NOTES_def del: upt_rec_numeral)
  then show ?thesis by blast
qed

text \<open>
  C36. Where every smaller tier divides every larger one, as the power-of-two tiers do, no
  other choice of available tiers pays the price with fewer notes than the quote.
\<close>

theorem quote_denominations_minimal:
  assumes "quote_denominations price available = Some notes"
    and "\<forall>a \<in> set available. \<forall>b \<in> set available. a \<le> b \<longrightarrow> unat a dvd unat b"
    and "0 \<notin> set available"
    and "set other \<subseteq> set available" and "sum_list (map unat other) = unat price"
  shows "length notes \<le> length other"
proof -
  let ?T = "map unat (remdups_adj (sort_desc available))"
  have "sorted_wrt (\<lambda>a b. unat b dvd unat a) (remdups_adj (sort_desc available))"
  proof (rule sorted_wrt_mono_rel [OF _ sorted_tiers])
    fix a b
    assume "a \<in> set (remdups_adj (sort_desc available))" "b \<in> set (remdups_adj (sort_desc available))"
      "b \<le> a"
    with assms(2) show "unat b dvd unat a" by simp
  qed
  then have "sorted_wrt (\<lambda>a b. b dvd a) ?T" by (simp add: sorted_wrt_map)
  moreover have "0 \<notin> set ?T" using assms(3) by (auto simp: unat_eq_0)
  moreover have "set (map unat other) \<subseteq> set ?T" using assms(4) by auto
  ultimately have "greedy_count ?T (sum_list (map unat other)) \<le> length (map unat other)"
    by (rule greedy_count_minimal)
  with quote_denominations_Some(5) [OF assms(1)] assms(5) show ?thesis by simp
qed

theorem quote_denominations_minimal_witness:
  "length [4, 2 :: u64] \<le> length [2, 2, 1, 1 :: u64]"
proof (rule quote_denominations_minimal [of 6 "[1, 2, 4]"])
  show "quote_denominations 6 [1, 2, 4] = Some [4, 2]" by code_simp
  show "\<forall>a \<in> set [1, 2, 4 :: u64]. \<forall>b \<in> set [1, 2, 4]. a \<le> b \<longrightarrow> unat a dvd unat b"
    by (simp add: word_le_nat_alt)
qed auto

text \<open>
  C28. Whenever refund outputs are chosen they balance the refund transaction exactly: amounts
  plus output fees sum to the target (with no overflow), only available tiers are used, at
  most 64 of them, listed from the largest down.
\<close>

theorem refund_denominations_exact:
  assumes "refund_denominations available output_fee target = Inr outputs"
  shows "(\<Sum>a\<leftarrow>outputs. unat a + unat (output_fee a)) = unat target \<and>
    set outputs \<subseteq> set available \<and> length outputs \<le> 64 \<and> sorted_wrt (\<ge>) outputs"
proof -
  let ?coins = "dedup_by_cost (sort_coins (refund_coins output_fee available))"
  from assms obtain r sel where
    greedy: "refund_greedy ?coins target [] = Some (r, sel)" and
    repair: "refund_repair ?coins r sel = Inr outputs"
    by (auto simp: refund_denominations_def Let_def split: if_splits option.splits)
  note ok = coins_ok_candidates [of output_fee available]
  from refund_greedy_Some [OF greedy ok]
  have g: "coins_ok output_fee available sel" "coin_cost sel + unat r = unat target"
    "length sel \<le> MAX_LOCKED_PAYMENT_NOTES" by simp_all
  have "output_cost output_fee = (\<lambda>a. unat a + unat (output_fee a))"
    by (simp add: fun_eq_iff output_cost_def)
  with refund_repair_Inr [OF repair ok g(1,3)] g(2) show ?thesis
    by (simp add: MAX_LOCKED_PAYMENT_NOTES_def)
qed

theorem refund_denominations_exact_witness:
  "(\<Sum>a\<leftarrow>[2, 2 :: u64]. unat a + unat (1 :: u64)) = unat (6 :: u64) \<and>
   set [2, 2 :: u64] \<subseteq> set [2, 4] \<and> length [2, 2 :: u64] \<le> 64 \<and> sorted_wrt (\<ge>) [2, 2 :: u64]"
proof (rule refund_denominations_exact [of _ "\<lambda>_. 1"])
  have coins: "dedup_by_cost (sort_coins (refund_coins (\<lambda>_. 1) [2, 4])) = [(4, 5), (2, 3)]"
    by (simp add: checked_add_def sort_coins_def)
  have greedy: "refund_greedy [(4, 5), (2, 3)] 6 [] = Some (1, [(4, 5)])"
    by (simp add: MAX_LOCKED_PAYMENT_NOTES_def)
  have none: "minimum_coin_representation [(4, 5), (2, 3)] (Suc 0) 63 = None"
    by (simp add: dp_eval)
  have some: "minimum_coin_representation [(4, 5), (2, 3)] 6 64 = Some [(2, 3), (2, 3)]"
    by (simp add: dp_eval)
  show "refund_denominations [2, 4] (\<lambda>_. 1) 6 = Inr [2, 2]"
    unfolding refund_denominations_def coins Let_def
    by (simp add: greedy none some refund_repair.simps checked_add_def REPAIR_LIMIT_MSATS_def
        MAX_LOCKED_PAYMENT_NOTES_def sort_desc_def)
qed

text \<open>
  C29. The repair program is exact: with positive costs it returns a representation of the
  target by at most \<open>m\<close> of the coins, with the least number of coins of any
  representation, and it returns nothing only when no representation with at most \<open>m\<close> coins
  exists.
\<close>

theorem minimum_coin_representation_optimal:
  assumes "\<forall>c \<in> set coins. 0 < unat (snd c)" and "m < USIZE_MAX"
  shows "case minimum_coin_representation coins target m of
      Some r \<Rightarrow> set r \<subseteq> set coins \<and> coin_cost r = target \<and> length r \<le> m \<and>
        (\<forall>cs. set cs \<subseteq> set coins \<and> coin_cost cs = target \<longrightarrow> length r \<le> length cs)
    | None \<Rightarrow> \<not> (\<exists>cs. set cs \<subseteq> set coins \<and> coin_cost cs = target \<and> length cs \<le> m)"
proof (cases "minimum_coin_representation coins target m")
  case None
  from minimum_coin_representation_None [OF this assms] show ?thesis
    by (auto simp: None representable_def)
next
  case (Some r)
  from minimum_coin_representation_Some [OF this assms] show ?thesis
    by (auto simp: Some representable_def)
qed

theorem minimum_coin_representation_optimal_witness:
  "minimum_coin_representation [(4, 4), (3, 3), (1, 1)] 6 64 = Some [(3, 3), (3, 3)] \<and>
   length [(3, 3), (3, 3) :: coin] \<le> length [(4, 4), (1, 1), (1, 1) :: coin]"
proof -
  have m: "(64 :: nat) < USIZE_MAX" by (simp add: USIZE_MAX_def)
  have r: "minimum_coin_representation [(4, 4), (3, 3), (1, 1)] 6 64 = Some [(3, 3), (3, 3)]"
    by (simp add: dp_eval)
  with minimum_coin_representation_optimal [of "[(4, 4), (3, 3), (1, 1)]" 64 6] m
  have least: "\<forall>cs. set cs \<subseteq> set [(4, 4), (3, 3), (1, 1)] \<and> coin_cost cs = 6 \<longrightarrow>
      length [(3, 3), (3, 3) :: coin] \<le> length cs"
    by simp
  have "set [(4, 4), (1, 1), (1, 1) :: coin] \<subseteq> set [(4, 4), (3, 3), (1, 1)] \<and>
      coin_cost [(4, 4), (1, 1), (1, 1)] = 6" by simp
  from r least [rule_format, OF this] show ?thesis by blast
qed

end
