(* ===== verification/Seat_Facts.thy ===== *)
theory Seat_Facts
  imports Prelude "HOL-Library.Char_ord" "HOL-Library.List_Lexorder"
begin

text \<open>
  The durable seat vocabulary (\<open>crates/mg/core/src/facts.rs\<close>): seat numbers and their port
  blocks, the completion-callback status and its reason codes, and the canonical guardian
  code set of a DKG session. A string is a list of characters compared lexicographically, as
  Rust compares the bytes of a \<open>str\<close>.
\<close>

section \<open>Ports\<close>

datatype port_base = PortBase u16

text \<open>\<open>SeatPorts::BLOCK\<close>.\<close>

definition BLOCK :: u16 where
  "BLOCK = 4"

fun port_base_get :: "port_base \<Rightarrow> u16" where
  "port_base_get (PortBase base) = base"

definition port_base_new :: "u16 \<Rightarrow> port_base option" where
  "port_base_new base = map_option (\<lambda>_. PortBase base) (checked_add base (BLOCK - 1))"

definition next_block :: "port_base \<Rightarrow> port_base option" where
  "next_block p = Option.bind (checked_add (port_base_get p) BLOCK) port_base_new"

definition remaining_blocks :: "port_base \<Rightarrow> u32" where
  "remaining_blocks p =
     (let remaining_ports = ucast (- 1 :: u16) - ucast (port_base_get p) + (1 :: u32)
      in remaining_ports div ucast BLOCK)"

datatype seat_no = SeatNo u32

fun seat_no_get :: "seat_no \<Rightarrow> u32" where
  "seat_no_get (SeatNo n) = n"

definition seat_port_base :: "seat_no \<Rightarrow> port_base \<Rightarrow> port_base option" where
  "seat_port_base n first =
     Option.bind (try_from_word (seat_no_get n)) (\<lambda>k :: u16.
     Option.bind (checked_mul k BLOCK) (\<lambda>offset.
     Option.bind (checked_add (port_base_get first) offset) port_base_new))"

text \<open>\<open>SeatPorts\<close>: the block expanded from its base.\<close>

datatype seat_ports = SeatPorts port_base

fun seat_ports_base :: "seat_ports \<Rightarrow> port_base" where
  "seat_ports_base (SeatPorts p) = p"

definition p2p_port :: "seat_ports \<Rightarrow> u16" where
  "p2p_port s = port_base_get (seat_ports_base s)"

definition api_port :: "seat_ports \<Rightarrow> u16" where
  "api_port s = port_base_get (seat_ports_base s) + 1"

definition ui_port :: "seat_ports \<Rightarrow> u16" where
  "ui_port s = port_base_get (seat_ports_base s) + 2"

definition metrics_port :: "seat_ports \<Rightarrow> u16" where
  "metrics_port s = port_base_get (seat_ports_base s) + 3"

section \<open>Creation facts\<close>

text \<open>
  A quote id, and with it a seat id, is a byte string; the constructors of the source hold
  exactly 32 bytes, which the row decoders check. An \<open>FaId\<close> is the 32 bytes of its public key.
\<close>

datatype seat_id = SeatId bytes

fun seat_id_bytes :: "seat_id \<Rightarrow> bytes" where
  "seat_id_bytes (SeatId b) = b"

type_synonym fa_id = bytes

datatype plan =
    InfiniteBestEffort u64
  | SubscriptionBased u64 u64 string

datatype federation_size = FederationSize u16

fun federation_size_get :: "federation_size \<Rightarrow> u16" where
  "federation_size_get (FederationSize n) = n"

record seat_facts =
  sf_seat_id :: seat_id
  sf_seat_no :: seat_no
  sf_fa_id :: fa_id
  sf_plan :: plan
  sf_federation_size :: federation_size
  sf_created_at_ms :: int

section \<open>Completion callbacks\<close>

datatype completion_callback_reason =
    GatewayOriginMissing
  | GatewayOriginMismatch
  | HttpClientUnavailable
  | Network
  | GatewayUnavailable
  | RateLimited
  | HookNotFound
  | HookExpiredOrRevoked
  | MaxUsesExceeded
  | PolicyRejected
  | Decommissioned
  | Superseded

fun reason_as_str :: "completion_callback_reason \<Rightarrow> string" where
  "reason_as_str GatewayOriginMissing = ''gateway_origin_missing''"
| "reason_as_str GatewayOriginMismatch = ''gateway_origin_mismatch''"
| "reason_as_str HttpClientUnavailable = ''http_client_unavailable''"
| "reason_as_str Network = ''network''"
| "reason_as_str GatewayUnavailable = ''gateway_unavailable''"
| "reason_as_str RateLimited = ''rate_limited''"
| "reason_as_str HookNotFound = ''hook_not_found''"
| "reason_as_str HookExpiredOrRevoked = ''hook_expired_or_revoked''"
| "reason_as_str MaxUsesExceeded = ''max_uses_exceeded''"
| "reason_as_str PolicyRejected = ''policy_rejected''"
| "reason_as_str Decommissioned = ''decommissioned''"
| "reason_as_str Superseded = ''superseded''"

definition reason_from_str :: "string \<Rightarrow> completion_callback_reason option" where
  "reason_from_str value =
     (if value = ''gateway_origin_missing'' then Some GatewayOriginMissing
      else if value = ''gateway_origin_mismatch'' then Some GatewayOriginMismatch
      else if value = ''http_client_unavailable'' then Some HttpClientUnavailable
      else if value = ''network'' then Some Network
      else if value = ''gateway_unavailable'' then Some GatewayUnavailable
      else if value = ''rate_limited'' then Some RateLimited
      else if value = ''hook_not_found'' then Some HookNotFound
      else if value = ''hook_expired_or_revoked'' then Some HookExpiredOrRevoked
      else if value = ''max_uses_exceeded'' then Some MaxUsesExceeded
      else if value = ''policy_rejected'' then Some PolicyRejected
      else if value = ''decommissioned'' then Some Decommissioned
      else if value = ''superseded'' then Some Superseded
      else None)"

datatype completion_callback_status =
    NotConfigured
  | Pending u32 int "completion_callback_reason option"
  | OperatorBlocked u32 completion_callback_reason
  | Delivered u32 int
  | Terminal u32 int completion_callback_reason

fun status_attempts :: "completion_callback_status \<Rightarrow> u32" where
  "status_attempts NotConfigured = 0"
| "status_attempts (Pending attempts _ _) = attempts"
| "status_attempts (OperatorBlocked attempts _) = attempts"
| "status_attempts (Delivered attempts _) = attempts"
| "status_attempts (Terminal attempts _ _) = attempts"

section \<open>Guardian code sets\<close>

datatype guardian_code = GuardianCode string

fun code_text :: "guardian_code \<Rightarrow> string" where
  "code_text (GuardianCode s) = s"

datatype dkg_code_set = DkgCodeSet "guardian_code list"

fun code_set_codes :: "dkg_code_set \<Rightarrow> guardian_code list" where
  "code_set_codes (DkgCodeSet codes) = codes"

datatype dkg_code_set_error =
    WrongCount nat nat
  | DuplicateCode
  | OwnCodeMissing

text \<open>\<open>codes.windows(2).any(|pair| pair[0] == pair[1])\<close>.\<close>

fun adjacent_equal :: "'a list \<Rightarrow> bool" where
  "adjacent_equal (x # y # xs) = (x = y \<or> adjacent_equal (y # xs))"
| "adjacent_equal _ = False"

definition dkg_code_set_validate ::
    "guardian_code list \<Rightarrow> federation_size \<Rightarrow> guardian_code \<Rightarrow> dkg_code_set_error + dkg_code_set" where
  "dkg_code_set_validate codes expected own_code =
     (let expected = unat (federation_size_get expected) in
      if length codes \<noteq> expected then Inl (WrongCount expected (length codes))
      else let codes = sort_key code_text codes in
        if adjacent_equal codes then Inl DuplicateCode
        else if own_code \<notin> set codes then Inl OwnCodeMissing
        else Inr (DkgCodeSet codes))"

section \<open>Lemmas\<close>

lemma unat_BLOCK [simp]: "unat BLOCK = 4"
  by (simp add: BLOCK_def)

lemma unat_BLOCK_minus_1 [simp]: "unat (BLOCK - 1) = 3"
  by (simp add: BLOCK_def)

lemma port_base_new_Some [rust_int]:
  "port_base_new b = Some p \<longleftrightarrow> p = PortBase b \<and> unat b + 3 < 2 ^ 16"
  by (auto simp: port_base_new_def checked_add_def)

lemma seat_port_base_Some:
  "seat_port_base n first = Some p \<longleftrightarrow>
     unat (port_base_get p) = unat (port_base_get first) + 4 * unat (seat_no_get n) \<and>
     unat (port_base_get first) + 4 * unat (seat_no_get n) + 3 < 2 ^ 16"
    (is "?l \<longleftrightarrow> ?r")
proof
  assume ?l
  then obtain k offset b where
    "try_from_word (seat_no_get n) = Some (k :: u16)" "checked_mul k BLOCK = Some offset"
    "checked_add (port_base_get first) offset = Some b" "port_base_new b = Some p"
    by (auto simp: seat_port_base_def bind_eq_Some_conv)
  then show ?r by (auto simp: rust_int)
next
  assume r: ?r
  define k :: u16 where "k = of_nat (unat (seat_no_get n))"
  have k: "unat k = unat (seat_no_get n)"
    using r by (simp add: k_def unsigned_ucast_eq take_bit_nat_eq_self)
  have o: "unat (k * BLOCK) = unat k * 4" using r k by (simp add: unat_word_ariths BLOCK_def)
  have "try_from_word (seat_no_get n) = Some k" "checked_mul k BLOCK = Some (k * BLOCK)"
    "checked_add (port_base_get first) (k * BLOCK) = Some (port_base_get p)"
    "port_base_new (port_base_get p) = Some p"
    using r k o by (simp_all add: rust_int) (cases p, simp)
  then show ?l by (simp add: seat_port_base_def)
qed

lemma seat_port_base_defined:
  "seat_port_base n first \<noteq> None \<longleftrightarrow>
     unat (port_base_get first) + 4 * unat (seat_no_get n) + 3 < 2 ^ 16" (is "?l \<longleftrightarrow> ?r")
proof
  assume ?l
  then obtain p where "seat_port_base n first = Some p" by auto
  then show ?r by (simp add: seat_port_base_Some)
next
  assume r: ?r
  define p where "p = PortBase (of_nat (unat (port_base_get first) + 4 * unat (seat_no_get n)))"
  have "unat (port_base_get p) = unat (port_base_get first) + 4 * unat (seat_no_get n)"
    using r by (simp add: p_def unat_of_nat del: of_nat_add of_nat_mult)
  with r have "seat_port_base n first = Some p" by (simp add: seat_port_base_Some)
  then show ?l by simp
qed

lemma unat_remaining_blocks:
  "unat (remaining_blocks p) = (2 ^ 16 - unat (port_base_get p)) div 4"
proof -
  let ?b = "port_base_get p"
  have b: "unat ?b < 2 ^ 16" using unsigned_less [of ?b] by simp
  have m: "ucast (- 1 :: u16) = (65535 :: u32)" by code_simp
  have c: "unat (ucast ?b :: u32) = unat ?b"
    using b by (simp add: unsigned_ucast_eq take_bit_nat_eq_self)
  have "ucast ?b \<le> (65536 :: u32)" using b c by (simp add: word_le_nat_alt)
  then have "unat (65536 - ucast ?b :: u32) = 65536 - unat ?b"
    using c by (simp add: unat_sub)
  then show ?thesis
    by (simp add: remaining_blocks_def Let_def m unat_div BLOCK_def)
qed

lemma adjacent_equal_sorted:
  "sorted (map f xs) \<Longrightarrow> inj f \<Longrightarrow> adjacent_equal xs \<longleftrightarrow> \<not> distinct xs"
proof (induction xs rule: adjacent_equal.induct)
  case (1 x y xs)
  then have IH: "adjacent_equal (y # xs) \<longleftrightarrow> \<not> distinct (y # xs)" by simp
  have "x = y" if "x \<in> set xs"
  proof -
    have "f x \<le> f y" "f y \<le> f x" using 1 that by auto
    with \<open>inj f\<close> show ?thesis by (auto dest: injD)
  qed
  with IH show ?case by auto
qed auto

lemma inj_code_text: "inj code_text"
proof (rule injI)
  fix x y assume "code_text x = code_text y"
  then show "x = y" by (cases x; cases y) simp
qed

lemma dkg_code_set_validate_Inr:
  "dkg_code_set_validate codes expected own = Inr s \<longleftrightarrow>
     length codes = unat (federation_size_get expected) \<and> distinct codes \<and> own \<in> set codes \<and>
     s = DkgCodeSet (sort_key code_text codes)"
proof -
  have "adjacent_equal (sort_key code_text codes) \<longleftrightarrow> \<not> distinct codes"
    using adjacent_equal_sorted [OF sorted_sort_key inj_code_text] by simp
  then show ?thesis by (auto simp: dkg_code_set_validate_def Let_def)
qed

end
