(* ===== verification/Store.thy ===== *)
theory Store
  imports Seat_Facts
begin

text \<open>
  The durable store of the guardian daemon: its tables (\<open>crates/mg/core/migrations\<close>) and the
  operations of \<open>crates/mg/core/src/db.rs\<close> on the offer, the onboarding state, the identity,
  the environment binding, the telemetry generation, the payout destination, the
  setup-payment policy, the holder authorization and the support chat.

  The state is the record \<open>db\<close>. A singleton table whose row the migrations insert and
  nothing deletes is a plain field; a singleton table that starts empty is an \<open>option\<close>; a
  keyed table is a \<open>tbl\<close>. An operation maps the state to its result and the next state. A
  write transaction that fails or returns before its commit leaves the state unchanged
  (\<open>in_tx\<close>). Constraints, foreign keys and triggers of the schema are the \<open>Sqlx\<close> errors of
  the statements they guard. The wall clock \<open>now_ms()\<close> and the random epoch
  \<open>fresh_offer_epoch()\<close> are arguments; a failed assertion or \<open>expect\<close> is \<open>Panicked\<close>.
\<close>

section \<open>Errors\<close>

datatype onboarding_stage = Identity | HolderAuthorization | InitialOffer | Complete

datatype sql_error =
    CheckFailed string
  | UniqueFailed string
  | ForeignKeyFailed string
  | Aborted string
  | RowNotFound string

datatype row_key = KeyText string | KeyHex bytes

datatype row_detail = Detail string | DetailText string string | DetailInt string int

datatype db_error =
    Sqlx sql_error
  | Mnemonic string
  | ManifoldEnvironmentMismatch string string
  | SeatLimitBelowActive u32 u32
  | WrongOnboardingStage onboarding_stage onboarding_stage
  | CorruptRow string row_key row_detail
  | TelemetryGenerationExhausted
  | HolderAuthorizationIssuedAtTooFarFuture
  | Panicked string

section \<open>Tables\<close>

record offer_row =
  os_max_seats :: "int option"
  os_price_msats :: "int option"
  os_updated_at_ms :: "int option"
  os_offer_epoch :: bytes
  os_ready_for_new_seats :: bool
  os_memory_max_seats :: int
  os_policy_max_seats :: int

record identity_row =
  id_mnemonic :: string
  id_wallet_origin :: string
  id_created_at_ms :: int

record support_message_row =
  sm_from_fedi :: bool
  sm_body :: string
  sm_created_at :: int
  sm_read :: bool

record seat_row =
  sr_seat_no :: int
  sr_fi_id :: string
  sr_plan :: string
  sr_federation_size :: int
  sr_created_at_ms :: int

record claim_row =
  cr_evidence :: bytes
  cr_claim_outcome :: "string option"
  cr_claim_outcome_at_ms :: "int option"

record formed_row =
  fr_federation_invite :: string
  fr_formed_at_ms :: int

record publication_row =
  pr_doc_sha256 :: string
  pr_published_at_ms :: int
  pr_archive_digest :: "string option"
  pr_confirmed_outgoing :: "string option"
  pr_schema_version :: int

record callback_row =
  cb_completion_callback :: "string option"
  cb_status :: string
  cb_attempts :: int
  cb_next_attempt_at_ms :: "int option"
  cb_reason :: "string option"
  cb_completed_at_ms :: "int option"

record transfer_in_row =
  ti_state :: string
  ti_binding :: string
  ti_callback_commitment :: "bytes option"
  ti_grant :: "string option"
  ti_iroh_api_sk :: "bytes option"
  ti_iroh_p2p_sk :: "bytes option"

record db =
  offer_state :: offer_row
  onboarding_stage_text :: string
  onboarding_updated_at_ms :: int
  identity_table :: "identity_row option"
  manifold_environment :: "string option"
  telemetry_generation :: int
  telemetry_updated_at_ms :: int
  payout_settings :: "string option"
  setup_payment_event :: "string option"
  setup_payment_members :: "string list"
  holder_authorization :: "(bytes \<times> string) option"
  support_messages :: "(string, support_message_row) tbl"
  seats :: "(bytes, seat_row) tbl"
  ecash_claims :: "(bytes, claim_row) tbl"
  decommissioned_seats :: "(bytes, int) tbl"
  formed_seats :: "(bytes, formed_row) tbl"
  seat_backup_publications :: "(bytes, publication_row) tbl"
  completion_callbacks :: "(bytes, callback_row) tbl"
  dkg_inputs :: "(bytes, string) tbl"
  seat_transfer_in :: "(bytes, transfer_in_row) tbl"
  seat_transfer_out :: "(bytes, string) tbl"

text \<open>
  A write transaction: its body gives an error, and nothing is written, or a result and the
  state to commit.
\<close>

definition in_tx :: "db \<Rightarrow> (db_error + 'a \<times> db) \<Rightarrow> (db_error + 'a) \<times> db" where
  "in_tx s r = (case r of Inl e \<Rightarrow> (Inl e, s) | Inr (x, s') \<Rightarrow> (Inr x, s'))"

text \<open>
  The checks of the rows the operations write. The price has no upper \<open>CHECK\<close>; its bound is the
  64-bit integer of the column.
\<close>

definition u32_range :: "int \<Rightarrow> bool" where
  "u32_range i \<longleftrightarrow> 0 \<le> i \<and> i \<le> 4294967295"

definition offer_row_check :: "offer_row \<Rightarrow> bool" where
  "offer_row_check r \<longleftrightarrow>
     (case os_max_seats r of None \<Rightarrow> True | Some m \<Rightarrow> u32_range m) \<and>
     (case os_price_msats r of None \<Rightarrow> True | Some p \<Rightarrow> 0 \<le> p \<and> p < 2 ^ 63) \<and>
     length (os_offer_epoch r) = 32 \<and>
     u32_range (os_memory_max_seats r) \<and> u32_range (os_policy_max_seats r)"

definition write_offer :: "offer_row \<Rightarrow> db \<Rightarrow> db_error + db" where
  "write_offer r s =
     (if offer_row_check r then Inr (s\<lparr>offer_state := r\<rparr>)
      else Inl (Sqlx (CheckFailed ''offer_state'')))"

text \<open>
  The state the migrations leave behind, with the random epoch of the last of them:
  \<open>max_seats\<close> is zero, nothing is sold, and onboarding waits for the identity.
\<close>

definition empty_db :: "bytes \<Rightarrow> db" where
  "empty_db epoch =
     \<lparr>offer_state =
        \<lparr>os_max_seats = Some 0, os_price_msats = None, os_updated_at_ms = None,
         os_offer_epoch = epoch, os_ready_for_new_seats = False,
         os_memory_max_seats = 4, os_policy_max_seats = 12\<rparr>,
      onboarding_stage_text = ''identity'', onboarding_updated_at_ms = 0,
      identity_table = None, manifold_environment = None,
      telemetry_generation = 0, telemetry_updated_at_ms = 0,
      payout_settings = None, setup_payment_event = None, setup_payment_members = [],
      holder_authorization = None, support_messages = [],
      seats = [], ecash_claims = [], decommissioned_seats = [], formed_seats = [],
      seat_backup_publications = [], completion_callbacks = [], dkg_inputs = [],
      seat_transfer_in = [], seat_transfer_out = []\<rparr>"

section \<open>Stored text and numbers\<close>

datatype wallet_origin = Fresh | Restored

fun wallet_origin_as_str :: "wallet_origin \<Rightarrow> string" where
  "wallet_origin_as_str Fresh = ''fresh''"
| "wallet_origin_as_str Restored = ''restored''"

definition wallet_origin_parse :: "string \<Rightarrow> db_error + wallet_origin" where
  "wallet_origin_parse value =
     (if value = ''fresh'' then Inr Fresh
      else if value = ''restored'' then Inr Restored
      else Inl (CorruptRow ''identity'' (KeyText ''1'') (DetailText ''unknown wallet origin'' value)))"

definition onboarding_stage_parse :: "string \<Rightarrow> db_error + onboarding_stage" where
  "onboarding_stage_parse stage =
     (if stage = ''identity'' then Inr Identity
      else if stage = ''holder_authorization'' then Inr HolderAuthorization
      else if stage = ''initial_offer'' then Inr InitialOffer
      else if stage = ''complete'' then Inr Complete
      else Inl (CorruptRow ''onboarding_state'' (KeyText ''1'') (DetailText ''unknown stage'' stage)))"

text \<open>\<open>u64 as i64\<close>.\<close>

definition as_i64 :: "u64 \<Rightarrow> int" where
  "as_i64 w = sint w"

definition stored_price :: "int \<Rightarrow> db_error + u64" where
  "stored_price msats =
     ok_or (try_from_int msats) (Panicked ''price_msats is non-negative by schema CHECK'')"

definition stored_max_seats :: "int \<Rightarrow> db_error + u32" where
  "stored_max_seats max_seats =
     ok_or (try_from_int max_seats)
       (CorruptRow ''offer_state'' (KeyText ''1'') (Detail ''a seat limit is outside the u32 domain''))"

datatype offer_epoch = OfferEpoch bytes

fun epoch_bytes :: "offer_epoch \<Rightarrow> bytes" where
  "epoch_bytes (OfferEpoch b) = b"

definition parse_offer_epoch :: "bytes \<Rightarrow> db_error + offer_epoch" where
  "parse_offer_epoch b =
     (if length b = 32 then Inr (OfferEpoch b)
      else Inl (CorruptRow ''offer_state'' (KeyText ''1'') (Detail ''offer_epoch is not 32 bytes'')))"

text \<open>\<open>u64::to_be_bytes\<close>; SQLite compares blobs bytewise, as \<open>(<)\<close> on byte lists does.\<close>

definition to_be_bytes :: "u64 \<Rightarrow> bytes" where
  "to_be_bytes w = map (\<lambda>i. ucast (drop_bit (8 * i) w)) (rev [0..<8])"

definition I64_MAX :: int where
  "I64_MAX = 9223372036854775807"

definition stored_secs :: "u64 \<Rightarrow> int" where
  "stored_secs secs = (if uint secs \<le> I64_MAX then uint secs else I64_MAX)"

section \<open>Capacity\<close>

definition effective_max_seats :: "u32 option \<Rightarrow> u32 \<Rightarrow> u32 \<Rightarrow> u32" where
  "effective_max_seats max_seats memory policy =
     min (min (case max_seats of None \<Rightarrow> - 1 | Some m \<Rightarrow> m) memory) policy"

definition available_slots :: "u32 \<Rightarrow> port_base \<Rightarrow> int \<Rightarrow> int \<Rightarrow> u32" where
  "available_slots max_seats first_port_base active next_no =
     (let seat_slots = saturating_sub max_seats
            (case try_from_int active of None \<Rightarrow> - 1 | Some a \<Rightarrow> a);
          next_no = (case try_from_int next_no of None \<Rightarrow> - 1 | Some n \<Rightarrow> n);
          port_slots = of_nat (length (takeWhile
            (\<lambda>offset. seat_port_base (SeatNo (saturating_add next_no (of_nat offset)))
               first_port_base \<noteq> None)
            [0..<unat seat_slots]))
      in min seat_slots port_slots)"

text \<open>
  The two aggregates of the capacity queries: the seats that are neither decommissioned nor
  transferred out, and \<open>COALESCE(MAX(seat_no) + 1, 0)\<close>.
\<close>

definition active_count :: "db \<Rightarrow> int" where
  "active_count s =
     int (matching (\<lambda>k _. \<not> tbl_exists (decommissioned_seats s) k \<and>
       \<not> tbl_exists (seat_transfer_out s) k) (seats s))"

definition next_seat_no :: "db \<Rightarrow> int" where
  "next_seat_no s =
     (if seats s = [] then 0 else Max (set (map (\<lambda>r. sr_seat_no (snd r)) (seats s))) + 1)"

definition active_seat_count :: "db \<Rightarrow> db_error + u32" where
  "active_seat_count s =
     ok_or (try_from_int (active_count s))
       (CorruptRow ''seats'' (KeyText ''active-count'')
          (Detail ''active seat count is outside the u32 domain''))"

definition max_seats_setting :: "db \<Rightarrow> db_error + u32 option" where
  "max_seats_setting s =
     transpose_result (map_option stored_max_seats (os_max_seats (offer_state s)))"

section \<open>The offer\<close>

record quote_settings =
  qs_price :: "u64 option"
  qs_payment_federations :: "string list"

definition quote_settings_plans :: "quote_settings \<Rightarrow> plan list" where
  "quote_settings_plans q =
     (case qs_price q of None \<Rightarrow> [] | Some price \<Rightarrow> [InfiniteBestEffort price])"

record offer =
  of_epoch :: offer_epoch
  of_settings :: quote_settings

record offer_snapshot =
  sn_offer :: offer
  sn_max_seats :: "u32 option"
  sn_memory_max_seats :: u32
  sn_policy_max_seats :: u32
  sn_slots :: u32
  sn_ready_for_new_seats :: bool

definition take_offer_snapshot :: "port_base \<Rightarrow> db \<Rightarrow> db_error + offer_snapshot" where
  "take_offer_snapshot first_port_base s =
     (let row = offer_state s in
      and_then (parse_offer_epoch (os_offer_epoch row)) (\<lambda>epoch.
      and_then (transpose_result (map_option stored_max_seats (os_max_seats row))) (\<lambda>max_seats.
      and_then (stored_max_seats (os_memory_max_seats row)) (\<lambda>memory.
      and_then (stored_max_seats (os_policy_max_seats row)) (\<lambda>policy.
      and_then (transpose_result (map_option stored_price (os_price_msats row))) (\<lambda>price.
      Inr \<lparr>sn_offer = \<lparr>of_epoch = epoch,
             of_settings = \<lparr>qs_price = price,
               qs_payment_federations = sort (setup_payment_members s)\<rparr>\<rparr>,
           sn_max_seats = max_seats,
           sn_memory_max_seats = memory,
           sn_policy_max_seats = policy,
           sn_slots = available_slots (effective_max_seats max_seats memory policy)
             first_port_base (active_count s) (next_seat_no s),
           sn_ready_for_new_seats = os_ready_for_new_seats row\<rparr>))))))"

definition current_offer_epoch :: "db \<Rightarrow> db_error + offer_epoch" where
  "current_offer_epoch s = parse_offer_epoch (os_offer_epoch (offer_state s))"

text \<open>The epoch is parsed after the commit.\<close>

definition set_offered_price :: "u64 option \<Rightarrow> int \<Rightarrow> bytes \<Rightarrow> db \<Rightarrow> (db_error + offer_epoch) \<times> db" where
  "set_offered_price price now fresh s =
     (let price_msats = map_option as_i64 price;
          row = offer_state s;
          written = (if os_price_msats row \<noteq> price_msats
            then write_offer (row\<lparr>os_price_msats := price_msats, os_updated_at_ms := Some now,
                   os_offer_epoch := fresh\<rparr>) s
            else Inr s)
      in case written of
           Inl e \<Rightarrow> (Inl e, s)
         | Inr s' \<Rightarrow> (parse_offer_epoch (os_offer_epoch (offer_state s')), s'))"

definition configure_initial_offer ::
    "u64 option \<Rightarrow> u32 option \<Rightarrow> int \<Rightarrow> bytes \<Rightarrow> db \<Rightarrow> (db_error + unit) \<times> db" where
  "configure_initial_offer price max_seats now fresh s =
     in_tx s
      (and_then (onboarding_stage_parse (onboarding_stage_text s)) (\<lambda>stage.
       if stage \<noteq> InitialOffer then Inl (WrongOnboardingStage InitialOffer stage)
       else
         let active = (case try_from_int (active_count s) of None \<Rightarrow> - 1 | Some a \<Rightarrow> a);
             refused = (case max_seats of
                 None \<Rightarrow> None
               | Some requested \<Rightarrow> if requested < active then Some requested else None)
         in case refused of
              Some requested \<Rightarrow> Inl (SeatLimitBelowActive requested active)
            | None \<Rightarrow>
           and_then (write_offer ((offer_state s)
               \<lparr>os_price_msats := map_option as_i64 price,
                os_max_seats := map_option uint max_seats,
                os_updated_at_ms := Some now, os_offer_epoch := fresh\<rparr>) s) (\<lambda>s1.
           Inr ((), s1\<lparr>onboarding_stage_text := ''complete'', onboarding_updated_at_ms := now\<rparr>))))"

record seats_config_update =
  up_max_seats :: "u32 option option"
  up_memory_max_seats :: "u32 option"
  up_policy_max_seats :: "u32 option"
  up_ready_for_new_seats :: "bool option"

record seats_config =
  sc_max_seats :: "u32 option"
  sc_memory_max_seats :: u32
  sc_policy_max_seats :: u32
  sc_ready_for_new_seats :: bool

definition unwrap_or :: "'a option \<Rightarrow> 'a \<Rightarrow> 'a" where
  "unwrap_or v d = (case v of None \<Rightarrow> d | Some x \<Rightarrow> x)"

definition stored_seats_config :: "offer_row \<Rightarrow> db_error + seats_config" where
  "stored_seats_config row =
     and_then (transpose_result (map_option stored_max_seats (os_max_seats row))) (\<lambda>max_seats.
     and_then (stored_max_seats (os_memory_max_seats row)) (\<lambda>memory.
     and_then (stored_max_seats (os_policy_max_seats row)) (\<lambda>policy.
     Inr \<lparr>sc_max_seats = max_seats, sc_memory_max_seats = memory, sc_policy_max_seats = policy,
          sc_ready_for_new_seats = os_ready_for_new_seats row\<rparr>)))"

definition apply_update :: "seats_config_update \<Rightarrow> seats_config \<Rightarrow> seats_config" where
  "apply_update update before =
     \<lparr>sc_max_seats = unwrap_or (up_max_seats update) (sc_max_seats before),
      sc_memory_max_seats = unwrap_or (up_memory_max_seats update) (sc_memory_max_seats before),
      sc_policy_max_seats = unwrap_or (up_policy_max_seats update) (sc_policy_max_seats before),
      sc_ready_for_new_seats =
        unwrap_or (up_ready_for_new_seats update) (sc_ready_for_new_seats before)\<rparr>"

definition config_slots :: "port_base \<Rightarrow> db \<Rightarrow> seats_config \<Rightarrow> u32" where
  "config_slots first_port_base s config =
     available_slots (effective_max_seats (sc_max_seats config) (sc_memory_max_seats config)
         (sc_policy_max_seats config))
       first_port_base (active_count s) (next_seat_no s)"

definition limit_below_active :: "seats_config_update \<Rightarrow> db \<Rightarrow> (u32 \<times> u32) option" where
  "limit_below_active update s =
     (case up_max_seats update of
        Some (Some requested) \<Rightarrow>
          let active = (case try_from_int (active_count s) of None \<Rightarrow> - 1 | Some a \<Rightarrow> a)
          in if requested < active then Some (requested, active) else None
      | _ \<Rightarrow> None)"

definition update_seats_config ::
    "seats_config_update \<Rightarrow> port_base \<Rightarrow> int \<Rightarrow> bytes \<Rightarrow> db \<Rightarrow> (db_error + bool) \<times> db" where
  "update_seats_config update first_port_base now fresh s =
     in_tx s
      (and_then (stored_seats_config (offer_state s)) (\<lambda>before.
       let after = apply_update update before in
       case limit_below_active update s of
         Some (requested, active) \<Rightarrow> Inl (SeatLimitBelowActive requested active)
       | None \<Rightarrow>
          if after = before then Inr (False, s)
          else
            let slots = config_slots first_port_base s;
                rotate = (sc_max_seats after \<noteq> sc_max_seats before \<or>
                  sc_ready_for_new_seats after \<noteq> sc_ready_for_new_seats before \<or>
                  slots before > 0 \<and> slots after = 0);
                row = (offer_state s)
                  \<lparr>os_max_seats := map_option uint (sc_max_seats after),
                   os_memory_max_seats := uint (sc_memory_max_seats after),
                   os_policy_max_seats := uint (sc_policy_max_seats after),
                   os_ready_for_new_seats := sc_ready_for_new_seats after\<rparr>;
                row = (if sc_max_seats after \<noteq> sc_max_seats before
                  then row\<lparr>os_updated_at_ms := Some now\<rparr> else row);
                row = (if rotate then row\<lparr>os_offer_epoch := fresh\<rparr> else row)
            in and_then (write_offer row s) (\<lambda>s'. Inr (True, s'))))"

section \<open>Environment, identity, telemetry, payout destination\<close>

text \<open>
  \<open>ManifoldEnvironment\<close> and its \<open>Display\<close>. The binding is inserted only into an empty table.
\<close>

datatype environment = Development | Staging | Production

fun environment_to_string :: "environment \<Rightarrow> string" where
  "environment_to_string Development = ''development''"
| "environment_to_string Staging = ''staging''"
| "environment_to_string Production = ''production''"

definition bind_manifold_environment :: "environment \<Rightarrow> db \<Rightarrow> (db_error + unit) \<times> db" where
  "bind_manifold_environment selected s =
     (let selected_name = environment_to_string selected;
          s' = (case manifold_environment s of
                  None \<Rightarrow> s\<lparr>manifold_environment := Some selected_name\<rparr>
                | Some _ \<Rightarrow> s)
      in case manifold_environment s' of
           None \<Rightarrow> (Inl (Sqlx (RowNotFound ''manifold_environment'')), s')
         | Some bound \<Rightarrow>
             if bound \<noteq> selected_name then (Inl (ManifoldEnvironmentMismatch bound selected_name), s')
             else (Inr (), s'))"

text \<open>\<open>RootMnemonic::parse\<close> is the check of \<open>bip39\<close>, a parameter.\<close>

definition load_identity :: "(string \<Rightarrow> db_error + 'm) \<Rightarrow> db \<Rightarrow> db_error + 'm option" where
  "load_identity parse s = transpose_result (map_option (\<lambda>r. parse (id_mnemonic r)) (identity_table s))"

definition db_onboarding_stage :: "db \<Rightarrow> db_error + onboarding_stage" where
  "db_onboarding_stage s = onboarding_stage_parse (onboarding_stage_text s)"

definition db_wallet_origin :: "db \<Rightarrow> db_error + wallet_origin" where
  "db_wallet_origin s =
     and_then (ok_or (identity_table s) (Sqlx (RowNotFound ''identity''))) (\<lambda>r.
     wallet_origin_parse (id_wallet_origin r))"

text \<open>\<open>UPDATE onboarding_state SET stage = to WHERE stage = from\<close>, with the row count.\<close>

definition advance_stage :: "string \<Rightarrow> string \<Rightarrow> int \<Rightarrow> db \<Rightarrow> nat \<times> db" where
  "advance_stage from to now s =
     (if onboarding_stage_text s = from
      then (1, s\<lparr>onboarding_stage_text := to, onboarding_updated_at_ms := now\<rparr>)
      else (0, s))"

definition insert_identity :: "string \<Rightarrow> wallet_origin \<Rightarrow> int \<Rightarrow> db \<Rightarrow> db_error + db" where
  "insert_identity phrase origin now s =
     (case identity_table s of
        Some _ \<Rightarrow> Inl (Sqlx (UniqueFailed ''identity''))
      | None \<Rightarrow> Inr (s\<lparr>identity_table := Some \<lparr>id_mnemonic = phrase,
                  id_wallet_origin = wallet_origin_as_str origin, id_created_at_ms = now\<rparr>\<rparr>))"

definition install_identity :: "string \<Rightarrow> int \<Rightarrow> db \<Rightarrow> (db_error + unit) \<times> db" where
  "install_identity phrase created_at_ms s =
     in_tx s
      (and_then (onboarding_stage_parse (onboarding_stage_text s)) (\<lambda>stage.
       if stage \<noteq> Identity then Inl (WrongOnboardingStage Identity stage)
       else and_then (insert_identity phrase Fresh created_at_ms s) (\<lambda>s1.
         let (rows, s2) = advance_stage ''identity'' ''holder_authorization'' created_at_ms s1
         in if rows \<noteq> 1 then Inl (WrongOnboardingStage Identity stage) else Inr ((), s2))))"

definition generation_u64 :: "int \<Rightarrow> db_error + u64" where
  "generation_u64 generation =
     ok_or (try_from_int generation)
       (CorruptRow ''telemetry_capability'' (KeyText ''1'') (Detail ''generation is outside the u64 domain''))"

definition telemetry_capability_generation :: "db \<Rightarrow> db_error + u64" where
  "telemetry_capability_generation s = generation_u64 (telemetry_generation s)"

definition rotate_telemetry_capability_generation :: "int \<Rightarrow> db \<Rightarrow> (db_error + u64) \<times> db" where
  "rotate_telemetry_capability_generation now s =
     (if telemetry_generation s < I64_MAX
      then let s' = s\<lparr>telemetry_generation := telemetry_generation s + 1, telemetry_updated_at_ms := now\<rparr>
           in (generation_u64 (telemetry_generation s'), s')
      else (Inl TelemetryGenerationExhausted, s))"

definition set_payout_destination :: "string option \<Rightarrow> db \<Rightarrow> (db_error + unit) \<times> db" where
  "set_payout_destination destination s =
     (if (case destination of None \<Rightarrow> True | Some d \<Rightarrow> 1 \<le> length d \<and> length d \<le> 1024)
      then (Inr (), s\<lparr>payout_settings := destination\<rparr>)
      else (Inl (Sqlx (CheckFailed ''payout_settings'')), s))"

section \<open>Holder authorization and setup-payment policy\<close>

text \<open>\<open>DELETE FROM holder_authorization WHERE authorization_issued_at > ?\<close>.\<close>

definition drop_future_authorization :: "u64 \<Rightarrow> db \<Rightarrow> db" where
  "drop_future_authorization max_issued_at s =
     (case holder_authorization s of
        Some (issued, _) \<Rightarrow>
          if issued > to_be_bytes max_issued_at then s\<lparr>holder_authorization := None\<rparr> else s
      | None \<Rightarrow> s)"

definition holder_authorization_event_json :: "u64 \<Rightarrow> db \<Rightarrow> (db_error + string option) \<times> db" where
  "holder_authorization_event_json max_issued_at s =
     (let s' = drop_future_authorization max_issued_at s
      in (Inr (map_option snd (holder_authorization s')), s'))"

text \<open>The upsert of the retained authorization: only a later issue time replaces it.\<close>

definition retain_authorization :: "bytes \<Rightarrow> string \<Rightarrow> db \<Rightarrow> db" where
  "retain_authorization issued event_json s =
     s\<lparr>holder_authorization :=
       (case holder_authorization s of
          None \<Rightarrow> Some (issued, event_json)
        | Some (old, old_json) \<Rightarrow>
            if issued > old then Some (issued, event_json) else Some (old, old_json))\<rparr>"

definition replace_holder_authorization_event ::
    "u64 \<Rightarrow> string \<Rightarrow> u64 \<Rightarrow> int \<Rightarrow> db \<Rightarrow> (db_error + unit) \<times> db" where
  "replace_holder_authorization_event issued_at event_json max_issued_at now s =
     (if issued_at > max_issued_at then (Inl HolderAuthorizationIssuedAtTooFarFuture, s)
      else in_tx s
       (let s2 = retain_authorization (to_be_bytes issued_at) event_json
              (drop_future_authorization max_issued_at s)
        in and_then (onboarding_stage_parse (onboarding_stage_text s2)) (\<lambda>stage.
           let (rows, s3) = advance_stage ''holder_authorization'' ''initial_offer'' now s2
           in if stage = HolderAuthorization \<and> rows \<noteq> 1
              then Inl (WrongOnboardingStage HolderAuthorization stage)
              else Inr ((), s3))))"

text \<open>The loop of member inserts: a repeated id violates the primary key.\<close>

fun insert_members :: "string list \<Rightarrow> string list \<Rightarrow> db_error + string list" where
  "insert_members [] members = Inr members"
| "insert_members (m # ms) members =
     (if m \<in> set members then Inl (Sqlx (UniqueFailed ''setup_payment_federation_members''))
      else insert_members ms (members @ [m]))"

definition replace_setup_payment_policy ::
    "string \<Rightarrow> string list \<Rightarrow> bytes \<Rightarrow> db \<Rightarrow> (db_error + unit) \<times> db" where
  "replace_setup_payment_policy event_json member_ids fresh s =
     in_tx s
      (let previous = setup_payment_members s;
           s1 = s\<lparr>setup_payment_event := Some event_json\<rparr>
       in and_then (insert_members member_ids []) (\<lambda>members.
          let s2 = s1\<lparr>setup_payment_members := members\<rparr>;
              removed_any = (\<exists>p \<in> set previous. p \<notin> set member_ids)
          in if removed_any
             then and_then (write_offer ((offer_state s2)\<lparr>os_offer_epoch := fresh\<rparr>) s2) (\<lambda>s3.
                  Inr ((), s3))
             else Inr ((), s2)))"

section \<open>Support chat\<close>

record support_row =
  su_rumor_id :: string
  su_from_fedi :: bool
  su_body :: string
  su_created_at :: u64
  su_unread :: bool

definition record_support_message :: "support_row \<Rightarrow> db \<Rightarrow> (db_error + unit) \<times> db" where
  "record_support_message row s =
     (if length (su_rumor_id row) \<noteq> 64 \<or> stored_secs (su_created_at row) < 0
      then (Inl (Sqlx (CheckFailed ''support_messages'')), s)
      else (Inr (), s\<lparr>support_messages := insert_or_ignore (su_rumor_id row)
             \<lparr>sm_from_fedi = su_from_fedi row, sm_body = su_body row,
              sm_created_at = stored_secs (su_created_at row), sm_read = False\<rparr>
             (support_messages s)\<rparr>))"

definition support_thread :: "db \<Rightarrow> db_error + support_row list" where
  "support_thread s =
     collect_results (map (\<lambda>(rumor_id, m).
       and_then (ok_or (try_from_int (sm_created_at m))
           (Panicked ''created_at is non-negative by schema CHECK'')) (\<lambda>created_at.
       Inr \<lparr>su_rumor_id = rumor_id, su_from_fedi = sm_from_fedi m, su_body = sm_body m,
            su_created_at = created_at, su_unread = (sm_from_fedi m \<and> \<not> sm_read m)\<rparr>))
       (sort_key (\<lambda>(_, m). sm_created_at m) (support_messages s)))"

definition support_unread :: "db \<Rightarrow> nat" where
  "support_unread s = matching (\<lambda>_ m. sm_from_fedi m \<and> \<not> sm_read m) (support_messages s)"

definition mark_support_read :: "string list \<Rightarrow> db \<Rightarrow> (db_error + unit) \<times> db" where
  "mark_support_read rumor_ids s =
     (Inr (), s\<lparr>support_messages := update_where
        (\<lambda>rumor_id m. sm_from_fedi m \<and> rumor_id \<in> set rumor_ids)
        (\<lambda>m. m\<lparr>sm_read := True\<rparr>) (support_messages s)\<rparr>)"

section \<open>Capacity in closed form\<close>

lemma length_takeWhile_upt: "length (takeWhile (\<lambda>i. i < k) [0..<n]) = min n k"
proof -
  have "takeWhile (\<lambda>i. i < k) [0..<n] = [0..<min n k]"
  proof (cases "n \<le> k")
    case True
    then show ?thesis by (simp add: takeWhile_eq_all_conv)
  next
    case False
    then have "[0..<n] = [0..<k] @ [k..<n]" using upt_add_eq_append [of 0 k "n - k"] by simp
    moreover have "takeWhile (\<lambda>i. i < k) ([0..<k] @ [k..<n]) = [0..<k]"
      by (subst takeWhile_append2) (auto simp: takeWhile_eq_Nil_iff)
    ultimately show ?thesis using False by simp
  qed
  then show ?thesis by simp
qed

definition u32_or_max :: "int \<Rightarrow> nat" where
  "u32_or_max i = (if 0 \<le> i \<and> i < 2 ^ 32 then nat i else 2 ^ 32 - 1)"

lemma unat_u32_or_max:
  "unat (case try_from_int i of None \<Rightarrow> (- 1 :: u32) | Some a \<Rightarrow> a) = u32_or_max i"
proof (cases "try_from_int i :: u32 option")
  case None
  moreover from None have "i < 0 \<or> 2 ^ 32 \<le> i" using try_from_int_None [of i, where 'a=32] by simp
  ultimately show ?thesis using unat_max_word [where 'a=32] by (auto simp: u32_or_max_def)
next
  case (Some a)
  then have "i = int (unat a)" unfolding try_from_int_Some .
  then have "0 \<le> i" "i < 2 ^ 32" "nat i = unat a"
    using unsigned_less [of a, where 'a=int] by simp_all
  with Some show ?thesis by (simp add: u32_or_max_def)
qed

lemma seat_port_base_below:
  "seat_port_base n first \<noteq> None \<longleftrightarrow> unat (seat_no_get n) < unat (remaining_blocks first)"
proof -
  have "unat (port_base_get first) < 2 ^ 16" using unsigned_less [of "port_base_get first"] by simp
  then show ?thesis
    unfolding seat_port_base_defined unat_remaining_blocks by simp presburger
qed

lemma unat_available_slots:
  "unat (available_slots m first active next_no) =
     min (unat m - u32_or_max active) (unat (remaining_blocks first) - u32_or_max next_no)"
proof -
  define a :: u32 where "a = (case try_from_int active of None \<Rightarrow> - 1 | Some a \<Rightarrow> a)"
  define n :: u32 where "n = (case try_from_int next_no of None \<Rightarrow> - 1 | Some n \<Rightarrow> n)"
  let ?S = "saturating_sub m a"
  let ?R = "unat (remaining_blocks first)"
  let ?P = "\<lambda>offset. seat_port_base (SeatNo (saturating_add n (of_nat offset))) first \<noteq> None"
  have R: "?R \<le> 16384" by (simp add: unat_remaining_blocks)
  have P: "?P i \<longleftrightarrow> i < ?R - unat n" if "i \<in> set [0..<unat ?S]" for i
  proof -
    have "i < 2 ^ 32" using that unat_bounds(3) [of ?S] by simp
    then have "unat (of_nat i :: u32) = i" by (simp add: unat_of_nat)
    then have "unat (saturating_add n (of_nat i)) = min (2 ^ 32 - 1) (unat n + i)"
      by (simp add: unat_saturating_add)
    then show ?thesis using R unfolding seat_port_base_below by (auto simp: min_def)
  qed
  have "takeWhile ?P [0..<unat ?S] = takeWhile (\<lambda>i. i < ?R - unat n) [0..<unat ?S]"
    using P by (intro takeWhile_cong) auto
  then have len: "length (takeWhile ?P [0..<unat ?S]) = min (unat ?S) (?R - unat n)"
    using length_takeWhile_upt [of "?R - unat n" "unat ?S"] by simp
  have eq: "available_slots m first active next_no = min ?S (of_nat (min (unat ?S) (?R - unat n)))"
    unfolding available_slots_def Let_def a_def [symmetric] n_def [symmetric] len [symmetric] ..
  have "unat (of_nat (min (unat ?S) (?R - unat n)) :: u32) = min (unat ?S) (?R - unat n)"
    using R unat_bounds(3) [of ?S] by (simp add: unat_of_nat)
  then have "unat (available_slots m first active next_no) = min (unat ?S) (?R - unat n)"
    unfolding eq by (simp add: min_def word_le_nat_alt split: if_splits)
  moreover have "unat a = u32_or_max active" "unat n = u32_or_max next_no"
    by (simp_all add: a_def n_def unat_u32_or_max)
  ultimately show ?thesis by (simp add: unat_saturating_sub)
qed

section \<open>Blobs\<close>

text \<open>The number a big-endian byte string denotes.\<close>

definition be_value :: "bytes \<Rightarrow> nat" where
  "be_value bs = foldl (\<lambda>v b. v * 256 + unat b) 0 bs"

lemma be_value_snoc: "be_value (bs @ [b]) = be_value bs * 256 + unat b"
  by (simp add: be_value_def)

lemma foldl_be: "foldl (\<lambda>v b. v * 256 + unat (b :: u8)) a bs = a * 256 ^ length bs + be_value bs"
proof (induction bs rule: rev_induct)
  case (snoc b bs)
  then show ?case by (simp add: be_value_snoc algebra_simps)
qed (simp add: be_value_def)

lemma be_value_Cons: "be_value (b # bs) = unat b * 256 ^ length bs + be_value bs"
  using foldl_be [of "unat b" bs] by (simp add: be_value_def)

lemma be_value_less: "be_value bs < 256 ^ length bs"
proof (induction bs)
  case (Cons b bs)
  have "unat b + 1 \<le> 256" using unat_bounds(1) [of b] by simp
  then have "(unat b + 1) * 256 ^ length bs \<le> 256 * 256 ^ length bs" by (rule mult_le_mono1)
  with Cons.IH have "unat b * 256 ^ length bs + be_value bs < 256 * 256 ^ length bs"
    unfolding distrib_right by linarith
  then show ?case by (simp add: be_value_Cons)
qed (simp add: be_value_def)

lemma be_value_mono:
  "length xs = length ys \<Longrightarrow> xs < ys \<longleftrightarrow> be_value xs < be_value ys"
proof (induction xs ys rule: list_induct2)
  case (Cons x xs y ys)
  let ?k = "256 ^ length ys :: nat"
  have xs: "be_value xs < ?k" and ys: "be_value ys < ?k"
    using be_value_less [of xs] be_value_less [of ys] Cons.hyps by simp_all
  have lt: "be_value (a # as) < be_value (b # bs)"
    if "a < b" "length as = length ys" "length bs = length ys" for a b :: u8 and as bs
  proof -
    have "unat a + 1 \<le> unat b" using that(1) by (simp add: word_less_nat_alt)
    then have "(unat a + 1) * ?k \<le> unat b * ?k" by (rule mult_le_mono1)
    moreover have "be_value as < ?k" using be_value_less [of as] that by simp
    ultimately show ?thesis using that by (simp add: be_value_Cons algebra_simps)
  qed
  show ?case
  proof (cases x y rule: linorder_cases)
    case equal
    then show ?thesis using Cons by (simp add: be_value_Cons)
  next
    case less: less
    with lt [of x y xs ys] Cons.hyps show ?thesis by simp
  next
    case greater
    then have "be_value (y # ys) < be_value (x # xs)" using lt [of y x ys xs] Cons.hyps by simp
    with greater show ?thesis by auto
  qed
qed (simp add: be_value_def)

lemma be_value_bytes:
  "be_value (map (\<lambda>i. ucast (drop_bit (8 * i) w)) (rev [0..<n])) = unat (w :: u64) mod 256 ^ n"
proof (induction n)
  case (Suc n)
  have "unat (ucast (drop_bit (8 * n) w) :: u8) = (unat w div 2 ^ (8 * n)) mod 256"
    using unat_bounds(4) [of w]
    by (simp add: unsigned_ucast_eq unsigned_drop_bit_eq take_bit_eq_mod flip: drop_bit_eq_div)
  also have "(2 :: nat) ^ (8 * n) = 256 ^ n" by (simp add: power_mult)
  finally have "unat (ucast (drop_bit (8 * n) w) :: u8) = (unat w div 256 ^ n) mod 256" .
  moreover have "unat w mod 256 ^ Suc n = 256 ^ n * (unat w div 256 ^ n mod 256) + unat w mod 256 ^ n"
    unfolding power_Suc2 by (rule mod_mult2_eq)
  ultimately show ?case using Suc by (simp add: be_value_Cons mult.commute)
qed (simp add: be_value_def)

lemma be_value_to_be_bytes: "be_value (to_be_bytes w) = unat w"
  using be_value_bytes [of w 8] unat_bounds(4) [of w] by (simp add: to_be_bytes_def)

lemma length_to_be_bytes [simp]: "length (to_be_bytes w) = 8"
  by (simp add: to_be_bytes_def)

lemma to_be_bytes_less: "to_be_bytes a < to_be_bytes b \<longleftrightarrow> a < b"
  using be_value_mono [of "to_be_bytes a" "to_be_bytes b"]
  by (simp add: be_value_to_be_bytes word_less_nat_alt)

end
