(* ===== verification/Quote_Terms.thy ===== *)
theory Quote_Terms
  imports Store
begin

text \<open>
  Quotes and key-locked payments on the wire
  (\<open>crates/service-manifold-guardian/src/locked_payment.rs\<close>): seat ids, issuance requests,
  payment terms, the coherence rule both sides hold over a quote, and the messages of
  \<open>CreateSeat\<close>. The hexadecimal codec of the crate \<open>hex\<close> is a parameter of the seat id's
  text form.
\<close>

section \<open>Seat ids\<close>

datatype quote_id = QuoteId bytes

fun quote_id_bytes :: "quote_id \<Rightarrow> bytes" where
  "quote_id_bytes (QuoteId b) = b"

definition seat_id_from_quote :: "quote_id \<Rightarrow> seat_id" where
  "seat_id_from_quote q = SeatId (quote_id_bytes q)"

definition SEAT_ID_LEN :: nat where
  "SEAT_ID_LEN = 64"

definition seat_id_to_string :: "(bytes \<Rightarrow> string) \<Rightarrow> seat_id \<Rightarrow> string" where
  "seat_id_to_string hex_encode s = hex_encode (seat_id_bytes s)"

datatype invalid_seat_id = InvalidSeatId string

definition seat_id_new ::
    "(bytes \<Rightarrow> string) \<Rightarrow> (string \<Rightarrow> bytes option) \<Rightarrow> string \<Rightarrow> invalid_seat_id + seat_id" where
  "seat_id_new hex_encode hex_decode str =
     (case hex_decode str of
        None \<Rightarrow> Inl (InvalidSeatId str)
      | Some b \<Rightarrow>
          if length str = SEAT_ID_LEN \<and> hex_encode b = str \<and> length b = 32
          then Inr (seat_id_from_quote (QuoteId b))
          else Inl (InvalidSeatId str))"

section \<open>Payment terms\<close>

record locked_issuance_request =
  li_amount_msats :: u64
  li_blind_nonce :: bytes

record locked_issuance_request_v2 =
  l2_amount_msats :: u64
  l2_blind_nonce :: bytes
  l2_tweak :: bytes

type_synonym federation_id = string

datatype refund_issuance =
    RefundMintV1 bytes "locked_issuance_request list"
  | RefundMintV2 bytes "locked_issuance_request_v2 list"

datatype payment_terms =
    MintV1 federation_id "locked_issuance_request list"
  | MintV2 federation_id "locked_issuance_request_v2 list"

datatype mint_generation = GenerationV1 | GenerationV2

fun payment_generation :: "payment_terms \<Rightarrow> mint_generation" where
  "payment_generation (MintV1 _ _) = GenerationV1"
| "payment_generation (MintV2 _ _) = GenerationV2"

fun payment_federation_id :: "payment_terms \<Rightarrow> federation_id" where
  "payment_federation_id (MintV1 federation_id _) = federation_id"
| "payment_federation_id (MintV2 federation_id _) = federation_id"

text \<open>\<open>try_fold(0, checked_add)\<close>.\<close>

fun try_sum :: "u64 \<Rightarrow> u64 list \<Rightarrow> u64 option" where
  "try_sum acc [] = Some acc"
| "try_sum acc (a # as) =
     (case checked_add acc a of None \<Rightarrow> None | Some acc' \<Rightarrow> try_sum acc' as)"

fun total_msats :: "payment_terms \<Rightarrow> u64 option" where
  "total_msats (MintV1 _ issuance) = try_sum 0 (map li_amount_msats issuance)"
| "total_msats (MintV2 _ issuance) = try_sum 0 (map l2_amount_msats issuance)"

record get_quote_request =
  gq_fa_id :: fa_id
  gq_fedimintd_version :: string
  gq_federation_size :: federation_size
  gq_plan :: plan
  gq_payment_federation_id :: "federation_id option"
  gq_refund_issuance :: "refund_issuance option"

record quote_terms =
  qt_quote_nonce :: bytes
  qt_offer_epoch :: offer_epoch
  qt_request :: get_quote_request
  qt_price_msats :: u64
  qt_payment :: "payment_terms option"

datatype quote_terms_error = PaymentMismatch | PriceIssuanceMismatch | RefundMismatch

fun refund_matches :: "payment_terms option \<Rightarrow> refund_issuance option \<Rightarrow> bool" where
  "refund_matches None None = True"
| "refund_matches (Some (MintV1 _ _)) (Some (RefundMintV1 _ _)) = True"
| "refund_matches (Some (MintV2 _ _)) (Some (RefundMintV2 _ _)) = True"
| "refund_matches _ _ = False"

definition check_coherent :: "quote_terms \<Rightarrow> quote_terms_error + unit" where
  "check_coherent t =
     (let consistent = (case qt_payment t of
            None \<Rightarrow> qt_price_msats t = 0 \<and> gq_payment_federation_id (qt_request t) = None
          | Some terms \<Rightarrow> qt_price_msats t > 0 \<and>
              gq_payment_federation_id (qt_request t) = Some (payment_federation_id terms))
      in if \<not> consistent then Inl PaymentMismatch
         else if (case qt_payment t of
              None \<Rightarrow> False
            | Some terms \<Rightarrow> total_msats terms \<noteq> Some (qt_price_msats t))
         then Inl PriceIssuanceMismatch
         else if \<not> refund_matches (qt_payment t) (gq_refund_issuance (qt_request t))
         then Inl RefundMismatch
         else Inr ())"

definition compose ::
    "get_quote_request \<Rightarrow> offer_epoch \<Rightarrow> u64 \<Rightarrow> bytes \<Rightarrow> payment_terms option \<Rightarrow>
     quote_terms_error + quote_terms" where
  "compose request offer_epoch price_msats quote_nonce payment =
     (let terms = \<lparr>qt_quote_nonce = quote_nonce, qt_offer_epoch = offer_epoch,
            qt_request = request, qt_price_msats = price_msats, qt_payment = payment\<rparr>
      in and_then (check_coherent terms) (\<lambda>_. Inr terms))"

section \<open>Seat creation messages\<close>

type_synonym locked_blinded_signature = bytes
type_synonym refund_transaction = bytes

datatype refusal_reason = OfferChangedRefusal

datatype 'account create_seat_outcome =
    Accepted seat_id 'account
  | Refused refusal_reason "refund_transaction option"

record 'account create_seat_response =
  cp_quote_id :: quote_id
  cp_outcome :: "'account create_seat_outcome"

section \<open>Lemmas\<close>

lemma try_sum_Some: "try_sum a as = Some t \<longleftrightarrow> unat t = unat a + sum_list (map unat as)"
proof (induction as arbitrary: a)
  case Nil
  show ?case by (auto simp: word_unat_eq_iff)
next
  case (Cons x as)
  show ?case
  proof (cases "checked_add a x")
    case None
    then have "2 ^ 64 \<le> unat a + unat x" by (simp add: checked_add_None)
    with unat_bounds(4) [of t] show ?thesis using None by simp
  next
    case (Some b)
    then have "unat b = unat a + unat x" by (simp add: checked_add_Some)
    with Some Cons.IH [of b] show ?thesis by (simp add: add.assoc)
  qed
qed

definition issuance_amounts :: "payment_terms \<Rightarrow> u64 list" where
  "issuance_amounts p =
     (case p of MintV1 _ i \<Rightarrow> map li_amount_msats i | MintV2 _ i \<Rightarrow> map l2_amount_msats i)"

definition refund_generation :: "refund_issuance \<Rightarrow> mint_generation" where
  "refund_generation r = (case r of RefundMintV1 _ _ \<Rightarrow> GenerationV1 | RefundMintV2 _ _ \<Rightarrow> GenerationV2)"

lemma total_msats_Some:
  "total_msats p = Some t \<longleftrightarrow> unat t = sum_list (map unat (issuance_amounts p))"
  by (cases p) (simp_all add: issuance_amounts_def try_sum_Some)

lemma refund_matches_iff:
  "refund_matches p r \<longleftrightarrow>
     (case p of None \<Rightarrow> r = None
      | Some p \<Rightarrow> (\<exists>r'. r = Some r' \<and> refund_generation r' = payment_generation p))"
  by (cases p; cases r; cases "the p"; cases "the r") (auto simp: refund_generation_def)

section \<open>Properties\<close>

text \<open>
  The coherence rule decides exactly what it documents: a quote is
  either free (no price, no payment federation, no refund outputs) or paid, and then its
  price is positive and equals the true sum of the issuance amounts (no wrap-around), its
  payment federation is the requested one, and its refund outputs are of the same mint
  generation.
\<close>

lemma check_coherent_iff:
  "check_coherent t = Inr () \<longleftrightarrow>
     (case qt_payment t of
        None \<Rightarrow> qt_price_msats t = 0 \<and> gq_payment_federation_id (qt_request t) = None \<and>
          gq_refund_issuance (qt_request t) = None
      | Some p \<Rightarrow> qt_price_msats t \<noteq> 0 \<and>
          gq_payment_federation_id (qt_request t) = Some (payment_federation_id p) \<and>
          sum_list (map unat (issuance_amounts p)) = unat (qt_price_msats t) \<and>
          (\<exists>r. gq_refund_issuance (qt_request t) = Some r \<and>
            refund_generation r = payment_generation p))"
  unfolding check_coherent_def refund_matches_iff
  by (auto simp: Let_def total_msats_Some word_gt_0 split: option.splits if_splits)

text \<open>
  C38. A seat id's text form is canonical: parsing accepts a text
  exactly when it is the 64-character text of the seat it returns, so two texts never name
  the same seat, and the text of every 32-byte seat id parses back to it. The hypotheses are
  the documented behaviour of the hexadecimal codec: decoding inverts encoding and a byte
  takes two characters.
\<close>

theorem seat_id_text_roundtrip:
  assumes "\<forall>b. hex_decode (hex_encode b) = Some b" and "\<forall>b. length (hex_encode b) = 2 * length b"
  shows "seat_id_new hex_encode hex_decode str = Inr s \<longleftrightarrow>
    str = seat_id_to_string hex_encode s \<and> length (seat_id_bytes s) = 32"
proof (cases s)
  case (SeatId b)
  show ?thesis
  proof
    assume "seat_id_new hex_encode hex_decode str = Inr s"
    then show "str = seat_id_to_string hex_encode s \<and> length (seat_id_bytes s) = 32"
      by (auto simp: seat_id_new_def seat_id_from_quote_def seat_id_to_string_def
          split: option.splits if_splits)
  next
    assume "str = seat_id_to_string hex_encode s \<and> length (seat_id_bytes s) = 32"
    with assms SeatId show "seat_id_new hex_encode hex_decode str = Inr s"
      by (simp add: seat_id_new_def seat_id_from_quote_def seat_id_to_string_def SEAT_ID_LEN_def)
  qed
qed

definition demo_hex :: "bytes \<Rightarrow> string" where
  "demo_hex b = concat (map (\<lambda>x. [char_of (unat x), CHR ''.'']) b)"

fun demo_unhex :: "string \<Rightarrow> bytes option" where
  "demo_unhex [] = Some []"
| "demo_unhex [_] = None"
| "demo_unhex (x # _ # xs) = map_option (\<lambda>b. of_char x # b) (demo_unhex xs)"

lemma demo_unhex_hex: "demo_unhex (demo_hex b) = Some b"
proof (induction b)
  case (Cons x b)
  have "(of_char (char_of (unat x) :: char) :: nat) = unat x"
    using unat_bounds(1) [of x] by simp
  then have "(of_char (char_of (unat x)) :: u8) = x" by (metis of_nat_of_char of_nat_unat ucast_id)
  with Cons show ?case by (simp add: demo_hex_def)
qed (simp add: demo_hex_def)

lemma length_demo_hex: "length (demo_hex b) = 2 * length b"
  by (induction b) (simp_all add: demo_hex_def)

theorem seat_id_text_roundtrip_witness:
  "seat_id_new demo_hex demo_unhex (demo_hex (replicate 32 7)) = Inr (SeatId (replicate 32 7)) \<longleftrightarrow>
   demo_hex (replicate 32 7) = seat_id_to_string demo_hex (SeatId (replicate 32 7)) \<and>
   length (seat_id_bytes (SeatId (replicate 32 7))) = 32"
  by (rule seat_id_text_roundtrip) (simp_all add: demo_unhex_hex length_demo_hex)

end
