(* ===== verification/Seat_Store.thy ===== *)
theory Seat_Store
  imports Quote_Terms
begin

text \<open>
  The durable seat store (\<open>crates/mg/core/src/db/seats.rs\<close>): admission of a seat, payments
  and their claim outcomes, decommissioning, DKG inputs, the formed latch, backup
  publications, and the lifecycle of the completion callback of each seat.

  Columns that hold serialized values go through the record \<open>codec\<close>: the encoders and
  decoders of \<open>serde_json\<close>, \<open>ciborium\<close> and the public-key text form, which are parameters.
  \<open>codec_ok\<close> is their documented round trip.
\<close>

section \<open>Values and their encodings\<close>

datatype dkg_completion_callback = DkgCompletionCallback string string

datatype ecash_claim_evidence =
    EvidenceMintV1 string u16 bytes "locked_issuance_request list" "locked_blinded_signature list"
  | EvidenceMintV2 string u16 "locked_issuance_request_v2 list" "locked_blinded_signature list"

record codec =
  fa_to_string :: "fa_id \<Rightarrow> string"
  fa_parse :: "string \<Rightarrow> fa_id option"
  plan_to_json :: "plan \<Rightarrow> string"
  plan_from_json :: "string \<Rightarrow> plan option"
  evidence_to_cbor :: "ecash_claim_evidence \<Rightarrow> bytes"
  evidence_from_cbor :: "bytes \<Rightarrow> ecash_claim_evidence option"
  callback_to_json :: "dkg_completion_callback \<Rightarrow> string"
  callback_from_json :: "string \<Rightarrow> dkg_completion_callback option"
  codes_to_json :: "string list \<Rightarrow> string"
  codes_from_json :: "string \<Rightarrow> string list option"

definition codec_ok :: "'z codec_scheme \<Rightarrow> bool" where
  "codec_ok c \<longleftrightarrow>
     (\<forall>x. fa_parse c (fa_to_string c x) = Some x) \<and>
     (\<forall>x. plan_from_json c (plan_to_json c x) = Some x) \<and>
     (\<forall>x. evidence_from_cbor c (evidence_to_cbor c x) = Some x) \<and>
     (\<forall>x. callback_from_json c (callback_to_json c x) = Some x) \<and>
     (\<forall>x. codes_from_json c (codes_to_json c x) = Some x)"

datatype completion_callback_outcome = DeliveredOutcome | TerminalOutcome completion_callback_reason

datatype claim_outcome = ClaimSuccess | ClaimAlreadySpent

record seat_record =
  rec_facts :: seat_facts
  rec_decommissioned_at_ms :: "int option"

record new_seat =
  ns_seat_id :: seat_id
  ns_fa_id :: fa_id
  ns_plan :: plan
  ns_federation_size :: federation_size
  ns_payment :: "ecash_claim_evidence option"

record payment_record =
  pay_seat_id :: seat_id
  pay_evidence :: ecash_claim_evidence
  pay_outcome :: "claim_outcome option"
  pay_outcome_at_ms :: "int option"

datatype seat_admission_result = Inserted seat_facts | Existing seat_facts | OfferChanged

record completion_callback_record =
  ccr_seat_id :: seat_id
  ccr_callback :: "dkg_completion_callback option"
  ccr_status :: completion_callback_status

section \<open>Row decoding\<close>

definition corrupt_seat :: "bytes \<Rightarrow> row_detail \<Rightarrow> db_error" where
  "corrupt_seat quote_id detail = CorruptRow ''seats'' (KeyHex quote_id) detail"

definition seat_record_try_from ::
    "'z codec_scheme \<Rightarrow> bytes \<Rightarrow> seat_row \<Rightarrow> int option \<Rightarrow> db_error + seat_record" where
  "seat_record_try_from c quote_id row decommissioned =
     (let corrupt = corrupt_seat quote_id in
      if length quote_id \<noteq> 32 then Inl (corrupt (Detail ''quote_id is not 32 bytes''))
      else
      and_then (ok_or (try_from_int (sr_seat_no row)) (corrupt (DetailInt ''seat_no'' (sr_seat_no row)))) (\<lambda>seat_no.
      and_then (ok_or (fa_parse c (sr_fi_id row)) (corrupt (Detail ''fi_id''))) (\<lambda>fa_id.
      and_then (ok_or (plan_from_json c (sr_plan row)) (corrupt (Detail ''plan''))) (\<lambda>plan.
      and_then (ok_or (try_from_int (sr_federation_size row))
          (corrupt (DetailInt ''federation_size'' (sr_federation_size row)))) (\<lambda>federation_size.
      Inr \<lparr>rec_facts =
            \<lparr>sf_seat_id = seat_id_from_quote (QuoteId quote_id), sf_seat_no = SeatNo seat_no,
             sf_fa_id = fa_id, sf_plan = plan,
             sf_federation_size = FederationSize federation_size,
             sf_created_at_ms = sr_created_at_ms row\<rparr>,
           rec_decommissioned_at_ms = decommissioned\<rparr>)))))"

definition parse_claim_outcome :: "bytes \<Rightarrow> string \<Rightarrow> db_error + claim_outcome" where
  "parse_claim_outcome quote_id value =
     (if value = ''success'' then Inr ClaimSuccess
      else if value = ''already_spent'' then Inr ClaimAlreadySpent
      else Inl (CorruptRow ''ecash_claims'' (KeyHex quote_id) (DetailText ''unknown claim_outcome'' value)))"

definition payment_record_try_from ::
    "'z codec_scheme \<Rightarrow> bytes \<Rightarrow> claim_row \<Rightarrow> db_error + payment_record" where
  "payment_record_try_from c quote_id row =
     (let corrupt = CorruptRow ''ecash_claims'' (KeyHex quote_id) in
      if length quote_id \<noteq> 32 then Inl (corrupt (Detail ''quote_id is not 32 bytes''))
      else
      and_then (transpose_result (map_option (parse_claim_outcome quote_id) (cr_claim_outcome row))) (\<lambda>outcome.
      and_then (ok_or (evidence_from_cbor c (cr_evidence row)) (corrupt (Detail ''evidence CBOR''))) (\<lambda>evidence.
      Inr \<lparr>pay_seat_id = seat_id_from_quote (QuoteId quote_id), pay_evidence = evidence,
           pay_outcome = outcome, pay_outcome_at_ms = cr_claim_outcome_at_ms row\<rparr>)))"

definition parse_completion_callback_status ::
    "bytes \<Rightarrow> callback_row \<Rightarrow> db_error + completion_callback_status" where
  "parse_completion_callback_status key row =
     (let corrupt = (\<lambda>d. CorruptRow ''completion_callbacks'' (KeyHex key) d);
          next_at = cb_next_attempt_at_ms row;
          completed = cb_completed_at_ms row
      in
      and_then (ok_or (try_from_int (cb_attempts row))
          (corrupt (DetailInt ''completion_callback_attempts'' (cb_attempts row)))) (\<lambda>attempts.
      and_then (transpose_result (map_option (\<lambda>r. ok_or (reason_from_str r)
          (corrupt (DetailText ''unknown completion callback reason'' r))) (cb_reason row))) (\<lambda>reason.
      and_then
        (if cb_status row = ''not_configured'' \<and> attempts = 0 then Inr NotConfigured
         else if cb_status row = ''pending'' then
           and_then (ok_or next_at (corrupt (Detail ''pending callback has no next-attempt timestamp''))) (\<lambda>at.
           Inr (Pending attempts at reason))
         else if cb_status row = ''operator_blocked'' then
           and_then (ok_or reason (corrupt (Detail ''operator-blocked callback has no reason''))) (\<lambda>r.
           Inr (OperatorBlocked attempts r))
         else if cb_status row = ''delivered'' then
           and_then (ok_or completed (corrupt (Detail ''delivered callback has no completion timestamp''))) (\<lambda>at.
           Inr (Delivered attempts at))
         else if cb_status row = ''terminal'' then
           and_then (ok_or completed (corrupt (Detail ''terminal callback has no completion timestamp''))) (\<lambda>at.
           and_then (ok_or reason (corrupt (Detail ''terminal callback has no reason''))) (\<lambda>r.
           Inr (Terminal attempts at r)))
         else Inl (corrupt (DetailText ''invalid completion callback state'' (cb_status row))))
       (\<lambda>status.
        case status of
          NotConfigured \<Rightarrow>
            if next_at \<noteq> None \<or> reason \<noteq> None \<or> completed \<noteq> None
            then Inl (corrupt (Detail ''not-configured callback retained lifecycle fields'')) else Inr status
        | Pending _ _ _ \<Rightarrow>
            if completed \<noteq> None
            then Inl (corrupt (Detail ''pending callback retained completion fields'')) else Inr status
        | OperatorBlocked _ _ \<Rightarrow>
            if next_at \<noteq> None \<or> completed \<noteq> None
            then Inl (corrupt (Detail ''operator-blocked callback retained retry or completion fields''))
            else Inr status
        | Delivered _ _ \<Rightarrow>
            if reason \<noteq> None \<or> next_at \<noteq> None
            then Inl (corrupt (Detail ''delivered callback has contradictory reason or retry timestamp''))
            else Inr status
        | Terminal _ _ _ \<Rightarrow>
            if next_at \<noteq> None
            then Inl (corrupt (Detail ''terminal callback retained retry timestamp'')) else Inr status))))"

definition completion_callback_try_from ::
    "'z codec_scheme \<Rightarrow> bytes \<Rightarrow> callback_row \<Rightarrow> db_error + completion_callback_record" where
  "completion_callback_try_from c quote_id row =
     (let corrupt = (\<lambda>d. CorruptRow ''completion_callbacks'' (KeyHex quote_id) d) in
      if length quote_id \<noteq> 32 then Inl (corrupt (Detail ''quote_id is not 32 bytes''))
      else
      and_then (transpose_result (map_option (\<lambda>json. ok_or (callback_from_json c json)
          (corrupt (Detail ''completion_callback''))) (cb_completion_callback row))) (\<lambda>callback.
      and_then (parse_completion_callback_status quote_id row) (\<lambda>status.
      if status = NotConfigured \<and> callback \<noteq> None
      then Inl (corrupt (Detail ''not-configured callback retained bearer''))
      else if (case status of Pending _ _ _ \<Rightarrow> True | OperatorBlocked _ _ \<Rightarrow> True | _ \<Rightarrow> False) \<and> callback = None
      then Inl (corrupt (Detail ''resumable callback state is missing bearer''))
      else if (case status of Delivered _ _ \<Rightarrow> True | Terminal _ _ _ \<Rightarrow> True | _ \<Rightarrow> False) \<and> callback \<noteq> None
      then Inl (corrupt (Detail ''completed callback state retained bearer''))
      else Inr \<lparr>ccr_seat_id = seat_id_from_quote (QuoteId quote_id), ccr_callback = callback,
                ccr_status = status\<rparr>)))"

section \<open>Reads\<close>

definition select_seat :: "'z codec_scheme \<Rightarrow> bytes \<Rightarrow> db \<Rightarrow> db_error + seat_facts option" where
  "select_seat c quote_id s =
     and_then (transpose_result (map_option
       (\<lambda>row. seat_record_try_from c quote_id row (map_of (decommissioned_seats s) quote_id))
       (map_of (seats s) quote_id))) (\<lambda>record. Inr (map_option rec_facts record))"

definition payment :: "'z codec_scheme \<Rightarrow> seat_id \<Rightarrow> db \<Rightarrow> db_error + payment_record option" where
  "payment c seat_id s =
     transpose_result (map_option (payment_record_try_from c (seat_id_bytes seat_id))
       (map_of (ecash_claims s) (seat_id_bytes seat_id)))"

definition decommissioned_at_ms :: "seat_id \<Rightarrow> db \<Rightarrow> int option" where
  "decommissioned_at_ms seat_id s = map_of (decommissioned_seats s) (seat_id_bytes seat_id)"

definition formed_federation_invite :: "seat_id \<Rightarrow> db \<Rightarrow> string option" where
  "formed_federation_invite seat_id s =
     map_option fr_federation_invite (map_of (formed_seats s) (seat_id_bytes seat_id))"

text \<open>\<open>ORDER BY created_at_ms, quote_id\<close>: a stable sort by the second key, then by the first.\<close>

definition list_seats :: "'z codec_scheme \<Rightarrow> db \<Rightarrow> db_error + seat_record list" where
  "list_seats c s =
     collect_results (map (\<lambda>(k, row). seat_record_try_from c k row (map_of (decommissioned_seats s) k))
       (sort_key (\<lambda>(_, row). sr_created_at_ms row) (sort_key fst (seats s))))"

definition payments :: "'z codec_scheme \<Rightarrow> db \<Rightarrow> db_error + payment_record list" where
  "payments c s =
     collect_results (map (\<lambda>(k, row). payment_record_try_from c k row)
       (sort_key (\<lambda>(k, _). sr_created_at_ms (the (map_of (seats s) k)))
         (sort_key fst (filter (\<lambda>(k, _). tbl_exists (seats s) k) (ecash_claims s)))))"

definition pending_ecash_claims :: "'z codec_scheme \<Rightarrow> db \<Rightarrow> db_error + payment_record list" where
  "pending_ecash_claims c s =
     collect_results (map (\<lambda>(k, row). payment_record_try_from c k row)
       (sort_key fst (filter (\<lambda>(_, row). cr_claim_outcome row = None) (ecash_claims s))))"

definition stored_dkg_inputs :: "'z codec_scheme \<Rightarrow> seat_id \<Rightarrow> db \<Rightarrow> db_error + guardian_code list option" where
  "stored_dkg_inputs c seat_id s =
     (let k = seat_id_bytes seat_id;
          stored = (if tbl_exists (formed_seats s) k \<or> tbl_exists (decommissioned_seats s) k
            then None else map_of (dkg_inputs s) k)
      in transpose_result (map_option (\<lambda>json.
           and_then (ok_or (codes_from_json c json) (CorruptRow ''dkg_inputs'' (KeyHex k) (Detail ''json''))) (\<lambda>codes.
           Inr (map GuardianCode codes))) stored))"

definition completion_callback_status_of ::
    "seat_id \<Rightarrow> db \<Rightarrow> db_error + completion_callback_status option" where
  "completion_callback_status_of seat_id s =
     transpose_result (map_option (parse_completion_callback_status (seat_id_bytes seat_id))
       (map_of (completion_callbacks s) (seat_id_bytes seat_id)))"

text \<open>\<open>completion_callbacks\<close> with the condition of its suffix.\<close>

definition query_completion_callbacks ::
    "'z codec_scheme \<Rightarrow> (bytes \<Rightarrow> callback_row \<Rightarrow> bool) \<Rightarrow> db \<Rightarrow> db_error + completion_callback_record list" where
  "query_completion_callbacks c suffix s =
     collect_results (map (\<lambda>(k, row). completion_callback_try_from c k row)
       (filter (\<lambda>(k, row). suffix k row) (completion_callbacks s)))"

definition deliverable :: "db \<Rightarrow> bytes \<Rightarrow> callback_row \<Rightarrow> bool" where
  "deliverable s k row \<longleftrightarrow>
     tbl_exists (formed_seats s) k \<and> \<not> tbl_exists (decommissioned_seats s) k \<and>
     cb_completion_callback row \<noteq> None \<and>
     \<not> (case map_of (seat_transfer_in s) k of None \<Rightarrow> False | Some t \<Rightarrow> ti_state t \<noteq> ''imported'') \<and>
     \<not> tbl_exists (seat_transfer_out s) k \<and>
     cb_status row \<in> {''pending'', ''operator_blocked''}"

definition deliverable_completion_callbacks ::
    "'z codec_scheme \<Rightarrow> db \<Rightarrow> db_error + completion_callback_record list" where
  "deliverable_completion_callbacks c s = query_completion_callbacks c (deliverable s) s"

definition validate_completion_callbacks :: "'z codec_scheme \<Rightarrow> db \<Rightarrow> db_error + unit" where
  "validate_completion_callbacks c s =
     and_then (query_completion_callbacks c (\<lambda>_ _. True) s) (\<lambda>_. Inr ())"

section \<open>Statements\<close>

text \<open>The constraints of \<open>seats\<close> and the foreign keys that refer to it.\<close>

definition insert_seat :: "bytes \<Rightarrow> seat_row \<Rightarrow> db \<Rightarrow> db_error + db" where
  "insert_seat k row s =
     (if length k \<noteq> 32 \<or> sr_seat_no row < 0 \<or> sr_federation_size row \<le> 0
      then Inl (Sqlx (CheckFailed ''seats''))
      else if sr_seat_no row \<in> set (map (\<lambda>r. sr_seat_no (snd r)) (seats s))
      then Inl (Sqlx (UniqueFailed ''seats.seat_no''))
      else and_then (ok_or (insert_row k row (seats s)) (Sqlx (UniqueFailed ''seats.quote_id''))) (\<lambda>t.
        Inr (s\<lparr>seats := t\<rparr>)))"

definition seat_insert :: "string \<Rightarrow> bytes \<Rightarrow> 'v \<Rightarrow> db \<Rightarrow> (bytes, 'v) tbl \<Rightarrow> db_error + (bytes, 'v) tbl" where
  "seat_insert table k v s t =
     (if \<not> tbl_exists (seats s) k then Inl (Sqlx (ForeignKeyFailed table))
      else ok_or (insert_row k v t) (Sqlx (UniqueFailed table)))"

definition insert_claim :: "'z codec_scheme \<Rightarrow> bytes \<Rightarrow> ecash_claim_evidence \<Rightarrow> db \<Rightarrow> db_error + db" where
  "insert_claim c k evidence s =
     and_then (seat_insert ''ecash_claims'' k
       \<lparr>cr_evidence = evidence_to_cbor c evidence, cr_claim_outcome = None,
        cr_claim_outcome_at_ms = None\<rparr> s (ecash_claims s)) (\<lambda>t.
     Inr (s\<lparr>ecash_claims := t\<rparr>))"

definition tx_install_completion_callback ::
    "'z codec_scheme \<Rightarrow> bytes \<Rightarrow> dkg_completion_callback option \<Rightarrow> int \<Rightarrow> db \<Rightarrow> db_error + db" where
  "tx_install_completion_callback c k callback now s =
     (if tbl_exists (completion_callbacks s) k then Inr s
      else and_then (seat_insert ''completion_callbacks'' k
        \<lparr>cb_completion_callback = map_option (callback_to_json c) callback,
         cb_status = (if callback \<noteq> None then ''pending'' else ''not_configured''),
         cb_attempts = 0,
         cb_next_attempt_at_ms = map_option (\<lambda>_. now) callback,
         cb_reason = None, cb_completed_at_ms = None\<rparr> s (completion_callbacks s)) (\<lambda>t.
        Inr (s\<lparr>completion_callbacks := t\<rparr>)))"

section \<open>Admission\<close>

definition admission_snapshot ::
    "'z codec_scheme \<Rightarrow> seat_id \<Rightarrow> db \<Rightarrow> db_error + seat_facts option \<times> offer_epoch" where
  "admission_snapshot c seat_id s =
     and_then (select_seat c (seat_id_bytes seat_id) s) (\<lambda>existing.
     and_then (parse_offer_epoch (os_offer_epoch (offer_state s))) (\<lambda>epoch.
     Inr (existing, epoch)))"

text \<open>A value computed after the commit may still fail; the commit stands.\<close>

definition after_commit :: "(db_error + 'a + 'b) \<times> db \<Rightarrow> ('a \<Rightarrow> db_error) \<Rightarrow> (db_error + 'b) \<times> db" where
  "after_commit r err =
     (case r of (Inl e, s) \<Rightarrow> (Inl e, s) | (Inr (Inl a), s) \<Rightarrow> (Inl (err a), s) | (Inr (Inr x), s) \<Rightarrow> (Inr x, s))"

definition current_slots :: "port_base \<Rightarrow> db \<Rightarrow> db_error + u32" where
  "current_slots first_port_base s =
     (let row = offer_state s in
      and_then (transpose_result (map_option stored_max_seats (os_max_seats row))) (\<lambda>max_seats.
      and_then (stored_max_seats (os_memory_max_seats row)) (\<lambda>memory.
      and_then (stored_max_seats (os_policy_max_seats row)) (\<lambda>policy.
      Inr (available_slots (effective_max_seats max_seats memory policy)
        first_port_base (active_count s) (next_seat_no s))))))"

definition insert_admitted ::
    "'z codec_scheme \<Rightarrow> new_seat \<Rightarrow> u32 \<Rightarrow> int \<Rightarrow> bytes \<Rightarrow> db \<Rightarrow> db_error + db" where
  "insert_admitted c new slots now fresh s =
     (let k = seat_id_bytes (ns_seat_id new) in
      and_then (insert_seat k
        \<lparr>sr_seat_no = next_seat_no s, sr_fi_id = fa_to_string c (ns_fa_id new),
         sr_plan = plan_to_json c (ns_plan new),
         sr_federation_size = uint (federation_size_get (ns_federation_size new)),
         sr_created_at_ms = now\<rparr> s) (\<lambda>s1.
      and_then (case ns_payment new of
          None \<Rightarrow> Inr s1
        | Some evidence \<Rightarrow> insert_claim c k evidence s1) (\<lambda>s2.
      if slots = 1 then write_offer ((offer_state s2)\<lparr>os_offer_epoch := fresh\<rparr>) s2 else Inr s2)))"

definition admit_seat_at_writer_boundary ::
    "'z codec_scheme \<Rightarrow> new_seat \<Rightarrow> offer_epoch \<Rightarrow> port_base \<Rightarrow> int \<Rightarrow> bytes \<Rightarrow> db \<Rightarrow>
     (db_error + seat_admission_result) \<times> db" where
  "admit_seat_at_writer_boundary c new offer_epoch first_port_base now fresh s =
     after_commit (in_tx s
      (and_then (select_seat c (seat_id_bytes (ns_seat_id new)) s) (\<lambda>existing.
       case existing of
         Some facts \<Rightarrow> Inr (Inr (Existing facts), s)
       | None \<Rightarrow>
         and_then (parse_offer_epoch (os_offer_epoch (offer_state s))) (\<lambda>epoch.
         if epoch \<noteq> offer_epoch then Inr (Inr OfferChanged, s)
         else
         and_then (current_slots first_port_base s) (\<lambda>slots.
         if slots = 0 then Inl (Panicked ''current-epoch live quote must have capacity'')
         else
         and_then (insert_admitted c new slots now fresh s) (\<lambda>s'.
         Inr (case try_from_int (next_seat_no s) of
                None \<Rightarrow> Inl ''seat_no fits u32''
              | Some n \<Rightarrow> Inr (Inserted
                  \<lparr>sf_seat_id = ns_seat_id new, sf_seat_no = SeatNo n, sf_fa_id = ns_fa_id new,
                   sf_plan = ns_plan new, sf_federation_size = ns_federation_size new,
                   sf_created_at_ms = now\<rparr>), s')))))))
     Panicked"

definition admit_seat ::
    "'z codec_scheme \<Rightarrow> new_seat \<Rightarrow> offer_epoch \<Rightarrow> port_base \<Rightarrow> int \<Rightarrow> bytes \<Rightarrow> db \<Rightarrow>
     (db_error + seat_admission_result) \<times> db" where
  "admit_seat c new offer_epoch first_port_base now fresh s =
     (case admission_snapshot c (ns_seat_id new) s of
        Inl e \<Rightarrow> (Inl e, s)
      | Inr (Some facts, _) \<Rightarrow> (Inr (Existing facts), s)
      | Inr (None, epoch) \<Rightarrow>
          if epoch \<noteq> offer_epoch then (Inr OfferChanged, s)
          else admit_seat_at_writer_boundary c new offer_epoch first_port_base now fresh s)"

section \<open>Claims, decommissioning, DKG inputs, formation, publications\<close>

fun claim_outcome_str :: "claim_outcome \<Rightarrow> string" where
  "claim_outcome_str ClaimSuccess = ''success''"
| "claim_outcome_str ClaimAlreadySpent = ''already_spent''"

definition record_claim_outcome :: "seat_id \<Rightarrow> claim_outcome \<Rightarrow> int \<Rightarrow> db \<Rightarrow> (db_error + int) \<times> db" where
  "record_claim_outcome seat_id outcome at_ms s =
     (let k = seat_id_bytes seat_id;
          p = (\<lambda>k' row. k' = k \<and> cr_claim_outcome row = None);
          rows = matching p (ecash_claims s);
          s' = s\<lparr>ecash_claims := update_where p
            (\<lambda>row. row\<lparr>cr_claim_outcome := Some (claim_outcome_str outcome),
                       cr_claim_outcome_at_ms := Some at_ms\<rparr>) (ecash_claims s)\<rparr>
      in if rows \<noteq> 1
         then (Inl (CorruptRow ''ecash_claims'' (KeyHex k)
                (DetailInt ''claim-outcome update affected rows'' (int rows))), s')
         else (Inr at_ms, s'))"

definition decommission_seat :: "seat_id \<Rightarrow> int \<Rightarrow> db \<Rightarrow> (db_error + int) \<times> db" where
  "decommission_seat seat_id at_ms s =
     (let k = seat_id_bytes seat_id in
      in_tx s
       (and_then (seat_insert ''decommissioned_seats'' k at_ms s (decommissioned_seats s)) (\<lambda>t.
        Inr (at_ms, s\<lparr>decommissioned_seats := t,
          completion_callbacks := update_where
            (\<lambda>k' row. k' = k \<and> cb_status row \<in> {''pending'', ''operator_blocked''})
            (\<lambda>row. row\<lparr>cb_completion_callback := None, cb_status := ''terminal'',
               cb_next_attempt_at_ms := None, cb_reason := Some ''decommissioned'',
               cb_completed_at_ms := Some at_ms\<rparr>) (completion_callbacks s)\<rparr>))))"

definition install_completion_callback ::
    "'z codec_scheme \<Rightarrow> seat_id \<Rightarrow> dkg_completion_callback option \<Rightarrow> int \<Rightarrow> db \<Rightarrow> (db_error + unit) \<times> db" where
  "install_completion_callback c seat_id callback now s =
     in_tx s (and_then (tx_install_completion_callback c (seat_id_bytes seat_id) callback now s) (\<lambda>s'.
       Inr ((), s')))"

text \<open>
  The conditional insert of the code set. The triggers of \<open>dkg_inputs\<close> refuse a seat with a
  transfer record in either direction.
\<close>

definition record_dkg_inputs ::
    "'z codec_scheme \<Rightarrow> seat_id \<Rightarrow> dkg_code_set \<Rightarrow> dkg_completion_callback option \<Rightarrow> int \<Rightarrow> db \<Rightarrow>
     (db_error + unit) \<times> db" where
  "record_dkg_inputs c seat_id codes callback now s =
     (let k = seat_id_bytes seat_id;
          encoded = codes_to_json c (map code_text (code_set_codes codes))
      in in_tx s
       (if tbl_exists (formed_seats s) k \<or> tbl_exists (decommissioned_seats s) k
        then Inl (CorruptRow ''dkg_inputs'' (KeyHex k)
          (Detail ''attempted to record inputs for a formed or decommissioned seat''))
        else if tbl_exists (seat_transfer_in s) k \<or> tbl_exists (seat_transfer_out s) k
        then Inl (Sqlx (Aborted ''transfer seat cannot enter DKG''))
        else if \<not> tbl_exists (seats s) k then Inl (Sqlx (ForeignKeyFailed ''dkg_inputs''))
        else
        and_then (tx_install_completion_callback c k callback now
            (s\<lparr>dkg_inputs := upsert_row k encoded (dkg_inputs s)\<rparr>)) (\<lambda>s'.
        Inr ((), s'))))"

text \<open>Two statements outside a transaction.\<close>

definition record_formed :: "seat_id \<Rightarrow> string \<Rightarrow> int \<Rightarrow> db \<Rightarrow> (db_error + int) \<times> db" where
  "record_formed seat_id invite at_ms s =
     (let k = seat_id_bytes seat_id in
      if \<not> tbl_exists (formed_seats s) k \<and> \<not> tbl_exists (seats s) k
      then (Inl (Sqlx (ForeignKeyFailed ''formed_seats'')), s)
      else
        let s' = s\<lparr>formed_seats := insert_or_ignore k
               \<lparr>fr_federation_invite = invite, fr_formed_at_ms = at_ms\<rparr> (formed_seats s)\<rparr>
        in case map_of (formed_seats s') k of
             None \<Rightarrow> (Inl (Sqlx (RowNotFound ''formed_seats'')), s')
           | Some row \<Rightarrow>
               if fr_federation_invite row \<noteq> invite
               then (Inl (CorruptRow ''formed_seats'' (KeyHex k)
                      (Detail ''formed invite differs from the immutable stored invite'')), s')
               else (Inr (fr_formed_at_ms row), s'))"

section \<open>Callback delivery\<close>

text \<open>
  The result of an update is whether it changed exactly one row. The two existence tests of
  the first statement are its sub-queries on the formed and decommissioned seats.
\<close>

definition update_callbacks ::
    "(bytes \<Rightarrow> callback_row \<Rightarrow> bool) \<Rightarrow> (callback_row \<Rightarrow> callback_row) \<Rightarrow> db \<Rightarrow> bool \<times> db" where
  "update_callbacks p f s =
     (matching p (completion_callbacks s) = 1,
      s\<lparr>completion_callbacks := update_where p f (completion_callbacks s)\<rparr>)"

definition record_completion_callback_attempt_started ::
    "seat_id \<Rightarrow> int \<Rightarrow> db \<Rightarrow> (db_error + bool) \<times> db" where
  "record_completion_callback_attempt_started seat_id next_attempt_at_ms s =
     (let (changed, s') = update_callbacks
        (\<lambda>k row. k = seat_id_bytes seat_id \<and> cb_completion_callback row \<noteq> None \<and>
           cb_status row \<in> {''pending'', ''operator_blocked''} \<and>
           tbl_exists (formed_seats s) k \<and> \<not> tbl_exists (decommissioned_seats s) k)
        (\<lambda>row. row\<lparr>cb_status := ''pending'', cb_attempts := min (cb_attempts row + 1) 4294967295,
           cb_next_attempt_at_ms := Some next_attempt_at_ms, cb_reason := None\<rparr>) s
      in (Inr changed, s'))"

definition record_completion_callback_retry_reason ::
    "seat_id \<Rightarrow> completion_callback_reason \<Rightarrow> db \<Rightarrow> (db_error + bool) \<times> db" where
  "record_completion_callback_retry_reason seat_id reason s =
     (let (changed, s') = update_callbacks
        (\<lambda>k row. k = seat_id_bytes seat_id \<and> cb_status row = ''pending'')
        (\<lambda>row. row\<lparr>cb_reason := Some (reason_as_str reason)\<rparr>) s
      in (Inr changed, s'))"

definition record_completion_callback_operator_blocked ::
    "seat_id \<Rightarrow> completion_callback_reason \<Rightarrow> db \<Rightarrow> (db_error + bool) \<times> db" where
  "record_completion_callback_operator_blocked seat_id reason s =
     (let (changed, s') = update_callbacks
        (\<lambda>k row. k = seat_id_bytes seat_id \<and> cb_completion_callback row \<noteq> None \<and>
           cb_status row \<in> {''pending'', ''operator_blocked''})
        (\<lambda>row. row\<lparr>cb_status := ''operator_blocked'', cb_next_attempt_at_ms := None,
           cb_reason := Some (reason_as_str reason)\<rparr>) s
      in (Inr changed, s'))"

fun outcome_columns :: "completion_callback_outcome \<Rightarrow> string \<times> string option" where
  "outcome_columns DeliveredOutcome = (''delivered'', None)"
| "outcome_columns (TerminalOutcome reason) = (''terminal'', Some (reason_as_str reason))"

definition record_completion_callback_completed ::
    "seat_id \<Rightarrow> completion_callback_outcome \<Rightarrow> int \<Rightarrow> db \<Rightarrow> (db_error + int option) \<times> db" where
  "record_completion_callback_completed seat_id outcome at_ms s =
     (let (status, reason) = outcome_columns outcome;
          (changed, s') = update_callbacks
            (\<lambda>k row. k = seat_id_bytes seat_id \<and> cb_completion_callback row \<noteq> None \<and>
               cb_status row = ''pending'')
            (\<lambda>row. row\<lparr>cb_completion_callback := None, cb_status := status,
               cb_next_attempt_at_ms := None, cb_reason := reason,
               cb_completed_at_ms := Some at_ms\<rparr>) s
      in (Inr (if changed then Some at_ms else None), s'))"

end
