(* ===== verification/Signing.thy ===== *)
theory Signing
  imports Seat_Facts
begin

text \<open>
  Signed envelopes (\<open>crates/service-manifold-guardian/src/signing.rs\<close>): requests an FA signs,
  requests one MG signs for another, and commitment responses an MG signs. SHA-256 and
  BIP-340 are the fields of the record \<open>crypto\<close>, parameters of the model; the trait
  implementation of a payload type (its label, JSON encoding, timestamp, signer and
  freshness rule) is the record \<open>verb\<close>.
\<close>

section \<open>Definitions\<close>

definition as_bytes :: "string \<Rightarrow> bytes" where
  "as_bytes s = map of_char s"

definition FA_REQUEST_SIGNATURE_DOMAIN :: bytes where
  "FA_REQUEST_SIGNATURE_DOMAIN = as_bytes ''fedi-fman-fi-request/v1'' @ [0]"

definition MG_RESPONSE_SIGNATURE_DOMAIN :: bytes where
  "MG_RESPONSE_SIGNATURE_DOMAIN = as_bytes ''fedi-fman-response/v1'' @ [0]"

definition MG_REQUEST_SIGNATURE_DOMAIN :: bytes where
  "MG_REQUEST_SIGNATURE_DOMAIN = as_bytes ''fedi-fman-mg-request/v1'' @ [0]"

definition FA_REQUEST_FRESHNESS_WINDOW_SECS :: u64 where
  "FA_REQUEST_FRESHNESS_WINDOW_SECS = 60 * 60"

record crypto =
  sha256 :: "bytes \<Rightarrow> bytes"
  verify_schnorr :: "bytes \<Rightarrow> bytes \<Rightarrow> bytes \<Rightarrow> bool"
  sign_schnorr :: "bytes \<Rightarrow> bytes \<Rightarrow> bytes"
  x_only_public_key :: "bytes \<Rightarrow> bytes"

datatype auth_error = PayloadError string | BadSignature | SignerMismatch | Stale

text \<open>The bytes that are hashed, and the digests of the three directions.\<close>

definition signing_preimage :: "bytes \<Rightarrow> string \<Rightarrow> bytes \<Rightarrow> bytes" where
  "signing_preimage domain label payload = domain @ as_bytes label @ [0] @ payload"

definition signing_digest :: "crypto \<Rightarrow> bytes \<Rightarrow> string \<Rightarrow> bytes \<Rightarrow> bytes" where
  "signing_digest c domain label payload = sha256 c (signing_preimage domain label payload)"

definition fa_request_signing_digest :: "crypto \<Rightarrow> string \<Rightarrow> bytes \<Rightarrow> bytes" where
  "fa_request_signing_digest c label payload =
     signing_digest c FA_REQUEST_SIGNATURE_DOMAIN label payload"

definition manager_response_signing_digest :: "crypto \<Rightarrow> string \<Rightarrow> bytes \<Rightarrow> bytes" where
  "manager_response_signing_digest c label payload =
     signing_digest c MG_RESPONSE_SIGNATURE_DOMAIN label payload"

definition manager_request_signing_digest :: "crypto \<Rightarrow> string \<Rightarrow> bytes \<Rightarrow> bytes" where
  "manager_request_signing_digest c label payload =
     signing_digest c MG_REQUEST_SIGNATURE_DOMAIN label payload"

definition payload_sha256 :: "crypto \<Rightarrow> bytes \<Rightarrow> bytes" where
  "payload_sha256 c payload = sha256 c payload"

definition abs_diff :: "'a::len word \<Rightarrow> 'a word \<Rightarrow> 'a word" where
  "abs_diff a b = (if a < b then b - a else a - b)"

text \<open>The default of \<open>FaSignedRequest::is_fresh\<close>.\<close>

definition is_fresh_default :: "u64 \<Rightarrow> u64 \<Rightarrow> bool" where
  "is_fresh_default ts now \<longleftrightarrow> abs_diff now ts \<le> FA_REQUEST_FRESHNESS_WINDOW_SECS"

text \<open>\<open>T: FaSignedRequest\<close>, \<open>ManagerSignedRequest\<close>, \<open>ManagerSignedResponse\<close>.\<close>

record 't verb =
  verb_label :: string
  verb_to_json :: "'t \<Rightarrow> bytes"
  verb_from_json :: "bytes \<Rightarrow> 't option"
  verb_signer :: "'t \<Rightarrow> bytes"
  verb_ts :: "'t \<Rightarrow> u64"
  verb_is_fresh :: "'t \<Rightarrow> u64 \<Rightarrow> bool"

text \<open>The labels of the FA-signed verbs and of the MG-signed responses.\<close>

definition FA_REQUEST_LABELS :: "string list" where
  "FA_REQUEST_LABELS =
     [''create_seat'', ''get_dkg_code'', ''start_dkg'', ''restart_dkg'', ''get_status'',
      ''get_invite_code'', ''get_peer_attestation'', ''set_meta_field'',
      ''propose_formation_meta'', ''register_gateway'', ''get_fedimint_stats'',
      ''decommission_seat'', ''seat_transfer_grant'', ''pull_seat'',
      ''replace_seat_binding'', ''remove_seat'']"

definition MANAGER_RESPONSE_LABELS :: "string list" where
  "MANAGER_RESPONSE_LABELS = [''get_quote'', ''create_seat'']"

record signed_request =
  sq_fa_id :: fa_id
  sq_payload :: bytes
  sq_fa_signature :: bytes

definition create_with_signer ::
    "crypto \<Rightarrow> 't verb \<Rightarrow> 't \<Rightarrow> (bytes \<Rightarrow> bytes) \<Rightarrow> signed_request" where
  "create_with_signer c v request signer =
     (let payload = verb_to_json v request
      in \<lparr>sq_fa_id = verb_signer v request, sq_payload = payload,
          sq_fa_signature = signer (fa_request_signing_digest c (verb_label v) payload)\<rparr>)"

definition signed_request_create :: "crypto \<Rightarrow> 't verb \<Rightarrow> 't \<Rightarrow> bytes \<Rightarrow> signed_request" where
  "signed_request_create c v request key =
     create_with_signer c v request (\<lambda>digest. sign_schnorr c digest key)"

definition signed_request_verify ::
    "crypto \<Rightarrow> 't verb \<Rightarrow> signed_request \<Rightarrow> u64 \<Rightarrow> auth_error + 't" where
  "signed_request_verify c v e now =
     (if \<not> verify_schnorr c (sq_fa_signature e)
            (fa_request_signing_digest c (verb_label v) (sq_payload e)) (sq_fa_id e)
      then Inl BadSignature
      else and_then (ok_or (verb_from_json v (sq_payload e)) (PayloadError (verb_label v))) (\<lambda>request.
        if verb_signer v request \<noteq> sq_fa_id e then Inl SignerMismatch
        else if \<not> verb_is_fresh v request now then Inl Stale
        else Inr request))"

record mg_signed_request =
  mq_service_pubkey :: bytes
  mq_payload :: bytes
  mq_manager_signature :: bytes

definition mg_signed_request_create :: "crypto \<Rightarrow> 't verb \<Rightarrow> 't \<Rightarrow> bytes \<Rightarrow> mg_signed_request" where
  "mg_signed_request_create c v request key =
     (let payload = verb_to_json v request
      in \<lparr>mq_service_pubkey = verb_signer v request, mq_payload = payload,
          mq_manager_signature =
            sign_schnorr c (manager_request_signing_digest c (verb_label v) payload) key\<rparr>)"

definition mg_signed_request_verify ::
    "crypto \<Rightarrow> 't verb \<Rightarrow> mg_signed_request \<Rightarrow> u64 \<Rightarrow> auth_error + 't" where
  "mg_signed_request_verify c v e now =
     (if \<not> verify_schnorr c (mq_manager_signature e)
            (manager_request_signing_digest c (verb_label v) (mq_payload e)) (mq_service_pubkey e)
      then Inl BadSignature
      else and_then (ok_or (verb_from_json v (mq_payload e)) (PayloadError (verb_label v))) (\<lambda>request.
        if verb_signer v request \<noteq> mq_service_pubkey e then Inl SignerMismatch
        else if abs_diff now (verb_ts v request) > FA_REQUEST_FRESHNESS_WINDOW_SECS then Inl Stale
        else Inr request))"

record signed_response =
  sp_payload :: bytes
  sp_manager_signature :: bytes

record 't signature_verified =
  sv_inner :: 't
  sv_payload_sha256 :: bytes

definition signed_response_create :: "crypto \<Rightarrow> 't verb \<Rightarrow> 't \<Rightarrow> bytes \<Rightarrow> signed_response" where
  "signed_response_create c v response key =
     (let payload = verb_to_json v response
      in \<lparr>sp_payload = payload,
          sp_manager_signature =
            sign_schnorr c (manager_response_signing_digest c (verb_label v) payload) key\<rparr>)"

definition signed_response_verify ::
    "crypto \<Rightarrow> 't verb \<Rightarrow> signed_response \<Rightarrow> bytes \<Rightarrow> auth_error + 't signature_verified" where
  "signed_response_verify c v e service_pubkey =
     (if \<not> verify_schnorr c (sp_manager_signature e)
            (manager_response_signing_digest c (verb_label v) (sp_payload e)) service_pubkey
      then Inl BadSignature
      else and_then (ok_or (verb_from_json v (sp_payload e)) (PayloadError (verb_label v))) (\<lambda>response.
        Inr \<lparr>sv_inner = response, sv_payload_sha256 = payload_sha256 c (sp_payload e)\<rparr>))"

section \<open>Domain separation\<close>

definition domains :: "bytes set" where
  "domains = {FA_REQUEST_SIGNATURE_DOMAIN, MG_RESPONSE_SIGNATURE_DOMAIN, MG_REQUEST_SIGNATURE_DOMAIN}"

lemma append_zero_inj:
  fixes xs ys :: bytes
  assumes "xs @ 0 # us = ys @ 0 # vs" and "0 \<notin> set xs" and "0 \<notin> set ys"
  shows "xs = ys \<and> us = vs"
  using assms
proof (induction xs arbitrary: ys)
  case Nil
  then show ?case by (cases ys) auto
next
  case (Cons x xs)
  then obtain y ys' where "ys = y # ys'" by (cases ys) auto
  with Cons.prems Cons.IH [of ys'] show ?case by auto
qed

lemma unat_of_char: "unat (of_char x :: u8) = of_char x"
proof -
  have "unat (of_nat (of_char x) :: u8) = of_char x mod 256" by (simp add: unat_of_nat)
  then show ?thesis by (simp add: of_nat_of_char)
qed

lemma inj_as_bytes: "as_bytes a = as_bytes b \<Longrightarrow> a = b"
proof (induction a arbitrary: b)
  case (Cons x a)
  then obtain y b' where b: "b = y # b'" by (cases b) (auto simp: as_bytes_def)
  with Cons.prems have "(of_char x :: u8) = of_char y" "as_bytes a = as_bytes b'"
    by (simp_all add: as_bytes_def)
  then have "(of_char x :: nat) = of_char y" by (metis unat_of_char)
  then have "x = y" by simp
  with Cons.IH \<open>as_bytes a = as_bytes b'\<close> b show ?case by simp
qed (simp add: as_bytes_def)

lemma domain_split: "d \<in> domains \<Longrightarrow> \<exists>b. d = b @ [0] \<and> 0 \<notin> set b"
proof -
  assume "d \<in> domains"
  then consider "d = as_bytes ''fedi-fman-fi-request/v1'' @ [0]"
    | "d = as_bytes ''fedi-fman-response/v1'' @ [0]"
    | "d = as_bytes ''fedi-fman-mg-request/v1'' @ [0]"
    by (auto simp: domains_def FA_REQUEST_SIGNATURE_DOMAIN_def MG_RESPONSE_SIGNATURE_DOMAIN_def
        MG_REQUEST_SIGNATURE_DOMAIN_def)
  then show ?thesis
  proof cases
    case 1
    moreover have "0 \<notin> set (as_bytes ''fedi-fman-fi-request/v1'')" by code_simp
    ultimately show ?thesis by blast
  next
    case 2
    moreover have "0 \<notin> set (as_bytes ''fedi-fman-response/v1'')" by code_simp
    ultimately show ?thesis by blast
  next
    case 3
    moreover have "0 \<notin> set (as_bytes ''fedi-fman-mg-request/v1'')" by code_simp
    ultimately show ?thesis by blast
  qed
qed

lemma signing_preimage_inj:
  assumes "d1 \<in> domains" "d2 \<in> domains"
    and "0 \<notin> set (as_bytes l1)" "0 \<notin> set (as_bytes l2)"
    and "signing_preimage d1 l1 p1 = signing_preimage d2 l2 p2"
  shows "d1 = d2 \<and> l1 = l2 \<and> p1 = p2"
proof -
  from assms obtain b1 b2 where d: "d1 = b1 @ [0]" "d2 = b2 @ [0]" "0 \<notin> set b1" "0 \<notin> set b2"
    by (meson domain_split)
  with assms(5) have "b1 @ 0 # (as_bytes l1 @ 0 # p1) = b2 @ 0 # (as_bytes l2 @ 0 # p2)"
    by (simp add: signing_preimage_def)
  from append_zero_inj [OF this d(3,4)] have b: "b1 = b2" "as_bytes l1 @ 0 # p1 = as_bytes l2 @ 0 # p2"
    by simp_all
  from append_zero_inj [OF b(2) assms(3,4)] have "as_bytes l1 = as_bytes l2" "p1 = p2" by simp_all
  with b d show ?thesis by (auto dest: inj_as_bytes)
qed

lemma unat_abs_diff: "int (unat (abs_diff a b)) = \<bar>int (unat a) - int (unat (b :: 'a::len word))\<bar>"
  by (simp add: abs_diff_def word_less_def uint_sub_if' abs_if)

lemma signed_request_verify_Inr:
  "signed_request_verify c v e now = Inr request \<longleftrightarrow>
     verify_schnorr c (sq_fa_signature e)
       (fa_request_signing_digest c (verb_label v) (sq_payload e)) (sq_fa_id e) \<and>
     verb_from_json v (sq_payload e) = Some request \<and>
     verb_signer v request = sq_fa_id e \<and> verb_is_fresh v request now"
  by (auto simp: signed_request_verify_def and_then_eq_Inr split: if_splits)

lemma label_in_zero_free:
  "l \<in> set FA_REQUEST_LABELS \<union> set MANAGER_RESPONSE_LABELS \<union> {''transfer_seat''} \<Longrightarrow>
   0 \<notin> set (as_bytes l)"
proof -
  have "list_all (\<lambda>l. 0 \<notin> set (as_bytes l))
      (FA_REQUEST_LABELS @ MANAGER_RESPONSE_LABELS @ [''transfer_seat''])"
    by code_simp
  then show "l \<in> set FA_REQUEST_LABELS \<union> set MANAGER_RESPONSE_LABELS \<union> {''transfer_seat''} \<Longrightarrow>
      0 \<notin> set (as_bytes l)"
    by (auto simp: list_all_iff)
qed

section \<open>Properties\<close>



text \<open>
  C37. A request an FA signs under its own key is accepted by the
  daemon, with exactly that request, while it is fresh. The hypotheses are the correctness
  of BIP-340 for this key and of the JSON encoding for this request.
\<close>

theorem signed_request_roundtrip:
  assumes schnorr: "\<forall>m. verify_schnorr c (sign_schnorr c m key) m (x_only_public_key c key)"
    and json: "verb_from_json v (verb_to_json v request) = Some request"
    and signer: "verb_signer v request = x_only_public_key c key"
    and fresh: "verb_is_fresh v request now"
  shows "signed_request_verify c v (signed_request_create c v request key) now = Inr request"
  using assms
  by (simp add: signed_request_verify_Inr signed_request_create_def create_with_signer_def Let_def)

definition demo_crypto :: crypto where
  "demo_crypto =
     \<lparr>sha256 = (\<lambda>b. b), verify_schnorr = (\<lambda>s m k. s = m @ k),
      sign_schnorr = (\<lambda>m k. m @ k), x_only_public_key = (\<lambda>k. k)\<rparr>"

definition demo_verb :: "(u64 \<times> bytes) verb" where
  "demo_verb =
     \<lparr>verb_label = ''get_status'', verb_to_json = (\<lambda>(t, k). ucast t # k),
      verb_from_json = (\<lambda>b. case b of [] \<Rightarrow> None | t # k \<Rightarrow> Some (ucast t, k)),
      verb_signer = snd, verb_ts = fst, verb_is_fresh = (\<lambda>r now. is_fresh_default (fst r) now)\<rparr>"

lemmas demo_defs = demo_crypto_def demo_verb_def

theorem signed_request_roundtrip_witness:
  "signed_request_verify demo_crypto demo_verb
     (signed_request_create demo_crypto demo_verb (7, [9]) [9]) 3600 = Inr (7, [9])"
  by (rule signed_request_roundtrip)
    (simp_all add: demo_defs is_fresh_default_def abs_diff_def FA_REQUEST_FRESHNESS_WINDOW_SECS_def)


definition demo_envelope :: signed_request where
  "demo_envelope = signed_request_create demo_crypto demo_verb (7, [9]) [9]"

definition demo_act :: "bytes \<times> string \<times> bytes" where
  "demo_act = (FA_REQUEST_SIGNATURE_DOMAIN, ''get_status'', [7, 9])"

definition one_message_crypto :: crypto where
  "one_message_crypto =
     demo_crypto\<lparr>verify_schnorr := \<lambda>s m k.
       s = m @ k \<and> m = signing_preimage FA_REQUEST_SIGNATURE_DOMAIN ''get_status'' [7, 9]\<rparr>"


text \<open>
  The default freshness rule is the symmetric window of one hour: a
  request is fresh exactly when its timestamp and the clock differ by at most 3600 seconds,
  with no wrap-around at either end of the \<open>u64\<close> range.
\<close>

lemma freshness_window:
  "is_fresh_default ts now \<longleftrightarrow> \<bar>uint now - uint ts\<bar> \<le> 3600"
proof -
  have "is_fresh_default ts now \<longleftrightarrow> int (unat (abs_diff now ts)) \<le> 3600"
    by (simp add: is_fresh_default_def FA_REQUEST_FRESHNESS_WINDOW_SECS_def word_le_def)
  then show ?thesis unfolding unat_abs_diff by simp
qed

end
