(* ===== verification/Transfer_Store.thy ===== *)
theory Transfer_Store
  imports Seat_Store Signing
begin

text \<open>
  Guardian transfers: the durable facts of \<open>crates/mg/core/src/transfer_state.rs\<close>, the grant of
  \<open>crates/service-manifold-guardian/src/transfer.rs\<close> and the transactions of
  \<open>crates/mg/core/src/db/transfers.rs\<close>, followed by the two operations of \<open>db/seats.rs\<close> that
  span seats and transfers: backup publications and the installation of a restored fleet.

  The record \<open>transfer_codec\<close> extends the codecs of the seat store by the JSON forms of a
  binding and of a grant, the canonical JSON of a callback, and the federation id of an
  invite code (the parser of \<open>fedimint-core\<close>).
\<close>

section \<open>Transfer facts\<close>

record locator =
  loc_endpoint_addr :: string
  loc_service_pubkey :: bytes

record seat_transfer_grant =
  gr_ts :: u64
  gr_fa_id :: fa_id
  gr_federation_id :: federation_id
  gr_source :: locator
  gr_source_seat_id :: seat_id
  gr_destination_service_pubkey :: bytes
  gr_destination_seat_id :: seat_id

definition grant_is_valid_at :: "seat_transfer_grant \<Rightarrow> u64 \<Rightarrow> bool" where
  "grant_is_valid_at g now \<longleftrightarrow> gr_ts g \<le> saturating_add now FA_REQUEST_FRESHNESS_WINDOW_SECS"

record transfer_move =
  tm_fa_id :: fa_id
  tm_federation_id :: federation_id
  tm_source :: locator
  tm_source_seat_id :: seat_id
  tm_destination_service_pubkey :: bytes
  tm_destination_seat_id :: seat_id

definition transfer_move_from :: "seat_transfer_grant \<Rightarrow> transfer_move" where
  "transfer_move_from g =
     \<lparr>tm_fa_id = gr_fa_id g, tm_federation_id = gr_federation_id g, tm_source = gr_source g,
      tm_source_seat_id = gr_source_seat_id g,
      tm_destination_service_pubkey = gr_destination_service_pubkey g,
      tm_destination_seat_id = gr_destination_seat_id g\<rparr>"

record imported_keys =
  ik_iroh_api :: bytes
  ik_iroh_p2p :: bytes

datatype incoming_state = Waiting signed_request | Imported imported_keys

record incoming_transfer =
  in_binding :: transfer_move
  in_callback_commitment :: "bytes option"
  in_state :: incoming_state

datatype outgoing_transfer = Stopped | Removed

fun outgoing_as_db_str :: "outgoing_transfer \<Rightarrow> string" where
  "outgoing_as_db_str Stopped = ''stopped''"
| "outgoing_as_db_str Removed = ''removed''"

definition outgoing_from_db_str :: "string \<Rightarrow> outgoing_transfer option" where
  "outgoing_from_db_str value =
     (if value = ''stopped'' then Some Stopped
      else if value = ''removed'' then Some Removed else None)"

datatype transfer_phase = PhaseWaiting | PhaseImported | PhaseOutgoing outgoing_transfer

fun incoming_phase :: "incoming_state \<Rightarrow> transfer_phase" where
  "incoming_phase (Waiting _) = PhaseWaiting"
| "incoming_phase (Imported _) = PhaseImported"

fun incoming_accepted :: "incoming_state \<Rightarrow> imported_keys option" where
  "incoming_accepted (Imported keys) = Some keys"
| "incoming_accepted (Waiting _) = None"

datatype service_status =
    StatusNew | StatusDkgInProcess | StatusDataLoss | StatusRunning | StatusDecommissioned
  | StatusAwaitingTransfer | StatusTransferred | StatusRemoved

fun phase_service_status :: "transfer_phase \<Rightarrow> service_status option" where
  "phase_service_status PhaseWaiting = Some StatusAwaitingTransfer"
| "phase_service_status PhaseImported = None"
| "phase_service_status (PhaseOutgoing Removed) = Some StatusRemoved"
| "phase_service_status (PhaseOutgoing Stopped) = Some StatusTransferred"

section \<open>Codecs\<close>

record transfer_codec = codec +
  binding_to_json :: "transfer_move \<Rightarrow> string"
  binding_from_json :: "string \<Rightarrow> transfer_move option"
  grant_to_json :: "signed_request \<Rightarrow> string"
  grant_from_json :: "string \<Rightarrow> signed_request option"
  callback_canonical :: "dkg_completion_callback \<Rightarrow> bytes"
  invite_federation_id :: "string \<Rightarrow> federation_id option"

definition transfer_codec_ok :: "transfer_codec \<Rightarrow> bool" where
  "transfer_codec_ok c \<longleftrightarrow> codec_ok c \<and>
     (\<forall>x. binding_from_json c (binding_to_json c x) = Some x) \<and>
     (\<forall>x. grant_from_json c (grant_to_json c x) = Some x)"

text \<open>The FA-signed verb of a grant; its JSON forms are parameters.\<close>

definition grant_verb ::
    "(seat_transfer_grant \<Rightarrow> bytes) \<Rightarrow> (bytes \<Rightarrow> seat_transfer_grant option) \<Rightarrow> seat_transfer_grant verb" where
  "grant_verb to_json from_json =
     \<lparr>verb_label = ''seat_transfer_grant'', verb_to_json = to_json, verb_from_json = from_json,
      verb_signer = gr_fa_id, verb_ts = gr_ts, verb_is_fresh = grant_is_valid_at\<rparr>"

definition callback_commitment_of :: "crypto \<Rightarrow> transfer_codec \<Rightarrow> dkg_completion_callback \<Rightarrow> bytes" where
  "callback_commitment_of cr c callback =
     sha256 cr (as_bytes ''mg/guardian-transfer/v1/callback'' @ [0] @ callback_canonical c callback)"

section \<open>Rows\<close>

definition corrupt_transfer :: "seat_id \<Rightarrow> db_error" where
  "corrupt_transfer seat_id =
     CorruptRow ''seat_transfer_in'' (KeyHex (seat_id_bytes seat_id)) (Detail ''invalid durable transfer record'')"

definition decode_incoming :: "transfer_codec \<Rightarrow> seat_id \<Rightarrow> transfer_in_row \<Rightarrow> db_error + incoming_transfer" where
  "decode_incoming c seat_id row =
     (let corrupt = corrupt_transfer seat_id in
      and_then (ok_or (binding_from_json c (ti_binding row)) corrupt) (\<lambda>binding.
      and_then (transpose_result (map_option (\<lambda>b. if length b = 32 then Inr b else Inl corrupt)
          (ti_callback_commitment row))) (\<lambda>callback_commitment.
      and_then
        (case (ti_grant row, ti_iroh_api_sk row, ti_iroh_p2p_sk row) of
           (Some grant, None, None) \<Rightarrow>
             if ti_state row = ''waiting''
             then and_then (ok_or (grant_from_json c grant) corrupt) (\<lambda>g. Inr (Waiting g))
             else Inl corrupt
         | (None, Some api, Some p2p) \<Rightarrow>
             if ti_state row = ''imported''
             then if length api \<noteq> 32 \<or> length p2p \<noteq> 32 then Inl corrupt
                  else Inr (Imported \<lparr>ik_iroh_api = api, ik_iroh_p2p = p2p\<rparr>)
             else Inl corrupt
         | _ \<Rightarrow> Inl corrupt) (\<lambda>state.
      Inr \<lparr>in_binding = binding, in_callback_commitment = callback_commitment, in_state = state\<rparr>))))"

definition incoming :: "transfer_codec \<Rightarrow> seat_id \<Rightarrow> db \<Rightarrow> db_error + incoming_transfer option" where
  "incoming c seat_id s =
     transpose_result (map_option (decode_incoming c seat_id)
       (map_of (seat_transfer_in s) (seat_id_bytes seat_id)))"

definition outgoing :: "seat_id \<Rightarrow> db \<Rightarrow> db_error + outgoing_transfer option" where
  "outgoing seat_id s =
     transpose_result (map_option (\<lambda>phase. ok_or (outgoing_from_db_str phase) (corrupt_transfer seat_id))
       (map_of (seat_transfer_out s) (seat_id_bytes seat_id)))"

definition transfer_in_row_of :: "transfer_codec \<Rightarrow> incoming_transfer \<Rightarrow> transfer_in_row" where
  "transfer_in_row_of c record =
     (let (state, grant, keys) = (case in_state record of
            Waiting grant \<Rightarrow> (''waiting'', Some (grant_to_json c grant), None)
          | Imported keys \<Rightarrow> (''imported'', None, Some keys))
      in \<lparr>ti_state = state, ti_binding = binding_to_json c (in_binding record),
          ti_callback_commitment = in_callback_commitment record, ti_grant = grant,
          ti_iroh_api_sk = map_option ik_iroh_api keys,
          ti_iroh_p2p_sk = map_option ik_iroh_p2p keys\<rparr>)"

definition transfer_in_check :: "transfer_in_row \<Rightarrow> bool" where
  "transfer_in_check row \<longleftrightarrow>
     ti_state row \<in> {''waiting'', ''imported''} \<and>
     (case ti_callback_commitment row of None \<Rightarrow> True | Some b \<Rightarrow> length b = 32) \<and>
     (case ti_iroh_api_sk row of None \<Rightarrow> True | Some b \<Rightarrow> length b = 32) \<and>
     (case ti_iroh_p2p_sk row of None \<Rightarrow> True | Some b \<Rightarrow> length b = 32) \<and>
     (ti_state row = ''waiting'') = (ti_grant row \<noteq> None) \<and>
     (ti_state row \<noteq> ''waiting'') = (ti_iroh_api_sk row \<noteq> None \<and> ti_iroh_p2p_sk row \<noteq> None)"

definition save_transfer :: "transfer_codec \<Rightarrow> seat_id \<Rightarrow> incoming_transfer \<Rightarrow> db \<Rightarrow> db_error + db" where
  "save_transfer c seat_id record s =
     (let k = seat_id_bytes seat_id; row = transfer_in_row_of c record in
      if \<not> transfer_in_check row then Inl (Sqlx (CheckFailed ''seat_transfer_in''))
      else if \<not> tbl_exists (seats s) k then Inl (Sqlx (ForeignKeyFailed ''seat_transfer_in''))
      else Inr (s\<lparr>seat_transfer_in := upsert_row k row (seat_transfer_in s)\<rparr>))"

definition retired :: "db \<Rightarrow> bytes \<Rightarrow> bool" where
  "retired s k \<longleftrightarrow> tbl_exists (decommissioned_seats s) k \<or> tbl_exists (seat_transfer_out s) k"

definition is_retired :: "seat_id \<Rightarrow> db \<Rightarrow> bool" where
  "is_retired seat_id s = retired s (seat_id_bytes seat_id)"

text \<open>The two loops of \<open>federation_available\<close>.\<close>

fun invites_available ::
    "transfer_codec \<Rightarrow> seat_id \<Rightarrow> federation_id \<Rightarrow> string list \<Rightarrow> db_error + bool" where
  "invites_available c seat_id fed [] = Inr True"
| "invites_available c seat_id fed (invite # invites) =
     (case invite_federation_id c invite of
        None \<Rightarrow> Inl (corrupt_transfer seat_id)
      | Some f \<Rightarrow> if f = fed then Inr False else invites_available c seat_id fed invites)"

fun records_available ::
    "transfer_codec \<Rightarrow> seat_id \<Rightarrow> federation_id \<Rightarrow> transfer_in_row list \<Rightarrow> db_error + bool" where
  "records_available c seat_id fed [] = Inr True"
| "records_available c seat_id fed (row # rows) =
     and_then (decode_incoming c seat_id row) (\<lambda>record.
     if tm_federation_id (in_binding record) = fed then Inr False
     else records_available c seat_id fed rows)"

definition federation_available ::
    "transfer_codec \<Rightarrow> seat_id \<Rightarrow> transfer_move \<Rightarrow> db \<Rightarrow> db_error + bool" where
  "federation_available c seat_id binding s =
     (let k = seat_id_bytes seat_id; fed = tm_federation_id binding;
          live = (\<lambda>k'. k' \<noteq> k \<and> \<not> tbl_exists (decommissioned_seats s) k' \<and>
            \<not> tbl_exists (seat_transfer_out s) k')
      in
      and_then (invites_available c seat_id fed
        (map (\<lambda>(_, f). fr_federation_invite f) (filter (\<lambda>(k', _). live k') (formed_seats s)))) (\<lambda>free.
      if \<not> free then Inr False
      else records_available c seat_id fed
        (map snd (filter (\<lambda>(k', _). live k') (seat_transfer_in s)))))"

definition db_transfer_phase :: "transfer_codec \<Rightarrow> seat_id \<Rightarrow> db \<Rightarrow> db_error + transfer_phase option" where
  "db_transfer_phase c seat_id s =
     and_then (outgoing seat_id s) (\<lambda>out.
     case out of
       Some o' \<Rightarrow> Inr (Some (PhaseOutgoing o'))
     | None \<Rightarrow> and_then (incoming c seat_id s) (\<lambda>record.
         Inr (map_option (\<lambda>r. incoming_phase (in_state r)) record)))"

section \<open>Admission, acceptance, retirement, removal\<close>

definition admit_verified_transfer ::
    "crypto \<Rightarrow> transfer_codec \<Rightarrow> signed_request \<Rightarrow> seat_transfer_grant \<Rightarrow> dkg_completion_callback option \<Rightarrow>
     int \<Rightarrow> db \<Rightarrow> db_error + incoming_transfer option \<times> db" where
  "admit_verified_transfer cr c grant verified callback now s =
     (let seat_id = gr_destination_seat_id verified;
          k = seat_id_bytes seat_id;
          owner = map_option sr_fi_id (map_of (seats s) k)
      in
      if owner \<noteq> Some (fa_to_string c (gr_fa_id verified)) \<or> is_retired seat_id s then Inr (None, s)
      else
      let binding = transfer_move_from verified;
          callback_commitment = map_option (callback_commitment_of cr c) callback
      in
      and_then (incoming c seat_id s) (\<lambda>previous.
      case previous of
        Some previous \<Rightarrow>
          if in_callback_commitment previous \<noteq> callback_commitment then Inr (None, s)
          else if in_binding previous \<noteq> binding then Inr (None, s)
          else (case in_state previous of
              Waiting _ \<Rightarrow> Inr (Some previous, s)
            | Imported _ \<Rightarrow>
                and_then (tx_install_completion_callback c k callback now s) (\<lambda>s'.
                Inr (Some previous, s')))
      | None \<Rightarrow>
          if tbl_exists (formed_seats s) k \<or> tbl_exists (dkg_inputs s) k then Inr (None, s)
          else
          and_then (federation_available c seat_id binding s) (\<lambda>available.
          if \<not> available then Inr (None, s)
          else
          let record = \<lparr>in_binding = binding, in_callback_commitment = callback_commitment,
                in_state = Waiting grant\<rparr>
          in
          and_then (save_transfer c seat_id record s) (\<lambda>s1.
          and_then (tx_install_completion_callback c k callback now s1) (\<lambda>s2.
          Inr (Some record, s2))))))"

definition admit_transfer ::
    "crypto \<Rightarrow> seat_transfer_grant verb \<Rightarrow> transfer_codec \<Rightarrow> signed_request \<Rightarrow>
     dkg_completion_callback option \<Rightarrow> int \<Rightarrow> db \<Rightarrow> (db_error + incoming_transfer option) \<times> db" where
  "admit_transfer cr v c grant callback now s =
     (case signed_request_verify cr v grant (word_of_int (now div 1000)) of
        Inl _ \<Rightarrow> (Inr None, s)
      | Inr verified \<Rightarrow> in_tx s (admit_verified_transfer cr c grant verified callback now s))"

definition accept_transfer ::
    "transfer_codec \<Rightarrow> seat_id \<Rightarrow> transfer_move \<Rightarrow> imported_keys \<Rightarrow> string \<Rightarrow> int \<Rightarrow> db \<Rightarrow> (db_error + bool) \<times> db" where
  "accept_transfer c seat_id binding keys invite now s =
     (let k = seat_id_bytes seat_id in
      in_tx s
       (and_then (incoming c seat_id s) (\<lambda>record.
        case record of
          None \<Rightarrow> Inr (False, s)
        | Some record \<Rightarrow>
            (case in_state record of
               Imported _ \<Rightarrow> Inr (False, s)
             | Waiting _ \<Rightarrow>
                 if in_binding record \<noteq> binding \<or> is_retired seat_id s then Inr (False, s)
                 else
                 and_then (save_transfer c seat_id (record\<lparr>in_state := Imported keys\<rparr>) s) (\<lambda>s1.
                 and_then (seat_insert ''formed_seats'' k
                     \<lparr>fr_federation_invite = invite, fr_formed_at_ms = now\<rparr> s1 (formed_seats s1)) (\<lambda>t.
                 Inr (True, s1\<lparr>formed_seats := t\<rparr>)))))))"

definition retire_for_transfer :: "seat_id \<Rightarrow> db \<Rightarrow> (db_error + bool) \<times> db" where
  "retire_for_transfer seat_id s =
     (let k = seat_id_bytes seat_id in
      if tbl_exists (formed_seats s) k \<and> \<not> tbl_exists (decommissioned_seats s) k \<and>
         \<not> (case map_of (seat_transfer_in s) k of None \<Rightarrow> False | Some t \<Rightarrow> ti_state t \<noteq> ''imported'') \<and>
         \<not> tbl_exists (seat_transfer_out s) k
      then if tbl_exists (seats s) k
           then (Inr True, s\<lparr>seat_transfer_out := seat_transfer_out s @ [(k, ''stopped'')]\<rparr>)
           else (Inl (Sqlx (ForeignKeyFailed ''seat_transfer_out'')), s)
      else (Inr False, s))"

definition record_transfer_removal :: "seat_id \<Rightarrow> db \<Rightarrow> (db_error + bool) \<times> db" where
  "record_transfer_removal seat_id s =
     (let k = seat_id_bytes seat_id;
          p = (\<lambda>k' phase. k' = k \<and> phase = ''stopped'');
          changed = (matching p (seat_transfer_out s) = 1);
          s1 = s\<lparr>seat_transfer_out := update_where p (\<lambda>_. ''removed'') (seat_transfer_out s)\<rparr>
      in (Inr changed,
          if changed then s1\<lparr>seat_transfer_in := delete_where (\<lambda>k' _. k' = k) (seat_transfer_in s)\<rparr>
          else s1))"

section \<open>Backup publications and recovery facts\<close>

record seat_backup_publication =
  bp_doc_sha256 :: string
  bp_published_at_ms :: int
  bp_archive_digest :: "string option"
  bp_confirmed_outgoing :: "outgoing_transfer option"

definition backup_publication ::
    "seat_id \<Rightarrow> u32 \<Rightarrow> db \<Rightarrow> db_error + seat_backup_publication option" where
  "backup_publication seat_id schema_version s =
     (let k = seat_id_bytes seat_id in
      case map_of (seat_backup_publications s) k of
        None \<Rightarrow> Inr None
      | Some row \<Rightarrow>
          if pr_schema_version row \<noteq> uint schema_version then Inr None
          else and_then (transpose_result (map_option (\<lambda>o'. ok_or (outgoing_from_db_str o')
              (CorruptRow ''seat_backup_publications'' (KeyHex k) (Detail ''invalid confirmed transfer fence'')))
              (pr_confirmed_outgoing row))) (\<lambda>confirmed.
            Inr (Some \<lparr>bp_doc_sha256 = pr_doc_sha256 row, bp_published_at_ms = pr_published_at_ms row,
                 bp_archive_digest = pr_archive_digest row, bp_confirmed_outgoing = confirmed\<rparr>)))"

definition record_backup_publication ::
    "seat_id \<Rightarrow> string \<Rightarrow> string option \<Rightarrow> outgoing_transfer option \<Rightarrow> u32 \<Rightarrow> int \<Rightarrow> db \<Rightarrow>
     (db_error + unit) \<times> db" where
  "record_backup_publication seat_id doc_sha256 archive_digest confirmed_outgoing schema_version now s =
     (let k = seat_id_bytes seat_id in
      if \<not> tbl_exists (seats s) k
      then (Inl (Sqlx (ForeignKeyFailed ''seat_backup_publications'')), s)
      else (Inr (), s\<lparr>seat_backup_publications := upsert_row k
             \<lparr>pr_doc_sha256 = doc_sha256, pr_published_at_ms = now,
              pr_archive_digest = archive_digest,
              pr_confirmed_outgoing = map_option outgoing_as_db_str confirmed_outgoing,
              pr_schema_version = uint schema_version\<rparr> (seat_backup_publications s)\<rparr>))"

record seat_recovery_facts =
  rf_payment :: "payment_record option"
  rf_incoming :: "incoming_transfer option"
  rf_outgoing :: "outgoing_transfer option"
  rf_formed_invite :: "string option"
  rf_decommissioned_at_ms :: "int option"

definition load_seat_recovery_facts ::
    "transfer_codec \<Rightarrow> seat_id \<Rightarrow> db \<Rightarrow> db_error + seat_recovery_facts" where
  "load_seat_recovery_facts c seat_id s =
     and_then (payment c seat_id s) (\<lambda>p.
     and_then (incoming c seat_id s) (\<lambda>i.
     and_then (outgoing seat_id s) (\<lambda>o'.
     Inr \<lparr>rf_payment = p, rf_incoming = i, rf_outgoing = o',
          rf_formed_invite = formed_federation_invite seat_id s,
          rf_decommissioned_at_ms = decommissioned_at_ms seat_id s\<rparr>)))"

section \<open>Installation of a restored fleet\<close>

record outgoing_transfer_backup =
  ob_phase :: outgoing_transfer
  ob_federation_invite :: string

text \<open>\<open>guardian\<close> is present when the document carried an archive; its invite may be absent.\<close>

record restored_seat =
  rs_facts :: seat_facts
  rs_payment :: "ecash_claim_evidence option"
  rs_guardian :: "string option option"
  rs_decommissioned_at_ms :: "int option"
  rs_incoming_transfer :: "incoming_transfer option"
  rs_outgoing_transfer :: "outgoing_transfer_backup option"

definition restored_invite :: "restored_seat \<Rightarrow> string option" where
  "restored_invite seat =
     (case Option.bind (rs_guardian seat) (\<lambda>invite. invite) of
        Some invite \<Rightarrow> Some invite
      | None \<Rightarrow> map_option ob_federation_invite (rs_outgoing_transfer seat))"

text \<open>The statements for one restored seat, in their order.\<close>

definition restore_creation :: "transfer_codec \<Rightarrow> restored_seat \<Rightarrow> db \<Rightarrow> db_error + db" where
  "restore_creation c seat s =
     (let facts = rs_facts seat in
      insert_seat (seat_id_bytes (sf_seat_id facts))
        \<lparr>sr_seat_no = uint (seat_no_get (sf_seat_no facts)),
         sr_fi_id = fa_to_string c (sf_fa_id facts), sr_plan = plan_to_json c (sf_plan facts),
         sr_federation_size = uint (federation_size_get (sf_federation_size facts)),
         sr_created_at_ms = sf_created_at_ms facts\<rparr> s)"

definition restore_formed :: "restored_seat \<Rightarrow> int \<Rightarrow> db \<Rightarrow> db_error + db" where
  "restore_formed seat now s =
     (let k = seat_id_bytes (sf_seat_id (rs_facts seat)) in
      if rs_guardian seat \<noteq> None \<or> rs_outgoing_transfer seat \<noteq> None
      then and_then (ok_or (restored_invite seat)
          (CorruptRow ''backup_guardians'' (KeyHex k) (Detail ''guardian archive has no formed federation invite''))) (\<lambda>invite.
        and_then (seat_insert ''formed_seats'' k
          \<lparr>fr_federation_invite = invite, fr_formed_at_ms = now\<rparr> s (formed_seats s)) (\<lambda>t.
        Inr (s\<lparr>formed_seats := t\<rparr>)))
      else Inr s)"

definition restore_incoming :: "transfer_codec \<Rightarrow> restored_seat \<Rightarrow> db \<Rightarrow> db_error + db" where
  "restore_incoming c seat s =
     (case rs_incoming_transfer seat of
        None \<Rightarrow> Inr s
      | Some record \<Rightarrow> save_transfer c (sf_seat_id (rs_facts seat)) record s)"

definition restore_outgoing :: "restored_seat \<Rightarrow> db \<Rightarrow> db_error + db" where
  "restore_outgoing seat s =
     (case rs_outgoing_transfer seat of
        None \<Rightarrow> Inr s
      | Some out \<Rightarrow>
          and_then (seat_insert ''seat_transfer_out'' (seat_id_bytes (sf_seat_id (rs_facts seat)))
            (outgoing_as_db_str (ob_phase out)) s (seat_transfer_out s)) (\<lambda>t.
          Inr (s\<lparr>seat_transfer_out := t\<rparr>)))"

definition restore_payment :: "transfer_codec \<Rightarrow> restored_seat \<Rightarrow> db \<Rightarrow> db_error + db" where
  "restore_payment c seat s =
     (case rs_payment seat of
        None \<Rightarrow> Inr s
      | Some evidence \<Rightarrow> insert_claim c (seat_id_bytes (sf_seat_id (rs_facts seat))) evidence s)"

definition restore_decommissioned :: "restored_seat \<Rightarrow> db \<Rightarrow> db_error + db" where
  "restore_decommissioned seat s =
     (case rs_decommissioned_at_ms seat of
        None \<Rightarrow> Inr s
      | Some at_ms \<Rightarrow>
          and_then (seat_insert ''decommissioned_seats'' (seat_id_bytes (sf_seat_id (rs_facts seat)))
            at_ms s (decommissioned_seats s)) (\<lambda>t.
          Inr (s\<lparr>decommissioned_seats := t\<rparr>)))"

definition install_restored_seat ::
    "transfer_codec \<Rightarrow> restored_seat \<Rightarrow> int \<Rightarrow> db \<Rightarrow> db_error + db" where
  "install_restored_seat c seat now s =
     and_then (restore_creation c seat s) (\<lambda>s.
     and_then (restore_formed seat now s) (\<lambda>s.
     and_then (restore_incoming c seat s) (\<lambda>s.
     and_then (restore_outgoing seat s) (\<lambda>s.
     and_then (restore_payment c seat s) (\<lambda>s.
     restore_decommissioned seat s)))))"

text \<open>The \<open>i\<close>-th reading of the clock is \<open>clock i\<close>.\<close>

fun install_restored_seats ::
    "transfer_codec \<Rightarrow> (nat \<Rightarrow> int) \<Rightarrow> nat \<Rightarrow> restored_seat list \<Rightarrow> db \<Rightarrow> db_error + db" where
  "install_restored_seats c clock i [] s = Inr s"
| "install_restored_seats c clock i (seat # rest) s =
     and_then (install_restored_seat c seat (clock i) s) (\<lambda>s'.
     install_restored_seats c clock (Suc i) rest s')"

definition install_restored_fleet ::
    "transfer_codec \<Rightarrow> string \<Rightarrow> restored_seat list \<Rightarrow> (nat \<Rightarrow> int) \<Rightarrow> db \<Rightarrow> (db_error + unit) \<times> db" where
  "install_restored_fleet c phrase restored clock s =
     (let n = length restored in
      in_tx s
       (and_then (onboarding_stage_parse (onboarding_stage_text s)) (\<lambda>stage.
        if stage \<noteq> Identity then Inl (WrongOnboardingStage Identity stage)
        else
        and_then (install_restored_seats c clock 0 restored s) (\<lambda>s1.
        and_then (insert_identity phrase Restored (clock n) s1) (\<lambda>s2.
        let (rows, s3) = advance_stage ''identity'' ''holder_authorization'' (clock (Suc n)) s2
        in if rows \<noteq> 1 then Inl (WrongOnboardingStage Identity stage) else Inr ((), s3))))))"

end
