(* ===== verification/Store_Invariant.thy ===== *)
theory Store_Invariant
  imports Transfer_Store
begin

text \<open>
  The well-formedness invariant of the store and its preservation by every operation: keys
  are unique, foreign keys resolve, and every row decodes. Below, \<open>wf c s\<close> is the invariant
  for the codecs \<open>c\<close>, and \<open>op_wf\<close> is the preservation lemma of the operation \<open>op\<close>.
\<close>

section \<open>The invariant\<close>

definition seat_row_ok :: "'z codec_scheme \<Rightarrow> bytes \<Rightarrow> seat_row \<Rightarrow> bool" where
  "seat_row_ok c k row \<longleftrightarrow>
     length k = 32 \<and> 0 \<le> sr_seat_no row \<and> sr_seat_no row < 2 ^ 32 \<and>
     fa_parse c (sr_fi_id row) \<noteq> None \<and> plan_from_json c (sr_plan row) \<noteq> None \<and>
     0 < sr_federation_size row \<and> sr_federation_size row < 2 ^ 16"

definition claim_row_ok :: "'z codec_scheme \<Rightarrow> bytes \<Rightarrow> claim_row \<Rightarrow> bool" where
  "claim_row_ok c k row \<longleftrightarrow> (\<exists>r. payment_record_try_from c k row = Inr r)"

definition callback_row_ok :: "'z codec_scheme \<Rightarrow> bytes \<Rightarrow> callback_row \<Rightarrow> bool" where
  "callback_row_ok c k row \<longleftrightarrow> (\<exists>r. completion_callback_try_from c k row = Inr r)"

definition transfer_in_row_ok :: "transfer_codec \<Rightarrow> bytes \<Rightarrow> transfer_in_row \<Rightarrow> bool" where
  "transfer_in_row_ok c k row \<longleftrightarrow> (\<exists>r. decode_incoming c (SeatId k) row = Inr r)"

definition publication_row_ok :: "bytes \<Rightarrow> publication_row \<Rightarrow> bool" where
  "publication_row_ok k row \<longleftrightarrow>
     (case pr_confirmed_outgoing row of None \<Rightarrow> True | Some o' \<Rightarrow> outgoing_from_db_str o' \<noteq> None)"

definition any_row :: "bytes \<Rightarrow> 'v \<Rightarrow> bool" where
  "any_row k v \<longleftrightarrow> True"

definition seats_ok :: "'z codec_scheme \<Rightarrow> (bytes, seat_row) tbl \<Rightarrow> bool" where
  "seats_ok c t \<longleftrightarrow> keyed t \<and> (\<forall>(k, row) \<in> set t. seat_row_ok c k row) \<and>
     distinct (map (\<lambda>r. sr_seat_no (snd r)) t)"

definition wf :: "transfer_codec \<Rightarrow> db \<Rightarrow> bool" where
  "wf c s \<longleftrightarrow>
     offer_row_check (offer_state s) \<and>
     onboarding_stage_text s \<in> {''identity'', ''holder_authorization'', ''initial_offer'', ''complete''} \<and>
     (case identity_table s of None \<Rightarrow> True
      | Some r \<Rightarrow> id_wallet_origin r \<in> {''fresh'', ''restored''}) \<and>
     0 \<le> telemetry_generation s \<and> telemetry_generation s \<le> I64_MAX \<and>
     keyed (support_messages s) \<and> (\<forall>(k, m) \<in> set (support_messages s). 0 \<le> sm_created_at m \<and> sm_created_at m \<le> I64_MAX) \<and>
     seats_ok c (seats s) \<and>
     child_ok (claim_row_ok c) (seats s) (ecash_claims s) \<and>
     child_ok any_row (seats s) (decommissioned_seats s) \<and>
     child_ok any_row (seats s) (formed_seats s) \<and>
     child_ok publication_row_ok (seats s) (seat_backup_publications s) \<and>
     child_ok (callback_row_ok c) (seats s) (completion_callbacks s) \<and>
     child_ok (\<lambda>k json. codes_from_json c json \<noteq> None) (seats s) (dkg_inputs s) \<and>
     child_ok (transfer_in_row_ok c) (seats s) (seat_transfer_in s) \<and>
     child_ok (\<lambda>k phase. outgoing_from_db_str phase \<noteq> None) (seats s) (seat_transfer_out s)"

lemma any_row [simp, intro]: "any_row k v"
  by (simp add: any_row_def)

lemma wf_empty: "length epoch = 32 \<Longrightarrow> wf c (empty_db epoch)"
  by (simp add: wf_def empty_db_def offer_row_check_def u32_range_def seats_ok_def I64_MAX_def)

text \<open>Read and write transactions.\<close>

lemma in_tx_keeps:
  assumes "P s" and "\<And>x s'. r = Inr (x, s') \<Longrightarrow> P s'"
  shows "P (snd (in_tx s r))"
  using assms by (cases r) (auto simp: in_tx_def split: prod.splits)

lemma write_offer_Inr:
  "write_offer row s = Inr s' \<longleftrightarrow> offer_row_check row \<and> s' = s\<lparr>offer_state := row\<rparr>"
  by (auto simp: write_offer_def)

lemma seat_insert_Inr:
  "seat_insert table k v s t = Inr t' \<longleftrightarrow>
     tbl_exists (seats s) k \<and> \<not> tbl_exists t k \<and> t' = t @ [(k, v)]"
  by (auto simp: seat_insert_def insert_row_Some)

lemma insert_seat_Inr:
  "insert_seat k row s = Inr s' \<longleftrightarrow>
     length k = 32 \<and> 0 \<le> sr_seat_no row \<and> 0 < sr_federation_size row \<and>
     sr_seat_no row \<notin> set (map (\<lambda>r. sr_seat_no (snd r)) (seats s)) \<and>
     \<not> tbl_exists (seats s) k \<and> s' = s\<lparr>seats := seats s @ [(k, row)]\<rparr>"
  by (auto simp: insert_seat_def and_then_eq_Inr insert_row_Some not_le)

lemma insert_claim_Inr:
  "insert_claim c k evidence s = Inr s' \<longleftrightarrow>
     tbl_exists (seats s) k \<and> \<not> tbl_exists (ecash_claims s) k \<and>
     s' = s\<lparr>ecash_claims := ecash_claims s @ [(k,
       \<lparr>cr_evidence = evidence_to_cbor c evidence, cr_claim_outcome = None,
        cr_claim_outcome_at_ms = None\<rparr>)]\<rparr>"
  by (auto simp: insert_claim_def and_then_eq_Inr seat_insert_Inr)

lemma insert_identity_Inr:
  "insert_identity phrase origin now s = Inr s' \<longleftrightarrow> identity_table s = None \<and>
     s' = s\<lparr>identity_table := Some \<lparr>id_mnemonic = phrase,
        id_wallet_origin = wallet_origin_as_str origin, id_created_at_ms = now\<rparr>\<rparr>"
  by (auto simp: insert_identity_def split: option.splits)

lemmas statement_Inr = write_offer_Inr seat_insert_Inr insert_seat_Inr insert_claim_Inr insert_identity_Inr

section \<open>Rows that the operations write\<close>

lemma codec_okD:
  assumes "codec_ok c"
  shows "fa_parse c (fa_to_string c x1) = Some x1" "plan_from_json c (plan_to_json c x2) = Some x2"
    "evidence_from_cbor c (evidence_to_cbor c x3) = Some x3"
    "callback_from_json c (callback_to_json c x4) = Some x4"
    "codes_from_json c (codes_to_json c x5) = Some x5"
  using assms by (simp_all add: codec_ok_def)

lemma new_claim_row_ok:
  assumes "codec_ok c" and "length k = 32"
  shows "claim_row_ok c k \<lparr>cr_evidence = evidence_to_cbor c e, cr_claim_outcome = None,
    cr_claim_outcome_at_ms = None\<rparr>"
  using assms by (simp add: claim_row_ok_def payment_record_try_from_def codec_okD)

lemma claim_outcome_row_ok:
  "claim_row_ok c k row \<Longrightarrow>
   claim_row_ok c k (row\<lparr>cr_claim_outcome := Some (claim_outcome_str outcome), cr_claim_outcome_at_ms := Some t\<rparr>)"
  by (cases outcome)
    (auto simp: claim_row_ok_def payment_record_try_from_def parse_claim_outcome_def Let_def
      and_then_eq_Inr split: if_splits)

lemma reason_from_as_str: "reason_from_str (reason_as_str r) = Some r"
  by (cases r) (simp_all add: reason_from_str_def)

text \<open>What a decodable callback row looks like, state by state.\<close>

definition callback_shape :: "'z codec_scheme \<Rightarrow> callback_row \<Rightarrow> bool" where
  "callback_shape c row \<longleftrightarrow>
     u32_range (cb_attempts row) \<and>
     (case cb_reason row of None \<Rightarrow> True | Some r \<Rightarrow> reason_from_str r \<noteq> None) \<and>
     (case cb_completion_callback row of None \<Rightarrow> True | Some j \<Rightarrow> callback_from_json c j \<noteq> None) \<and>
     (cb_status row = ''not_configured'' \<and> cb_attempts row = 0 \<and> cb_next_attempt_at_ms row = None \<and>
        cb_reason row = None \<and> cb_completed_at_ms row = None \<and> cb_completion_callback row = None \<or>
      cb_status row = ''pending'' \<and> cb_next_attempt_at_ms row \<noteq> None \<and>
        cb_completed_at_ms row = None \<and> cb_completion_callback row \<noteq> None \<or>
      cb_status row = ''operator_blocked'' \<and> cb_next_attempt_at_ms row = None \<and> cb_reason row \<noteq> None \<and>
        cb_completed_at_ms row = None \<and> cb_completion_callback row \<noteq> None \<or>
      cb_status row = ''delivered'' \<and> cb_next_attempt_at_ms row = None \<and> cb_reason row = None \<and>
        cb_completed_at_ms row \<noteq> None \<and> cb_completion_callback row = None \<or>
      cb_status row = ''terminal'' \<and> cb_next_attempt_at_ms row = None \<and> cb_reason row \<noteq> None \<and>
        cb_completed_at_ms row \<noteq> None \<and> cb_completion_callback row = None)"

lemma try_from_int_u32: "(\<exists>w. try_from_int i = Some (w :: u32)) \<longleftrightarrow> u32_range i"
  by (auto simp: try_from_int_def u32_range_def)

lemma callback_row_ok_iff: "callback_row_ok c k row \<longleftrightarrow> length k = 32 \<and> callback_shape c row"
proof (cases "u32_range (cb_attempts row)")
  case False
  then have "(try_from_int (cb_attempts row) :: u32 option) = None"
    using try_from_int_u32 by (metis option.exhaust)
  with False show ?thesis
    by (simp add: callback_row_ok_def callback_shape_def completion_callback_try_from_def
        parse_completion_callback_status_def and_then_eq_Inr Let_def)
next
  case True
  then obtain w :: u32 where w: "try_from_int (cb_attempts row) = Some w"
    using try_from_int_u32 by blast
  then have "w = 0 \<longleftrightarrow> cb_attempts row = 0"
    by (auto simp: try_from_int_Some uint_0_iff)
  with w True show ?thesis
    by (cases "cb_reason row"; cases "cb_completion_callback row";
        cases "reason_from_str (the (cb_reason row))";
        cases "callback_from_json c (the (cb_completion_callback row))";
        cases "cb_next_attempt_at_ms row"; cases "cb_completed_at_ms row")
      (simp_all add: callback_row_ok_def callback_shape_def completion_callback_try_from_def
        parse_completion_callback_status_def Let_def split: if_splits)
qed

text \<open>Every statement on callbacks writes a decodable row.\<close>

definition new_callback_row :: "'z codec_scheme \<Rightarrow> dkg_completion_callback option \<Rightarrow> int \<Rightarrow> callback_row" where
  "new_callback_row c callback now =
     \<lparr>cb_completion_callback = map_option (callback_to_json c) callback,
      cb_status = (if callback \<noteq> None then ''pending'' else ''not_configured''), cb_attempts = 0,
      cb_next_attempt_at_ms = map_option (\<lambda>_. now) callback, cb_reason = None,
      cb_completed_at_ms = None\<rparr>"

lemma new_callback_row_ok:
  "codec_ok c \<Longrightarrow> length k = 32 \<Longrightarrow> callback_row_ok c k (new_callback_row c callback now)"
  by (cases callback)
    (simp_all add: callback_row_ok_iff callback_shape_def new_callback_row_def u32_range_def codec_okD)

lemma terminal_callback_row_ok:
  assumes "callback_row_ok c k row" and "reason_from_str r \<noteq> None"
  shows "callback_row_ok c k (row\<lparr>cb_completion_callback := None, cb_status := ''terminal'',
    cb_next_attempt_at_ms := None, cb_reason := Some r, cb_completed_at_ms := Some t\<rparr>)"
  using assms by (auto simp: callback_row_ok_iff callback_shape_def)

lemma attempt_callback_row_ok:
  assumes "callback_row_ok c k row" and "cb_completion_callback row \<noteq> None"
    and "cb_status row \<in> {''pending'', ''operator_blocked''}"
  shows "callback_row_ok c k (row\<lparr>cb_status := ''pending'',
    cb_attempts := min (cb_attempts row + 1) 4294967295,
    cb_next_attempt_at_ms := Some t, cb_reason := None\<rparr>)"
  using assms by (auto simp: callback_row_ok_iff callback_shape_def u32_range_def)

lemma retry_callback_row_ok:
  assumes "callback_row_ok c k row" and "cb_status row = ''pending''"
  shows "callback_row_ok c k (row\<lparr>cb_reason := Some (reason_as_str r)\<rparr>)"
  using assms by (auto simp: callback_row_ok_iff callback_shape_def reason_from_as_str)

lemma blocked_callback_row_ok:
  assumes "callback_row_ok c k row" and "cb_completion_callback row \<noteq> None"
    and "cb_status row \<in> {''pending'', ''operator_blocked''}"
  shows "callback_row_ok c k (row\<lparr>cb_status := ''operator_blocked'', cb_next_attempt_at_ms := None,
    cb_reason := Some (reason_as_str r)\<rparr>)"
  using assms by (auto simp: callback_row_ok_iff callback_shape_def reason_from_as_str)

lemma completed_callback_row_ok:
  assumes "callback_row_ok c k row"
  shows "callback_row_ok c k (row\<lparr>cb_completion_callback := None,
    cb_status := fst (outcome_columns outcome), cb_next_attempt_at_ms := None,
    cb_reason := snd (outcome_columns outcome), cb_completed_at_ms := Some t\<rparr>)"
  using assms
  by (cases outcome) (auto simp: callback_row_ok_iff callback_shape_def reason_from_as_str)

text \<open>A saved transfer record decodes to itself.\<close>

lemma transfer_codec_okD:
  assumes "transfer_codec_ok c"
  shows "codec_ok c" "binding_from_json c (binding_to_json c x) = Some x"
    "grant_from_json c (grant_to_json c y) = Some y"
  using assms by (simp_all add: transfer_codec_ok_def)

lemma decode_saved_transfer:
  assumes "transfer_codec_ok c" and "transfer_in_check (transfer_in_row_of c record)"
  shows "decode_incoming c seat_id (transfer_in_row_of c record) = Inr record"
  using assms
  by (cases "in_state record"; cases "in_callback_commitment record")
    (auto simp: decode_incoming_def transfer_in_row_of_def transfer_in_check_def Let_def
      transfer_codec_okD)

lemma save_transfer_Inr:
  "save_transfer c seat_id record s = Inr s' \<longleftrightarrow>
     transfer_in_check (transfer_in_row_of c record) \<and> tbl_exists (seats s) (seat_id_bytes seat_id) \<and>
     s' = s\<lparr>seat_transfer_in := upsert_row (seat_id_bytes seat_id) (transfer_in_row_of c record) (seat_transfer_in s)\<rparr>"
  by (auto simp: save_transfer_def Let_def)

lemma tx_install_completion_callback_Inr:
  "tx_install_completion_callback c k callback now s = Inr s' \<longleftrightarrow>
     (tbl_exists (completion_callbacks s) k \<or> tbl_exists (seats s) k) \<and>
     s' = s\<lparr>completion_callbacks :=
       insert_or_ignore k (new_callback_row c callback now) (completion_callbacks s)\<rparr>"
  by (auto simp: tx_install_completion_callback_def and_then_eq_Inr seat_insert_Inr insert_or_ignore_def
      new_callback_row_def)

lemmas op_Inr = statement_Inr save_transfer_Inr tx_install_completion_callback_Inr

end
