(* ===== verification/Store_Preservation.thy ===== *)
theory Store_Preservation
  imports Store_Invariant
begin

text \<open>
  Every operation of the store keeps the invariant \<open>wf\<close>. The lemmas are grouped as the
  operations are: offer and settings (\<open>Store\<close>), seats and callbacks (\<open>Seat_Store\<close>), transfers
  and restore (\<open>Transfer_Store\<close>).
\<close>

section \<open>Parts of the invariant\<close>

lemma wfD:
  assumes "wf c s"
  shows "offer_row_check (offer_state s)" "seats_ok c (seats s)"
    "child_ok (claim_row_ok c) (seats s) (ecash_claims s)"
    "child_ok any_row (seats s) (decommissioned_seats s)"
    "child_ok any_row (seats s) (formed_seats s)"
    "child_ok publication_row_ok (seats s) (seat_backup_publications s)"
    "child_ok (callback_row_ok c) (seats s) (completion_callbacks s)"
    "child_ok (\<lambda>k json. codes_from_json c json \<noteq> None) (seats s) (dkg_inputs s)"
    "child_ok (transfer_in_row_ok c) (seats s) (seat_transfer_in s)"
    "child_ok (\<lambda>k phase. outgoing_from_db_str phase \<noteq> None) (seats s) (seat_transfer_out s)"
  using assms unfolding wf_def by blast+

lemma seats_ok_length: "seats_ok c t \<Longrightarrow> tbl_exists t k \<Longrightarrow> length k = 32"
  by (force simp: seats_ok_def seat_row_ok_def tbl_exists_iff)

text \<open>
  One update lemma per field: the invariant holds after the field is written if the field's
  own condition holds.
\<close>

named_theorems wf_updates \<open>the invariant after writing one field\<close>

lemma wf_offer [wf_updates]: "wf c s \<Longrightarrow> offer_row_check r \<Longrightarrow> wf c (s\<lparr>offer_state := r\<rparr>)"
  by (simp add: wf_def)

lemma wf_claims [wf_updates]:
  "wf c s \<Longrightarrow> child_ok (claim_row_ok c) (seats s) t \<Longrightarrow> wf c (s\<lparr>ecash_claims := t\<rparr>)"
  by (simp add: wf_def)

lemma wf_decommissioned [wf_updates]:
  "wf c s \<Longrightarrow> child_ok any_row (seats s) t \<Longrightarrow> wf c (s\<lparr>decommissioned_seats := t\<rparr>)"
  by (simp add: wf_def)

lemma wf_formed [wf_updates]:
  "wf c s \<Longrightarrow> child_ok any_row (seats s) t \<Longrightarrow> wf c (s\<lparr>formed_seats := t\<rparr>)"
  by (simp add: wf_def)

lemma wf_publications [wf_updates]:
  "wf c s \<Longrightarrow> child_ok publication_row_ok (seats s) t \<Longrightarrow> wf c (s\<lparr>seat_backup_publications := t\<rparr>)"
  by (simp add: wf_def)

lemma wf_callbacks [wf_updates]:
  "wf c s \<Longrightarrow> child_ok (callback_row_ok c) (seats s) t \<Longrightarrow> wf c (s\<lparr>completion_callbacks := t\<rparr>)"
  by (simp add: wf_def)

lemma wf_dkg_inputs [wf_updates]:
  "wf c s \<Longrightarrow> child_ok (\<lambda>k json. codes_from_json c json \<noteq> None) (seats s) t \<Longrightarrow> wf c (s\<lparr>dkg_inputs := t\<rparr>)"
  by (simp add: wf_def)

lemma wf_transfer_in [wf_updates]:
  "wf c s \<Longrightarrow> child_ok (transfer_in_row_ok c) (seats s) t \<Longrightarrow> wf c (s\<lparr>seat_transfer_in := t\<rparr>)"
  by (simp add: wf_def)

lemma wf_transfer_out [wf_updates]:
  "wf c s \<Longrightarrow> child_ok (\<lambda>k phase. outgoing_from_db_str phase \<noteq> None) (seats s) t \<Longrightarrow>
   wf c (s\<lparr>seat_transfer_out := t\<rparr>)"
  by (simp add: wf_def)

lemma wf_stage [wf_updates]:
  "wf c s \<Longrightarrow> t \<in> {''identity'', ''holder_authorization'', ''initial_offer'', ''complete''} \<Longrightarrow>
   wf c (s\<lparr>onboarding_stage_text := t, onboarding_updated_at_ms := n\<rparr>)"
  by (simp add: wf_def)

lemma wf_unconstrained [wf_updates]:
  "wf c s \<Longrightarrow> wf c (s\<lparr>manifold_environment := a\<rparr>)"
  "wf c s \<Longrightarrow> wf c (s\<lparr>payout_settings := b\<rparr>)"
  "wf c s \<Longrightarrow> wf c (s\<lparr>setup_payment_event := d\<rparr>)"
  "wf c s \<Longrightarrow> wf c (s\<lparr>setup_payment_members := e\<rparr>)"
  "wf c s \<Longrightarrow> wf c (s\<lparr>holder_authorization := f\<rparr>)"
  by (simp_all add: wf_def)

lemma wf_insert_seat:
  assumes "wf c s" and "insert_seat k row s = Inr s'" and "seat_row_ok c k row"
  shows "wf c s'"
  using assms unfolding wf_def insert_seat_Inr
  by (auto simp: seats_ok_def keyed_snoc intro: child_ok_parents_snoc)

section \<open>Offer and settings\<close>

lemma offer_row_check_updates:
  "offer_row_check r \<Longrightarrow> length e = 32 \<Longrightarrow> offer_row_check (r\<lparr>os_offer_epoch := e\<rparr>)"
  by (simp add: offer_row_check_def)

lemma set_offered_price_wf: "wf c s \<Longrightarrow> wf c (snd (set_offered_price price now fresh s))"
  by (auto simp: set_offered_price_def Let_def write_offer_Inr split: sum.splits intro: wf_offer)

lemma configure_initial_offer_wf:
  "wf c s \<Longrightarrow> wf c (snd (configure_initial_offer price max_seats now fresh s))"
  unfolding configure_initial_offer_def Let_def
  by (rule in_tx_keeps)
    (auto simp: and_then_eq_Inr write_offer_Inr split: if_splits option.splits
      intro!: wf_stage wf_offer)

lemma update_seats_config_wf:
  "wf c s \<Longrightarrow> wf c (snd (update_seats_config update first now fresh s))"
  unfolding update_seats_config_def Let_def
  by (rule in_tx_keeps)
    (auto simp: and_then_eq_Inr write_offer_Inr split: if_splits option.splits prod.splits
      intro!: wf_offer)

lemma bind_manifold_environment_wf:
  "wf c s \<Longrightarrow> wf c (snd (bind_manifold_environment e s))"
  by (auto simp: bind_manifold_environment_def Let_def split: option.splits intro: wf_updates)

lemma advance_stage_wf:
  "wf c s \<Longrightarrow> to \<in> {''identity'', ''holder_authorization'', ''initial_offer'', ''complete''} \<Longrightarrow>
   wf c (snd (advance_stage from to now s))"
  by (auto simp: advance_stage_def intro: wf_stage)

lemma insert_identity_wf: "wf c s \<Longrightarrow> insert_identity phrase origin now s = Inr s' \<Longrightarrow> wf c s'"
  by (cases origin) (auto simp: insert_identity_Inr wf_def)

lemma install_identity_wf: "wf c s \<Longrightarrow> wf c (snd (install_identity phrase now s))"
  unfolding install_identity_def
  by (rule in_tx_keeps, assumption)
    (auto simp: Let_def and_then_eq_Inr advance_stage_def split: if_splits
      intro!: wf_stage intro: insert_identity_wf)

lemma rotate_telemetry_wf: "wf c s \<Longrightarrow> wf c (snd (rotate_telemetry_capability_generation now s))"
  by (auto simp: rotate_telemetry_capability_generation_def Let_def wf_def)

lemma set_payout_destination_wf: "wf c s \<Longrightarrow> wf c (snd (set_payout_destination d s))"
  by (auto simp: set_payout_destination_def intro: wf_updates)

lemma drop_future_authorization_wf: "wf c s \<Longrightarrow> wf c (drop_future_authorization m s)"
  by (auto simp: drop_future_authorization_def split: option.splits intro: wf_updates)

lemma holder_authorization_event_json_wf:
  "wf c s \<Longrightarrow> wf c (snd (holder_authorization_event_json m s))"
  by (auto simp: holder_authorization_event_json_def Let_def intro: drop_future_authorization_wf)

lemma retain_authorization_wf: "wf c s \<Longrightarrow> wf c (retain_authorization b j s)"
  by (simp add: retain_authorization_def wf_unconstrained)

lemma replace_holder_authorization_event_wf:
  assumes "wf c s"
  shows "wf c (snd (replace_holder_authorization_event issued json m now s))"
proof (cases "issued > m")
  case True
  with assms show ?thesis by (simp add: replace_holder_authorization_event_def)
next
  case False
  show ?thesis
    unfolding replace_holder_authorization_event_def if_not_P [OF False]
    by (rule in_tx_keeps [of "wf c", OF assms])
      (auto simp: Let_def and_then_eq_Inr advance_stage_def split: if_splits
        intro!: wf_stage retain_authorization_wf drop_future_authorization_wf assms)
qed

lemma replace_setup_payment_policy_wf:
  "wf c s \<Longrightarrow> wf c (snd (replace_setup_payment_policy json members fresh s))"
  unfolding replace_setup_payment_policy_def Let_def
  by (rule in_tx_keeps)
    (auto simp: and_then_eq_Inr write_offer_Inr split: if_splits intro!: wf_updates)

lemma stored_secs_range: "0 \<le> stored_secs x" "stored_secs x \<le> I64_MAX"
  by (simp_all add: stored_secs_def I64_MAX_def)

lemma record_support_message_wf: "wf c s \<Longrightarrow> wf c (snd (record_support_message row s))"
  by (auto simp: record_support_message_def wf_def keyed_insert_or_ignore stored_secs_range
      insert_or_ignore_def keyed_snoc)

lemma mark_support_read_wf: "wf c s \<Longrightarrow> wf c (snd (mark_support_read ids s))"
  unfolding mark_support_read_def wf_def
  by (simp add: keyed_update_where) (auto simp: update_where_def)

section \<open>Seats and callbacks\<close>

lemma seat_row_ok_new:
  assumes "codec_ok c" and "length k = 32" and "0 \<le> n" and "n < 2 ^ 32"
    and "0 < uint (federation_size_get fs)"
  shows "seat_row_ok c k \<lparr>sr_seat_no = n, sr_fi_id = fa_to_string c fa, sr_plan = plan_to_json c plan,
    sr_federation_size = uint (federation_size_get fs), sr_created_at_ms = now\<rparr>"
  using assms unsigned_less [of "federation_size_get fs", where 'a=int]
  by (simp add: seat_row_ok_def codec_okD)

lemma wf_insert_claim:
  assumes "wf c s" and "codec_ok c" and "insert_claim c k evidence s = Inr s'"
  shows "wf c s'"
proof -
  from assms(3) have "tbl_exists (seats s) k" by (simp add: insert_claim_Inr)
  with seats_ok_length wfD(2) [OF assms(1)] have "length k = 32" by blast
  with assms show ?thesis
    by (auto simp: insert_claim_Inr intro!: wf_claims child_ok_snoc wfD new_claim_row_ok)
qed

text \<open>Positive capacity means that the next seat number has a port block, so it is small.\<close>

lemma next_seat_no_nonneg: "seats_ok c (seats s) \<Longrightarrow> 0 \<le> next_seat_no s"
proof -
  assume ok: "seats_ok c (seats s)"
  show ?thesis
  proof (cases "seats s = []")
    case False
    then obtain r where r: "r \<in> set (seats s)" by (cases "seats s") auto
    then have "0 \<le> sr_seat_no (snd r)" using ok by (force simp: seats_ok_def seat_row_ok_def)
    also have "sr_seat_no (snd r) \<le> Max (set (map (\<lambda>r. sr_seat_no (snd r)) (seats s)))"
      using r by (intro Max_ge) auto
    finally show ?thesis by (simp add: next_seat_no_def)
  qed (simp add: next_seat_no_def)
qed

lemma slots_next_seat_no:
  assumes "available_slots m first active (next_seat_no s) \<noteq> 0" and "seats_ok c (seats s)"
  shows "nat (next_seat_no s) < unat (remaining_blocks first)"
proof -
  have "0 < unat (available_slots m first active (next_seat_no s))"
    using assms(1) by (simp add: unat_gt_0)
  then have "u32_or_max (next_seat_no s) < unat (remaining_blocks first)"
    by (simp add: unat_available_slots)
  moreover have "unat (remaining_blocks first) \<le> 16384" by (simp add: unat_remaining_blocks)
  ultimately show ?thesis
    using next_seat_no_nonneg [OF assms(2)] by (auto simp: u32_or_max_def split: if_splits)
qed

lemma current_slots_positive:
  assumes "current_slots first s = Inr slots" and "slots \<noteq> 0" and "seats_ok c (seats s)"
  shows "0 \<le> next_seat_no s" and "nat (next_seat_no s) < unat (remaining_blocks first)"
    and "next_seat_no s < 2 ^ 32"
proof -
  show "0 \<le> next_seat_no s" by (rule next_seat_no_nonneg [OF assms(3)])
  show less: "nat (next_seat_no s) < unat (remaining_blocks first)"
    using assms by (auto simp: current_slots_def Let_def and_then_eq_Inr dest: slots_next_seat_no)
  have "unat (remaining_blocks first) \<le> 16384" by (simp add: unat_remaining_blocks)
  with less have "next_seat_no s < 16384" by linarith
  then show "next_seat_no s < 2 ^ 32" by simp
qed

lemma insert_admitted_wf:
  assumes "insert_admitted c new slots now fresh s = Inr s'" and "wf c s" and "transfer_codec_ok c"
    and "next_seat_no s < 2 ^ 32" and "length fresh = 32"
  shows "wf c s'"
proof -
  note cok = transfer_codec_okD(1) [OF assms(3)]
  from assms(1) obtain s1 s2 where
    s1: "insert_seat (seat_id_bytes (ns_seat_id new))
        \<lparr>sr_seat_no = next_seat_no s, sr_fi_id = fa_to_string c (ns_fa_id new),
         sr_plan = plan_to_json c (ns_plan new),
         sr_federation_size = uint (federation_size_get (ns_federation_size new)),
         sr_created_at_ms = now\<rparr> s = Inr s1" and
    s2: "(case ns_payment new of None \<Rightarrow> Inr s1
        | Some evidence \<Rightarrow> insert_claim c (seat_id_bytes (ns_seat_id new)) evidence s1) = Inr s2" and
    s': "(if slots = 1 then write_offer ((offer_state s2)\<lparr>os_offer_epoch := fresh\<rparr>) s2 else Inr s2) = Inr s'"
    by (auto simp: insert_admitted_def Let_def and_then_eq_Inr)
  from s1 have "wf c s1"
    using assms(2,4) cok by (intro wf_insert_seat [OF assms(2) s1] seat_row_ok_new) (auto simp: insert_seat_Inr)
  with s2 have "wf c s2" by (auto split: option.splits intro: wf_insert_claim cok)
  with s' assms(5) show ?thesis by (auto simp: write_offer_Inr split: if_splits intro: wf_offer)
qed

lemma after_commit_state: "snd (after_commit r e) = snd r"
  by (auto simp: after_commit_def split: sum.splits prod.splits)

lemma admit_seat_at_writer_boundary_wf:
  assumes "wf c s" and "transfer_codec_ok c" and "length fresh = 32"
  shows "wf c (snd (admit_seat_at_writer_boundary c new epoch first now fresh s))"
  unfolding admit_seat_at_writer_boundary_def after_commit_state
  by (rule in_tx_keeps [of "wf c", OF assms(1)])
    (auto simp: and_then_eq_Inr split: option.splits if_splits
      dest: current_slots_positive(3) [OF _ _ wfD(2) [OF assms(1)]]
      intro: insert_admitted_wf assms)

lemma admit_seat_wf:
  assumes "wf c s" and "transfer_codec_ok c" and "length fresh = 32"
  shows "wf c (snd (admit_seat c new epoch first now fresh s))"
  using assms
  by (auto simp: admit_seat_def split: sum.splits option.splits prod.splits
      intro: admit_seat_at_writer_boundary_wf)

lemma record_claim_outcome_wf: "wf c s \<Longrightarrow> wf c (snd (record_claim_outcome seat_id outcome t s))"
  by (auto simp: record_claim_outcome_def Let_def
      intro!: wf_claims child_ok_update_where claim_outcome_row_ok dest: wfD)

lemma decommission_seat_wf: "wf c s \<Longrightarrow> wf c (snd (decommission_seat seat_id t s))"
  unfolding decommission_seat_def Let_def
  by (rule in_tx_keeps)
    (auto simp: and_then_eq_Inr seat_insert_Inr reason_from_str_def
      intro!: wf_callbacks wf_decommissioned child_ok_update_where child_ok_snoc
        terminal_callback_row_ok dest: wfD)

lemma tx_install_completion_callback_wf:
  assumes "tx_install_completion_callback c k callback now s = Inr s'" and "wf c s" and "codec_ok c"
  shows "wf c s'"
proof -
  have "length k = 32" if "tbl_exists (seats s) k"
    using that seats_ok_length wfD(2) [OF assms(2)] by blast
  moreover have "tbl_exists (seats s) k"
    using assms child_ok_parent [OF wfD(7) [OF assms(2)]]
    by (auto simp: tx_install_completion_callback_Inr)
  ultimately show ?thesis
    using assms by (auto simp: tx_install_completion_callback_Inr
        intro!: wf_callbacks child_ok_insert_or_ignore new_callback_row_ok dest: wfD)
qed

lemma install_completion_callback_wf:
  "wf c s \<Longrightarrow> codec_ok c \<Longrightarrow> wf c (snd (install_completion_callback c seat_id callback now s))"
  unfolding install_completion_callback_def
  by (rule in_tx_keeps)
    (auto simp: and_then_eq_Inr intro: tx_install_completion_callback_wf)

lemma record_dkg_inputs_wf:
  assumes "wf c s" and "codec_ok c"
  shows "wf c (snd (record_dkg_inputs c seat_id codes callback now s))"
proof -
  have "wf c (s\<lparr>dkg_inputs := upsert_row k (codes_to_json c x) (dkg_inputs s)\<rparr>)"
    if "tbl_exists (seats s) k" for k x
    using that assms
    by (intro wf_dkg_inputs child_ok_upsert_row wfD(8)) (simp_all add: codec_okD)
  then show ?thesis
    unfolding record_dkg_inputs_def Let_def
    by (intro in_tx_keeps [of "wf c", OF assms(1)])
      (auto simp: and_then_eq_Inr split: if_splits
        intro: tx_install_completion_callback_wf [OF _ _ assms(2)])
qed

lemma record_formed_wf: "wf c s \<Longrightarrow> wf c (snd (record_formed seat_id invite t s))"
  by (auto simp: record_formed_def Let_def split: option.splits
      intro!: wf_formed child_ok_insert_or_ignore dest: wfD)

lemma update_callbacks_wf:
  assumes "wf c s" and "\<And>k row. callback_row_ok c k row \<Longrightarrow> p k row \<Longrightarrow> callback_row_ok c k (f row)"
  shows "wf c (snd (update_callbacks p f s))"
  using assms by (auto simp: update_callbacks_def intro!: wf_callbacks child_ok_update_where dest: wfD)

lemma callback_operations_wf:
  assumes "wf c s"
  shows "wf c (snd (record_completion_callback_attempt_started seat_id t s))"
    "wf c (snd (record_completion_callback_retry_reason seat_id reason s))"
    "wf c (snd (record_completion_callback_operator_blocked seat_id reason s))"
    "wf c (snd (record_completion_callback_completed seat_id outcome t s))"
  unfolding record_completion_callback_attempt_started_def record_completion_callback_retry_reason_def
    record_completion_callback_operator_blocked_def record_completion_callback_completed_def
    split_beta Let_def snd_conv
  subgoal by (rule update_callbacks_wf [OF assms]) (rule attempt_callback_row_ok; simp)
  subgoal by (rule update_callbacks_wf [OF assms]) (rule retry_callback_row_ok; simp)
  subgoal by (rule update_callbacks_wf [OF assms]) (rule blocked_callback_row_ok; simp)
  subgoal by (rule update_callbacks_wf [OF assms]) (rule completed_callback_row_ok)
  done

section \<open>Transfers and restore\<close>

lemma decode_incoming_seat: "(\<exists>r. decode_incoming c i row = Inr r) \<longleftrightarrow> (\<exists>r. decode_incoming c j row = Inr r)"
  unfolding decode_incoming_def Let_def
  by (cases "binding_from_json c (ti_binding row)"; cases "ti_callback_commitment row";
      cases "ti_grant row"; cases "ti_iroh_api_sk row"; cases "ti_iroh_p2p_sk row";
      cases "grant_from_json c (the (ti_grant row))") auto

lemma save_transfer_wf:
  assumes "save_transfer c seat_id record s = Inr s'" and "wf c s" and "transfer_codec_ok c"
  shows "wf c s'"
proof -
  have "transfer_in_row_ok c (seat_id_bytes seat_id) (transfer_in_row_of c record)"
    using assms decode_saved_transfer [OF assms(3)]
    by (auto simp: transfer_in_row_ok_def save_transfer_Inr)
  with assms show ?thesis
    by (auto simp: save_transfer_Inr intro!: wf_transfer_in child_ok_upsert_row dest: wfD)
qed

lemma admit_verified_transfer_wf:
  assumes "admit_verified_transfer cr c grant verified callback now s = Inr (x, s')"
    and "wf c s" and "transfer_codec_ok c"
  shows "wf c s'"
proof -
  note install = tx_install_completion_callback_wf [OF _ _ transfer_codec_okD(1) [OF assms(3)]]
  have saved: "wf c s2" if "save_transfer c i r s = Inr s1"
    "tx_install_completion_callback c k callback now s1 = Inr s2" for i r s1 s2 k
    using install [OF that(2)] save_transfer_wf [OF that(1) assms(2,3)] .
  show ?thesis
    using assms(1,2) unfolding admit_verified_transfer_def Let_def
    by (auto elim!: and_then_InrE split: if_splits option.splits incoming_state.splits)
      ((erule (1) saved | erule (1) install)+)
qed

lemma admit_transfer_wf:
  assumes "wf c s" and "transfer_codec_ok c"
  shows "wf c (snd (admit_transfer cr v c grant callback now s))"
proof (cases "signed_request_verify cr v grant (word_of_int (now div 1000))")
  case (Inl e)
  with assms show ?thesis by (simp add: admit_transfer_def)
next
  case (Inr verified)
  then have eq: "admit_transfer cr v c grant callback now s =
      in_tx s (admit_verified_transfer cr c grant verified callback now s)"
    by (simp add: admit_transfer_def)
  show ?thesis
    unfolding eq
    by (rule in_tx_keeps [of "wf c", OF assms(1)]) (rule admit_verified_transfer_wf [OF _ assms])
qed

lemma accept_transfer_wf:
  assumes "wf c s" and "transfer_codec_ok c"
  shows "wf c (snd (accept_transfer c seat_id binding keys invite now s))"
proof -
  have formed: "wf c (s1\<lparr>formed_seats := t\<rparr>)"
    if "save_transfer c seat_id r s = Inr s1"
      "seat_insert ''formed_seats'' (seat_id_bytes seat_id) v s1 (formed_seats s1) = Inr t"
    for r s1 t and v :: formed_row
    using save_transfer_wf [OF that(1) assms] that(2)
    by (auto simp: seat_insert_Inr intro!: wf_formed child_ok_snoc dest: wfD)
  show ?thesis
    unfolding accept_transfer_def Let_def
    by (rule in_tx_keeps [of "wf c", OF assms(1)])
      (auto elim!: and_then_InrE split: option.splits incoming_state.splits if_splits
        intro: formed assms(1))
qed

lemma retire_for_transfer_wf: "wf c s \<Longrightarrow> wf c (snd (retire_for_transfer seat_id s))"
  by (auto simp: retire_for_transfer_def Let_def outgoing_from_db_str_def
      intro!: wf_transfer_out child_ok_snoc dest: wfD)

lemma record_transfer_removal_wf: "wf c s \<Longrightarrow> wf c (snd (record_transfer_removal seat_id s))"
  by (auto simp: record_transfer_removal_def Let_def outgoing_from_db_str_def
      intro!: wf_transfer_out wf_transfer_in child_ok_update_where child_ok_delete_where dest: wfD)

lemma outgoing_from_as_db_str [simp]: "outgoing_from_db_str (outgoing_as_db_str p) = Some p"
  by (cases p) (simp_all add: outgoing_from_db_str_def)

lemma record_backup_publication_wf:
  "wf c s \<Longrightarrow> wf c (snd (record_backup_publication seat_id doc digest out v now s))"
  by (cases out)
    (auto simp: record_backup_publication_def Let_def publication_row_ok_def
      intro!: wf_publications child_ok_upsert_row dest: wfD)

lemma wf_insert_formed:
  "wf c s \<Longrightarrow> seat_insert n k v s (formed_seats s) = Inr t \<Longrightarrow> wf c (s\<lparr>formed_seats := t\<rparr>)"
  by (auto simp: seat_insert_Inr intro!: wf_formed child_ok_snoc dest: wfD)

lemma wf_insert_decommissioned:
  "wf c s \<Longrightarrow> seat_insert n k v s (decommissioned_seats s) = Inr t \<Longrightarrow>
   wf c (s\<lparr>decommissioned_seats := t\<rparr>)"
  by (auto simp: seat_insert_Inr intro!: wf_decommissioned child_ok_snoc dest: wfD)

lemma wf_insert_transfer_out:
  "wf c s \<Longrightarrow> seat_insert n k (outgoing_as_db_str p) s (seat_transfer_out s) = Inr t \<Longrightarrow>
   wf c (s\<lparr>seat_transfer_out := t\<rparr>)"
  by (auto simp: seat_insert_Inr intro!: wf_transfer_out child_ok_snoc dest: wfD)

lemma restore_creation_wf:
  assumes "wf c s" and "restore_creation c seat s = Inr s'" and "codec_ok c"
  shows "wf c s'"
proof -
  have "uint (seat_no_get (sf_seat_no (rs_facts seat))) < 2 ^ 32"
    using unsigned_less [of "seat_no_get (sf_seat_no (rs_facts seat))", where 'a=int] by simp
  note seat_row_ok_new [OF assms(3) _ _ this]
  with assms(2) show ?thesis
    unfolding restore_creation_def Let_def
    by (intro wf_insert_seat [OF assms(1) assms(2) [unfolded restore_creation_def Let_def]])
      (simp add: insert_seat_Inr)
qed

lemma restore_rows_wf:
  assumes "wf c s"
  shows "restore_formed seat now s = Inr s' \<Longrightarrow> wf c s'"
    "restore_outgoing seat s = Inr s' \<Longrightarrow> wf c s'"
    "restore_decommissioned seat s = Inr s' \<Longrightarrow> wf c s'"
    "transfer_codec_ok c \<Longrightarrow> restore_incoming c seat s = Inr s' \<Longrightarrow> wf c s'"
    "codec_ok c \<Longrightarrow> restore_payment c seat s = Inr s' \<Longrightarrow> wf c s'"
  using assms
  by (auto simp: restore_formed_def restore_outgoing_def restore_decommissioned_def
      restore_incoming_def restore_payment_def Let_def
      elim!: and_then_InrE split: if_splits option.splits
      intro: wf_insert_formed wf_insert_transfer_out wf_insert_decommissioned save_transfer_wf wf_insert_claim)

lemma install_restored_seat_wf:
  assumes "install_restored_seat c seat now s = Inr s'" and "wf c s" and "transfer_codec_ok c"
  shows "wf c s'"
  using assms(1) restore_creation_wf [OF assms(2) _ transfer_codec_okD(1) [OF assms(3)]]
  unfolding install_restored_seat_def
  by (elim and_then_InrE) (meson restore_rows_wf assms(3) transfer_codec_okD(1))

lemma install_restored_seats_wf:
  "install_restored_seats c clock i restored s = Inr s' \<Longrightarrow> wf c s \<Longrightarrow> transfer_codec_ok c \<Longrightarrow> wf c s'"
  by (induction c clock i restored s rule: install_restored_seats.induct)
    (auto simp: and_then_eq_Inr intro: install_restored_seat_wf)

lemma install_restored_fleet_wf:
  assumes "wf c s" and "transfer_codec_ok c"
  shows "wf c (snd (install_restored_fleet c phrase restored clock s))"
  unfolding install_restored_fleet_def Let_def [of "length restored"]
  by (rule in_tx_keeps [of "wf c", OF assms(1)])
    (auto elim!: and_then_InrE split: if_splits simp: Let_def advance_stage_def intro!: wf_stage;
      erule (1) insert_identity_wf [OF install_restored_seats_wf [OF _ assms]])

end
