(* ===== verification/Store_History.thy ===== *)
theory Store_History
  imports Store_Preservation
begin

text \<open>
  What the store never forgets: \<open>keeps s s'\<close> relates a state to a later one. Seats, formed
  latches and decommission times are permanent; the evidence of a payment is permanent and its
  claim outcome is recorded once; a transfer fence only moves from stopped to removed; a
  settled completion callback never changes and a bearer is only ever dropped; the identity
  and the environment binding are installed once; the telemetry generation and the onboarding
  stage only advance. Every operation of the store establishes it (\<open>op_keeps\<close>).
\<close>

definition claim_step :: "claim_row \<Rightarrow> claim_row \<Rightarrow> bool" where
  "claim_step r r' \<longleftrightarrow> cr_evidence r' = cr_evidence r \<and> (cr_claim_outcome r \<noteq> None \<longrightarrow> r' = r)"

definition callback_step :: "callback_row \<Rightarrow> callback_row \<Rightarrow> bool" where
  "callback_step r r' \<longleftrightarrow>
     (cb_status r \<notin> {''pending'', ''operator_blocked''} \<longrightarrow> r' = r) \<and>
     (cb_completion_callback r' = cb_completion_callback r \<or> cb_completion_callback r' = None)"

definition fence_step :: "string \<Rightarrow> string \<Rightarrow> bool" where
  "fence_step p p' \<longleftrightarrow> p' = p \<or> p = ''stopped'' \<and> p' = ''removed''"

definition installed_once :: "'a option \<Rightarrow> 'a option \<Rightarrow> bool" where
  "installed_once v v' \<longleftrightarrow> (v \<noteq> None \<longrightarrow> v' = v)"

definition stage_rank :: "string \<Rightarrow> nat" where
  "stage_rank t =
     (if t = ''identity'' then 0 else if t = ''holder_authorization'' then 1
      else if t = ''initial_offer'' then 2 else 3)"

definition keeps :: "db \<Rightarrow> db \<Rightarrow> bool" where
  "keeps s s' \<longleftrightarrow>
     extends (=) (seats s) (seats s') \<and>
     extends (=) (formed_seats s) (formed_seats s') \<and>
     extends (=) (decommissioned_seats s) (decommissioned_seats s') \<and>
     extends fence_step (seat_transfer_out s) (seat_transfer_out s') \<and>
     extends claim_step (ecash_claims s) (ecash_claims s') \<and>
     extends callback_step (completion_callbacks s) (completion_callbacks s') \<and>
     installed_once (identity_table s) (identity_table s') \<and>
     installed_once (manifold_environment s) (manifold_environment s') \<and>
     telemetry_generation s \<le> telemetry_generation s' \<and>
     stage_rank (onboarding_stage_text s) \<le> stage_rank (onboarding_stage_text s')"

section \<open>An order\<close>

lemma row_steps_refl [simp, intro]:
  "claim_step r r" "callback_step b b" "fence_step p p" "installed_once v v"
  by (simp_all add: claim_step_def callback_step_def fence_step_def installed_once_def)

lemma row_steps_trans:
  "claim_step r r1 \<Longrightarrow> claim_step r1 r2 \<Longrightarrow> claim_step r r2"
  "callback_step b b1 \<Longrightarrow> callback_step b1 b2 \<Longrightarrow> callback_step b b2"
  "fence_step p p1 \<Longrightarrow> fence_step p1 p2 \<Longrightarrow> fence_step p p2"
  "installed_once v v1 \<Longrightarrow> installed_once v1 v2 \<Longrightarrow> installed_once v v2"
  by (auto simp: claim_step_def callback_step_def fence_step_def installed_once_def)

lemma extends_tables_refl [simp]:
  "extends (=) t t" "extends claim_step u u" "extends callback_step w w" "extends fence_step x x"
  by (auto intro: extends_refl)

lemma keeps_refl [simp, intro]: "keeps s s"
  by (simp add: keeps_def)

lemma extends_tables_trans:
  "extends (=) t t1 \<Longrightarrow> extends (=) t1 t2 \<Longrightarrow> extends (=) t t2"
  "extends claim_step u u1 \<Longrightarrow> extends claim_step u1 u2 \<Longrightarrow> extends claim_step u u2"
  "extends callback_step w w1 \<Longrightarrow> extends callback_step w1 w2 \<Longrightarrow> extends callback_step w w2"
  "extends fence_step x x1 \<Longrightarrow> extends fence_step x1 x2 \<Longrightarrow> extends fence_step x x2"
  by (erule (1) extends_trans; blast intro: row_steps_trans)+

lemma keeps_trans: "keeps s t \<Longrightarrow> keeps t u \<Longrightarrow> keeps s u"
  unfolding keeps_def by (blast intro: extends_tables_trans row_steps_trans order_trans)

section \<open>Statements\<close>

named_theorems keeps_intros \<open>statements that keep the history\<close>

lemma keeps_update_seats [keeps_intros]:
  "keeps s s' \<Longrightarrow> \<not> tbl_exists (seats s') k \<Longrightarrow> keeps s (s'\<lparr>seats := seats s' @ [(k, row)]\<rparr>)"
  by (erule keeps_trans) (simp add: keeps_def extends_snoc)

lemma keeps_offer [keeps_intros]: "keeps s s' \<Longrightarrow> keeps s (s'\<lparr>offer_state := r\<rparr>)"
  by (simp add: keeps_def)

lemma keeps_stage:
  "keeps s s' \<Longrightarrow> stage_rank (onboarding_stage_text s') \<le> stage_rank t \<Longrightarrow>
   keeps s (s'\<lparr>onboarding_stage_text := t, onboarding_updated_at_ms := n\<rparr>)"
  by (simp add: keeps_def)

lemma keeps_snoc [keeps_intros]:
  "keeps s s' \<Longrightarrow> \<not> tbl_exists (ecash_claims s') k \<Longrightarrow> keeps s (s'\<lparr>ecash_claims := ecash_claims s' @ [(k, a)]\<rparr>)"
  "keeps s s' \<Longrightarrow> \<not> tbl_exists (formed_seats s') k \<Longrightarrow> keeps s (s'\<lparr>formed_seats := formed_seats s' @ [(k, b)]\<rparr>)"
  "keeps s s' \<Longrightarrow> \<not> tbl_exists (decommissioned_seats s') k \<Longrightarrow>
     keeps s (s'\<lparr>decommissioned_seats := decommissioned_seats s' @ [(k, d)]\<rparr>)"
  "keeps s s' \<Longrightarrow> \<not> tbl_exists (seat_transfer_out s') k \<Longrightarrow>
     keeps s (s'\<lparr>seat_transfer_out := seat_transfer_out s' @ [(k, e)]\<rparr>)"
  by (erule keeps_trans, simp add: keeps_def extends_snoc)+

lemma keeps_free [keeps_intros]:
  "keeps s s' \<Longrightarrow> keeps s (s'\<lparr>seat_transfer_in := a\<rparr>)"
  "keeps s s' \<Longrightarrow> keeps s (s'\<lparr>dkg_inputs := b\<rparr>)"
  "keeps s s' \<Longrightarrow> keeps s (s'\<lparr>seat_backup_publications := d\<rparr>)"
  "keeps s s' \<Longrightarrow> keeps s (s'\<lparr>support_messages := e\<rparr>)"
  "keeps s s' \<Longrightarrow> keeps s (s'\<lparr>holder_authorization := f\<rparr>)"
  "keeps s s' \<Longrightarrow> keeps s (s'\<lparr>setup_payment_event := g\<rparr>)"
  "keeps s s' \<Longrightarrow> keeps s (s'\<lparr>setup_payment_members := h\<rparr>)"
  "keeps s s' \<Longrightarrow> keeps s (s'\<lparr>payout_settings := i\<rparr>)"
  by (simp_all add: keeps_def)

lemma keeps_callbacks [keeps_intros]:
  "keeps s s' \<Longrightarrow> extends callback_step (completion_callbacks s') t \<Longrightarrow>
   keeps s (s'\<lparr>completion_callbacks := t\<rparr>)"
  by (erule keeps_trans) (simp add: keeps_def)

lemma statements_keep:
  "write_offer row s = Inr s' \<Longrightarrow> keeps s s'"
  "insert_seat k seat s = Inr s' \<Longrightarrow> keeps s s'"
  "insert_claim c k evidence s = Inr s' \<Longrightarrow> keeps s s'"
  "insert_identity phrase origin now s = Inr s' \<Longrightarrow> keeps s s'"
  "save_transfer tc i record s = Inr s' \<Longrightarrow> keeps s s'"
  "tx_install_completion_callback c k callback now s = Inr s' \<Longrightarrow> keeps s s'"
  by (auto simp: op_Inr intro: keeps_intros extends_intros)
    (simp add: keeps_def installed_once_def)

lemma seat_inserts_keep:
  "seat_insert n k v s (formed_seats s) = Inr t \<Longrightarrow> keeps s (s\<lparr>formed_seats := t\<rparr>)"
  "seat_insert n k w s (decommissioned_seats s) = Inr t' \<Longrightarrow> keeps s (s\<lparr>decommissioned_seats := t'\<rparr>)"
  "seat_insert n k p s (seat_transfer_out s) = Inr t'' \<Longrightarrow> keeps s (s\<lparr>seat_transfer_out := t''\<rparr>)"
  by (auto simp: seat_insert_Inr intro: keeps_intros)

section \<open>Operations on the offer, the onboarding state and the settings\<close>

lemmas tx_history = in_tx_keeps [of "keeps s" s for s, OF keeps_refl]

lemma set_offered_price_keeps: "keeps s (snd (set_offered_price price now fresh s))"
  by (auto simp: set_offered_price_def Let_def write_offer_Inr keeps_offer split: sum.splits)

lemma configure_initial_offer_keeps: "keeps s (snd (configure_initial_offer price max_seats now fresh s))"
  unfolding configure_initial_offer_def Let_def
  by (rule tx_history)
    (auto simp: write_offer_Inr onboarding_stage_parse_def stage_rank_def
      elim!: and_then_InrE split: if_splits option.splits intro!: keeps_stage keeps_offer)

lemma update_seats_config_keeps: "keeps s (snd (update_seats_config update first now fresh s))"
  unfolding update_seats_config_def Let_def
  by (rule tx_history)
    (auto simp: write_offer_Inr elim!: and_then_InrE split: if_splits option.splits intro!: keeps_offer)

lemma bind_manifold_environment_keeps: "keeps s (snd (bind_manifold_environment e s))"
  by (auto simp: bind_manifold_environment_def Let_def keeps_def installed_once_def split: option.splits)

lemma install_identity_keeps: "keeps s (snd (install_identity phrase now s))"
  unfolding install_identity_def
  by (rule tx_history)
    (auto simp: Let_def advance_stage_def stage_rank_def elim!: and_then_InrE split: if_splits
      intro!: keeps_stage dest!: statements_keep(4))

lemma rotate_telemetry_keeps: "keeps s (snd (rotate_telemetry_capability_generation now s))"
  by (auto simp: rotate_telemetry_capability_generation_def Let_def keeps_def)

lemma settings_keep:
  "keeps s (snd (set_payout_destination d s))"
  "keeps s (snd (record_support_message row s))"
  "keeps s (snd (mark_support_read ids s))"
  by (auto simp: set_payout_destination_def record_support_message_def mark_support_read_def
      intro: keeps_free)

lemma authorization_keeps:
  "keeps s (drop_future_authorization m s)" "keeps s (retain_authorization b j s)"
  by (auto simp: drop_future_authorization_def retain_authorization_def intro: keeps_free
      split: option.splits)

lemma holder_authorization_event_json_keeps: "keeps s (snd (holder_authorization_event_json m s))"
  by (simp add: holder_authorization_event_json_def Let_def authorization_keeps)

lemma replace_holder_authorization_event_keeps:
  "keeps s (snd (replace_holder_authorization_event issued json m now s))"
proof (cases "issued > m")
  case False
  let ?s2 = "retain_authorization (to_be_bytes issued) json (drop_future_authorization m s)"
  have s2: "keeps s ?s2" by (rule keeps_trans) (rule authorization_keeps)+
  have "keeps s s'" if "s' = snd (advance_stage ''holder_authorization'' ''initial_offer'' now ?s2)" for s'
    using that s2 by (auto simp: advance_stage_def stage_rank_def intro!: keeps_stage)
  with False show ?thesis
    unfolding replace_holder_authorization_event_def Let_def
    by (auto intro!: tx_history elim!: and_then_InrE split: if_splits prod.splits)
qed (simp add: replace_holder_authorization_event_def)

lemma replace_setup_payment_policy_keeps:
  "keeps s (snd (replace_setup_payment_policy json members fresh s))"
  unfolding replace_setup_payment_policy_def Let_def
  by (rule tx_history)
    (auto simp: write_offer_Inr elim!: and_then_InrE split: if_splits intro!: keeps_offer keeps_free)

section \<open>Operations on seats\<close>

lemma insert_admitted_keeps:
  "insert_admitted c new slots now fresh s = Inr s' \<Longrightarrow> keeps s s'"
  unfolding insert_admitted_def Let_def
  by (auto elim!: and_then_InrE split: if_splits option.splits)
    (blast intro: keeps_trans dest: statements_keep)+

lemma admit_seat_at_writer_boundary_keeps:
  "keeps s (snd (admit_seat_at_writer_boundary c new epoch first now fresh s))"
  unfolding admit_seat_at_writer_boundary_def after_commit_state
  by (rule tx_history)
    (auto elim!: and_then_InrE split: if_splits option.splits dest!: insert_admitted_keeps)

lemma admit_seat_keeps: "keeps s (snd (admit_seat c new epoch first now fresh s))"
  by (auto simp: admit_seat_def admit_seat_at_writer_boundary_keeps split: sum.splits option.splits)

lemma record_claim_outcome_keeps: "keeps s (snd (record_claim_outcome seat_id outcome t s))"
  by (auto simp: record_claim_outcome_def Let_def keeps_def claim_step_def intro!: extends_update_where)

lemma keeps_update_callbacks:
  assumes "\<And>k row. p k row \<Longrightarrow> callback_step row (f row)"
  shows "keeps s (s\<lparr>completion_callbacks := update_where p f (completion_callbacks s)\<rparr>)"
  using assms by (auto intro!: keeps_callbacks extends_update_where)

lemma decommission_seat_keeps: "keeps s (snd (decommission_seat seat_id t s))"
  unfolding decommission_seat_def Let_def
proof (rule tx_history)
  fix x s'
  assume "and_then (seat_insert ''decommissioned_seats'' (seat_id_bytes seat_id) t s (decommissioned_seats s))
     (\<lambda>d. Inr (t, s\<lparr>decommissioned_seats := d, completion_callbacks := update_where
        (\<lambda>k' row. k' = seat_id_bytes seat_id \<and> cb_status row \<in> {''pending'', ''operator_blocked''})
        (\<lambda>row. row\<lparr>cb_completion_callback := None, cb_status := ''terminal'',
           cb_next_attempt_at_ms := None, cb_reason := Some ''decommissioned'',
           cb_completed_at_ms := Some t\<rparr>) (completion_callbacks s)\<rparr>)) = Inr (x, s')"
  then show "keeps s s'"
    by (auto elim!: and_then_InrE simp: callback_step_def
        intro!: keeps_callbacks extends_update_where dest!: seat_inserts_keep(2))
qed

lemma install_completion_callback_keeps:
  "keeps s (snd (install_completion_callback c seat_id callback now s))"
  unfolding install_completion_callback_def
  by (rule tx_history) (auto elim!: and_then_InrE intro: statements_keep)

lemma record_dkg_inputs_keeps: "keeps s (snd (record_dkg_inputs c seat_id codes callback now s))"
  unfolding record_dkg_inputs_def Let_def
  by (rule tx_history)
    (auto elim!: and_then_InrE split: if_splits dest!: statements_keep(6)
      intro: keeps_trans [OF keeps_free(2) [OF keeps_refl]])

lemma record_formed_keeps: "keeps s (snd (record_formed seat_id invite t s))"
  by (auto simp: record_formed_def Let_def keeps_def split: option.splits intro!: extends_insert_or_ignore)

lemma callback_operations_keep:
  "keeps s (snd (record_completion_callback_attempt_started seat_id t s))"
  "keeps s (snd (record_completion_callback_retry_reason seat_id reason s))"
  "keeps s (snd (record_completion_callback_operator_blocked seat_id reason s))"
  "keeps s (snd (record_completion_callback_completed seat_id outcome t s))"
  by (auto simp: record_completion_callback_attempt_started_def
      record_completion_callback_retry_reason_def record_completion_callback_operator_blocked_def
      record_completion_callback_completed_def update_callbacks_def callback_step_def
      split: prod.splits intro!: keeps_update_callbacks)

section \<open>Operations on transfers, publications and restored fleets\<close>

lemma admit_verified_transfer_keeps:
  "admit_verified_transfer cr c grant verified callback now s = Inr (x, s') \<Longrightarrow> keeps s s'"
  unfolding admit_verified_transfer_def Let_def
  by (auto elim!: and_then_InrE split: if_splits option.splits incoming_state.splits)
    (blast intro: keeps_trans dest: statements_keep)+

lemma admit_transfer_keeps: "keeps s (snd (admit_transfer cr v c grant callback now s))"
  by (auto simp: admit_transfer_def split: sum.splits intro!: tx_history
      intro: admit_verified_transfer_keeps)

lemma accept_transfer_keeps: "keeps s (snd (accept_transfer c seat_id binding keys invite now s))"
  unfolding accept_transfer_def Let_def
  by (rule tx_history)
    (auto elim!: and_then_InrE split: if_splits option.splits incoming_state.splits
      dest!: statements_keep(5) seat_inserts_keep(1) intro: keeps_trans)

lemma retire_for_transfer_keeps: "keeps s (snd (retire_for_transfer seat_id s))"
  by (auto simp: retire_for_transfer_def Let_def intro: keeps_snoc)

lemma record_transfer_removal_keeps: "keeps s (snd (record_transfer_removal seat_id s))"
  by (auto simp: record_transfer_removal_def Let_def keeps_def fence_step_def
      intro!: extends_update_where)

lemma record_backup_publication_keeps:
  "keeps s (snd (record_backup_publication seat_id doc digest out v now s))"
  by (auto simp: record_backup_publication_def Let_def intro: keeps_free)

lemma restore_rows_keep:
  "restore_creation c seat s = Inr s' \<Longrightarrow> keeps s s'"
  "restore_formed seat now s = Inr s' \<Longrightarrow> keeps s s'"
  "restore_incoming c seat s = Inr s' \<Longrightarrow> keeps s s'"
  "restore_outgoing seat s = Inr s' \<Longrightarrow> keeps s s'"
  "restore_payment c seat s = Inr s' \<Longrightarrow> keeps s s'"
  "restore_decommissioned seat s = Inr s' \<Longrightarrow> keeps s s'"
  by (auto simp: restore_creation_def restore_formed_def restore_incoming_def restore_outgoing_def
      restore_payment_def restore_decommissioned_def Let_def elim!: and_then_InrE
      split: if_splits option.splits intro: statements_keep seat_inserts_keep)

lemma install_restored_seat_keeps: "install_restored_seat c seat now s = Inr s' \<Longrightarrow> keeps s s'"
  unfolding install_restored_seat_def
  by (elim and_then_InrE) (meson restore_rows_keep keeps_trans)

lemma install_restored_seats_keeps:
  "install_restored_seats c clock i restored s = Inr s' \<Longrightarrow> keeps s s'"
  by (induction c clock i restored s rule: install_restored_seats.induct)
    (auto elim!: and_then_InrE intro: install_restored_seat_keeps keeps_trans)

lemma install_restored_fleet_keeps:
  "keeps s (snd (install_restored_fleet c phrase restored clock s))"
  unfolding install_restored_fleet_def Let_def [of "length restored"]
  by (rule tx_history)
    (auto elim!: and_then_InrE split: if_splits simp: Let_def advance_stage_def stage_rank_def
      intro!: keeps_stage dest!: install_restored_seats_keeps statements_keep(4);
      erule (1) keeps_trans)

end
