(* ===== verification/Store_Capacity.thy ===== *)
theory Store_Capacity
  imports Store_History
begin

text \<open>
  What every operation does to the capacity a quote was issued against. \<open>slots first s\<close> is the
  number of seats that can still be sold in \<open>s\<close>. The effect \<open>keeps_capacity\<close> of an operation on
  a selling fleet is that it draws a fresh offer epoch, or leaves the epoch alone and does not
  take the last slot away.
\<close>

definition slots :: "port_base \<Rightarrow> db \<Rightarrow> nat" where
  "slots first s = (case current_slots first s of Inl _ \<Rightarrow> 0 | Inr n \<Rightarrow> unat n)"

definition keeps_capacity :: "port_base \<Rightarrow> bytes \<Rightarrow> db \<Rightarrow> db \<Rightarrow> bool" where
  "keeps_capacity first fresh s s' \<longleftrightarrow>
     os_offer_epoch (offer_state s') = fresh \<or>
     os_offer_epoch (offer_state s') = os_offer_epoch (offer_state s) \<and>
     (0 < slots first s \<longrightarrow> 0 < slots first s')"

text \<open>Operations that touch neither the offer nor the seats.\<close>

definition frame :: "db \<Rightarrow> db \<Rightarrow> bool" where
  "frame s s' \<longleftrightarrow> offer_state s' = offer_state s \<and> seats s' = seats s"

section \<open>Slots\<close>

lemma u32_or_max_mono: "0 \<le> i \<Longrightarrow> i \<le> j \<Longrightarrow> u32_or_max i \<le> u32_or_max j"
  by (auto simp: u32_or_max_def)

lemma u32_or_max_Suc: "0 \<le> i \<Longrightarrow> u32_or_max i < 2 ^ 32 - 1 \<Longrightarrow> u32_or_max (i + 1) = u32_or_max i + 1"
  by (auto simp: u32_or_max_def split: if_splits)

lemma current_slots_config:
  "current_slots first s = and_then (stored_seats_config (offer_state s)) (\<lambda>cfg. Inr (config_slots first s cfg))"
  unfolding current_slots_def stored_seats_config_def config_slots_def Let_def
  by (cases "transpose_result (map_option stored_max_seats (os_max_seats (offer_state s)))";
      cases "stored_max_seats (os_memory_max_seats (offer_state s))";
      cases "stored_max_seats (os_policy_max_seats (offer_state s))") simp_all

lemma slots_config:
  "stored_seats_config (offer_state s) = Inr cfg \<Longrightarrow> slots first s = unat (config_slots first s cfg)"
  by (simp add: slots_def current_slots_config)

lemma unat_config_slots:
  "unat (config_slots first s cfg) =
     min (unat (effective_max_seats (sc_max_seats cfg) (sc_memory_max_seats cfg) (sc_policy_max_seats cfg)) -
            u32_or_max (active_count s))
       (unat (remaining_blocks first) - u32_or_max (next_seat_no s))"
  by (simp add: config_slots_def unat_available_slots)

lemma active_count_mono:
  assumes "seats s' = seats s" and "\<And>k. retired s k \<Longrightarrow> retired s' k"
  shows "active_count s' \<le> active_count s"
  unfolding active_count_def assms(1)
  using assms(2) by (auto simp: retired_def intro!: matching_mono)

lemma slots_mono:
  assumes "frame s s'" and "\<And>k. retired s k \<Longrightarrow> retired s' k"
  shows "slots first s \<le> slots first s'"
proof (cases "stored_seats_config (offer_state s)")
  case (Inl e)
  then show ?thesis by (simp add: slots_def current_slots_config)
next
  case (Inr cfg)
  then have Inr': "stored_seats_config (offer_state s') = Inr cfg" using assms(1) by (simp add: frame_def)
  have "u32_or_max (active_count s') \<le> u32_or_max (active_count s)"
    using active_count_mono [OF _ assms(2)] assms(1)
    by (intro u32_or_max_mono) (simp_all add: frame_def active_count_def)
  moreover have "next_seat_no s' = next_seat_no s" using assms(1) by (simp add: frame_def next_seat_no_def)
  ultimately show ?thesis by (auto simp: slots_config [OF Inr] slots_config [OF Inr'] unat_config_slots min_def)
qed

lemma frame_keeps_capacity:
  assumes "frame s s'" and "keeps s s'"
  shows "keeps_capacity first fresh s s'"
proof -
  have "retired s' k" if "retired s k" for k
    using that assms(2) by (auto simp: retired_def keeps_def intro: extends_exists)
  then have "slots first s \<le> slots first s'" by (rule slots_mono [OF assms(1)])
  with assms(1) show ?thesis by (auto simp: keeps_capacity_def frame_def)
qed

section \<open>Framed operations\<close>

lemma frame_refl [simp, intro]: "frame s s"
  by (simp add: frame_def)

lemmas tx_frame = in_tx_keeps [of "frame s" s for s, OF frame_refl]

lemma settings_frame:
  "frame s (snd (bind_manifold_environment e s))"
  "frame s (snd (rotate_telemetry_capability_generation now s))"
  "frame s (snd (set_payout_destination d s))"
  "frame s (snd (record_support_message row s))"
  "frame s (snd (mark_support_read ids s))"
  "frame s (snd (holder_authorization_event_json m s))"
  by (auto simp: frame_def bind_manifold_environment_def rotate_telemetry_capability_generation_def
      set_payout_destination_def record_support_message_def mark_support_read_def
      holder_authorization_event_json_def drop_future_authorization_def Let_def split: option.splits)

lemma install_identity_frame: "frame s (snd (install_identity phrase now s))"
  unfolding install_identity_def
  by (rule tx_frame)
    (auto simp: frame_def advance_stage_def insert_identity_Inr elim!: and_then_InrE split: if_splits)

lemma replace_holder_authorization_event_frame:
  "frame s (snd (replace_holder_authorization_event issued json m now s))"
proof (cases "issued > m")
  case False
  then show ?thesis
    unfolding replace_holder_authorization_event_def Let_def
    by simp (rule tx_frame, auto simp: frame_def advance_stage_def drop_future_authorization_def
        retain_authorization_def elim!: and_then_InrE split: if_splits option.splits)
qed (simp add: replace_holder_authorization_event_def)

lemma seat_operations_frame:
  "frame s (snd (record_claim_outcome seat_id outcome t s))"
  "frame s (snd (record_formed seat_id invite t s))"
  "frame s (snd (record_completion_callback_attempt_started seat_id t s))"
  "frame s (snd (record_completion_callback_retry_reason seat_id reason s))"
  "frame s (snd (record_completion_callback_operator_blocked seat_id reason s))"
  "frame s (snd (record_completion_callback_completed seat_id result t s))"
  "frame s (snd (retire_for_transfer seat_id s))"
  "frame s (snd (record_transfer_removal seat_id s))"
  "frame s (snd (record_backup_publication seat_id doc digest out v t s))"
  by (auto simp: frame_def record_claim_outcome_def record_formed_def
      record_completion_callback_attempt_started_def record_completion_callback_retry_reason_def
      record_completion_callback_operator_blocked_def record_completion_callback_completed_def
      update_callbacks_def retire_for_transfer_def record_transfer_removal_def
      record_backup_publication_def Let_def split: option.splits prod.splits)

lemma decommission_seat_frame: "frame s (snd (decommission_seat seat_id t s))"
  unfolding decommission_seat_def Let_def
  by (rule tx_frame) (auto simp: frame_def elim!: and_then_InrE)

lemma install_completion_callback_frame:
  "frame s (snd (install_completion_callback c seat_id callback now s))"
  unfolding install_completion_callback_def
  by (rule tx_frame) (auto simp: frame_def op_Inr elim!: and_then_InrE)

lemma record_dkg_inputs_frame: "frame s (snd (record_dkg_inputs c seat_id codes callback now s))"
  unfolding record_dkg_inputs_def Let_def
  by (rule tx_frame) (auto simp: frame_def op_Inr elim!: and_then_InrE split: if_splits)

lemma admit_verified_transfer_frame:
  "admit_verified_transfer cr c grant verified callback now s = Inr (x, s') \<Longrightarrow> frame s s'"
  unfolding admit_verified_transfer_def Let_def
  by (auto simp: frame_def op_Inr elim!: and_then_InrE
      split: if_splits option.splits incoming_state.splits)

lemma admit_transfer_frame: "frame s (snd (admit_transfer cr v c grant callback now s))"
  by (auto simp: admit_transfer_def split: sum.splits intro!: tx_frame dest!: admit_verified_transfer_frame)

lemma accept_transfer_frame: "frame s (snd (accept_transfer c seat_id binding keys invite now s))"
  unfolding accept_transfer_def Let_def
  by (rule tx_frame) (auto simp: frame_def op_Inr elim!: and_then_InrE
      split: if_splits option.splits incoming_state.splits)

section \<open>Operations on the offer\<close>

lemma keeps_capacity_refl [simp, intro]: "keeps_capacity first fresh s s"
  by (simp add: keeps_capacity_def)

lemma keeps_capacity_fresh: "os_offer_epoch (offer_state s') = fresh \<Longrightarrow> keeps_capacity first fresh s s'"
  by (simp add: keeps_capacity_def)

lemmas tx_capacity = in_tx_keeps [of "keeps_capacity first fresh s" s for first fresh s, OF keeps_capacity_refl]

lemma set_offered_price_capacity:
  "keeps_capacity first fresh s (snd (set_offered_price price now fresh s))"
  by (auto simp: set_offered_price_def Let_def write_offer_Inr split: sum.splits
      intro: keeps_capacity_fresh)

lemma configure_initial_offer_capacity:
  "keeps_capacity first fresh s (snd (configure_initial_offer price max_seats now fresh s))"
  unfolding configure_initial_offer_def Let_def
  by (rule tx_capacity)
    (auto simp: write_offer_Inr elim!: and_then_InrE split: if_splits option.splits
      intro!: keeps_capacity_fresh)

lemma stored_max_seats_uint [simp]: "stored_max_seats (uint w) = Inr w"
  using try_from_int_Some [of "uint w" w] by (simp add: stored_max_seats_def)

lemma stored_seats_config_row:
  assumes "os_max_seats row = map_option uint (sc_max_seats cfg)"
    and "os_memory_max_seats row = uint (sc_memory_max_seats cfg)"
    and "os_policy_max_seats row = uint (sc_policy_max_seats cfg)"
    and "os_ready_for_new_seats row = sc_ready_for_new_seats cfg"
  shows "stored_seats_config row = Inr cfg"
  using assms by (cases "sc_max_seats cfg") (simp_all add: stored_seats_config_def)

text \<open>What a configuration update that commits a change leaves behind.\<close>

lemma update_seats_config_Inr:
  assumes "fst (update_seats_config update first now fresh s) = Inr True"
    and "s' = snd (update_seats_config update first now fresh s)"
  obtains before where "stored_seats_config (offer_state s) = Inr before"
    and "limit_below_active update s = None"
    and "stored_seats_config (offer_state s') = Inr (apply_update update before)"
    and "s' = s\<lparr>offer_state := offer_state s'\<rparr>"
    and "os_offer_epoch (offer_state s') =
      (if sc_max_seats (apply_update update before) \<noteq> sc_max_seats before \<or>
          sc_ready_for_new_seats (apply_update update before) \<noteq> sc_ready_for_new_seats before \<or>
          config_slots first s before > 0 \<and> config_slots first s (apply_update update before) = 0
       then fresh else os_offer_epoch (offer_state s))"
proof -
  from assms(1) obtain before where before: "stored_seats_config (offer_state s) = Inr before"
    by (cases "stored_seats_config (offer_state s)") (auto simp: update_seats_config_def in_tx_def)
  show thesis
    by (rule that [OF before])
      (use assms before in \<open>auto simp: update_seats_config_def in_tx_def Let_def write_offer_def
        intro!: stored_seats_config_row split: option.splits if_splits\<close>)
qed

lemma update_seats_config_unchanged:
  "fst (update_seats_config update first now fresh s) \<noteq> Inr True \<Longrightarrow>
   snd (update_seats_config update first now fresh s) = s"
  unfolding update_seats_config_def Let_def in_tx_def write_offer_def
  by (cases "stored_seats_config (offer_state s)") (auto split: option.splits if_splits)

lemma update_seats_config_capacity:
  "keeps_capacity first fresh s (snd (update_seats_config update first now fresh s))"
    (is "keeps_capacity _ _ _ ?s'")
proof (cases "fst (update_seats_config update first now fresh s) = Inr True")
  case True
  then obtain before where before: "stored_seats_config (offer_state s) = Inr before"
    and after: "stored_seats_config (offer_state ?s') = Inr (apply_update update before)"
    and s': "?s' = s\<lparr>offer_state := offer_state ?s'\<rparr>"
    and epoch: "os_offer_epoch (offer_state ?s') =
      (if sc_max_seats (apply_update update before) \<noteq> sc_max_seats before \<or>
          sc_ready_for_new_seats (apply_update update before) \<noteq> sc_ready_for_new_seats before \<or>
          config_slots first s before > 0 \<and> config_slots first s (apply_update update before) = 0
       then fresh else os_offer_epoch (offer_state s))"
    using update_seats_config_Inr [OF _ refl] by metis
  have same: "config_slots first ?s' cfg = config_slots first s cfg" for cfg
    by (subst s') (simp add: config_slots_def active_count_def next_seat_no_def)
  from epoch show ?thesis
    by (auto simp: keeps_capacity_def slots_config [OF before] slots_config [OF after] same
        word_gt_0 unat_gt_0 split: if_splits)
qed (simp add: update_seats_config_unchanged)

lemma replace_setup_payment_policy_capacity:
  "keeps_capacity first fresh s (snd (replace_setup_payment_policy json members fresh s))"
  unfolding replace_setup_payment_policy_def Let_def
proof (rule tx_capacity)
  fix x s'
  assume "and_then (insert_members members []) (\<lambda>m.
     if \<exists>p\<in>set (setup_payment_members s). p \<notin> set members
     then and_then (write_offer
         (offer_state (s\<lparr>setup_payment_event := Some json, setup_payment_members := m\<rparr>)\<lparr>os_offer_epoch := fresh\<rparr>)
         (s\<lparr>setup_payment_event := Some json, setup_payment_members := m\<rparr>)) (\<lambda>s3. Inr ((), s3))
     else Inr ((), s\<lparr>setup_payment_event := Some json, setup_payment_members := m\<rparr>)) = Inr (x, s')"
  then have "os_offer_epoch (offer_state s') = fresh \<or> frame s s' \<and> keeps s s'"
    by (auto simp: write_offer_Inr frame_def elim!: and_then_InrE split: if_splits intro!: keeps_free)
  then show "keeps_capacity first fresh s s'"
    using keeps_capacity_fresh frame_keeps_capacity by blast
qed

section \<open>Admission\<close>

lemma active_count_admitted:
  assumes "seats s' = seats s @ [(k, row)]" and "decommissioned_seats s' = decommissioned_seats s"
    and "seat_transfer_out s' = seat_transfer_out s" and "wf c s" and "\<not> tbl_exists (seats s) k"
  shows "active_count s' = active_count s + 1"
proof -
  have "\<not> tbl_exists (decommissioned_seats s) k" "\<not> tbl_exists (seat_transfer_out s) k"
    using assms(4,5) by (auto simp: wf_def dest: child_ok_parent)
  with assms(1-3) show ?thesis by (simp add: active_count_def matching_snoc)
qed

lemma next_seat_no_admitted:
  assumes "seats s' = seats s @ [(k, row)]" and "sr_seat_no row = next_seat_no s"
  shows "next_seat_no s' = next_seat_no s + 1"
proof (cases "seats s = []")
  case False
  let ?N = "set (map (\<lambda>r. sr_seat_no (snd r)) (seats s))"
  have "Max (insert (Max ?N + 1) ?N) = Max ?N + 1"
    using False by (subst Max_insert) auto
  with False assms show ?thesis by (simp add: next_seat_no_def insert_commute)
qed (use assms in \<open>simp add: next_seat_no_def\<close>)

lemma insert_admitted_Inr:
  assumes "insert_admitted c new n now fresh s = Inr s'"
  obtains row where "seats s' = seats s @ [(seat_id_bytes (ns_seat_id new), row)]"
    and "sr_seat_no row = next_seat_no s" and "\<not> tbl_exists (seats s) (seat_id_bytes (ns_seat_id new))"
    and "decommissioned_seats s' = decommissioned_seats s" and "seat_transfer_out s' = seat_transfer_out s"
    and "offer_state s' = (if n = 1 then (offer_state s)\<lparr>os_offer_epoch := fresh\<rparr> else offer_state s)"
  using assms that
  by (auto simp: insert_admitted_def Let_def statement_Inr elim!: and_then_InrE
      split: if_splits option.splits)

lemma insert_admitted_capacity:
  assumes "insert_admitted c new n now fresh s = Inr s'" and "current_slots first s = Inr n"
    and "wf tc s" and "n \<noteq> 0"
  shows "keeps_capacity first fresh s s'"
proof (cases "n = 1")
  case True
  with assms(1) show ?thesis by (auto elim!: insert_admitted_Inr intro: keeps_capacity_fresh)
next
  case False
  from assms(1) obtain row where s': "seats s' = seats s @ [(seat_id_bytes (ns_seat_id new), row)]"
    "sr_seat_no row = next_seat_no s" "\<not> tbl_exists (seats s) (seat_id_bytes (ns_seat_id new))"
    "decommissioned_seats s' = decommissioned_seats s" "seat_transfer_out s' = seat_transfer_out s"
    and offer: "offer_state s' = offer_state s"
    using False by (auto elim!: insert_admitted_Inr)
  have active: "active_count s' = active_count s + 1" using active_count_admitted s' assms(3) by blast
  have no: "next_seat_no s' = next_seat_no s + 1" using next_seat_no_admitted s' by blast
  have n: "unat n \<ge> 2" using False assms(4) unat_gt_0 [of n] unat_1 [where 'a=32]
    by (metis One_nat_def Suc_1 Suc_leI le_neq_implies_less unsigned_word_eqI)
  from assms(2) obtain cfg where cfg: "stored_seats_config (offer_state s) = Inr cfg"
    "n = config_slots first s cfg"
    by (auto simp: current_slots_config elim!: and_then_InrE)
  let ?m = "unat (effective_max_seats (sc_max_seats cfg) (sc_memory_max_seats cfg) (sc_policy_max_seats cfg))"
  let ?R = "unat (remaining_blocks first)"
  have bound: "2 \<le> ?m - u32_or_max (active_count s)" "2 \<le> ?R - u32_or_max (next_seat_no s)"
    using n cfg(2) unat_config_slots [of first s cfg] by simp_all
  have "0 \<le> next_seat_no s" using next_seat_no_nonneg assms(3) wfD(2) by blast
  moreover have "0 \<le> active_count s" by (simp add: active_count_def)
  ultimately have "u32_or_max (next_seat_no s') = u32_or_max (next_seat_no s) + 1"
    "u32_or_max (active_count s') = u32_or_max (active_count s) + 1"
    unfolding active no
    using bound unat_bounds(3) [of "remaining_blocks first"] unat_bounds(3)
      [of "effective_max_seats (sc_max_seats cfg) (sc_memory_max_seats cfg) (sc_policy_max_seats cfg)"]
    by (simp_all add: u32_or_max_Suc del: One_nat_def)
  then have "0 < slots first s'"
    using bound cfg(1) offer by (simp add: slots_config unat_config_slots) linarith
  with offer show ?thesis by (simp add: keeps_capacity_def)
qed

lemma admit_seat_at_writer_boundary_capacity:
  assumes "wf tc s"
  shows "keeps_capacity first fresh s (snd (admit_seat_at_writer_boundary c new epoch first now fresh s))"
  unfolding admit_seat_at_writer_boundary_def after_commit_state
  by (rule tx_capacity)
    (auto elim!: and_then_InrE split: if_splits option.splits;
      erule (2) insert_admitted_capacity [OF _ _ assms])

end
