(* ===== verification/Fleet.thy ===== *)
theory Fleet
  imports Store_Capacity
begin

text \<open>
  The fleet (\<open>crates/mg/core/src/fleet.rs\<close>): the in-memory registry of seats over the durable
  store, the operator's settings, availability, the allocation decision for a verified quote,
  and the selection of a seat by its owner.

  The state is the record \<open>fleet\<close>: the store, the registry (a hash map, here a table keyed by
  seat id), the telemetry generation and the wake-up flags of the workers. The wallet, the key
  derivation of the root mnemonic and the start-up work on files and sockets are parameters.
  A failed \<open>expect\<close> is \<open>FleetPanic\<close> or, inside the store, \<open>FleetDb (Panicked _)\<close>.
\<close>

section \<open>Payments\<close>

datatype fleet_error = FleetDb db_error | FleetPanic string | FleetError string

text \<open>
  \<open>VerifiedLockedPayment\<close>: the claim evidence and the refund transaction that the wallet
  builds on demand.
\<close>

record verified_locked_payment =
  vlp_claim :: ecash_claim_evidence
  vlp_refund :: refund_transaction

datatype verified_payment =
    FreePayment
  | LockedPayment federation_id verified_locked_payment

fun accepted_payment :: "verified_payment \<Rightarrow> ecash_claim_evidence option" where
  "accepted_payment (LockedPayment _ locked) = Some (vlp_claim locked)"
| "accepted_payment FreePayment = None"

fun into_refund :: "verified_payment \<Rightarrow> (federation_id \<times> refund_transaction) option" where
  "into_refund FreePayment = None"
| "into_refund (LockedPayment federation_id locked) = Some (federation_id, vlp_refund locked)"

record verified_create_seat =
  vc_fa_id :: fa_id
  vc_quote_id :: quote_id
  vc_quote_terms :: quote_terms
  vc_payment :: verified_payment

section \<open>Seats in memory\<close>

record seat_keys =
  sk_iroh_api :: bytes
  sk_iroh_p2p :: bytes
  sk_api_auth :: string
  sk_preserve_guardian_identity :: bool

definition imported_seat_keys :: "imported_keys \<Rightarrow> string \<Rightarrow> seat_keys" where
  "imported_seat_keys keys api_auth =
     \<lparr>sk_iroh_api = ik_iroh_api keys, sk_iroh_p2p = ik_iroh_p2p keys, sk_api_auth = api_auth,
      sk_preserve_guardian_identity = True\<rparr>"

text \<open>The root mnemonic, through the two derivations the fleet uses.\<close>

record root_identity =
  ri_service_pubkey :: bytes
  ri_seat_keys :: "seat_id \<Rightarrow> seat_keys"

record fleet_config =
  fc_manifold_environment :: environment
  fc_first_port_base :: port_base
  fc_setup_payments_configured :: bool

record seat_durable_state =
  ds_facts :: seat_facts
  ds_formed_invite :: "string option"
  ds_decommissioned_at_ms :: "int option"
  ds_transfer_phase :: "transfer_phase option"

record seat_runtime =
  rt_state :: seat_durable_state
  rt_ports :: seat_ports
  rt_keys :: seat_keys

record fleet =
  fl_db :: db
  fl_seats :: "(seat_id, seat_runtime) tbl"
  fl_telemetry_generation :: u64
  fl_backup_marked :: bool
  fl_claims_marked :: bool
  fl_advertisement_changed :: bool
  fl_telemetry_registration_changed :: bool

definition load_effective_keys ::
    "transfer_codec \<Rightarrow> root_identity \<Rightarrow> db \<Rightarrow> seat_facts \<Rightarrow> fleet_error + seat_keys" where
  "load_effective_keys c identity s facts =
     (let derived = ri_seat_keys identity (sf_seat_id facts) in
      case outgoing (sf_seat_id facts) s of
        Inl e \<Rightarrow> Inl (FleetDb e)
      | Inr (Some Removed) \<Rightarrow> Inr derived
      | Inr _ \<Rightarrow>
          (case incoming c (sf_seat_id facts) s of
             Inl e \<Rightarrow> Inl (FleetDb e)
           | Inr None \<Rightarrow> Inr derived
           | Inr (Some record) \<Rightarrow>
               if \<not> (tm_destination_seat_id (in_binding record) = sf_seat_id facts \<and>
                     tm_fa_id (in_binding record) = sf_fa_id facts \<and>
                     tm_destination_service_pubkey (in_binding record) = ri_service_pubkey identity)
               then Inl (FleetError ''imported guardian destination mismatch'')
               else Inr (case incoming_accepted (in_state record) of
                   Some keys \<Rightarrow> imported_seat_keys keys (sk_api_auth derived)
                 | None \<Rightarrow> derived)))"

definition seat_by_id :: "seat_id \<Rightarrow> fleet \<Rightarrow> seat_runtime option" where
  "seat_by_id seat_id fl = map_of (fl_seats fl) seat_id"

text \<open>The result tells whether this call installed the runtime.\<close>

definition ensure_seat_runtime ::
    "fleet_config \<Rightarrow> seat_durable_state \<Rightarrow> seat_keys \<Rightarrow> fleet \<Rightarrow> fleet_error + bool \<times> fleet" where
  "ensure_seat_runtime cfg durable keys fl =
     (let facts = ds_facts durable in
      case seat_by_id (sf_seat_id facts) fl of
        Some _ \<Rightarrow> Inr (False, fl)
      | None \<Rightarrow>
          (case seat_port_base (sf_seat_no facts) (fc_first_port_base cfg) of
             None \<Rightarrow> Inl (FleetPanic ''admitted seat_no has a port block'')
           | Some base \<Rightarrow>
               Inr (True, fl\<lparr>fl_seats := upsert_row (sf_seat_id facts)
                 \<lparr>rt_state = durable, rt_ports = SeatPorts base, rt_keys = keys\<rparr> (fl_seats fl)\<rparr>)))"

text \<open>
  \<open>Fleet::authorize\<close>: the only selection of a seat by a request of an FA. The signer and the
  named seat come from the verified request.
\<close>

datatype seat_verb_error =
    UnknownSeat | SeatUnavailable | AwaitingSessionEnd | AwaitingBackup | FederationIsRunning
  | WrongState service_status | InvalidDkgInput string | MetaKeyRefused | MetaValueInvalid
  | MetaConsensusChanged | FormationMetaAlreadyPublished | MetaTargetConflict
  | TransferGrantMismatch | TransferDisabled | ReplacementGuardianUnverified | Internal string

definition authorize :: "seat_id \<Rightarrow> fa_id \<Rightarrow> fleet \<Rightarrow> seat_verb_error + seat_runtime" where
  "authorize seat_id signer fl =
     and_then (ok_or (seat_by_id seat_id fl) UnknownSeat) (\<lambda>seat.
     if sf_fa_id (ds_facts (rt_state seat)) \<noteq> signer then Inl UnknownSeat else Inr seat)"

section \<open>Opening a fleet\<close>

text \<open>
  The outcomes of the start-up work outside the store: the data directory, the wallet, the
  layout migration of a seat directory, the backup sink and the native connectors.
\<close>

record startup =
  su_retry_interval_zero :: bool
  su_data_root_ok :: bool
  su_wallet_ok :: bool
  su_migrate_ok :: "seat_facts \<Rightarrow> bool"
  su_backup_ok :: bool
  su_connectors_ok :: bool

fun open_seats ::
    "fleet_config \<Rightarrow> transfer_codec \<Rightarrow> root_identity \<Rightarrow> db \<Rightarrow> seat_record list \<Rightarrow>
     (seat_id, seat_runtime) tbl \<Rightarrow> fleet_error + (seat_id, seat_runtime) tbl" where
  "open_seats cfg c identity s [] t = Inr t"
| "open_seats cfg c identity s (seat # rest) t =
     (let facts = rec_facts seat; seat_id = sf_seat_id facts in
      case db_transfer_phase c seat_id s of
        Inl e \<Rightarrow> Inl (FleetDb e)
      | Inr phase \<Rightarrow>
          (case seat_port_base (sf_seat_no facts) (fc_first_port_base cfg) of
             None \<Rightarrow> Inl (FleetError ''stored seat_no exceeds port grid'')
           | Some base \<Rightarrow>
               and_then (load_effective_keys c identity s facts) (\<lambda>keys.
               open_seats cfg c identity s rest (upsert_row seat_id
                 \<lparr>rt_state = \<lparr>ds_facts = facts, ds_formed_invite = formed_federation_invite seat_id s,
                     ds_decommissioned_at_ms = rec_decommissioned_at_ms seat,
                     ds_transfer_phase = phase\<rparr>,
                  rt_ports = SeatPorts base, rt_keys = keys\<rparr> t))))"

definition map_db_error :: "db_error + 'a \<Rightarrow> fleet_error + 'a" where
  "map_db_error r = (case r of Inl e \<Rightarrow> Inl (FleetDb e) | Inr x \<Rightarrow> Inr x)"

definition open_with_wallet ::
    "fleet_config \<Rightarrow> transfer_codec \<Rightarrow> startup \<Rightarrow> (string \<Rightarrow> db_error + root_identity) \<Rightarrow> db \<Rightarrow>
     (fleet_error + fleet) \<times> db" where
  "open_with_wallet cfg c su parse s =
     (if su_retry_interval_zero su then (Inl (FleetError ''push callback retry interval must be nonzero''), s)
      else if \<not> su_data_root_ok su then (Inl (FleetError ''create fleet data root''), s)
      else
      let (bound, s1) = bind_manifold_environment (fc_manifold_environment cfg) s in
      (and_then (map_db_error bound) (\<lambda>_.
       and_then (map_db_error (db_onboarding_stage s1)) (\<lambda>stage.
       if stage \<noteq> Complete then Inl (FleetError ''this Manifold Fedimint Guardian has not completed setup'')
       else
       and_then (map_db_error (load_identity parse s1)) (\<lambda>loaded.
       and_then (ok_or loaded (FleetError ''this Manifold Fedimint Guardian has not been set up'')) (\<lambda>identity.
       and_then (map_db_error (telemetry_capability_generation s1)) (\<lambda>generation.
       if \<not> su_wallet_ok su then Inl (FleetError ''wallet'')
       else
       and_then (map_db_error (list_seats c s1)) (\<lambda>listed.
       if \<exists>r \<in> set listed. \<not> su_migrate_ok su (rec_facts r) then Inl (FleetError ''refusing to start'')
       else if \<not> su_backup_ok su then Inl (FleetError ''backup'')
       else
       and_then (map_db_error (validate_completion_callbacks c s1)) (\<lambda>_.
       if \<not> su_connectors_ok su then Inl (FleetError ''bind native Fedimint API connectors'')
       else
       and_then (open_seats cfg c identity s1 listed []) (\<lambda>registry.
       Inr \<lparr>fl_db = s1, fl_seats = registry, fl_telemetry_generation = generation,
            fl_backup_marked = False, fl_claims_marked = False,
            fl_advertisement_changed = False,
            fl_telemetry_registration_changed = False\<rparr>)))))))), s1))"

section \<open>Operator settings and availability\<close>

definition operator_settings :: "fleet_config \<Rightarrow> fleet \<Rightarrow> fleet_error + quote_settings" where
  "operator_settings cfg fl =
     (case take_offer_snapshot (fc_first_port_base cfg) (fl_db fl) of
        Inl _ \<Rightarrow> Inl (FleetPanic ''stored quote settings are valid'')
      | Inr snapshot \<Rightarrow> Inr (of_settings (sn_offer snapshot)))"

definition fleet_set_offered_price ::
    "fleet_config \<Rightarrow> u64 option \<Rightarrow> int \<Rightarrow> bytes \<Rightarrow> fleet \<Rightarrow> (fleet_error + unit) \<times> fleet" where
  "fleet_set_offered_price cfg price now fresh fl =
     (if (case price of None \<Rightarrow> False | Some p \<Rightarrow> 0 < p) \<and> \<not> fc_setup_payments_configured cfg
      then (Inl (FleetError ''this environment has no setup-payment publisher''), fl)
      else
        let (r, s') = set_offered_price price now fresh (fl_db fl) in
        case r of
          Inl e \<Rightarrow> (Inl (FleetDb e), fl\<lparr>fl_db := s'\<rparr>)
        | Inr _ \<Rightarrow> (Inr (), fl\<lparr>fl_db := s', fl_advertisement_changed := True\<rparr>))"

definition fleet_update_seats_config ::
    "fleet_config \<Rightarrow> seats_config_update \<Rightarrow> int \<Rightarrow> bytes \<Rightarrow> fleet \<Rightarrow> (fleet_error + bool) \<times> fleet" where
  "fleet_update_seats_config cfg update now fresh fl =
     (let (r, s') = update_seats_config update (fc_first_port_base cfg) now fresh (fl_db fl);
          fl' = fl\<lparr>fl_db := s'\<rparr>
      in case r of
           Inl e \<Rightarrow> (Inl (FleetDb e), fl')
         | Inr changed \<Rightarrow>
             (Inr changed, if changed then fl'\<lparr>fl_advertisement_changed := True\<rparr> else fl'))"

definition no_update :: seats_config_update where
  "no_update = \<lparr>up_max_seats = None, up_memory_max_seats = None, up_policy_max_seats = None,
     up_ready_for_new_seats = None\<rparr>"

definition set_max_seats ::
    "fleet_config \<Rightarrow> u32 option \<Rightarrow> int \<Rightarrow> bytes \<Rightarrow> fleet \<Rightarrow> (fleet_error + unit) \<times> fleet" where
  "set_max_seats cfg max_seats now fresh fl =
     (let (r, fl') = fleet_update_seats_config cfg (no_update\<lparr>up_max_seats := Some max_seats\<rparr>) now fresh fl
      in (and_then r (\<lambda>_. Inr ()), fl'))"

text \<open>The report's verdict is its argument; the report itself is kept for the operator only.\<close>

definition set_seat_readiness ::
    "fleet_config \<Rightarrow> bool \<Rightarrow> int \<Rightarrow> bytes \<Rightarrow> fleet \<Rightarrow> (fleet_error + unit) \<times> fleet" where
  "set_seat_readiness cfg ready now fresh fl =
     (let (r, fl') = fleet_update_seats_config cfg (no_update\<lparr>up_ready_for_new_seats := Some ready\<rparr>) now fresh fl
      in (and_then r (\<lambda>_. Inr ()), fl'))"

definition quote_offer :: "fleet_config \<Rightarrow> fleet \<Rightarrow> fleet_error + offer option" where
  "quote_offer cfg fl =
     (case take_offer_snapshot (fc_first_port_base cfg) (fl_db fl) of
        Inl _ \<Rightarrow> Inl (FleetPanic ''offer snapshot'')
      | Inr snapshot \<Rightarrow>
          Inr (if sn_slots snapshot > 0 \<and> sn_ready_for_new_seats snapshot
               then Some (sn_offer snapshot) else None))"

record availability_snapshot =
  av_accepting_seats :: bool
  av_max_seats :: "u32 option"
  av_memory_max_seats :: u32
  av_policy_max_seats :: u32
  av_available_seats :: u32
  av_plans :: "plan list"

definition take_availability_snapshot :: "fleet_config \<Rightarrow> fleet \<Rightarrow> fleet_error + availability_snapshot" where
  "take_availability_snapshot cfg fl =
     (case take_offer_snapshot (fc_first_port_base cfg) (fl_db fl) of
        Inl _ \<Rightarrow> Inl (FleetPanic ''offer snapshot'')
      | Inr snapshot \<Rightarrow>
          (let settings = of_settings (sn_offer snapshot) in
           Inr \<lparr>av_accepting_seats = (sn_slots snapshot > 0 \<and> qs_price settings \<noteq> None \<and>
                  sn_ready_for_new_seats snapshot),
                av_max_seats = sn_max_seats snapshot,
                av_memory_max_seats = sn_memory_max_seats snapshot,
                av_policy_max_seats = sn_policy_max_seats snapshot,
                av_available_seats = sn_slots snapshot,
                av_plans = quote_settings_plans settings\<rparr>))"

text \<open>\<open>fetch_max\<close> keeps a later generation installed by a concurrent call.\<close>

definition reenroll_telemetry :: "int \<Rightarrow> fleet \<Rightarrow> (fleet_error + unit) \<times> fleet" where
  "reenroll_telemetry now fl =
     (let (r, s') = rotate_telemetry_capability_generation now (fl_db fl);
          fl' = fl\<lparr>fl_db := s'\<rparr>
      in case r of
           Inl e \<Rightarrow> (Inl (FleetDb e), fl')
         | Inr generation \<Rightarrow>
             (Inr (), fl'\<lparr>fl_telemetry_generation := max (fl_telemetry_generation fl) generation,
                fl_telemetry_registration_changed := True\<rparr>))"

section \<open>Allocation\<close>

text \<open>The publication of an admitted or replayed seat, and the hints to the workers.\<close>

definition publish_seat ::
    "fleet_config \<Rightarrow> transfer_codec \<Rightarrow> root_identity \<Rightarrow> seat_durable_state \<Rightarrow> bool \<Rightarrow> bool \<Rightarrow> 'r \<Rightarrow> fleet \<Rightarrow>
     (fleet_error + 'r) \<times> fleet" where
  "publish_seat cfg c identity durable inserted paid commitment fl =
     (let facts = ds_facts durable; seat_id = sf_seat_id facts;
          installed =
            (if seat_by_id seat_id fl \<noteq> None then Inr (False, fl)
             else
               and_then (if inserted then Inr (ri_seat_keys identity seat_id)
                         else load_effective_keys c identity (fl_db fl) facts) (\<lambda>keys.
               ensure_seat_runtime cfg durable keys fl))
      in case installed of
           Inl e \<Rightarrow> (Inl e, fl)
         | Inr (installed, fl1) \<Rightarrow>
             let fl2 = (if inserted \<or> installed then fl1\<lparr>fl_backup_marked := True\<rparr> else fl1);
                 fl3 = (if paid \<or> \<not> inserted then fl2\<lparr>fl_claims_marked := True\<rparr> else fl2)
             in (Inr commitment, fl3))"

text \<open>The \<open>NewSeat\<close> of a verified request.\<close>

definition requested_seat :: "verified_create_seat \<Rightarrow> new_seat" where
  "requested_seat input =
     \<lparr>ns_seat_id = seat_id_from_quote (vc_quote_id input), ns_fa_id = vc_fa_id input,
      ns_plan = gq_plan (qt_request (vc_quote_terms input)),
      ns_federation_size = gq_federation_size (qt_request (vc_quote_terms input)),
      ns_payment = accepted_payment (vc_payment input)\<rparr>"

definition fleet_create_seat ::
    "fleet_config \<Rightarrow> transfer_codec \<Rightarrow> root_identity \<Rightarrow> verified_create_seat \<Rightarrow>
     (seat_id \<Rightarrow> string + 'r) \<Rightarrow> (refusal_reason \<Rightarrow> refund_transaction option \<Rightarrow> string + 'r) \<Rightarrow>
     int \<Rightarrow> bytes \<Rightarrow> fleet \<Rightarrow> (fleet_error + 'r) \<times> fleet" where
  "fleet_create_seat cfg c identity input sign sign_refusal now fresh fl =
     (case sign (seat_id_from_quote (vc_quote_id input)) of
        Inl e \<Rightarrow> (Inl (FleetError e), fl)
      | Inr commitment \<Rightarrow>
          (let paid = (accepted_payment (vc_payment input) \<noteq> None);
               (result, s') = admit_seat c (requested_seat input) (qt_offer_epoch (vc_quote_terms input))
                 (fc_first_port_base cfg) now fresh (fl_db fl);
               fl' = fl\<lparr>fl_db := s'\<rparr>
           in case result of
                Inl e \<Rightarrow> (Inl (FleetDb e), fl')
              | Inr OfferChanged \<Rightarrow>
                  (case sign_refusal OfferChangedRefusal (map_option snd (into_refund (vc_payment input))) of
                     Inl e \<Rightarrow> (Inl (FleetError e), fl')
                   | Inr refusal \<Rightarrow> (Inr refusal, fl'))
              | Inr (Inserted facts) \<Rightarrow>
                  publish_seat cfg c identity
                    \<lparr>ds_facts = facts, ds_formed_invite = None, ds_decommissioned_at_ms = None,
                     ds_transfer_phase = None\<rparr> True paid commitment fl'
              | Inr (Existing facts) \<Rightarrow>
                  (case db_transfer_phase c (sf_seat_id facts) s' of
                     Inl e \<Rightarrow> (Inl (FleetDb e), fl')
                   | Inr phase \<Rightarrow>
                       publish_seat cfg c identity
                         \<lparr>ds_facts = facts, ds_formed_invite = formed_federation_invite (sf_seat_id facts) s',
                          ds_decommissioned_at_ms = decommissioned_at_ms (sf_seat_id facts) s',
                          ds_transfer_phase = phase\<rparr> False paid commitment fl')))"

end
