(* ===== verification/Sample_Codec.thy ===== *)
theory Sample_Codec
  imports Transfer_Store
begin

text \<open>
  An executable instance of the codec parameters of the store, on which the hypotheses
  \<open>codec_ok\<close> and \<open>transfer_codec_ok\<close> hold. It is not the wire format of the program, whose
  codecs are \<open>serde_json\<close> and \<open>ciborium\<close>: it only shows that the hypotheses can be met and
  lets the concrete runs of the development be evaluated. A value is a list of byte fields, and
  the locale \<open>field_format\<close> gives the round trip of the text form once for all of them.
\<close>

section \<open>Fields\<close>

definition pack :: "bytes list \<Rightarrow> bytes" where
  "pack fds = concat (map (\<lambda>f. concat (map (\<lambda>b. [1, b]) f) @ [0]) fds)"

fun unpack_field :: "bytes \<Rightarrow> (bytes \<times> bytes) option" where
  "unpack_field [] = None"
| "unpack_field [m] = (if m = 0 then Some ([], []) else None)"
| "unpack_field (m # b # rest) =
     (if m = 0 then Some ([], b # rest) else map_option (apfst ((#) b)) (unpack_field rest))"

lemma unpack_field_pack:
  "unpack_field (concat (map (\<lambda>b. [1, b]) f) @ 0 # rest) = Some (f, rest)"
proof (induction f)
  case Nil
  then show ?case by (cases rest) simp_all
qed simp

fun unpack_fields :: "nat \<Rightarrow> bytes \<Rightarrow> bytes list option" where
  "unpack_fields n [] = Some []"
| "unpack_fields 0 (b # bs) = None"
| "unpack_fields (Suc n) (b # bs) =
     (case unpack_field (b # bs) of None \<Rightarrow> None
      | Some (f, rest) \<Rightarrow> map_option ((#) f) (unpack_fields n rest))"

definition unpack :: "bytes \<Rightarrow> bytes list option" where
  "unpack bs = unpack_fields (length bs) bs"

lemma pack_Cons: "pack (f # fs) = concat (map (\<lambda>b. [1, b]) f) @ 0 # pack fs"
  by (simp add: pack_def)

lemma unpack_fields_pack: "length fds \<le> n \<Longrightarrow> unpack_fields n (pack fds) = Some fds"
proof (induction fds arbitrary: n)
  case Nil
  then show ?case by (simp add: pack_def)
next
  case (Cons f fds)
  then obtain m where n: "n = Suc m" "length fds \<le> m" by (cases n) auto
  have "pack (f # fds) \<noteq> []" by (simp add: pack_Cons)
  then obtain b bs where bs: "pack (f # fds) = b # bs" by (meson neq_Nil_conv)
  then have "unpack_field (b # bs) = Some (f, pack fds)"
    using unpack_field_pack [of f "pack fds"] by (simp add: pack_Cons)
  with Cons.IH [OF n(2)] show ?case by (simp add: n(1) bs)
qed

lemma length_pack: "length fds \<le> length (pack fds)"
  by (induction fds) (simp_all add: pack_Cons)

lemma unpack_pack [simp]: "unpack (pack fds) = Some fds"
  by (simp add: unpack_def unpack_fields_pack length_pack)

text \<open>Texts and numbers as fields.\<close>

definition text_of :: "bytes \<Rightarrow> string" where
  "text_of bs = map (\<lambda>b. char_of (unat b)) bs"

definition word_field :: "'a::len word \<Rightarrow> bytes" where
  "word_field w = map (\<lambda>i. if bit w i then 1 else 0) [0..<LENGTH('a)]"

definition field_word :: "bytes \<Rightarrow> 'a::len word" where
  "field_word bs = horner_sum of_bool 2 (map (\<lambda>b. b = 1) bs)"

lemma text_of_as_bytes [simp]: "text_of (as_bytes t) = t"
  by (induction t) (simp_all add: text_of_def as_bytes_def unat_of_char)

lemma as_bytes_text_of [simp]: "as_bytes (text_of bs) = bs"
proof -
  have "of_char (char_of (unat b) :: char) = b" for b :: u8
    using unat_bounds(1) [of b] by (intro unsigned_word_eqI [where 'a=nat]) (simp add: unat_of_char)
  then show ?thesis by (simp add: text_of_def as_bytes_def map_idI)
qed

lemma field_word_field [simp]: "field_word (word_field w) = w"
proof -
  have "map (\<lambda>b. b = (1 :: u8)) (word_field w) = map (bit w) [0..<LENGTH('a)]"
    by (simp add: word_field_def)
  then show ?thesis by (simp add: field_word_def horner_sum_bit_eq_take_bit)
qed

section \<open>Formats\<close>

locale field_format =
  fixes to_fields :: "'a \<Rightarrow> bytes list" and from_fields :: "bytes list \<Rightarrow> 'a option"
  assumes fields_roundtrip: "from_fields (to_fields x) = Some x"
begin

lemma bytes_roundtrip: "Option.bind (unpack (pack (to_fields x))) from_fields = Some x"
  by (simp add: fields_roundtrip)

lemma text_roundtrip: "Option.bind (unpack (as_bytes (text_of (pack (to_fields x))))) from_fields = Some x"
  by (simp add: fields_roundtrip)

lemma list_roundtrip: "those (map (\<lambda>f. Option.bind (unpack f) from_fields) (map (\<lambda>x. pack (to_fields x)) xs)) = Some xs"
  by (induction xs) (simp_all add: fields_roundtrip)

end

definition print_as :: "('a \<Rightarrow> bytes list) \<Rightarrow> 'a \<Rightarrow> string" where
  "print_as to_fields x = text_of (pack (to_fields x))"

definition parse_as :: "(bytes list \<Rightarrow> 'a option) \<Rightarrow> string \<Rightarrow> 'a option" where
  "parse_as from_fields t = Option.bind (unpack (as_bytes t)) from_fields"

definition print_list :: "('a \<Rightarrow> bytes list) \<Rightarrow> 'a list \<Rightarrow> bytes" where
  "print_list to_fields xs = pack (map (\<lambda>x. pack (to_fields x)) xs)"

definition parse_list :: "(bytes list \<Rightarrow> 'a option) \<Rightarrow> bytes \<Rightarrow> 'a list option" where
  "parse_list from_fields bs =
     Option.bind (unpack bs) (\<lambda>fs. those (map (\<lambda>f. Option.bind (unpack f) from_fields) fs))"

context field_format
begin

lemma parse_print: "parse_as from_fields (print_as to_fields x) = Some x"
  by (simp add: parse_as_def print_as_def fields_roundtrip)

lemma parse_print_list: "parse_list from_fields (print_list to_fields xs) = Some xs"
  using list_roundtrip [of xs] by (simp add: parse_list_def print_list_def)

end

section \<open>The formats of the stored values\<close>

fun plan_fields :: "plan \<Rightarrow> bytes list" where
  "plan_fields (InfiniteBestEffort p) = [word_field p]"
| "plan_fields (SubscriptionBased p q t) = [word_field p, word_field q, as_bytes t]"

fun fields_plan :: "bytes list \<Rightarrow> plan option" where
  "fields_plan [p] = Some (InfiniteBestEffort (field_word p))"
| "fields_plan [p, q, t] = Some (SubscriptionBased (field_word p) (field_word q) (text_of t))"
| "fields_plan _ = None"

fun callback_fields :: "dkg_completion_callback \<Rightarrow> bytes list" where
  "callback_fields (DkgCompletionCallback a b) = [as_bytes a, as_bytes b]"

fun fields_callback :: "bytes list \<Rightarrow> dkg_completion_callback option" where
  "fields_callback [a, b] = Some (DkgCompletionCallback (text_of a) (text_of b))"
| "fields_callback _ = None"

definition request_fields :: "locked_issuance_request \<Rightarrow> bytes list" where
  "request_fields r = [word_field (li_amount_msats r), li_blind_nonce r]"

fun fields_request :: "bytes list \<Rightarrow> locked_issuance_request option" where
  "fields_request [a, n] = Some \<lparr>li_amount_msats = field_word a, li_blind_nonce = n\<rparr>"
| "fields_request _ = None"

definition request_v2_fields :: "locked_issuance_request_v2 \<Rightarrow> bytes list" where
  "request_v2_fields r = [word_field (l2_amount_msats r), l2_blind_nonce r, l2_tweak r]"

fun fields_request_v2 :: "bytes list \<Rightarrow> locked_issuance_request_v2 option" where
  "fields_request_v2 [a, n, t] = Some \<lparr>l2_amount_msats = field_word a, l2_blind_nonce = n, l2_tweak = t\<rparr>"
| "fields_request_v2 _ = None"

interpretation plan_format: field_format plan_fields fields_plan
proof
  fix x show "fields_plan (plan_fields x) = Some x" by (cases x) simp_all
qed

interpretation callback_format: field_format callback_fields fields_callback
proof
  fix x show "fields_callback (callback_fields x) = Some x" by (cases x) simp
qed

interpretation request_format: field_format request_fields fields_request
  by unfold_locales (simp add: request_fields_def)

interpretation request_v2_format: field_format request_v2_fields fields_request_v2
  by unfold_locales (simp add: request_v2_fields_def)

fun evidence_fields :: "ecash_claim_evidence \<Rightarrow> bytes list" where
  "evidence_fields (EvidenceMintV1 f i k rs ss) =
     [as_bytes f, word_field i, print_list request_fields rs, pack ss, k]"
| "evidence_fields (EvidenceMintV2 f i rs ss) =
     [as_bytes f, word_field i, print_list request_v2_fields rs, pack ss]"

fun fields_evidence :: "bytes list \<Rightarrow> ecash_claim_evidence option" where
  "fields_evidence [f, i, rs, ss, k] =
     Option.bind (parse_list fields_request rs) (\<lambda>rs. Option.bind (unpack ss) (\<lambda>ss.
     Some (EvidenceMintV1 (text_of f) (field_word i) k rs ss)))"
| "fields_evidence [f, i, rs, ss] =
     Option.bind (parse_list fields_request_v2 rs) (\<lambda>rs. Option.bind (unpack ss) (\<lambda>ss.
     Some (EvidenceMintV2 (text_of f) (field_word i) rs ss)))"
| "fields_evidence _ = None"

interpretation evidence_format: field_format evidence_fields fields_evidence
proof
  fix x show "fields_evidence (evidence_fields x) = Some x"
    by (cases x) (simp_all add: request_format.parse_print_list request_v2_format.parse_print_list)
qed

definition binding_fields :: "transfer_move \<Rightarrow> bytes list" where
  "binding_fields b =
     [tm_fa_id b, as_bytes (tm_federation_id b), as_bytes (loc_endpoint_addr (tm_source b)),
      loc_service_pubkey (tm_source b), seat_id_bytes (tm_source_seat_id b),
      tm_destination_service_pubkey b, seat_id_bytes (tm_destination_seat_id b)]"

fun fields_binding :: "bytes list \<Rightarrow> transfer_move option" where
  "fields_binding [a, f, e, p, s, d, t] = Some
     \<lparr>tm_fa_id = a, tm_federation_id = text_of f,
      tm_source = \<lparr>loc_endpoint_addr = text_of e, loc_service_pubkey = p\<rparr>, tm_source_seat_id = SeatId s,
      tm_destination_service_pubkey = d, tm_destination_seat_id = SeatId t\<rparr>"
| "fields_binding _ = None"

lemma SeatId_seat_id_bytes [simp]: "SeatId (seat_id_bytes i) = i"
  by (cases i) simp

interpretation binding_format: field_format binding_fields fields_binding
  by unfold_locales (simp add: binding_fields_def)

definition grant_fields :: "signed_request \<Rightarrow> bytes list" where
  "grant_fields g = [sq_fa_id g, sq_payload g, sq_fa_signature g]"

fun fields_grant :: "bytes list \<Rightarrow> signed_request option" where
  "fields_grant [a, p, s] = Some \<lparr>sq_fa_id = a, sq_payload = p, sq_fa_signature = s\<rparr>"
| "fields_grant _ = None"

interpretation grant_format: field_format grant_fields fields_grant
  by unfold_locales (simp add: grant_fields_def)

interpretation codes_format: field_format "map as_bytes" "\<lambda>fs. Some (map text_of fs)"
  by unfold_locales (simp add: comp_def map_idI)

section \<open>The codec\<close>

text \<open>A federation invite of this instance names its federation by its own text.\<close>

definition sample_codec :: transfer_codec where
  "sample_codec =
     \<lparr>fa_to_string = text_of, fa_parse = (\<lambda>t. Some (as_bytes t)),
      plan_to_json = print_as plan_fields, plan_from_json = parse_as fields_plan,
      evidence_to_cbor = (\<lambda>e. pack (evidence_fields e)),
      evidence_from_cbor = (\<lambda>bs. Option.bind (unpack bs) fields_evidence),
      callback_to_json = print_as callback_fields, callback_from_json = parse_as fields_callback,
      codes_to_json = print_as (map as_bytes),
      codes_from_json = parse_as (\<lambda>fs. Some (map text_of fs)),
      binding_to_json = print_as binding_fields, binding_from_json = parse_as fields_binding,
      grant_to_json = print_as grant_fields, grant_from_json = parse_as fields_grant,
      callback_canonical = (\<lambda>c. pack (callback_fields c)),
      invite_federation_id = Some\<rparr>"

lemma sample_codec_ok: "transfer_codec_ok sample_codec"
  unfolding transfer_codec_ok_def codec_ok_def sample_codec_def
  by (simp add: plan_format.parse_print evidence_format.fields_roundtrip callback_format.parse_print
      codes_format.parse_print binding_format.parse_print grant_format.parse_print)

end
