(* ===== verification/Store_Lifecycle.thy ===== *)
theory Store_Lifecycle
  imports Store_Capacity Sample_Codec
begin

text \<open>
  The store as a transition system: one step is one transaction of one of its operations, in
  any order and with any arguments, or the minting of a quote. The state pairs the database
  with the set of offer epochs that minted quotes name. The port base and the codecs are those
  of the environment; a fresh epoch is 32 random bytes that no quote has named before.

  The locales \<open>invariant_system\<close> and \<open>monotone_system\<close> of the prelude are interpreted on this
  system: \<open>store_inv\<close> holds in every reachable state, and \<open>history\<close> relates each state of a
  run to every later one.
\<close>

record store_env =
  en_codec :: transfer_codec
  en_crypto :: crypto
  en_verb :: "seat_transfer_grant verb"
  en_first_port_base :: port_base

text \<open>
  An admission is its writer transaction: the read-only look that precedes it in \<open>admit_seat\<close>
  may be out of date by then.
\<close>

datatype operation =
    SetOfferedPrice "u64 option"
  | ConfigureInitialOffer "u64 option" "u32 option"
  | UpdateSeatsConfig seats_config_update
  | BindManifoldEnvironment environment
  | InstallIdentity string
  | InstallRestoredFleet string "restored_seat list" "nat \<Rightarrow> int"
  | RotateTelemetryGeneration
  | SetPayoutDestination "string option"
  | ReadHolderAuthorization u64
  | ReplaceHolderAuthorization u64 string u64
  | ReplaceSetupPaymentPolicy string "string list"
  | RecordSupportMessage support_row
  | MarkSupportRead "string list"
  | AdmitSeat new_seat offer_epoch
  | RecordClaimOutcome seat_id claim_outcome
  | DecommissionSeat seat_id
  | InstallCompletionCallback seat_id "dkg_completion_callback option"
  | RecordDkgInputs seat_id dkg_code_set "dkg_completion_callback option"
  | RecordFormed seat_id string
  | StartCallbackAttempt seat_id int
  | RecordCallbackRetry seat_id completion_callback_reason
  | BlockCallback seat_id completion_callback_reason
  | CompleteCallback seat_id completion_callback_outcome
  | AdmitTransfer signed_request "dkg_completion_callback option"
  | AcceptTransfer seat_id transfer_move imported_keys string
  | RetireForTransfer seat_id
  | RecordTransferRemoval seat_id
  | RecordBackupPublication seat_id string "string option" "outgoing_transfer option" u32

text \<open>The state after an operation at time \<open>now\<close>, whatever its result.\<close>

fun perform :: "store_env \<Rightarrow> int \<Rightarrow> bytes \<Rightarrow> operation \<Rightarrow> db \<Rightarrow> db" where
  "perform en now fresh (SetOfferedPrice p) s = snd (set_offered_price p now fresh s)"
| "perform en now fresh (ConfigureInitialOffer p m) s = snd (configure_initial_offer p m now fresh s)"
| "perform en now fresh (UpdateSeatsConfig u) s =
     snd (update_seats_config u (en_first_port_base en) now fresh s)"
| "perform en now fresh (BindManifoldEnvironment e) s = snd (bind_manifold_environment e s)"
| "perform en now fresh (InstallIdentity phrase) s = snd (install_identity phrase now s)"
| "perform en now fresh (InstallRestoredFleet phrase restored clock) s =
     snd (install_restored_fleet (en_codec en) phrase restored clock s)"
| "perform en now fresh RotateTelemetryGeneration s = snd (rotate_telemetry_capability_generation now s)"
| "perform en now fresh (SetPayoutDestination d) s = snd (set_payout_destination d s)"
| "perform en now fresh (ReadHolderAuthorization m) s = snd (holder_authorization_event_json m s)"
| "perform en now fresh (ReplaceHolderAuthorization i j m) s =
     snd (replace_holder_authorization_event i j m now s)"
| "perform en now fresh (ReplaceSetupPaymentPolicy j ms) s =
     snd (replace_setup_payment_policy j ms fresh s)"
| "perform en now fresh (RecordSupportMessage row) s = snd (record_support_message row s)"
| "perform en now fresh (MarkSupportRead ids) s = snd (mark_support_read ids s)"
| "perform en now fresh (AdmitSeat new epoch) s =
     snd (admit_seat_at_writer_boundary (en_codec en) new epoch (en_first_port_base en) now fresh s)"
| "perform en now fresh (RecordClaimOutcome i r) s = snd (record_claim_outcome i r now s)"
| "perform en now fresh (DecommissionSeat i) s = snd (decommission_seat i now s)"
| "perform en now fresh (InstallCompletionCallback i cb) s =
     snd (install_completion_callback (en_codec en) i cb now s)"
| "perform en now fresh (RecordDkgInputs i codes cb) s =
     snd (record_dkg_inputs (en_codec en) i codes cb now s)"
| "perform en now fresh (RecordFormed i invite) s = snd (record_formed i invite now s)"
| "perform en now fresh (StartCallbackAttempt i t) s =
     snd (record_completion_callback_attempt_started i t s)"
| "perform en now fresh (RecordCallbackRetry i r) s =
     snd (record_completion_callback_retry_reason i r s)"
| "perform en now fresh (BlockCallback i r) s =
     snd (record_completion_callback_operator_blocked i r s)"
| "perform en now fresh (CompleteCallback i r) s =
     snd (record_completion_callback_completed i r now s)"
| "perform en now fresh (AdmitTransfer g cb) s =
     snd (admit_transfer (en_crypto en) (en_verb en) (en_codec en) g cb now s)"
| "perform en now fresh (AcceptTransfer i b k invite) s =
     snd (accept_transfer (en_codec en) i b k invite now s)"
| "perform en now fresh (RetireForTransfer i) s = snd (retire_for_transfer i s)"
| "perform en now fresh (RecordTransferRemoval i) s = snd (record_transfer_removal i s)"
| "perform en now fresh (RecordBackupPublication i doc digest out v) s =
     snd (record_backup_publication i doc digest out v now s)"

type_synonym store_state = "db \<times> offer_epoch set"

definition current_epoch :: "db \<Rightarrow> offer_epoch" where
  "current_epoch s = OfferEpoch (os_offer_epoch (offer_state s))"

text \<open>A quote is minted only by a fleet that has completed its onboarding.\<close>

inductive store_step :: "store_env \<Rightarrow> store_state \<Rightarrow> store_state \<Rightarrow> bool" for en where
  mint: "onboarding_stage_text s = ''complete'' \<Longrightarrow>
    take_offer_snapshot (en_first_port_base en) s = Inr snapshot \<Longrightarrow>
    sn_slots snapshot > 0 \<Longrightarrow> sn_ready_for_new_seats snapshot \<Longrightarrow>
    store_step en (s, Q) (s, insert (of_epoch (sn_offer snapshot)) Q)"
| oper: "length fresh = 32 \<Longrightarrow> OfferEpoch fresh \<notin> Q \<Longrightarrow>
    store_step en (s, Q) (perform en now fresh op s, Q)"

definition store_init :: "store_env \<Rightarrow> store_state \<Rightarrow> bool" where
  "store_init en st \<longleftrightarrow> transfer_codec_ok (en_codec en) \<and>
     (\<exists>epoch. length epoch = 32 \<and> st = (empty_db epoch, {}))"

definition store_inv :: "store_env \<Rightarrow> store_state \<Rightarrow> bool" where
  "store_inv en st \<longleftrightarrow> (case st of (s, Q) \<Rightarrow>
     transfer_codec_ok (en_codec en) \<and> wf (en_codec en) s \<and>
     (onboarding_stage_text s \<noteq> ''complete'' \<longrightarrow> Q = {}) \<and>
     (current_epoch s \<in> Q \<longrightarrow> 0 < slots (en_first_port_base en) s))"

definition history :: "store_state \<Rightarrow> store_state \<Rightarrow> bool" where
  "history st st' \<longleftrightarrow> (case (st, st') of ((s, Q), (s', Q')) \<Rightarrow>
     keeps s s' \<and> Q \<subseteq> Q' \<and> (\<forall>e \<in> Q. e \<noteq> current_epoch s \<longrightarrow> e \<noteq> current_epoch s'))"

section \<open>One step\<close>

lemma perform_wf:
  assumes "transfer_codec_ok (en_codec en)" and "wf (en_codec en) s" and "length fresh = 32"
  shows "wf (en_codec en) (perform en now fresh op s)"
  using assms transfer_codec_okD(1) [OF assms(1)]
  by (cases op)
    (simp_all add: set_offered_price_wf configure_initial_offer_wf update_seats_config_wf
      bind_manifold_environment_wf install_identity_wf install_restored_fleet_wf rotate_telemetry_wf
      set_payout_destination_wf holder_authorization_event_json_wf
      replace_holder_authorization_event_wf replace_setup_payment_policy_wf record_support_message_wf
      mark_support_read_wf admit_seat_at_writer_boundary_wf record_claim_outcome_wf
      decommission_seat_wf install_completion_callback_wf record_dkg_inputs_wf record_formed_wf
      callback_operations_wf admit_transfer_wf accept_transfer_wf retire_for_transfer_wf
      record_transfer_removal_wf record_backup_publication_wf)

lemma perform_keeps: "keeps s (perform en now fresh op s)"
  by (cases op)
    (simp_all add: set_offered_price_keeps configure_initial_offer_keeps update_seats_config_keeps
      bind_manifold_environment_keeps install_identity_keeps install_restored_fleet_keeps
      rotate_telemetry_keeps settings_keep holder_authorization_event_json_keeps
      replace_holder_authorization_event_keeps replace_setup_payment_policy_keeps
      admit_seat_at_writer_boundary_keeps record_claim_outcome_keeps decommission_seat_keeps
      install_completion_callback_keeps record_dkg_inputs_keeps record_formed_keeps
      callback_operations_keep admit_transfer_keeps accept_transfer_keeps retire_for_transfer_keeps
      record_transfer_removal_keeps record_backup_publication_keeps)

lemma install_restored_fleet_stage:
  "snd (install_restored_fleet c phrase restored clock s) = s \<or> onboarding_stage_text s = ''identity''"
  unfolding install_restored_fleet_def Let_def [of "length restored"]
  by (rule in_tx_keeps [of "\<lambda>s'. s' = s \<or> onboarding_stage_text s = ''identity''"])
    (auto simp: onboarding_stage_parse_def elim!: and_then_InrE split: if_splits)

lemma perform_capacity:
  assumes "wf (en_codec en) s" and "onboarding_stage_text s = ''complete''"
  shows "keeps_capacity (en_first_port_base en) fresh s (perform en now fresh op s)"
proof -
  note framed = frame_keeps_capacity [OF _ perform_keeps]
  show ?thesis
  proof (cases op)
    case (InstallRestoredFleet phrase restored clock)
    then show ?thesis
      using install_restored_fleet_stage [of "en_codec en" phrase restored clock s] assms(2) by auto
  qed (insert assms(1), ((simp add: set_offered_price_capacity configure_initial_offer_capacity
      update_seats_config_capacity replace_setup_payment_policy_capacity
      admit_seat_at_writer_boundary_capacity; fail) |
      (rule framed, simp add: settings_frame install_identity_frame
      replace_holder_authorization_event_frame seat_operations_frame decommission_seat_frame
      install_completion_callback_frame record_dkg_inputs_frame admit_transfer_frame
      accept_transfer_frame))+)
qed

lemma complete_stage:
  assumes "wf c s" and "keeps s s'" and "wf c' s'" and "onboarding_stage_text s = ''complete''"
  shows "onboarding_stage_text s' = ''complete''"
  using assms by (auto simp: wf_def keeps_def stage_rank_def)

text \<open>What an operation does to the epoch that quotes are honoured for.\<close>

lemma perform_epoch:
  assumes "store_inv en (s, Q)" and "OfferEpoch fresh \<notin> Q" and "e \<in> Q"
    and "e = current_epoch (perform en now fresh op s)"
  shows "e = current_epoch s \<and> 0 < slots (en_first_port_base en) (perform en now fresh op s)"
proof -
  have complete: "onboarding_stage_text s = ''complete''" and wf: "wf (en_codec en) s"
    using assms(1,3) by (auto simp: store_inv_def)
  from perform_capacity [OF wf complete, of fresh now op] assms show ?thesis
    by (auto simp: keeps_capacity_def store_inv_def current_epoch_def)
qed

lemma minted_epoch:
  assumes "take_offer_snapshot first s = Inr snapshot"
  shows "of_epoch (sn_offer snapshot) = current_epoch s" and "unat (sn_slots snapshot) = slots first s"
  using assms
  by (auto simp: take_offer_snapshot_def current_epoch_def parse_offer_epoch_def slots_def
      current_slots_def Let_def elim!: and_then_InrE split: if_splits)

section \<open>The interpretations\<close>

lemma store_inv_init: "store_init en st \<Longrightarrow> store_inv en st"
  by (auto simp: store_init_def store_inv_def intro: wf_empty)

lemma store_inv_step: "store_step en st st' \<Longrightarrow> store_inv en st \<Longrightarrow> store_inv en st'"
proof (induction rule: store_step.induct)
  case (mint s snapshot Q)
  then show ?case
    using minted_epoch [OF mint(2)] unat_gt_0 [of "sn_slots snapshot"]
    by (auto simp: store_inv_def word_gt_0)
next
  case (oper fresh Q s now op)
  let ?s' = "perform en now fresh op s"
  have "wf (en_codec en) ?s'"
    using oper by (auto simp: store_inv_def intro: perform_wf)
  moreover have "onboarding_stage_text ?s' \<noteq> ''complete'' \<longrightarrow> Q = {}"
    using oper(3) complete_stage [OF _ perform_keeps calculation] by (auto simp: store_inv_def)
  moreover have "current_epoch ?s' \<in> Q \<longrightarrow> 0 < slots (en_first_port_base en) ?s'"
    using perform_epoch [OF oper(3,2)] by blast
  ultimately show ?case using oper(3) by (simp add: store_inv_def)
qed

lemma history_step: "store_step en st st' \<Longrightarrow> store_inv en st \<Longrightarrow> history st st'"
proof (induction rule: store_step.induct)
  case (oper fresh Q s now op)
  then show ?case
    using perform_epoch [OF oper(3,2)] by (auto simp: history_def perform_keeps)
qed (auto simp: history_def)

interpretation store: monotone_system "store_init en" "store_step en" "store_inv en" history
proof
  fix st t u :: store_state
  show "store_init en st \<Longrightarrow> store_inv en st" by (rule store_inv_init)
  show "store_inv en st \<Longrightarrow> store_step en st t \<Longrightarrow> store_inv en t" by (rule store_inv_step)
  show "history st st" by (auto simp: history_def)
  show "history st t \<Longrightarrow> history t u \<Longrightarrow> history st u"
    by (auto simp: history_def intro: keeps_trans)
  show "store_inv en st \<Longrightarrow> store_step en st t \<Longrightarrow> history st t" by (rule history_step)
qed

end
