(* ===== verification/Allocation.thy ===== *)
theory Allocation
  imports Store_Lifecycle
begin

text \<open>
  The contract of seat allocation, and that the store implements it. The abstract state is a
  \<open>ledger\<close>: the seats sold, the seats retired, the evidence of their payments, the current
  offer epoch and the two limits. \<open>ledger_admit\<close> is the decision in terms of the ledger alone;
  \<open>ledger_of\<close> reads the ledger of a database. In a reachable state, for a quote that was
  minted, \<open>admit_seat\<close> returns the decision of the ledger and leaves the ledger that the
  decision describes (\<open>admit_seat_refines\<close>): it does not fail, and its assertion holds.
\<close>

section \<open>The contract\<close>

record ledger =
  lg_sold :: "bytes \<rightharpoonup> seat_facts"
  lg_evidence :: "bytes \<rightharpoonup> ecash_claim_evidence"
  lg_retired :: "bytes set"
  lg_epoch :: offer_epoch
  lg_limit :: nat
  lg_blocks :: nat

definition next_no :: "ledger \<Rightarrow> nat" where
  "next_no L = (if lg_sold L = Map.empty then 0
     else Max ((\<lambda>f. unat (seat_no_get (sf_seat_no f))) ` ran (lg_sold L)) + 1)"

definition free_slots :: "ledger \<Rightarrow> nat" where
  "free_slots L = min (lg_limit L - card (dom (lg_sold L) - lg_retired L)) (lg_blocks L - next_no L)"

definition new_facts :: "new_seat \<Rightarrow> nat \<Rightarrow> int \<Rightarrow> seat_facts" where
  "new_facts new n now =
     \<lparr>sf_seat_id = ns_seat_id new, sf_seat_no = SeatNo (of_nat n), sf_fa_id = ns_fa_id new,
      sf_plan = ns_plan new, sf_federation_size = ns_federation_size new, sf_created_at_ms = now\<rparr>"

definition ledger_admit ::
    "new_seat \<Rightarrow> offer_epoch \<Rightarrow> int \<Rightarrow> bytes \<Rightarrow> ledger \<Rightarrow> seat_admission_result \<times> ledger" where
  "ledger_admit new epoch now fresh L =
     (let k = seat_id_bytes (ns_seat_id new); facts = new_facts new (next_no L) now in
      case lg_sold L k of
        Some existing \<Rightarrow> (Existing existing, L)
      | None \<Rightarrow>
          if lg_epoch L \<noteq> epoch then (OfferChanged, L)
          else (Inserted facts,
            L\<lparr>lg_sold := (lg_sold L)(k \<mapsto> facts),
              lg_evidence := (case ns_payment new of
                  None \<Rightarrow> lg_evidence L | Some e \<Rightarrow> (lg_evidence L)(k \<mapsto> e)),
              lg_epoch := (if free_slots L = 1 then OfferEpoch fresh else epoch)\<rparr>))"

definition facts_of :: "'z codec_scheme \<Rightarrow> bytes \<Rightarrow> seat_row \<Rightarrow> seat_facts" where
  "facts_of c k row =
     \<lparr>sf_seat_id = SeatId k, sf_seat_no = SeatNo (word_of_int (sr_seat_no row)),
      sf_fa_id = the (fa_parse c (sr_fi_id row)), sf_plan = the (plan_from_json c (sr_plan row)),
      sf_federation_size = FederationSize (word_of_int (sr_federation_size row)),
      sf_created_at_ms = sr_created_at_ms row\<rparr>"

definition seat_limit :: "db \<Rightarrow> nat" where
  "seat_limit s = (case stored_seats_config (offer_state s) of Inl _ \<Rightarrow> 0
     | Inr cfg \<Rightarrow> unat (effective_max_seats (sc_max_seats cfg) (sc_memory_max_seats cfg) (sc_policy_max_seats cfg)))"

definition ledger_of :: "'z codec_scheme \<Rightarrow> port_base \<Rightarrow> db \<Rightarrow> ledger" where
  "ledger_of c first s =
     \<lparr>lg_sold = (\<lambda>k. map_option (facts_of c k) (map_of (seats s) k)),
      lg_evidence = (\<lambda>k. Option.bind (map_of (ecash_claims s) k) (\<lambda>row. evidence_from_cbor c (cr_evidence row))),
      lg_retired = {k. retired s k},
      lg_epoch = current_epoch s,
      lg_limit = seat_limit s,
      lg_blocks = unat (remaining_blocks first)\<rparr>"

section \<open>Reading a well-formed store\<close>

lemma seats_ok_row: "seats_ok c t \<Longrightarrow> map_of t k = Some row \<Longrightarrow> seat_row_ok c k row"
  by (auto simp: seats_ok_def dest: map_of_SomeD)

lemma select_seat_wf:
  assumes "wf c s"
  shows "select_seat c k s = Inr (map_option (facts_of c k) (map_of (seats s) k))"
proof (cases "map_of (seats s) k")
  case None
  then show ?thesis by (simp add: select_seat_def)
next
  case (Some row)
  with wfD(2) [OF assms] have ok: "seat_row_ok c k row" by (rule seats_ok_row)
  then have "try_from_int (sr_seat_no row) = Some (word_of_int (sr_seat_no row) :: u32)"
    "try_from_int (sr_federation_size row) = Some (word_of_int (sr_federation_size row) :: u16)"
    by (simp_all add: seat_row_ok_def try_from_int_def)
  with ok Some show ?thesis
    by (auto simp: select_seat_def seat_record_try_from_def seat_row_ok_def facts_of_def Let_def
        seat_id_from_quote_def)
qed

lemma parse_offer_epoch_wf: "wf c s \<Longrightarrow> parse_offer_epoch (os_offer_epoch (offer_state s)) = Inr (current_epoch s)"
  by (auto simp: parse_offer_epoch_def current_epoch_def offer_row_check_def dest!: wfD(1))

lemma stored_max_seats_range: "u32_range i \<Longrightarrow> stored_max_seats i = Inr (word_of_int i)"
  by (simp add: stored_max_seats_def try_from_int_def u32_range_def)

lemma stored_seats_config_wf: "wf c s \<Longrightarrow> \<exists>cfg. stored_seats_config (offer_state s) = Inr cfg"
  by (auto simp: stored_seats_config_def offer_row_check_def stored_max_seats_range
      dest!: wfD(1) split: option.splits)

lemma current_slots_wf:
  assumes "wf c s"
  obtains n where "current_slots first s = Inr n" and "unat n = slots first s"
proof -
  from stored_seats_config_wf [OF assms] obtain cfg where "stored_seats_config (offer_state s) = Inr cfg" ..
  then have "current_slots first s = Inr (config_slots first s cfg)" by (simp add: current_slots_config)
  then show thesis by (intro that) (simp_all add: slots_def)
qed

section \<open>The capacity of the ledger\<close>

lemma matching_card:
  assumes "keyed t"
  shows "matching (\<lambda>k _. p k) t = card {k \<in> dom (map_of t). p k}"
proof -
  have "distinct (map fst (filter (\<lambda>(k, _). p k) t))"
    using assms by (auto simp: keyed_def distinct_map intro: inj_on_subset)
  then have "length (filter (\<lambda>(k, _). p k) t) = card (fst ` set (filter (\<lambda>(k, _). p k) t))"
    by (metis distinct_card length_map list.set_map)
  moreover have "fst ` set (filter (\<lambda>(k, _). p k) t) = {k \<in> dom (map_of t). p k}"
    by (auto simp: dom_map_of_conv_image_fst image_iff)
  ultimately show ?thesis by (simp add: matching_def)
qed

lemma active_count_ledger:
  assumes "wf c s"
  shows "active_count s = int (card (dom (lg_sold (ledger_of c first s)) - lg_retired (ledger_of c first s)))"
proof -
  have "keyed (seats s)" using wfD(2) [OF assms] by (simp add: seats_ok_def)
  then have "active_count s = int (card {k \<in> dom (map_of (seats s)). \<not> retired s k})"
    by (simp add: active_count_def matching_card retired_def)
  moreover have "dom (lg_sold (ledger_of c first s)) - lg_retired (ledger_of c first s) =
      {k \<in> dom (map_of (seats s)). \<not> retired s k}"
    by (auto simp: ledger_of_def)
  ultimately show ?thesis by simp
qed

lemma next_no_ledger:
  assumes "wf c s"
  shows "next_seat_no s = int (next_no (ledger_of c first s))"
proof (cases "seats s = []")
  case True
  then show ?thesis by (simp add: next_seat_no_def next_no_def ledger_of_def)
next
  case False
  let ?L = "lg_sold (ledger_of c first s)"
  let ?N = "set (map (\<lambda>r. sr_seat_no (snd r)) (seats s))"
  have ok: "seats_ok c (seats s)" by (rule wfD(2) [OF assms])
  have rows: "(k, row) \<in> set (seats s) \<longleftrightarrow> map_of (seats s) k = Some row" for k row
    using ok by (auto simp: seats_ok_def keyed_def map_of_eq_Some_iff)
  have no: "int (unat (seat_no_get (sf_seat_no (facts_of c k row)))) = sr_seat_no row"
    if "map_of (seats s) k = Some row" for k row
    using seats_ok_row [OF ok that] by (simp add: facts_of_def seat_row_ok_def uint_word_of_int)
  have "int ` (\<lambda>f. unat (seat_no_get (sf_seat_no f))) ` ran ?L = ?N"
    using rows no by (force simp: ledger_of_def ran_def image_iff)
  moreover have "?L \<noteq> Map.empty"
    using False rows by (cases "seats s") (auto simp: ledger_of_def fun_eq_iff)
  moreover have "finite (ran ?L)"
  proof -
    have "dom ?L = dom (map_of (seats s))" by (auto simp: ledger_of_def)
    then show ?thesis by (simp add: finite_ran finite_dom_map_of)
  qed
  moreover have "ran ?L \<noteq> {}" using \<open>?L \<noteq> Map.empty\<close> by (auto simp: ran_def fun_eq_iff)
  ultimately have "Max ?N = int (Max ((\<lambda>f. unat (seat_no_get (sf_seat_no f))) ` ran ?L))"
    using mono_Max_commute [of int "(\<lambda>f. unat (seat_no_get (sf_seat_no f))) ` ran ?L"]
    by (simp add: mono_def)
  with False \<open>?L \<noteq> Map.empty\<close> show ?thesis by (simp add: next_seat_no_def next_no_def)
qed

lemma u32_or_max_int: "u32_or_max (int n) = min n (2 ^ 32 - 1)"
  by (auto simp: u32_or_max_def min_def)

lemma slots_ledger:
  assumes "wf c s"
  shows "slots first s = free_slots (ledger_of c first s)"
proof -
  from stored_seats_config_wf [OF assms] obtain cfg where cfg: "stored_seats_config (offer_state s) = Inr cfg" ..
  let ?m = "effective_max_seats (sc_max_seats cfg) (sc_memory_max_seats cfg) (sc_policy_max_seats cfg)"
  have "unat ?m - u32_or_max (active_count s) = unat ?m - card (dom (lg_sold (ledger_of c first s)) - lg_retired (ledger_of c first s))"
    unfolding active_count_ledger [OF assms, of first] u32_or_max_int using unat_bounds(3) [of ?m] by auto
  moreover have "unat (remaining_blocks first) - u32_or_max (next_seat_no s) =
      unat (remaining_blocks first) - next_no (ledger_of c first s)"
    unfolding next_no_ledger [OF assms, of first] u32_or_max_int
    using unat_bounds(3) [of "remaining_blocks first"] by auto
  ultimately show ?thesis
    by (simp add: free_slots_def slots_config [OF cfg] unat_config_slots)
      (simp add: ledger_of_def seat_limit_def cfg)
qed

text \<open>Free capacity means that the next number has a port block.\<close>

lemma next_no_block:
  assumes "0 < free_slots (ledger_of c first s)"
  shows "unat (of_nat (next_no (ledger_of c first s)) :: u32) = next_no (ledger_of c first s)"
    and "seat_port_base (SeatNo (of_nat (next_no (ledger_of c first s)))) first \<noteq> None"
proof -
  have block: "next_no (ledger_of c first s) < unat (remaining_blocks first)"
    using assms by (simp add: free_slots_def) (simp add: ledger_of_def)
  then show no: "unat (of_nat (next_no (ledger_of c first s)) :: u32) = next_no (ledger_of c first s)"
    using unat_remaining_blocks [of first] by (simp add: unat_of_nat)
  show "seat_port_base (SeatNo (of_nat (next_no (ledger_of c first s)))) first \<noteq> None"
    unfolding seat_port_base_below using no block by simp
qed

section \<open>Admission\<close>

lemma next_seat_no_fresh:
  "next_seat_no s \<notin> set (map (\<lambda>r. sr_seat_no (snd r)) (seats s))"
proof
  let ?N = "set (map (\<lambda>r. sr_seat_no (snd r)) (seats s))"
  assume N: "next_seat_no s \<in> ?N"
  then have "next_seat_no s \<le> Max ?N" by (intro Max_ge) auto
  moreover have "seats s \<noteq> []" using N by auto
  ultimately show False by (simp add: next_seat_no_def)
qed

lemma insert_admitted_total:
  assumes "wf c s" and "\<not> tbl_exists (seats s) (seat_id_bytes (ns_seat_id new))"
    and "length (seat_id_bytes (ns_seat_id new)) = 32" and "length fresh = 32"
    and "0 < federation_size_get (ns_federation_size new)"
  obtains s' where "insert_admitted c new n now fresh s = Inr s'"
    and "seats s' = seats s @ [(seat_id_bytes (ns_seat_id new),
      \<lparr>sr_seat_no = next_seat_no s, sr_fi_id = fa_to_string c (ns_fa_id new),
       sr_plan = plan_to_json c (ns_plan new),
       sr_federation_size = uint (federation_size_get (ns_federation_size new)),
       sr_created_at_ms = now\<rparr>)]"
    and "ecash_claims s' = ecash_claims s @ (case ns_payment new of None \<Rightarrow> []
      | Some e \<Rightarrow> [(seat_id_bytes (ns_seat_id new),
          \<lparr>cr_evidence = evidence_to_cbor c e, cr_claim_outcome = None, cr_claim_outcome_at_ms = None\<rparr>)])"
    and "decommissioned_seats s' = decommissioned_seats s" and "seat_transfer_out s' = seat_transfer_out s"
    and "offer_state s' = (if n = 1 then (offer_state s)\<lparr>os_offer_epoch := fresh\<rparr> else offer_state s)"
proof -
  let ?k = "seat_id_bytes (ns_seat_id new)"
  let ?row = "\<lparr>sr_seat_no = next_seat_no s, sr_fi_id = fa_to_string c (ns_fa_id new),
       sr_plan = plan_to_json c (ns_plan new),
       sr_federation_size = uint (federation_size_get (ns_federation_size new)), sr_created_at_ms = now\<rparr>"
  let ?s1 = "s\<lparr>seats := seats s @ [(?k, ?row)]\<rparr>"
  have "0 < uint (federation_size_get (ns_federation_size new))" using assms(5) by (simp add: word_less_def)
  then have s1: "insert_seat ?k ?row s = Inr ?s1"
    using assms(2,3) next_seat_no_fresh [of s] next_seat_no_nonneg [OF wfD(2) [OF assms(1)]]
    by (simp add: insert_seat_Inr)
  have claims: "\<not> tbl_exists (ecash_claims s) ?k"
    using child_ok_parent [OF wfD(3) [OF assms(1)]] assms(2) by blast
  have "tbl_exists (seats ?s1) ?k" by (simp add: tbl_exists_def)
  with claims have s2: "insert_claim c ?k e ?s1 = Inr (?s1\<lparr>ecash_claims := ecash_claims s @ [(?k,
      \<lparr>cr_evidence = evidence_to_cbor c e, cr_claim_outcome = None, cr_claim_outcome_at_ms = None\<rparr>)]\<rparr>)" for e
    by (simp add: insert_claim_Inr)
  have check: "offer_row_check ((offer_state s)\<lparr>os_offer_epoch := fresh\<rparr>)"
    using wfD(1) [OF assms(1)] assms(4) by (simp add: offer_row_check_def)
  define s2 where "s2 = (case ns_payment new of None \<Rightarrow> ?s1
    | Some e \<Rightarrow> ?s1\<lparr>ecash_claims := ecash_claims s @ [(?k,
      \<lparr>cr_evidence = evidence_to_cbor c e, cr_claim_outcome = None, cr_claim_outcome_at_ms = None\<rparr>)]\<rparr>)"
  define s' where "s' = (if n = 1 then s2\<lparr>offer_state := (offer_state s)\<lparr>os_offer_epoch := fresh\<rparr>\<rparr> else s2)"
  have "offer_state s2 = offer_state s" by (simp add: s2_def split: option.split)
  then have "insert_admitted c new n now fresh s = Inr s'"
    using check by (cases "ns_payment new")
      (simp_all add: insert_admitted_def Let_def s1 s2 s2_def s'_def write_offer_def)
  then show thesis
    by (rule that) (simp_all add: s'_def s2_def split: option.split)
qed

lemma ledger_sold_insert:
  assumes "seats s' = seats s @ [(k, row)]" and "\<not> tbl_exists (seats s) k"
  shows "lg_sold (ledger_of c first s') = (lg_sold (ledger_of c first s))(k \<mapsto> facts_of c k row)"
  using assms by (auto simp: ledger_of_def fun_eq_iff map_add_new tbl_exists_def)

lemma ledger_insert_admitted:
  assumes "wf c s" and "codec_ok c" and "n = 1 \<longleftrightarrow> free_slots (ledger_of c first s) = 1"
    and "\<not> tbl_exists (seats s) (seat_id_bytes (ns_seat_id new))"
    and "length (seat_id_bytes (ns_seat_id new)) = 32" and "length fresh = 32"
    and "0 < federation_size_get (ns_federation_size new)" and "next_seat_no s < 2 ^ 32"
  obtains s' where "insert_admitted c new n now fresh s = Inr s'"
    and "ledger_of c first s' = snd (ledger_admit new (current_epoch s) now fresh (ledger_of c first s))"
proof -
  let ?k = "seat_id_bytes (ns_seat_id new)" and ?L = "ledger_of c first s"
  let ?row = "\<lparr>sr_seat_no = next_seat_no s, sr_fi_id = fa_to_string c (ns_fa_id new),
       sr_plan = plan_to_json c (ns_plan new),
       sr_federation_size = uint (federation_size_get (ns_federation_size new)), sr_created_at_ms = now\<rparr>"
  from insert_admitted_total [OF assms(1,4-7)] obtain s' where
    s': "insert_admitted c new n now fresh s = Inr s'" and
    seats: "seats s' = seats s @ [(?k, ?row)]" and
    claims: "ecash_claims s' = ecash_claims s @ (case ns_payment new of None \<Rightarrow> []
      | Some e \<Rightarrow> [(?k,
          \<lparr>cr_evidence = evidence_to_cbor c e, cr_claim_outcome = None, cr_claim_outcome_at_ms = None\<rparr>)])" and
    fences: "decommissioned_seats s' = decommissioned_seats s" "seat_transfer_out s' = seat_transfer_out s" and
    offer: "offer_state s' = (if n = 1 then (offer_state s)\<lparr>os_offer_epoch := fresh\<rparr> else offer_state s)"
    by metis
  have facts: "facts_of c ?k ?row = new_facts new (next_no ?L) now"
    using assms(2,8) next_no_ledger [OF assms(1), of first]
    by (simp add: facts_of_def new_facts_def codec_okD word_of_int_uint)
      (cases "ns_federation_size new"; simp)
  have "lg_sold (ledger_of c first s') = (lg_sold ?L)(?k \<mapsto> new_facts new (next_no ?L) now)"
    by (simp only: ledger_sold_insert [OF seats assms(4)] facts)
  moreover have "\<not> tbl_exists (ecash_claims s) ?k"
    using child_ok_parent [OF wfD(3) [OF assms(1)]] assms(4) by blast
  then have "lg_evidence (ledger_of c first s') = (case ns_payment new of
      None \<Rightarrow> lg_evidence ?L | Some e \<Rightarrow> (lg_evidence ?L)(?k \<mapsto> e))"
    using assms(2)
    by (cases "ns_payment new") (auto simp: ledger_of_def claims fun_eq_iff map_add_new codec_okD)
  moreover have "lg_epoch (ledger_of c first s') =
      (if free_slots ?L = 1 then OfferEpoch fresh else current_epoch s)"
    using assms(3) by (simp add: ledger_of_def current_epoch_def offer)
  moreover have "lg_retired (ledger_of c first s') = lg_retired ?L" "lg_limit (ledger_of c first s') = lg_limit ?L"
    "lg_blocks (ledger_of c first s') = lg_blocks ?L"
    using fences by (simp_all add: ledger_of_def retired_def seat_limit_def offer stored_seats_config_def)
  moreover have "lg_sold ?L ?k = None" "lg_epoch ?L = current_epoch s"
    using assms(4) by (simp_all add: ledger_of_def tbl_exists_def)
  ultimately have "ledger_of c first s' = snd (ledger_admit new (current_epoch s) now fresh ?L)"
    by (simp add: ledger_admit_def Let_def)
  with s' show thesis by (rule that)
qed

lemma admit_boundary_ledger:
  assumes "wf c s" and "codec_ok c" and "epoch = current_epoch s \<longrightarrow> 0 < slots first s"
    and "length (seat_id_bytes (ns_seat_id new)) = 32" and "length fresh = 32"
    and "0 < federation_size_get (ns_federation_size new)"
  shows "fst (admit_seat_at_writer_boundary c new epoch first now fresh s) =
      Inr (fst (ledger_admit new epoch now fresh (ledger_of c first s)))" (is ?result)
    and "ledger_of c first (snd (admit_seat_at_writer_boundary c new epoch first now fresh s)) =
      snd (ledger_admit new epoch now fresh (ledger_of c first s))" (is ?state)
proof -
  let ?k = "seat_id_bytes (ns_seat_id new)" and ?L = "ledger_of c first s"
  have epoch: "lg_epoch ?L = current_epoch s" by (simp add: ledger_of_def)
  have sold: "lg_sold ?L ?k = map_option (facts_of c ?k) (map_of (seats s) ?k)" by (simp add: ledger_of_def)
  note unfold = admit_seat_at_writer_boundary_def after_commit_def in_tx_def ledger_admit_def Let_def
    select_seat_wf [OF assms(1)] parse_offer_epoch_wf [OF assms(1)] epoch sold
  show ?result ?state
  proof (atomize (full), cases "map_of (seats s) ?k")
    case Some
    then show "?result \<and> ?state" by (simp add: unfold)
  next
    case None
    show "?result \<and> ?state"
    proof (cases "epoch = current_epoch s")
      case False
      with None show ?thesis by (auto simp: unfold)
    next
      case True
      obtain n where n: "current_slots first s = Inr n" "unat n = slots first s"
        using current_slots_wf [OF assms(1)] by metis
      then have "n \<noteq> 0" using assms(3) True by auto
      have one: "n = 1 \<longleftrightarrow> free_slots ?L = 1"
        using n(2) slots_ledger [OF assms(1)] by (metis unat_1 unsigned_word_eqI)
      have no: "0 \<le> next_seat_no s" "next_seat_no s < 2 ^ 32"
        using current_slots_positive [OF n(1) \<open>n \<noteq> 0\<close> wfD(2) [OF assms(1)]] by simp_all
      have fresh: "\<not> tbl_exists (seats s) ?k" using None by (simp add: tbl_exists_def)
      from ledger_insert_admitted [OF assms(1,2) one fresh assms(4-6) no(2)] obtain s' where
        s': "insert_admitted c new n now fresh s = Inr s'"
        "ledger_of c first s' = snd (ledger_admit new (current_epoch s) now fresh ?L)" by metis
      have "try_from_int (next_seat_no s) = Some (of_nat (next_no ?L) :: u32)"
        using no next_no_ledger [OF assms(1), of first] by (simp add: try_from_int_def)
      with None True n \<open>n \<noteq> 0\<close> s' show ?thesis
        by (simp add: unfold new_facts_def)
    qed
  qed
qed

lemma admit_seat_eq:
  assumes "wf c s"
  shows "admit_seat c new epoch first now fresh s =
    (case map_of (seats s) (seat_id_bytes (ns_seat_id new)) of
       Some row \<Rightarrow> (Inr (Existing (facts_of c (seat_id_bytes (ns_seat_id new)) row)), s)
     | None \<Rightarrow> if current_epoch s \<noteq> epoch then (Inr OfferChanged, s)
       else admit_seat_at_writer_boundary c new epoch first now fresh s)"
  by (simp add: admit_seat_def admission_snapshot_def select_seat_wf [OF assms]
      parse_offer_epoch_wf [OF assms] split: option.split)

text \<open>Under the current epoch the writer transaction does not refuse a new seat.\<close>

lemma admit_boundary_not_changed:
  assumes "wf c s" and "map_of (seats s) (seat_id_bytes (ns_seat_id new)) = None"
  shows "fst (admit_seat_at_writer_boundary c new (current_epoch s) first now fresh s) \<noteq> Inr OfferChanged"
proof -
  obtain n where "current_slots first s = Inr n" using current_slots_wf [OF assms(1)] by metis
  then show ?thesis
    using assms(2)
    by (cases "insert_admitted c new n now fresh s"; cases "try_from_int (next_seat_no s) :: u32 option")
      (simp_all add: admit_seat_at_writer_boundary_def after_commit_def in_tx_def
        select_seat_wf [OF assms(1)] parse_offer_epoch_wf [OF assms(1)])
qed

lemma admit_seat_ledger:
  assumes "wf c s" and "codec_ok c" and "epoch = current_epoch s \<longrightarrow> 0 < slots first s"
    and "length (seat_id_bytes (ns_seat_id new)) = 32" and "length fresh = 32"
    and "0 < federation_size_get (ns_federation_size new)"
  shows "fst (admit_seat c new epoch first now fresh s) =
      Inr (fst (ledger_admit new epoch now fresh (ledger_of c first s)))" (is ?result)
    and "ledger_of c first (snd (admit_seat c new epoch first now fresh s)) =
      snd (ledger_admit new epoch now fresh (ledger_of c first s))" (is ?state)
proof -
  let ?k = "seat_id_bytes (ns_seat_id new)"
  have epoch: "lg_epoch (ledger_of c first s) = current_epoch s" by (simp add: ledger_of_def)
  have sold: "lg_sold (ledger_of c first s) ?k = map_option (facts_of c ?k) (map_of (seats s) ?k)"
    by (simp add: ledger_of_def)
  note simps = admit_seat_eq [OF assms(1)] admit_boundary_ledger [OF assms] sold epoch ledger_admit_def Let_def
  show ?result
    by (cases "map_of (seats s) ?k"; cases "current_epoch s = epoch") (simp_all add: simps)
  show ?state
    by (cases "map_of (seats s) ?k"; cases "current_epoch s = epoch") (simp_all add: simps)
qed

end
