(* ===== verification/Sample_Run.thy ===== *)
theory Sample_Run
  imports Allocation
begin

text \<open>
  A concrete run of the store, from the empty database to a fleet that sells seats, on which
  the hypotheses of the properties about reachable states are discharged.
\<close>

definition sample_epoch :: "nat \<Rightarrow> bytes" where
  "sample_epoch n = replicate 32 (of_nat n)"

definition sample_env :: store_env where
  "sample_env =
     \<lparr>en_codec = sample_codec,
      en_crypto = \<lparr>sha256 = id, verify_schnorr = (\<lambda>_ _ _. False), sign_schnorr = (\<lambda>_ m. m),
        x_only_public_key = id\<rparr>,
      en_verb = grant_verb (\<lambda>_. []) (\<lambda>_. None),
      en_first_port_base = PortBase 20000\<rparr>"

text \<open>
  Onboarding to an offer, and readiness for new seats: an identity, an authorization of the
  holder, the price and the limit of the operator, and the first readiness report.
\<close>

definition onboarding ::
    "string \<Rightarrow> u64 \<Rightarrow> string \<Rightarrow> u64 \<Rightarrow> u64 \<Rightarrow> u32 option \<Rightarrow> operation list" where
  "onboarding phrase issued json max_issued price limit =
     [InstallIdentity phrase, ReplaceHolderAuthorization issued json max_issued,
      ConfigureInitialOffer (Some price) limit,
      UpdateSeatsConfig \<lparr>up_max_seats = None, up_memory_max_seats = None, up_policy_max_seats = None,
        up_ready_for_new_seats = Some True\<rparr>]"

fun perform_all ::
    "store_env \<Rightarrow> (nat \<Rightarrow> int) \<Rightarrow> (nat \<Rightarrow> bytes) \<Rightarrow> nat \<Rightarrow> operation list \<Rightarrow> db \<Rightarrow> db" where
  "perform_all en clock epochs n [] s = s"
| "perform_all en clock epochs n (op # ops) s =
     perform_all en clock epochs (Suc n) ops (perform en (clock n) (epochs n) op s)"

lemma perform_all_reach:
  assumes "reach (store_init en) (store_step en) (s, {})" and "\<And>n. length (epochs n) = 32"
  shows "reach (store_init en) (store_step en) (perform_all en clock epochs n ops s, {})"
  using assms(1)
proof (induction ops arbitrary: n s)
  case (Cons op ops)
  have "reach (store_init en) (store_step en) (perform en (clock n) (epochs n) op s, {})"
    by (rule reach_step [OF Cons.prems]) (rule store_step.oper, simp_all add: assms(2))
  then show ?case using Cons.IH by simp
qed simp

section \<open>The database after onboarding\<close>

definition offered_row :: "int option \<Rightarrow> int option \<Rightarrow> int option \<Rightarrow> bytes \<Rightarrow> bool \<Rightarrow> offer_row" where
  "offered_row m p t e r =
     \<lparr>os_max_seats = m, os_price_msats = p, os_updated_at_ms = t, os_offer_epoch = e,
      os_ready_for_new_seats = r, os_memory_max_seats = 4, os_policy_max_seats = 12\<rparr>"

lemma u32_range_uint: "u32_range (uint (w :: u32))"
  using unsigned_less [of w, where 'a=int] by (simp add: u32_range_def)

lemma offered_row_config:
  "stored_seats_config (offered_row (map_option uint limit) p t e r) =
     Inr \<lparr>sc_max_seats = limit, sc_memory_max_seats = 4, sc_policy_max_seats = 12, sc_ready_for_new_seats = r\<rparr>"
  by (cases limit)
    (simp_all add: offered_row_def stored_seats_config_def stored_max_seats_range u32_range_def)

lemma offered_row_check:
  fixes limit :: "u32 option"
  assumes "length e = 32" and "0 \<le> p" and "p < 2 ^ 63"
  shows "offer_row_check (offered_row (map_option uint limit) (Some p) t e r)"
  using assms unfolding offered_row_def offer_row_check_def
  by (cases limit) (simp_all add: u32_range_uint, simp_all add: u32_range_def)

lemma install_identity_step:
  "perform en n e (InstallIdentity phrase) (empty_db e0) =
     (empty_db e0)
       \<lparr>onboarding_stage_text := ''holder_authorization'', onboarding_updated_at_ms := n,
        identity_table := Some \<lparr>id_mnemonic = phrase, id_wallet_origin = ''fresh'', id_created_at_ms = n\<rparr>\<rparr>"
  by (simp add: install_identity_def in_tx_def insert_identity_def advance_stage_def
      onboarding_stage_parse_def empty_db_def Let_def)

lemma authorization_step:
  assumes "onboarding_stage_text s = ''holder_authorization''" and "holder_authorization s = None"
    and "issued \<le> max_issued"
  shows "perform en n e (ReplaceHolderAuthorization issued json max_issued) s =
     s\<lparr>onboarding_stage_text := ''initial_offer'', onboarding_updated_at_ms := n,
       holder_authorization := Some (to_be_bytes issued, json)\<rparr>"
  using assms
  by (simp add: replace_holder_authorization_event_def in_tx_def retain_authorization_def
      drop_future_authorization_def advance_stage_def onboarding_stage_parse_def Let_def not_less)

lemma initial_offer_step:
  assumes "onboarding_stage_text s = ''initial_offer''" and "seats s = []"
    and "offer_state s = offered_row m p t e0 r" and "length e = 32" and "0 \<le> sint price"
  shows "perform en n e (ConfigureInitialOffer (Some price) limit) s =
     s\<lparr>offer_state := offered_row (map_option uint limit) (Some (sint price)) (Some n) e r,
       onboarding_stage_text := ''complete'', onboarding_updated_at_ms := n\<rparr>"
proof -
  have "sint price < 2 ^ 63" using sint_lt [of price] by simp
  then have "write_offer (offered_row (map_option uint limit) (Some (sint price)) (Some n) e r) s =
      Inr (s\<lparr>offer_state := offered_row (map_option uint limit) (Some (sint price)) (Some n) e r\<rparr>)"
    using assms(4,5) by (simp add: write_offer_def offered_row_check)
  moreover have "(offered_row m p t e0 r)
      \<lparr>os_price_msats := Some (sint price), os_max_seats := map_option uint limit,
       os_updated_at_ms := Some n, os_offer_epoch := e\<rparr> =
      offered_row (map_option uint limit) (Some (sint price)) (Some n) e r"
    by (simp add: offered_row_def)
  ultimately show ?thesis
    using assms(1-3)
    by (simp add: configure_initial_offer_def in_tx_def onboarding_stage_parse_def active_count_def
        matching_def try_from_int_def as_i64_def Let_def split: option.split)
qed

lemma ready_step:
  fixes limit :: "u32 option"
  assumes "offer_state s = offered_row (map_option uint limit) (Some p) t e0 False"
    and "length e = 32" and "0 \<le> p" and "p < 2 ^ 63"
  shows "perform en n e (UpdateSeatsConfig \<lparr>up_max_seats = None, up_memory_max_seats = None,
       up_policy_max_seats = None, up_ready_for_new_seats = Some True\<rparr>) s =
     s\<lparr>offer_state := offered_row (map_option uint limit) (Some p) t e True\<rparr>"
proof -
  have "(offered_row (map_option uint limit) (Some p) t e0 False)
      \<lparr>os_max_seats := map_option uint limit, os_memory_max_seats := 4, os_policy_max_seats := 12,
       os_ready_for_new_seats := True, os_offer_epoch := e\<rparr> =
      offered_row (map_option uint limit) (Some p) t e True"
    by (simp add: offered_row_def)
  moreover have "write_offer (offered_row (map_option uint limit) (Some p) t e True) s =
      Inr (s\<lparr>offer_state := offered_row (map_option uint limit) (Some p) t e True\<rparr>)"
    using assms by (simp add: write_offer_def offered_row_check)
  ultimately show ?thesis
    using assms(1)
    by (simp add: update_seats_config_def in_tx_def offered_row_config apply_update_def unwrap_or_def
        limit_below_active_def Let_def)
qed

lemma onboarding_state:
  assumes "\<And>n. length (epochs n) = 32" and "issued \<le> max_issued" and "0 \<le> sint price"
  shows "perform_all en clock epochs n (onboarding phrase issued json max_issued price limit) (empty_db e0) =
    (empty_db e0)
     \<lparr>offer_state := offered_row (map_option uint limit) (Some (sint price)) (Some (clock (n + 2))) (epochs (n + 3)) True,
      onboarding_stage_text := ''complete'', onboarding_updated_at_ms := clock (n + 2),
      identity_table := Some \<lparr>id_mnemonic = phrase, id_wallet_origin = ''fresh'', id_created_at_ms = clock n\<rparr>,
      holder_authorization := Some (to_be_bytes issued, json)\<rparr>"
proof -
  have empty: "offer_state (empty_db e0) = offered_row (Some 0) None None e0 False"
    "holder_authorization (empty_db e0) = None" "seats (empty_db e0) = []"
    by (simp_all add: empty_db_def offered_row_def)
  have "sint price < 2 ^ 63" using sint_lt [of price] by simp
  then show ?thesis
    using assms unfolding onboarding_def
    by (simp add: install_identity_step authorization_step initial_offer_step ready_step empty
        numeral_2_eq_2 numeral_3_eq_3 del: perform.simps)
qed

section \<open>The sample fleet\<close>

text \<open>A free offer of at most three seats.\<close>

definition sample_db :: db where
  "sample_db = perform_all sample_env int sample_epoch 1
     (onboarding ''abandon ability able'' 100 ''{}'' 200 0 (Some 3)) (empty_db (sample_epoch 0))"

lemma sample_epoch_length [simp]: "length (sample_epoch n) = 32"
  by (simp add: sample_epoch_def)

lemma sample_init: "store_init sample_env (empty_db (sample_epoch 0), {})"
  unfolding store_init_def
  by (intro conjI exI [of _ "sample_epoch 0"]) (simp_all add: sample_env_def sample_codec_ok)

lemma sample_db_eq:
  "sample_db = (empty_db (sample_epoch 0))
     \<lparr>offer_state := offered_row (Some 3) (Some 0) (Some 3) (sample_epoch 4) True,
      onboarding_stage_text := ''complete'', onboarding_updated_at_ms := 3,
      identity_table := Some \<lparr>id_mnemonic = ''abandon ability able'', id_wallet_origin = ''fresh'', id_created_at_ms = 1\<rparr>,
      holder_authorization := Some (to_be_bytes 100, ''{}'')\<rparr>"
  unfolding sample_db_def by (simp add: onboarding_state)

lemma sample_db_slots:
  "slots (PortBase 20000) sample_db = 3"
  "\<exists>snapshot. take_offer_snapshot (PortBase 20000) sample_db = Inr snapshot \<and>
     sn_ready_for_new_seats snapshot"
proof -
  have "stored_seats_config (offer_state sample_db) =
      Inr \<lparr>sc_max_seats = Some 3, sc_memory_max_seats = 4, sc_policy_max_seats = 12, sc_ready_for_new_seats = True\<rparr>"
    by (simp add: sample_db_eq offered_row_config [of "Some 3", simplified])
  then show "slots (PortBase 20000) sample_db = 3"
    by (simp add: slots_config unat_config_slots effective_max_seats_def active_count_def next_seat_no_def
        unat_remaining_blocks u32_or_max_def sample_db_eq empty_db_def matching_def)
  show "\<exists>snapshot. take_offer_snapshot (PortBase 20000) sample_db = Inr snapshot \<and>
      sn_ready_for_new_seats snapshot"
    by (simp add: take_offer_snapshot_def sample_db_eq offered_row_def parse_offer_epoch_def
        stored_max_seats_range u32_range_def stored_price_def try_from_int_def Let_def)
qed

lemma sample_reach:
  "reach (store_init sample_env) (store_step sample_env) (sample_db, {OfferEpoch (sample_epoch 4)})"
proof -
  obtain snapshot where snapshot: "take_offer_snapshot (PortBase 20000) sample_db = Inr snapshot"
    "sn_ready_for_new_seats snapshot" using sample_db_slots(2) by blast
  have "of_epoch (sn_offer snapshot) = OfferEpoch (sample_epoch 4)"
    using minted_epoch(1) [OF snapshot(1)] by (simp add: current_epoch_def sample_db_eq offered_row_def)
  moreover have "0 < unat (sn_slots snapshot)"
    using minted_epoch(2) [OF snapshot(1)] sample_db_slots(1) by simp
  then have "sn_slots snapshot > 0" by (simp add: word_less_nat_alt)
  ultimately have step: "store_step sample_env (sample_db, {}) (sample_db, {OfferEpoch (sample_epoch 4)})"
    using store_step.mint [of sample_db sample_env snapshot "{}"] snapshot
    by (simp add: sample_db_eq sample_env_def)
  have "reach (store_init sample_env) (store_step sample_env) (sample_db, {})"
    unfolding sample_db_def by (rule perform_all_reach [OF reach_init [of "store_init sample_env", OF sample_init]]) simp
  then show ?thesis using step by (rule reach.reach_step)
qed

section \<open>A sale\<close>

definition sample_evidence :: ecash_claim_evidence where
  "sample_evidence = EvidenceMintV2 ''fed'' 1 [] []"

definition sample_new :: new_seat where
  "sample_new =
     \<lparr>ns_seat_id = SeatId (replicate 32 7), ns_fa_id = [1], ns_plan = InfiniteBestEffort 0,
      ns_federation_size = FederationSize 4, ns_payment = Some sample_evidence\<rparr>"

lemma sample_simps [simp]:
  "sample_epoch 5 \<noteq> sample_epoch 4" "en_codec sample_env = sample_codec"
  "en_first_port_base sample_env = PortBase 20000" "ns_seat_id sample_new = SeatId (replicate 32 7)"
  "ns_federation_size sample_new = FederationSize 4"
  by (simp_all add: sample_epoch_def sample_env_def sample_new_def)

definition sample_sold :: db where
  "sample_sold = sample_db
     \<lparr>seats := [(replicate 32 7, \<lparr>sr_seat_no = 0, sr_fi_id = fa_to_string sample_codec [1],
        sr_plan = plan_to_json sample_codec (InfiniteBestEffort 0), sr_federation_size = 4,
        sr_created_at_ms = 9\<rparr>)],
      ecash_claims := [(replicate 32 7, \<lparr>cr_evidence = evidence_to_cbor sample_codec sample_evidence,
        cr_claim_outcome = None, cr_claim_outcome_at_ms = None\<rparr>)]\<rparr>"

lemma sample_sold_eq:
  "perform sample_env 9 (sample_epoch 5) (AdmitSeat sample_new (OfferEpoch (sample_epoch 4))) sample_db =
   sample_sold"
proof -
  have tables: "seats sample_db = []" "ecash_claims sample_db = []" "next_seat_no sample_db = 0"
    "os_offer_epoch (offer_state sample_db) = sample_epoch 4"
    by (simp_all add: sample_db_eq empty_db_def next_seat_no_def offered_row_def)
  obtain n where n: "current_slots (PortBase 20000) sample_db = Inr n"
    using store.inv_reach [OF sample_reach] by (auto simp: store_inv_def elim: current_slots_wf)
  then have "unat n = 3" using sample_db_slots(1) by (simp add: slots_def)
  then have "n \<noteq> 0" "n \<noteq> 1" by auto
  with n tables show ?thesis
    by (simp add: admit_seat_at_writer_boundary_def after_commit_def in_tx_def select_seat_def
        parse_offer_epoch_def insert_admitted_def insert_seat_def insert_row_def insert_claim_def
        seat_insert_def tbl_exists_def try_from_int_def sample_new_def sample_sold_def Let_def)
qed

lemma sample_step:
  "store_step sample_env (s, {OfferEpoch (sample_epoch 4)})
     (perform sample_env n (sample_epoch 5) op s, {OfferEpoch (sample_epoch 4)})"
  by (rule store_step.oper) simp_all

lemmas sample_run = r_into_rtranclp [of "store_step sample_env", OF sample_step]

lemma sample_sold_reach:
  "reach (store_init sample_env) (store_step sample_env) (sample_sold, {OfferEpoch (sample_epoch 4)})"
  using reach.reach_step [OF sample_reach sample_step] unfolding sample_sold_eq [symmetric] .

text \<open>Later states of the sold seat: its claim settled, and the seat decommissioned or formed.\<close>

lemma sample_later_reach:
  "reach (store_init sample_env) (store_step sample_env)
     (perform sample_env n (sample_epoch 5) op sample_sold, {OfferEpoch (sample_epoch 4)})"
  using sample_sold_reach sample_step by (rule reach.reach_step)

text \<open>A second sale.\<close>

lemma sample_second_eq:
  "seats (perform sample_env 9 (sample_epoch 5)
       (AdmitSeat (sample_new\<lparr>ns_seat_id := SeatId (replicate 32 8)\<rparr>) (OfferEpoch (sample_epoch 4))) sample_sold) =
   seats sample_sold @ [(replicate 32 8, \<lparr>sr_seat_no = 1, sr_fi_id = fa_to_string sample_codec [1],
        sr_plan = plan_to_json sample_codec (InfiniteBestEffort 0), sr_federation_size = 4,
        sr_created_at_ms = 9\<rparr>)]"
proof -
  have tables: "map_of (seats sample_sold) (replicate 32 8) = None" "next_seat_no sample_sold = 1"
    "os_offer_epoch (offer_state sample_sold) = sample_epoch 4"
    "length (seats sample_sold) = 1" "\<not> tbl_exists (ecash_claims sample_sold) (replicate 32 8)"
    "\<forall>r \<in> set (seats sample_sold). sr_seat_no (snd r) = 0"
    by (simp_all add: sample_sold_def next_seat_no_def sample_db_eq offered_row_def tbl_exists_def)
  obtain n where n: "current_slots (PortBase 20000) sample_sold = Inr n"
    using store.inv_reach [OF sample_sold_reach] by (auto simp: store_inv_def elim: current_slots_wf)
  have "stored_seats_config (offer_state sample_sold) =
      Inr \<lparr>sc_max_seats = Some 3, sc_memory_max_seats = 4, sc_policy_max_seats = 12, sc_ready_for_new_seats = True\<rparr>"
    by (simp add: sample_sold_def sample_db_eq offered_row_config [of "Some 3", simplified])
  moreover have "active_count sample_sold = 1"
    by (simp add: active_count_def sample_sold_def sample_db_eq empty_db_def matching_def tbl_exists_def)
  ultimately have "slots (PortBase 20000) sample_sold = 2"
    by (simp add: slots_config unat_config_slots effective_max_seats_def tables(2) unat_remaining_blocks
        u32_or_max_def)
  then have "unat n = 2" using n by (simp add: slots_def)
  then have "n \<noteq> 0" "n \<noteq> 1" by auto
  with n tables show ?thesis
    by (auto simp: admit_seat_at_writer_boundary_def after_commit_def in_tx_def select_seat_def
        parse_offer_epoch_def insert_admitted_def insert_seat_def insert_row_def insert_claim_def
        seat_insert_def tbl_exists_def try_from_int_def sample_new_def Let_def split: option.splits)
qed

end
