(* ===== verification/Store_Properties.thy ===== *)
theory Store_Properties
  imports Sample_Run
begin

text \<open>
  What the store guarantees to the daemon over its whole life: in every reachable state, and
  between a state and every later one. The one-step facts are in \<open>Store_Preservation\<close>,
  \<open>Store_History\<close> and \<open>Store_Capacity\<close>; the interpretation \<open>store\<close> of \<open>Store_Lifecycle\<close> lifts them.
\<close>

lemma reach_inv: "reach (store_init en) (store_step en) (s, Q) \<Longrightarrow> store_inv en (s, Q)"
  by (rule store.inv_reach)

lemma reach_wf:
  assumes "reach (store_init en) (store_step en) (s, Q)"
  shows "wf (en_codec en) s" and "codec_ok (en_codec en)"
    and "epoch \<in> Q \<Longrightarrow> epoch = current_epoch s \<longrightarrow> 0 < slots (en_first_port_base en) s"
  using reach_inv [OF assms] by (auto simp: store_inv_def dest: transfer_codec_okD)

lemma run_keeps:
  assumes "reach (store_init en) (store_step en) (s, Q)" and "(store_step en)\<^sup>*\<^sup>* (s, Q) (s', Q')"
  shows "keeps s s'" and "wf (en_codec en) s'" and "Q \<subseteq> Q'"
    and "e \<in> Q \<Longrightarrow> e \<noteq> current_epoch s \<Longrightarrow> e \<noteq> current_epoch s'"
  using store.rel_run [OF reach_inv [OF assms(1)] assms(2)] store.inv_run [OF reach_inv [OF assms(1)] assms(2)]
  by (auto simp: history_def store_inv_def)

lemma first_sale:
  assumes "seats s = []"
  shows "fst (ledger_admit new (current_epoch s) now fresh (ledger_of c first s)) = Inserted (new_facts new 0 now)"
proof -
  let ?L = "ledger_of c first s"
  have "lg_sold ?L = Map.empty" "lg_epoch ?L = current_epoch s"
    using assms by (simp_all add: ledger_of_def fun_eq_iff)
  then show ?thesis by (simp add: ledger_admit_def Let_def next_no_def)
qed

lemma sample_first_sale:
  "fst (ledger_admit sample_new (OfferEpoch (sample_epoch 4)) now fresh
     (ledger_of c first sample_db)) = Inserted (new_facts sample_new 0 now)"
  using first_sale [of sample_db sample_new now fresh c first]
  by (simp add: sample_db_eq empty_db_def current_epoch_def offered_row_def)

section \<open>Reads of a well-formed store\<close>

lemma rows_collect:
  assumes "\<And>k v. (k, v) \<in> set xs \<Longrightarrow> \<exists>r. f k v = Inr r"
  shows "\<exists>rs. collect_results (map (\<lambda>(k, v). f k v) xs) = Inr rs \<and> length rs = length xs"
  by (rule collect_results_map_ok) (use assms in auto)

lemma transpose_ok:
  assumes "\<And>x. v = Some x \<Longrightarrow> \<exists>y. f x = Inr y"
  shows "\<exists>r. transpose_result (map_option f v) = Inr r"
  using assms by (cases v) force+

lemma child_rows: "child_ok P parents t \<Longrightarrow> (k, v) \<in> set t \<Longrightarrow> P k v \<and> tbl_exists parents k"
  by (auto simp: child_ok_def)

lemma seat_record_try_from_ok: "seat_row_ok c k row \<Longrightarrow> \<exists>r. seat_record_try_from c k row d = Inr r"
  by (auto simp: seat_record_try_from_def seat_row_ok_def try_from_int_def Let_def)

lemma list_seats_wf:
  assumes "wf c s"
  shows "\<exists>rs. list_seats c s = Inr rs \<and> length rs = length (seats s)"
  unfolding list_seats_def
  using rows_collect [of "sort_key (\<lambda>(_, row). sr_created_at_ms row) (sort_key fst (seats s))"
      "\<lambda>k row. seat_record_try_from c k row (map_of (decommissioned_seats s) k)"] wfD(2) [OF assms]
  by (fastforce simp: seats_ok_def intro!: seat_record_try_from_ok)

lemma payments_wf:
  assumes "wf c s"
  shows "\<exists>ps. payments c s = Inr ps \<and> length ps = length (ecash_claims s)"
proof -
  note rows = child_rows [OF wfD(3) [OF assms]]
  then have all: "filter (\<lambda>(k, _). tbl_exists (seats s) k) (ecash_claims s) = ecash_claims s"
    by (intro filter_True) auto
  have "\<exists>r. payment_record_try_from c k row = Inr r" if "(k, row) \<in> set (ecash_claims s)" for k row
    using rows [OF that] by (simp add: claim_row_ok_def)
  then show ?thesis
    unfolding payments_def all
    using rows_collect [of "sort_key (\<lambda>(k, _). sr_created_at_ms (the (map_of (seats s) k)))
        (sort_key fst (ecash_claims s))" "payment_record_try_from c"] by simp
qed

lemma validate_completion_callbacks_wf:
  assumes "wf c s"
  shows "validate_completion_callbacks c s = Inr ()"
proof -
  have "\<exists>r. completion_callback_try_from c k row = Inr r"
    if "(k, row) \<in> set (completion_callbacks s)" for k row
    using child_rows [OF wfD(7) [OF assms] that] by (simp add: callback_row_ok_def)
  then show ?thesis
    using rows_collect [of "completion_callbacks s" "completion_callback_try_from c"]
    by (auto simp: validate_completion_callbacks_def query_completion_callbacks_def)
qed

lemma take_offer_snapshot_wf:
  assumes "wf c s"
  shows "\<exists>sn. take_offer_snapshot first s = Inr sn"
proof -
  note check = wfD(1) [OF assms, unfolded offer_row_check_def]
  have price: "\<exists>p. transpose_result (map_option stored_price (os_price_msats (offer_state s))) = Inr p"
    using check by (intro transpose_ok) (auto simp: stored_price_def try_from_int_def)
  have seats: "\<exists>m. transpose_result (map_option stored_max_seats (os_max_seats (offer_state s))) = Inr m"
    using check by (intro transpose_ok) (auto simp: stored_max_seats_range)
  from price seats check show ?thesis
    by (auto simp: take_offer_snapshot_def Let_def parse_offer_epoch_wf [OF assms] stored_max_seats_range)
qed

lemma seat_reads_wf:
  assumes "wf c s"
  shows "\<exists>codes. stored_dkg_inputs c i s = Inr codes" and "\<exists>phase. db_transfer_phase c i s = Inr phase"
proof -
  let ?k = "seat_id_bytes i"
  show "\<exists>codes. stored_dkg_inputs c i s = Inr codes"
    unfolding stored_dkg_inputs_def Let_def
    by (rule transpose_ok) (auto split: if_splits dest: child_ok_row [OF wfD(8) [OF assms]])
  have "\<exists>r. outgoing i s = Inr r"
    unfolding outgoing_def by (rule transpose_ok) (auto dest: child_ok_row [OF wfD(10) [OF assms]])
  moreover have "\<exists>r. incoming c i s = Inr r"
    unfolding incoming_def
    by (rule transpose_ok)
      (use child_ok_row [OF wfD(9) [OF assms], of ?k] decode_incoming_seat in
        \<open>auto simp: transfer_in_row_ok_def\<close>)
  ultimately show "\<exists>phase. db_transfer_phase c i s = Inr phase"
    by (auto simp: db_transfer_phase_def split: option.split)
qed

section \<open>Admission\<close>

lemma sample_sale:
  "fst (admit_seat sample_codec sample_new (OfferEpoch (sample_epoch 4)) (PortBase 20000) 9
     (sample_epoch 5) sample_db) = Inr (Inserted (new_facts sample_new 0 9))"
  using admit_seat_ledger(1) [OF reach_wf(1) [OF sample_reach] reach_wf(2) [OF sample_reach]
      reach_wf(3) [OF sample_reach], of "OfferEpoch (sample_epoch 4)" sample_new "sample_epoch 5" 9]
    sample_first_sale by simp

text \<open>
  C9. Allocation implements its contract. In every reachable state and for
  every quote that was minted, \<open>admit_seat\<close> returns the decision of the abstract ledger and
  leaves the store whose ledger is the one the decision describes. In particular it returns:
  no constraint of the schema is violated, no row fails to decode, and the assertion that a
  current-epoch quote has capacity holds.
\<close>

theorem admit_seat_refines:
  assumes "reach (store_init en) (store_step en) (s, Q)" and "epoch \<in> Q"
    and "length (seat_id_bytes (ns_seat_id new)) = 32" and "length fresh = 32"
    and "0 < federation_size_get (ns_federation_size new)"
  shows "fst (admit_seat (en_codec en) new epoch (en_first_port_base en) now fresh s) =
      Inr (fst (ledger_admit new epoch now fresh (ledger_of (en_codec en) (en_first_port_base en) s))) \<and>
    ledger_of (en_codec en) (en_first_port_base en)
        (snd (admit_seat (en_codec en) new epoch (en_first_port_base en) now fresh s)) =
      snd (ledger_admit new epoch now fresh (ledger_of (en_codec en) (en_first_port_base en) s))"
  using admit_seat_ledger [OF reach_wf(1) [OF assms(1)] reach_wf(2) [OF assms(1)]
      reach_wf(3) [OF assms(1,2)] assms(3-5)] by blast

theorem admit_seat_refines_witness:
  "fst (admit_seat sample_codec sample_new (OfferEpoch (sample_epoch 4)) (PortBase 20000) 9
     (sample_epoch 5) sample_db) = Inr (Inserted (new_facts sample_new 0 9))"
  using admit_seat_refines [OF sample_reach, of "OfferEpoch (sample_epoch 4)" sample_new "sample_epoch 5" 9]
    sample_first_sale by simp



text \<open>The state after an admission is the state before it or the state after its writer transaction.\<close>

lemma admit_seat_state:
  "snd (admit_seat (en_codec en) new epoch (en_first_port_base en) now fresh s) \<in>
     {s, perform en now fresh (AdmitSeat new epoch) s}"
  by (auto simp: admit_seat_def split: sum.splits option.splits)

lemma admit_seat_inv:
  assumes "store_inv en (s, Q)" and "length fresh = 32" and "OfferEpoch fresh \<notin> Q"
  shows "store_inv en (snd (admit_seat (en_codec en) new epoch (en_first_port_base en) now fresh s), Q)"
  using admit_seat_state [of en new epoch now fresh s] assms(1)
    store_inv_step [OF store_step.oper [OF assms(2,3), of en s now "AdmitSeat new epoch"] assms(1)]
  by auto

lemma ledger_admit_sold:
  assumes "fst (ledger_admit new epoch now fresh L) \<in> {Inserted facts, Existing facts}"
  shows "lg_sold (snd (ledger_admit new epoch now fresh L)) (seat_id_bytes (ns_seat_id new)) = Some facts"
  using assms by (auto simp: ledger_admit_def Let_def split: option.splits if_splits)

lemma keeps_select:
  assumes "keeps s s'" and "wf c s" and "wf c s'" and "select_seat c k s = Inr (Some facts)"
  shows "select_seat c k s' = Inr (Some facts)"
  using assms by (auto simp: select_seat_wf keeps_def dest: extends_eqD)

lemma admit_seat_existing:
  assumes "wf c s" and "select_seat c (seat_id_bytes (ns_seat_id new)) s = Inr (Some facts)"
  shows "admit_seat c new epoch first now fresh s = (Inr (Existing facts), s)"
  using assms by (simp add: admit_seat_def admission_snapshot_def parse_offer_epoch_wf [OF assms(1)])

lemma admit_seat_changed:
  assumes "wf c s" and "fst (admit_seat c new epoch first now fresh s) = Inr OfferChanged"
  shows "epoch \<noteq> current_epoch s"
  using assms admit_boundary_not_changed [OF assms(1)]
  by (auto simp: admit_seat_eq [OF assms(1)] split: option.splits)

text \<open>
  C15. Seat creation is idempotent for ever. Once an admission has
  answered with the facts of a seat, a repeated request for the same seat id, whatever its
  other fields and its quoted epoch, at any later time and after any operations in between, is
  answered with the same facts and changes nothing.
\<close>

theorem creation_is_idempotent:
  assumes "reach (store_init en) (store_step en) (s, Q)" and "epoch \<in> Q"
    and "length (seat_id_bytes (ns_seat_id new)) = 32" and "length fresh = 32"
    and "0 < federation_size_get (ns_federation_size new)" and "OfferEpoch fresh \<notin> Q"
    and "admit_seat (en_codec en) new epoch (en_first_port_base en) now fresh s = (Inr answer, s1)"
    and "answer \<in> {Inserted facts, Existing facts}"
    and "(store_step en)\<^sup>*\<^sup>* (s1, Q) (s2, Q2)" and "ns_seat_id again = ns_seat_id new"
  shows "admit_seat (en_codec en) again epoch' (en_first_port_base en) now' fresh' s2 =
    (Inr (Existing facts), s2)"
proof -
  let ?c = "en_codec en" and ?first = "en_first_port_base en"
  note inv = admit_seat_inv [OF reach_inv [OF assms(1)] assms(4,6), of new epoch now, unfolded assms(7) snd_conv]
  then have wf1: "wf ?c s1" by (simp add: store_inv_def)
  have later: "keeps s1 s2" "wf ?c s2"
    using store.rel_run [OF inv assms(9)] store.inv_run [OF inv assms(9)]
    by (auto simp: history_def store_inv_def)
  have "fst (ledger_admit new epoch now fresh (ledger_of ?c ?first s)) = answer"
    "ledger_of ?c ?first s1 = snd (ledger_admit new epoch now fresh (ledger_of ?c ?first s))"
    using admit_seat_ledger [OF reach_wf(1) [OF assms(1)] reach_wf(2) [OF assms(1)]
        reach_wf(3) [OF assms(1,2)] assms(3-5), of now] assms(7) by simp_all
  then have "lg_sold (ledger_of ?c ?first s1) (seat_id_bytes (ns_seat_id new)) = Some facts"
    using ledger_admit_sold assms(8) by metis
  then have "select_seat ?c (seat_id_bytes (ns_seat_id new)) s1 = Inr (Some facts)"
    by (simp add: select_seat_wf [OF wf1] ledger_of_def)
  then show ?thesis
    using admit_seat_existing [OF later(2)] keeps_select [OF later(1) wf1 later(2)] assms(10) by simp
qed

theorem creation_is_idempotent_witness:
  "admit_seat sample_codec (sample_new\<lparr>ns_fa_id := [2]\<rparr>) (OfferEpoch []) (PortBase 20000) 99 (sample_epoch 6)
     (snd (admit_seat sample_codec sample_new (OfferEpoch (sample_epoch 4)) (PortBase 20000) 9
       (sample_epoch 5) sample_db)) =
   (Inr (Existing (new_facts sample_new 0 9)),
    snd (admit_seat sample_codec sample_new (OfferEpoch (sample_epoch 4)) (PortBase 20000) 9
       (sample_epoch 5) sample_db))"
proof -
  let ?r = "admit_seat sample_codec sample_new (OfferEpoch (sample_epoch 4)) (PortBase 20000) 9
       (sample_epoch 5) sample_db"
  have "?r = (Inr (Inserted (new_facts sample_new 0 9)), snd ?r)"
    using sample_sale by (simp add: prod_eq_iff)
  then show ?thesis
    using creation_is_idempotent [OF sample_reach, of "OfferEpoch (sample_epoch 4)" sample_new
        "sample_epoch 5" 9 "Inserted (new_facts sample_new 0 9)" "snd ?r" "new_facts sample_new 0 9"
        "snd ?r" "{OfferEpoch (sample_epoch 4)}"]
    by simp
qed

text \<open>
  C16. A sale never exceeds the limits: after an insertion the active seats are
  within the effective limit, the new seat has a port block of the grid, and no other seat has
  its number.
\<close>

theorem sold_seat_fits:
  assumes "reach (store_init en) (store_step en) (s, Q)" and "epoch \<in> Q"
    and "length (seat_id_bytes (ns_seat_id new)) = 32" and "length fresh = 32"
    and "0 < federation_size_get (ns_federation_size new)"
    and "admit_seat (en_codec en) new epoch (en_first_port_base en) now fresh s = (Inr (Inserted facts), s')"
  shows "active_count s' \<le> int (seat_limit s') \<and>
    seat_port_base (sf_seat_no facts) (en_first_port_base en) \<noteq> None \<and>
    int (unat (seat_no_get (sf_seat_no facts))) \<notin> (\<lambda>(_, row). sr_seat_no row) ` set (seats s)"
proof -
  let ?c = "en_codec en" and ?first = "en_first_port_base en"
  let ?L = "ledger_of ?c ?first s"
  note wf = reach_wf(1) [OF assms(1)]
  have ledger: "fst (ledger_admit new epoch now fresh ?L) = Inserted facts"
    "ledger_of ?c ?first s' = snd (ledger_admit new epoch now fresh ?L)"
    using admit_seat_ledger [OF wf reach_wf(2) [OF assms(1)] reach_wf(3) [OF assms(1,2)] assms(3-5), of now]
      assms(6) by simp_all
  then have facts: "facts = new_facts new (next_no ?L) now" "lg_epoch ?L = epoch"
    "lg_sold ?L (seat_id_bytes (ns_seat_id new)) = None"
    by (auto simp: ledger_admit_def Let_def split: option.splits if_splits)
  have free: "0 < free_slots ?L"
    using reach_wf(3) [OF assms(1,2)] facts(2) slots_ledger [OF wf, of ?first] by (simp add: ledger_of_def)
  have wf': "wf ?c s'"
    using admit_seat_wf [OF wf, of fresh new epoch ?first now] reach_inv [OF assms(1)] assms(4,6)
    by (simp add: store_inv_def)
  have after: "lg_sold (ledger_of ?c ?first s') = (lg_sold ?L)(seat_id_bytes (ns_seat_id new) \<mapsto> facts)"
      "lg_retired (ledger_of ?c ?first s') = lg_retired ?L" "lg_limit (ledger_of ?c ?first s') = lg_limit ?L"
    unfolding ledger(2) using facts by (simp_all add: ledger_admit_def Let_def)
  let ?live = "\<lambda>L. dom (lg_sold L) - lg_retired L"
  have "dom (lg_sold ?L) = dom (map_of (seats s))" by (auto simp: ledger_of_def)
  then have finite: "finite (?live ?L)" by (simp add: finite_dom_map_of)
  have "?live (ledger_of ?c ?first s') \<subseteq> insert (seat_id_bytes (ns_seat_id new)) (?live ?L)"
    by (auto simp: after)
  then have "card (?live (ledger_of ?c ?first s')) \<le> card (insert (seat_id_bytes (ns_seat_id new)) (?live ?L))"
    using finite by (intro card_mono) simp_all
  also have "\<dots> \<le> card (?live ?L) + 1" using finite by (simp add: card_insert_if)
  finally have "active_count s' \<le> active_count s + 1"
    by (simp add: active_count_ledger [OF wf', of ?first] active_count_ledger [OF wf, of ?first])
  moreover have "active_count s + 1 \<le> int (seat_limit s)"
    using free by (simp add: active_count_ledger [OF wf, of ?first] free_slots_def) (simp add: ledger_of_def)
  moreover have "seat_limit s' = seat_limit s"
    using after(3) by (simp add: ledger_of_def)
  moreover have "int (next_no ?L) \<notin> (\<lambda>(_, row). sr_seat_no row) ` set (seats s)"
    using next_seat_no_fresh [of s] next_no_ledger [OF wf, of ?first] by (auto simp: image_iff)
  ultimately show ?thesis
    using facts(1) next_no_block [OF free] by (simp add: new_facts_def)
qed

theorem sold_seat_fits_witness:
  "active_count (snd (admit_seat sample_codec sample_new (OfferEpoch (sample_epoch 4)) (PortBase 20000) 9
     (sample_epoch 5) sample_db)) \<le>
   int (seat_limit (snd (admit_seat sample_codec sample_new (OfferEpoch (sample_epoch 4)) (PortBase 20000) 9
     (sample_epoch 5) sample_db)))"
  using sold_seat_fits [OF sample_reach, of "OfferEpoch (sample_epoch 4)" sample_new "sample_epoch 5" 9
      "new_facts sample_new 0 9"] sample_sale
  by (simp add: prod_eq_iff)

text \<open>
  C17. A quote of a retired offer can never be redeemed later. If a
  minted quote is refused because the offer changed, then at every later time no request under
  its epoch is sold a seat.
\<close>

theorem refused_quote_stays_refused:
  assumes "reach (store_init en) (store_step en) (s, Q)" and "epoch \<in> Q"
    and "fst (admit_seat (en_codec en) new epoch (en_first_port_base en) now fresh s) = Inr OfferChanged"
    and "(store_step en)\<^sup>*\<^sup>* (s, Q) (s', Q')"
  shows "fst (admit_seat (en_codec en) new' epoch (en_first_port_base en) now' fresh' s') \<noteq> Inr (Inserted facts)"
proof -
  have wf: "wf (en_codec en) s" "wf (en_codec en) s'"
    using reach_wf [OF assms(1)] run_keeps [OF assms(1,4)] by blast+
  have "epoch \<noteq> current_epoch s"
    by (rule admit_seat_changed [OF wf(1) assms(3)])
  then have "epoch \<noteq> current_epoch s'" using run_keeps(4) [OF assms(1,4,2)] by blast
  then show ?thesis
    by (simp add: admit_seat_eq [OF wf(2)] split: option.split)
qed

theorem refused_quote_stays_refused_witness:
  "fst (admit_seat sample_codec sample_new (OfferEpoch (sample_epoch 4)) (PortBase 20000) 11 (sample_epoch 6)
     (perform sample_env 10 (sample_epoch 5) RotateTelemetryGeneration
       (perform sample_env 10 (sample_epoch 5) (SetOfferedPrice (Some 7)) sample_db))) \<noteq>
     Inr (Inserted (new_facts sample_new 0 11))"
proof (rule refused_quote_stays_refused [OF reach.reach_step [OF sample_reach sample_step] _ _ sample_run,
    unfolded sample_simps])
  show "fst (admit_seat sample_codec sample_new (OfferEpoch (sample_epoch 4)) (PortBase 20000) 11 (sample_epoch 6)
     (perform sample_env 10 (sample_epoch 5) (SetOfferedPrice (Some 7)) sample_db)) = Inr OfferChanged"
    unfolding admit_seat_eq [OF reach_wf(1) [OF reach.reach_step [OF sample_reach sample_step], unfolded sample_simps]]
    by (simp add: set_offered_price_def sample_db_eq offered_row_def empty_db_def as_i64_def write_offer_def
        offer_row_check_def u32_range_def current_epoch_def Let_def)
qed simp

section \<open>Facts that never change\<close>

text \<open>
  C30. The evidence of a payment is kept for ever, and its claim outcome is
  recorded once: a payment that has an outcome reads the same at every later time.
\<close>

theorem payment_is_final:
  assumes "reach (store_init en) (store_step en) (s, Q)" and "(store_step en)\<^sup>*\<^sup>* (s, Q) (s', Q')"
    and "payment (en_codec en) i s = Inr (Some p)"
  shows "\<exists>p'. payment (en_codec en) i s' = Inr (Some p') \<and> pay_evidence p' = pay_evidence p \<and>
    (pay_outcome p = None \<or> p' = p)"
proof -
  let ?c = "en_codec en" and ?k = "seat_id_bytes i"
  from assms(3) obtain row where row: "map_of (ecash_claims s) ?k = Some row"
    and p: "payment_record_try_from ?c ?k row = Inr p"
    by (auto simp: payment_def transpose_result_Inr_Some)
  from run_keeps(1) [OF assms(1,2)] row obtain row' where row': "map_of (ecash_claims s') ?k = Some row'"
    and step: "claim_step row row'"
    by (auto simp: keeps_def elim: extendsD)
  from child_ok_row [OF wfD(3) [OF run_keeps(2) [OF assms(1,2)]] row'] obtain p' where
    p': "payment_record_try_from ?c ?k row' = Inr p'" by (auto simp: claim_row_ok_def)
  have "pay_evidence p' = pay_evidence p"
    using p p' step by (auto simp: payment_record_try_from_def claim_step_def Let_def elim!: and_then_InrE split: if_splits)
  moreover have "pay_outcome p = None \<or> p' = p"
    using p p' step by (auto simp: payment_record_try_from_def claim_step_def Let_def elim!: and_then_InrE split: if_splits)
  ultimately show ?thesis using row' p' by (simp add: payment_def)
qed

theorem payment_is_final_witness:
  "\<exists>p. payment sample_codec (SeatId (replicate 32 7))
      (perform sample_env 12 (sample_epoch 5) (DecommissionSeat (SeatId (replicate 32 7)))
        (perform sample_env 10 (sample_epoch 5) (RecordClaimOutcome (SeatId (replicate 32 7)) ClaimSuccess) sample_sold)) =
     Inr (Some p) \<and> pay_outcome p = Some ClaimSuccess"
proof -
  let ?i = "SeatId (replicate 32 7)"
  let ?s = "perform sample_env 10 (sample_epoch 5) (RecordClaimOutcome ?i ClaimSuccess) sample_sold"
  have "payment sample_codec ?i ?s = Inr (Some \<lparr>pay_seat_id = ?i, pay_evidence = sample_evidence,
      pay_outcome = Some ClaimSuccess, pay_outcome_at_ms = Some 10\<rparr>)"
    using transfer_codec_okD(1) [OF sample_codec_ok]
    by (simp add: payment_def record_claim_outcome_def sample_sold_def update_where_def matching_def
        payment_record_try_from_def parse_claim_outcome_def codec_okD seat_id_from_quote_def Let_def)
  from payment_is_final [OF sample_later_reach sample_run [where n = 12 and op = "DecommissionSeat ?i"], unfolded sample_simps, OF this]
  show ?thesis by auto
qed

text \<open>
  C31. Retirement is final. A seat that was decommissioned or
  transferred out stays so; at every later time it records no DKG inputs, it is not retired
  again, and no transfer is admitted into it.
\<close>

theorem retired_seat_stays_retired:
  assumes "reach (store_init en) (store_step en) (s, Q)" and "(store_step en)\<^sup>*\<^sup>* (s, Q) (s', Q')"
    and "is_retired i s"
  shows "is_retired i s' \<and>
    (\<exists>e. record_dkg_inputs (en_codec en) i codes callback now s' = (Inl e, s')) \<and>
    retire_for_transfer i s' = (Inr False, s') \<and>
    admit_verified_transfer (en_crypto en) (en_codec en) envelope (grant\<lparr>gr_destination_seat_id := i\<rparr>)
      callback now s' = Inr (None, s')"
proof -
  have retired: "is_retired i s'"
    using assms(3) run_keeps(1) [OF assms(1,2)]
    by (auto simp: is_retired_def retired_def keeps_def intro: extends_exists)
  then have "\<exists>e. record_dkg_inputs (en_codec en) i codes callback now s' = (Inl e, s')"
    by (auto simp: record_dkg_inputs_def in_tx_def is_retired_def retired_def Let_def)
  moreover have "retire_for_transfer i s' = (Inr False, s')"
    using retired by (auto simp: retire_for_transfer_def is_retired_def retired_def Let_def)
  moreover have "admit_verified_transfer (en_crypto en) (en_codec en) envelope
      (grant\<lparr>gr_destination_seat_id := i\<rparr>) callback now s' = Inr (None, s')"
    using retired by (simp add: admit_verified_transfer_def Let_def)
  ultimately show ?thesis using retired by blast
qed

theorem retired_seat_stays_retired_witness:
  "is_retired (SeatId (replicate 32 7))
     (perform sample_env 12 (sample_epoch 5) (RecordDkgInputs (SeatId (replicate 32 7)) (DkgCodeSet []) None)
       (perform sample_env 10 (sample_epoch 5) (DecommissionSeat (SeatId (replicate 32 7))) sample_sold))"
proof -
  have "is_retired (SeatId (replicate 32 7))
      (perform sample_env 10 (sample_epoch 5) (DecommissionSeat (SeatId (replicate 32 7))) sample_sold)"
    by (simp add: decommission_seat_def in_tx_def seat_insert_def insert_row_def tbl_exists_def sample_sold_def
        sample_db_eq empty_db_def is_retired_def retired_def Let_def)
  from retired_seat_stays_retired [OF sample_later_reach sample_run this] show ?thesis by blast
qed

text \<open>
  C32. The invite of a formed seat never changes: it reads the same at
  every later time, and recording another one is refused without a change.
\<close>

theorem formed_invite_is_final:
  assumes "reach (store_init en) (store_step en) (s, Q)" and "(store_step en)\<^sup>*\<^sup>* (s, Q) (s', Q')"
    and "formed_federation_invite i s = Some invite"
  shows "formed_federation_invite i s' = Some invite \<and>
    (other = invite \<or> (\<exists>e. record_formed i other now s' = (Inl e, s')))"
proof -
  from assms(3) obtain row where "map_of (formed_seats s) (seat_id_bytes i) = Some row"
    and invite: "fr_federation_invite row = invite"
    by (auto simp: formed_federation_invite_def)
  then have row': "map_of (formed_seats s') (seat_id_bytes i) = Some row"
    using run_keeps(1) [OF assms(1,2)] by (auto simp: keeps_def dest: extends_eqD)
  then have "insert_or_ignore (seat_id_bytes i) v (formed_seats s') = formed_seats s'" for v
    by (simp add: insert_or_ignore_def tbl_exists_def)
  then show ?thesis
    using row' invite by (auto simp: formed_federation_invite_def record_formed_def tbl_exists_def Let_def)
qed

theorem formed_invite_is_final_witness:
  "formed_federation_invite (SeatId (replicate 32 7))
     (perform sample_env 12 (sample_epoch 5) (RecordFormed (SeatId (replicate 32 7)) ''other'')
       (perform sample_env 10 (sample_epoch 5) (RecordFormed (SeatId (replicate 32 7)) ''invite'') sample_sold)) =
   Some ''invite''"
proof -
  have "formed_federation_invite (SeatId (replicate 32 7))
      (perform sample_env 10 (sample_epoch 5) (RecordFormed (SeatId (replicate 32 7)) ''invite'') sample_sold) =
    Some ''invite''"
    by (simp add: record_formed_def formed_federation_invite_def insert_or_ignore_def tbl_exists_def
        sample_sold_def sample_db_eq empty_db_def Let_def)
  from formed_invite_is_final [OF sample_later_reach sample_run this] show ?thesis by blast
qed

text \<open>What a listed seat is.\<close>

lemma seat_record_facts:
  assumes "seat_record_try_from c k row d = Inr r"
  shows "rec_facts r = facts_of c k row" and "sr_seat_no row = int (unat (seat_no_get (sf_seat_no (rec_facts r))))"
  using assms
  by (auto simp: seat_record_try_from_def Let_def seat_id_from_quote_def facts_of_def try_from_int_Some
      elim!: and_then_InrE split: if_splits option.splits)

lemma listed_rows:
  assumes "list_seats c s = Inr rs"
  shows "Inr ` set rs = (\<lambda>(k, row). seat_record_try_from c k row (map_of (decommissioned_seats s) k)) ` set (seats s)"
proof -
  have "map (\<lambda>(k, row). seat_record_try_from c k row (map_of (decommissioned_seats s) k))
      (sort_key (\<lambda>(_, row). sr_created_at_ms row) (sort_key fst (seats s))) = map Inr rs"
    using assms unfolding list_seats_def collect_results_Inr .
  from arg_cong [OF this, of set] show ?thesis by simp
qed

lemma listed_seat:
  assumes "list_seats c s = Inr rs" and "r \<in> set rs"
  obtains k row where "(k, row) \<in> set (seats s)" and "rec_facts r = facts_of c k row"
    and "sr_seat_no row = int (unat (seat_no_get (sf_seat_no (rec_facts r))))"
proof -
  from assms(2) have "Inr r \<in> (\<lambda>(k, row). seat_record_try_from c k row (map_of (decommissioned_seats s) k)) ` set (seats s)"
    unfolding listed_rows [OF assms(1), symmetric] by simp
  then obtain k row where "(k, row) \<in> set (seats s)"
    and "seat_record_try_from c k row (map_of (decommissioned_seats s) k) = Inr r" by force
  then show thesis using that seat_record_facts by blast
qed

lemma listed:
  assumes "list_seats c s = Inr rs" and "(k, row) \<in> set (seats s)"
  shows "\<exists>r \<in> set rs. rec_facts r = facts_of c k row"
proof -
  have "seat_record_try_from c k row (map_of (decommissioned_seats s) k) \<in> Inr ` set rs"
    unfolding listed_rows [OF assms(1)] using assms(2) by force
  then obtain r where "r \<in> set rs"
    "seat_record_try_from c k row (map_of (decommissioned_seats s) k) = Inr r" by auto
  then show ?thesis using seat_record_facts by blast
qed

lemma seat_ports_range:
  assumes "seat_port_base n first = Some b"
  shows "map unat [p2p_port (SeatPorts b), api_port (SeatPorts b), ui_port (SeatPorts b), metrics_port (SeatPorts b)] =
    (let base = unat (port_base_get first) + 4 * unat (seat_no_get n) in [base, base + 1, base + 2, base + 3])"
  using assms by (simp add: seat_port_base_Some p2p_port_def api_port_def ui_port_def metrics_port_def
      unat_word_ariths Let_def)



section \<open>From onboarding to a sale\<close>

text \<open>
  C34. The onboarding sequence makes the fleet sell. From the empty
  database, for any identity, any authorization that is not from the future, any price of the
  64-bit signed range and any limit other than zero, the four onboarding operations end in a
  state that offers a seat, and a request under the epoch of that offer is sold seat number 0.
\<close>

theorem onboarding_ends_in_a_sale:
  assumes "transfer_codec_ok (en_codec en)" and "length e0 = 32" and "\<And>n. length (epochs n) = 32"
    and "issued \<le> max_issued" and "0 \<le> sint price" and "limit \<noteq> Some 0"
    and "remaining_blocks (en_first_port_base en) \<noteq> 0"
    and "length (seat_id_bytes (ns_seat_id new)) = 32" and "length fresh = 32"
    and "0 < federation_size_get (ns_federation_size new)"
  shows "\<exists>snapshot. let s = perform_all en clock epochs n
        (onboarding phrase issued json max_issued price limit) (empty_db e0) in
    take_offer_snapshot (en_first_port_base en) s = Inr snapshot \<and>
    sn_slots snapshot > 0 \<and> sn_ready_for_new_seats snapshot \<and>
    fst (admit_seat (en_codec en) new (of_epoch (sn_offer snapshot)) (en_first_port_base en) now fresh s) =
      Inr (Inserted (new_facts new 0 now))"
proof -
  let ?first = "en_first_port_base en" and ?c = "en_codec en"
  define s where "s = perform_all en clock epochs n
    (onboarding phrase issued json max_issued price limit) (empty_db e0)"
  have eq: "s = (empty_db e0)
     \<lparr>offer_state := offered_row (map_option uint limit) (Some (sint price)) (Some (clock (n + 2))) (epochs (n + 3)) True,
      onboarding_stage_text := ''complete'', onboarding_updated_at_ms := clock (n + 2),
      identity_table := Some \<lparr>id_mnemonic = phrase, id_wallet_origin = ''fresh'', id_created_at_ms = clock n\<rparr>,
      holder_authorization := Some (to_be_bytes issued, json)\<rparr>"
    unfolding s_def by (rule onboarding_state [OF assms(3-5)])
  have "reach (store_init en) (store_step en) (empty_db e0, {})"
    using assms(1,2) by (intro reach_init) (auto simp: store_init_def)
  then have wf: "wf ?c s"
    unfolding s_def by (rule reach_wf(1) [OF perform_all_reach [OF _ assms(3)]])
  then obtain snapshot where snapshot: "take_offer_snapshot ?first s = Inr snapshot"
    using take_offer_snapshot_wf by blast
  have ready: "sn_ready_for_new_seats snapshot"
    using snapshot by (auto simp: take_offer_snapshot_def eq offered_row_def Let_def elim!: and_then_InrE)
  have "stored_seats_config (offer_state s) =
      Inr \<lparr>sc_max_seats = limit, sc_memory_max_seats = 4, sc_policy_max_seats = 12, sc_ready_for_new_seats = True\<rparr>"
    by (simp add: eq offered_row_config)
  moreover have "0 < unat (effective_max_seats limit 4 12)"
    using assms(6) by (cases limit) (auto simp: effective_max_seats_def min_def unat_gt_0)
  moreover have empty: "seats s = []" by (simp add: eq empty_db_def)
  then have "active_count s = 0" "next_seat_no s = 0"
    by (simp_all add: active_count_def next_seat_no_def matching_def)
  ultimately have slots: "0 < slots ?first s"
    using assms(7) by (simp add: slots_config unat_config_slots u32_or_max_def unat_gt_0)
  then have "0 < sn_slots snapshot"
    using minted_epoch(2) [OF snapshot] by (simp add: word_less_nat_alt)
  moreover have "fst (admit_seat ?c new (of_epoch (sn_offer snapshot)) ?first now fresh s) =
      Inr (Inserted (new_facts new 0 now))"
    using admit_seat_ledger(1) [OF wf transfer_codec_okD(1) [OF assms(1)] _ assms(8-10), of "current_epoch s" ?first now]
      slots minted_epoch(1) [OF snapshot] first_sale [OF empty] by simp
  ultimately show ?thesis using snapshot ready unfolding s_def Let_def by blast
qed

theorem onboarding_ends_in_a_sale_witness:
  "\<exists>snapshot. let s = perform_all sample_env int sample_epoch 1
        (onboarding ''abandon'' 100 ''{}'' 200 5000 None) (empty_db (sample_epoch 0)) in
    take_offer_snapshot (PortBase 20000) s = Inr snapshot \<and>
    sn_slots snapshot > 0 \<and> sn_ready_for_new_seats snapshot \<and>
    fst (admit_seat sample_codec sample_new (of_epoch (sn_offer snapshot)) (PortBase 20000) 9 (sample_epoch 9) s) =
      Inr (Inserted (new_facts sample_new 0 9))"
proof (rule onboarding_ends_in_a_sale [where en = sample_env, unfolded sample_simps])
  show "remaining_blocks (PortBase 20000) \<noteq> 0"
    using unat_remaining_blocks [of "PortBase 20000"] by (simp add: unat_gt_0 [symmetric])
qed (simp_all add: sample_codec_ok)

section \<open>Single operations\<close>

text \<open>
  Rotating the telemetry capability draws the next generation
  and stores it, or fails because the signed 64-bit counter is exhausted and changes nothing; it
  never wraps.
\<close>

lemma telemetry_generation_rotates:
  assumes "reach (store_init en) (store_step en) (s, Q)"
  shows "case rotate_telemetry_capability_generation now s of
      (Inr g, s') \<Rightarrow> uint g = telemetry_generation s + 1 \<and> telemetry_capability_generation s' = Inr g
    | (Inl e, s') \<Rightarrow> e = TelemetryGenerationExhausted \<and> s' = s \<and> telemetry_generation s = I64_MAX"
proof -
  have range: "0 \<le> telemetry_generation s" "telemetry_generation s \<le> I64_MAX"
    using reach_wf(1) [OF assms] by (simp_all add: wf_def)
  show ?thesis
  proof (cases "telemetry_generation s < I64_MAX")
    case True
    then have "generation_u64 (telemetry_generation s + 1) = Inr (word_of_int (telemetry_generation s + 1))"
      "uint (word_of_int (telemetry_generation s + 1) :: u64) = telemetry_generation s + 1"
      using range unfolding uint_word_of_int
      by (simp_all add: generation_u64_def try_from_int_def I64_MAX_def del: of_int_add)
    with True show ?thesis
      by (simp add: rotate_telemetry_capability_generation_def telemetry_capability_generation_def Let_def)
  qed (use range in \<open>simp add: rotate_telemetry_capability_generation_def\<close>)
qed



text \<open>
  C35. The capacity assertion holds for a constant port base only. A
  fleet that has sold one seat and minted a quote under the base 20000, restarted with the last
  usable base 65532, still has that quote's epoch current but no port block left: redeeming the
  quote is a failed assertion instead of a refusal with the refund.
\<close>

theorem changed_port_base_panics:
  "reach (store_init sample_env) (store_step sample_env) (sample_sold, {OfferEpoch (sample_epoch 4)}) \<and>
   port_base_new 65532 = Some (PortBase 65532) \<and>
   fst (admit_seat sample_codec (sample_new\<lparr>ns_seat_id := SeatId (replicate 32 8)\<rparr>) (OfferEpoch (sample_epoch 4))
     (PortBase 65532) 9 (sample_epoch 5) sample_sold) =
   Inl (Panicked ''current-epoch live quote must have capacity'')"
proof (intro conjI)
  show "port_base_new 65532 = Some (PortBase 65532)" by (simp add: port_base_new_Some)
  have wf: "wf sample_codec sample_sold" using reach_wf(1) [OF sample_sold_reach] by simp
  have "slots (PortBase 65532) sample_sold = 0"
    using stored_seats_config_wf [OF wf]
    by (auto simp: slots_config unat_config_slots unat_remaining_blocks u32_or_max_def next_seat_no_def
        sample_sold_def)
  then have "current_slots (PortBase 65532) sample_sold = Inr 0"
    using current_slots_wf [OF wf, of "PortBase 65532"] by (metis unat_eq_zero)
  moreover have "map_of (seats sample_sold) (replicate 32 8) = None"
    "current_epoch sample_sold = OfferEpoch (sample_epoch 4)"
    by (simp_all add: sample_sold_def current_epoch_def sample_db_eq offered_row_def)
  ultimately show "fst (admit_seat sample_codec (sample_new\<lparr>ns_seat_id := SeatId (replicate 32 8)\<rparr>)
      (OfferEpoch (sample_epoch 4)) (PortBase 65532) 9 (sample_epoch 5) sample_sold) =
    Inl (Panicked ''current-epoch live quote must have capacity'')"
    by (simp add: admit_seat_eq [OF wf] admit_seat_at_writer_boundary_def after_commit_def in_tx_def
        select_seat_wf [OF wf] parse_offer_epoch_wf [OF wf])
qed (rule sample_sold_reach)

end
