(* ===== verification/Fleet_Properties.thy ===== *)
theory Fleet_Properties
  imports Fleet Store_Properties
begin

text \<open>
  What the fleet guarantees: the registry in memory agrees with the durable store
  (\<open>fleet_ok\<close>), a request selects only a seat of its signer, and the decision on a verified
  quote is exactly one of a seat and a refusal with the refund of the payment.
\<close>

section \<open>Registry and store\<close>

definition runtime_ok :: "fleet_config \<Rightarrow> transfer_codec \<Rightarrow> db \<Rightarrow> seat_id \<Rightarrow> seat_runtime \<Rightarrow> bool" where
  "runtime_ok cfg c s i rt \<longleftrightarrow>
     (let facts = ds_facts (rt_state rt) in
      sf_seat_id facts = i \<and> select_seat c (seat_id_bytes i) s = Inr (Some facts) \<and>
      seat_port_base (sf_seat_no facts) (fc_first_port_base cfg) = Some (seat_ports_base (rt_ports rt)))"

definition fleet_ok :: "fleet_config \<Rightarrow> transfer_codec \<Rightarrow> fleet \<Rightarrow> bool" where
  "fleet_ok cfg c fl \<longleftrightarrow>
     (\<forall>i rt. seat_by_id i fl = Some rt \<longrightarrow> runtime_ok cfg c (fl_db fl) i rt) \<and>
     (\<forall>k. tbl_exists (seats (fl_db fl)) k \<longrightarrow> seat_by_id (SeatId k) fl \<noteq> None)"

lemma fleet_okD:
  "fleet_ok cfg c fl \<Longrightarrow> seat_by_id i fl = Some rt \<Longrightarrow> runtime_ok cfg c (fl_db fl) i rt"
  by (simp add: fleet_ok_def)

lemma runtime_ok_keeps:
  "runtime_ok cfg c s i rt \<Longrightarrow> keeps s s' \<Longrightarrow> wf c s \<Longrightarrow> wf c s' \<Longrightarrow> runtime_ok cfg c s' i rt"
  by (auto simp: runtime_ok_def Let_def intro: keeps_select)

text \<open>A registered or a newly admitted seat is published.\<close>

lemma publish_registered:
  assumes "seat_by_id (sf_seat_id (ds_facts durable)) fl = Some rt"
  shows "\<exists>fl'. publish_seat cfg c identity durable inserted paid commitment fl = (Inr commitment, fl') \<and>
    fl_db fl' = fl_db fl \<and> fl_seats fl' = fl_seats fl"
  using assms by (auto simp: publish_seat_def Let_def)

lemma publish_new:
  assumes "seat_by_id (sf_seat_id (ds_facts durable)) fl = None"
    and "seat_port_base (sf_seat_no (ds_facts durable)) (fc_first_port_base cfg) = Some b"
  shows "\<exists>fl'. publish_seat cfg c identity durable True paid commitment fl = (Inr commitment, fl') \<and>
    fl_db fl' = fl_db fl \<and>
    fl_seats fl' = upsert_row (sf_seat_id (ds_facts durable))
      \<lparr>rt_state = durable, rt_ports = SeatPorts b, rt_keys = ri_seat_keys identity (sf_seat_id (ds_facts durable))\<rparr>
      (fl_seats fl)"
  using assms by (auto simp: publish_seat_def ensure_seat_runtime_def Let_def)

section \<open>The decision on a verified quote\<close>

text \<open>The facts of an admission that \<open>create_seat\<close> relies on, read off the ledger.\<close>

lemma admission_cases:
  assumes "reach (store_init en) (store_step en) (s, Q)" and "epoch \<in> Q"
    and "length (seat_id_bytes (ns_seat_id new)) = 32" and "length fresh = 32"
    and "0 < federation_size_get (ns_federation_size new)"
    and "admit_seat (en_codec en) new epoch (en_first_port_base en) now fresh s = (r, s')"
  obtains (existing) facts where "r = Inr (Existing facts)" and "s' = s"
      and "select_seat (en_codec en) (seat_id_bytes (ns_seat_id new)) s = Inr (Some facts)"
      and "sf_seat_id facts = ns_seat_id new"
    | (changed) "r = Inr OfferChanged" and "s' = s"
      and "select_seat (en_codec en) (seat_id_bytes (ns_seat_id new)) s = Inr None"
    | (inserted) facts where "r = Inr (Inserted facts)" and "wf (en_codec en) s'" and "keeps s s'"
      and "select_seat (en_codec en) (seat_id_bytes (ns_seat_id new)) s = Inr None"
      and "select_seat (en_codec en) (seat_id_bytes (ns_seat_id new)) s' = Inr (Some facts)"
      and "sf_seat_id facts = ns_seat_id new"
      and "\<exists>b. seat_port_base (sf_seat_no facts) (en_first_port_base en) = Some b"
      and "\<And>k. tbl_exists (seats s') k \<Longrightarrow> k = seat_id_bytes (ns_seat_id new) \<or> tbl_exists (seats s) k"
      and "lg_evidence (ledger_of (en_codec en) (en_first_port_base en) s') (seat_id_bytes (ns_seat_id new)) =
        ns_payment new"
proof -
  let ?c = "en_codec en" and ?first = "en_first_port_base en" and ?k = "seat_id_bytes (ns_seat_id new)"
  let ?L = "ledger_of ?c ?first s"
  note wf = reach_wf(1) [OF assms(1)]
  have select: "select_seat ?c ?k s = Inr (lg_sold ?L ?k)" by (simp add: select_seat_wf [OF wf] ledger_of_def)
  have ledger: "r = Inr (fst (ledger_admit new epoch now fresh ?L))"
    "ledger_of ?c ?first s' = snd (ledger_admit new epoch now fresh ?L)"
    using admit_seat_ledger [OF wf reach_wf(2) [OF assms(1)] reach_wf(3) [OF assms(1,2)] assms(3-5), of now]
      assms(6) by simp_all
  show thesis
  proof (cases "lg_sold ?L ?k")
    case (Some facts)
    then have "sf_seat_id facts = ns_seat_id new"
      by (auto simp: ledger_of_def facts_of_def)
    moreover have "s' = s" "r = Inr (Existing facts)"
      using assms(6) ledger(1) Some by (auto simp: admit_seat_eq [OF wf] ledger_of_def ledger_admit_def Let_def split: option.splits)
    ultimately show thesis using existing select Some by simp
  next
    case None
    show thesis
    proof (cases "epoch = current_epoch s")
      case False
      then have "s' = s" "r = Inr OfferChanged"
        using assms(6) None by (auto simp: admit_seat_eq [OF wf] ledger_of_def split: option.splits)
      then show thesis using changed select None by simp
    next
      case True
      define facts where "facts = new_facts new (next_no ?L) now"
      have wf': "wf ?c s'" and keeps: "keeps s s'"
        using admit_seat_wf [OF wf, of fresh new epoch ?first now] admit_seat_keeps [of s ?c new epoch ?first now fresh]
          reach_inv [OF assms(1)] assms(4,6) by (simp_all add: store_inv_def)
      have ins: "r = Inr (Inserted facts)" "lg_sold (ledger_of ?c ?first s') = (lg_sold ?L)(?k \<mapsto> facts)"
        "lg_evidence (ledger_of ?c ?first s') = (case ns_payment new of
            None \<Rightarrow> lg_evidence ?L | Some e \<Rightarrow> (lg_evidence ?L)(?k \<mapsto> e))"
        using ledger None True by (simp_all add: ledger_admit_def Let_def facts_def) (simp_all add: ledger_of_def)
      have "\<not> tbl_exists (ecash_claims s) ?k"
        using None child_ok_parent [OF wfD(3) [OF wf]] by (force simp: ledger_of_def tbl_exists_def)
      then have evidence: "lg_evidence ?L ?k = None" by (simp add: ledger_of_def tbl_exists_def)
      have sold: "select_seat ?c ?k s' = Inr (Some facts)"
        using ins(2) by (simp add: select_seat_wf [OF wf'] ledger_of_def fun_eq_iff)
      have exists: "tbl_exists (seats s') k \<Longrightarrow> k = ?k \<or> tbl_exists (seats s) k" for k
        using fun_cong [OF ins(2), of k] by (cases "map_of (seats s) k") (auto simp: ledger_of_def tbl_exists_def split: if_splits)
      have port: "\<exists>b. seat_port_base (sf_seat_no facts) ?first = Some b"
        using next_no_block(2) [of ?c ?first s] reach_wf(3) [OF assms(1,2)] True slots_ledger [OF wf, of ?first]
        by (simp add: facts_def new_facts_def)
      show thesis
        by (rule inserted [OF ins(1) wf' keeps _ sold _ port exists])
          (use select None ins(3) evidence in \<open>simp_all add: facts_def new_facts_def split: option.split\<close>)
    qed
  qed
qed

lemma fleet_ok_cong: "fl_db fl' = fl_db fl \<Longrightarrow> fl_seats fl' = fl_seats fl \<Longrightarrow> fleet_ok cfg c fl' = fleet_ok cfg c fl"
  by (simp add: fleet_ok_def seat_by_id_def)

lemma fleet_ok_insert:
  assumes ok: "fleet_ok cfg c fl" and wf: "wf c (fl_db fl)" and wf': "wf c s'" and keeps: "keeps (fl_db fl) s'"
    and new: "runtime_ok cfg c s' i rt"
    and others: "\<And>k. tbl_exists (seats s') k \<Longrightarrow> k = seat_id_bytes i \<or> tbl_exists (seats (fl_db fl)) k"
    and fl': "fl_db fl' = s'" "fl_seats fl' = upsert_row i rt (fl_seats fl)"
  shows "fleet_ok cfg c fl'"
  unfolding fleet_ok_def
proof (intro conjI allI impI)
  have seat: "seat_by_id j fl' = (if j = i then Some rt else seat_by_id j fl)" for j
    by (simp add: seat_by_id_def fl' map_of_upsert_row)
  show "runtime_ok cfg c (fl_db fl') j r" if "seat_by_id j fl' = Some r" for j r
    using that new runtime_ok_keeps [OF fleet_okD [OF ok, of j r] keeps wf wf'] fl'(1)
    by (simp add: seat split: if_splits)
  show "seat_by_id (SeatId k) fl' \<noteq> None" if "tbl_exists (seats (fl_db fl')) k" for k
    using others [of k] that fl'(1) ok by (auto simp: seat fleet_ok_def)
qed

lemma create_existing:
  assumes "admit_seat c (requested_seat input) (qt_offer_epoch (vc_quote_terms input)) (fc_first_port_base cfg)
      now fresh (fl_db fl) = (Inr (Existing facts), fl_db fl)"
    and "seat_by_id (sf_seat_id facts) fl = Some rt" and "db_transfer_phase c (sf_seat_id facts) (fl_db fl) = Inr phase"
    and "sign (seat_id_from_quote (vc_quote_id input)) = Inr commitment"
  shows "\<exists>fl'. fleet_create_seat cfg c identity input sign sign_refusal now fresh fl = (Inr commitment, fl') \<and>
    fl_db fl' = fl_db fl \<and> fl_seats fl' = fl_seats fl"
  using publish_registered [of "\<lparr>ds_facts = facts, ds_formed_invite = formed_federation_invite (sf_seat_id facts) (fl_db fl),
      ds_decommissioned_at_ms = decommissioned_at_ms (sf_seat_id facts) (fl_db fl), ds_transfer_phase = phase\<rparr>"
      fl rt cfg c identity False "accepted_payment (vc_payment input) \<noteq> None" commitment] assms
  by (simp add: fleet_create_seat_def)

text \<open>The runtime that a sale installs.\<close>

definition installed_runtime :: "root_identity \<Rightarrow> seat_facts \<Rightarrow> port_base \<Rightarrow> seat_runtime" where
  "installed_runtime identity facts b =
     \<lparr>rt_state = \<lparr>ds_facts = facts, ds_formed_invite = None, ds_decommissioned_at_ms = None,
        ds_transfer_phase = None\<rparr>,
      rt_ports = SeatPorts b, rt_keys = ri_seat_keys identity (sf_seat_id facts)\<rparr>"

lemma create_inserted:
  assumes "admit_seat c (requested_seat input) (qt_offer_epoch (vc_quote_terms input)) (fc_first_port_base cfg)
      now fresh (fl_db fl) = (Inr (Inserted facts), s')"
    and "seat_by_id (sf_seat_id facts) fl = None"
    and "seat_port_base (sf_seat_no facts) (fc_first_port_base cfg) = Some b"
    and "sign (seat_id_from_quote (vc_quote_id input)) = Inr commitment"
  shows "\<exists>fl'. fleet_create_seat cfg c identity input sign sign_refusal now fresh fl = (Inr commitment, fl') \<and>
    fl_db fl' = s' \<and> fl_seats fl' = upsert_row (sf_seat_id facts) (installed_runtime identity facts b) (fl_seats fl)"
  using publish_new [of "rt_state (installed_runtime identity facts b)" "fl\<lparr>fl_db := s'\<rparr>" cfg b c identity
      "accepted_payment (vc_payment input) \<noteq> None" commitment] assms
  by (simp add: fleet_create_seat_def installed_runtime_def seat_by_id_def)

definition verified_ok :: "verified_create_seat \<Rightarrow> bool" where
  "verified_ok input \<longleftrightarrow> length (quote_id_bytes (vc_quote_id input)) = 32 \<and>
     0 < federation_size_get (gq_federation_size (qt_request (vc_quote_terms input)))"

lemma create_seat_cases:
  fixes input :: verified_create_seat and sign :: "seat_id \<Rightarrow> string + 'r"
  defines "i \<equiv> seat_id_from_quote (vc_quote_id input)" and "k \<equiv> quote_id_bytes (vc_quote_id input)"
  assumes "reach (store_init en) (store_step en) (fl_db fl, Q)" and "fleet_ok cfg (en_codec en) fl"
    and "fc_first_port_base cfg = en_first_port_base en"
    and "qt_offer_epoch (vc_quote_terms input) \<in> Q" and "verified_ok input" and "length fresh = 32"
    and "sign i = Inr commitment"
    and "sign_refusal OfferChangedRefusal (map_option snd (into_refund (vc_payment input))) = Inr refusal"
  obtains (seat) fl' facts rt where
      "fleet_create_seat cfg (en_codec en) identity input sign sign_refusal now fresh fl = (Inr commitment, fl')"
      and "fleet_ok cfg (en_codec en) fl'" and "select_seat (en_codec en) k (fl_db fl') = Inr (Some facts)"
      and "seat_by_id i fl' = Some rt" and "ds_facts (rt_state rt) = facts"
      and "select_seat (en_codec en) k (fl_db fl) \<noteq> Inr None \<or>
        lg_evidence (ledger_of (en_codec en) (en_first_port_base en) (fl_db fl')) k = accepted_payment (vc_payment input)"
    | (refused) "fleet_create_seat cfg (en_codec en) identity input sign sign_refusal now fresh fl = (Inr refusal, fl)"
      and "select_seat (en_codec en) k (fl_db fl) = Inr None"
proof -
  let ?c = "en_codec en" and ?new = "requested_seat input"
  have k: "ns_seat_id ?new = i" "seat_id_bytes i = k" "SeatId k = i"
    "ns_payment ?new = accepted_payment (vc_payment input)"
    by (simp_all add: seat_id_from_quote_def requested_seat_def i_def k_def)
  note sign = assms(9) [unfolded i_def]
  obtain r s' where admit: "admit_seat ?c ?new (qt_offer_epoch (vc_quote_terms input)) (en_first_port_base en)
      now fresh (fl_db fl) = (r, s')" by fastforce
  note admit' = admit [folded assms(5)]
  from assms(7) have "length (seat_id_bytes (ns_seat_id ?new)) = 32"
    "0 < federation_size_get (ns_federation_size ?new)" by (simp_all add: verified_ok_def requested_seat_def seat_id_from_quote_def)
  then show thesis
  proof (cases rule: admission_cases [OF assms(3,6) _ assms(8) _ admit, case_names len size existing changed inserted])
    case (existing facts)
    have "tbl_exists (seats (fl_db fl)) k"
      using existing(3) reach_wf(1) [OF assms(3)] by (auto simp: select_seat_wf k tbl_exists_def)
    then obtain rt where rt: "seat_by_id i fl = Some rt"
      using assms(4) unfolding fleet_ok_def by (metis k(3) option.exhaust)
    obtain phase where phase: "db_transfer_phase ?c i (fl_db fl) = Inr phase"
      using seat_reads_wf(2) [OF reach_wf(1) [OF assms(3)]] by blast
    have id: "sf_seat_id facts = i" using existing(4) k(1) by simp
    obtain fl' where fl': "fleet_create_seat cfg ?c identity input sign sign_refusal now fresh fl = (Inr commitment, fl')"
      "fl_db fl' = fl_db fl" "fl_seats fl' = fl_seats fl"
      using create_existing [where sign = sign, OF admit' [unfolded existing(1,2)] rt [folded id] phase [folded id] sign] by blast
    have "ds_facts (rt_state rt) = facts"
      using fleet_okD [OF assms(4) rt] existing(3) by (simp add: runtime_ok_def k Let_def)
    moreover have "select_seat ?c k (fl_db fl) = Inr (Some facts)" using existing(3) by (simp add: k)
    moreover have "seat_by_id i fl' = Some rt" using rt by (simp add: seat_by_id_def fl'(3))
    ultimately show thesis
      using seat [OF fl'(1)] assms(4) fleet_ok_cong [OF fl'(2,3)] fl'(2) by simp
  next
    case changed
    then show thesis using refused admit' sign assms(10) by (simp add: fleet_create_seat_def k)
  next
    case (inserted facts)
    then obtain b where b: "seat_port_base (sf_seat_no facts) (fc_first_port_base cfg) = Some b"
      using assms(5) by auto
    let ?rt = "installed_runtime identity facts b"
    have "seat_by_id i fl = None"
      using fleet_okD [OF assms(4), of i] inserted(4)
      by (cases "seat_by_id i fl") (auto simp: runtime_ok_def k Let_def)
    moreover have id: "sf_seat_id facts = i" using inserted(6) k(1) by simp
    ultimately obtain fl' where fl':
      "fleet_create_seat cfg ?c identity input sign sign_refusal now fresh fl = (Inr commitment, fl')"
      "fl_db fl' = s'" "fl_seats fl' = upsert_row i ?rt (fl_seats fl)"
      using create_inserted [where sign = sign, OF admit' [unfolded inserted(1)] _ b sign, unfolded id] by blast
    have "runtime_ok cfg ?c s' i ?rt"
      using inserted(5,6) b by (simp add: runtime_ok_def installed_runtime_def k Let_def)
    then have "fleet_ok cfg ?c fl'"
      using fleet_ok_insert [OF assms(4) reach_wf(1) [OF assms(3)] inserted(2,3)] inserted(8) fl'(2,3)
      by (simp add: k)
    moreover have "seat_by_id i fl' = Some ?rt" by (simp add: seat_by_id_def fl'(3) map_of_upsert_row)
    ultimately show thesis
      using seat [OF fl'(1), of facts ?rt] fl'(2) inserted(5,9) by (simp add: k installed_runtime_def)
  qed simp_all
qed

text \<open>
  C13. The decision on a verified quote is exactly one of two. In
  every reachable state of a fleet whose registry agrees with its store, for a quote that was
  minted, \<open>create_seat\<close> returns. Either it answers with the signed commitment, the seat is in
  the store and in the registry, and if it was sold by this call the evidence of its payment
  is stored; or it answers with a signed refusal that carries the refund of the payment, no
  seat of the quote exists and nothing has changed. The registry agrees with the store
  afterwards.
\<close>

theorem create_seat_sells_or_refunds:
  assumes "reach (store_init en) (store_step en) (fl_db fl, Q)" and "fleet_ok cfg (en_codec en) fl"
    and "fc_first_port_base cfg = en_first_port_base en"
    and "qt_offer_epoch (vc_quote_terms input) \<in> Q" and "verified_ok input" and "length fresh = 32"
  shows "\<exists>fl'. fleet_ok cfg (en_codec en) fl' \<and>
    (fleet_create_seat cfg (en_codec en) identity input (\<lambda>i. Inr (commit i)) (\<lambda>reason refund. Inr (refuse reason refund))
        now fresh fl = (Inr (commit (seat_id_from_quote (vc_quote_id input))), fl') \<and>
      (\<exists>facts rt. select_seat (en_codec en) (quote_id_bytes (vc_quote_id input)) (fl_db fl') = Inr (Some facts) \<and>
        seat_by_id (seat_id_from_quote (vc_quote_id input)) fl' = Some rt \<and> ds_facts (rt_state rt) = facts) \<and>
      (select_seat (en_codec en) (quote_id_bytes (vc_quote_id input)) (fl_db fl) \<noteq> Inr None \<or>
        lg_evidence (ledger_of (en_codec en) (en_first_port_base en) (fl_db fl')) (quote_id_bytes (vc_quote_id input)) =
          accepted_payment (vc_payment input))
     \<or> fleet_create_seat cfg (en_codec en) identity input (\<lambda>i. Inr (commit i)) (\<lambda>reason refund. Inr (refuse reason refund))
        now fresh fl = (Inr (refuse OfferChangedRefusal (map_option snd (into_refund (vc_payment input)))), fl') \<and>
      fl' = fl \<and> select_seat (en_codec en) (quote_id_bytes (vc_quote_id input)) (fl_db fl) = Inr None)"
proof -
  let ?sign = "\<lambda>i. Inr (commit i)" and ?refuse = "\<lambda>reason refund. Inr (refuse reason refund)"
  from assms show ?thesis
  proof (cases rule: create_seat_cases [where sign = ?sign and sign_refusal = ?refuse and identity = identity and now = now,
      OF assms refl refl, case_names seat refused])
    case (seat fl' facts rt)
    show ?thesis
      by (rule exI [of _ fl'], rule conjI [OF seat(2)], rule disjI1, intro conjI exI [of _ facts] exI [of _ rt])
        (rule seat)+
  next
    case refused
    show ?thesis
      by (rule exI [of _ fl], rule conjI [OF assms(2)], rule disjI2, intro conjI) (rule refused refl)+
  qed
qed

definition sample_config :: fleet_config where
  "sample_config = \<lparr>fc_manifold_environment = Development, fc_first_port_base = PortBase 20000,
     fc_setup_payments_configured = True\<rparr>"

definition sample_fleet :: "db \<Rightarrow> fleet" where
  "sample_fleet s =
     \<lparr>fl_db = s, fl_seats = [], fl_telemetry_generation = 0, fl_backup_marked = False,
      fl_claims_marked = False, fl_advertisement_changed = False, fl_telemetry_registration_changed = False\<rparr>"

definition sample_identity :: root_identity where
  "sample_identity = \<lparr>ri_service_pubkey = [5], ri_seat_keys = (\<lambda>_. \<lparr>sk_iroh_api = [1], sk_iroh_p2p = [2],
     sk_api_auth = ''auth'', sk_preserve_guardian_identity = False\<rparr>)\<rparr>"

definition sample_input :: verified_create_seat where
  "sample_input =
     \<lparr>vc_fa_id = [1], vc_quote_id = QuoteId (replicate 32 7),
      vc_quote_terms = \<lparr>qt_quote_nonce = [], qt_offer_epoch = OfferEpoch (sample_epoch 4),
        qt_request = \<lparr>gq_fa_id = [1], gq_fedimintd_version = ''v0'', gq_federation_size = FederationSize 4,
          gq_plan = InfiniteBestEffort 0, gq_payment_federation_id = None, gq_refund_issuance = None\<rparr>,
        qt_price_msats = 0, qt_payment = None\<rparr>,
      vc_payment = FreePayment\<rparr>"

lemma sample_fleet_ok: "fleet_ok sample_config sample_codec (sample_fleet sample_db)"
  by (simp add: fleet_ok_def seat_by_id_def sample_fleet_def sample_db_eq empty_db_def tbl_exists_def)

theorem create_seat_sells_or_refunds_witness:
  "\<exists>fl'. fleet_ok sample_config sample_codec fl' \<and>
     (fleet_create_seat sample_config sample_codec sample_identity sample_input (\<lambda>i. Inr (Some i)) (\<lambda>_ _. Inr None)
        9 (sample_epoch 5) (sample_fleet sample_db) = (Inr (Some (SeatId (replicate 32 7))), fl') \<or>
      fleet_create_seat sample_config sample_codec sample_identity sample_input (\<lambda>i. Inr (Some i)) (\<lambda>_ _. Inr None)
        9 (sample_epoch 5) (sample_fleet sample_db) = (Inr None, fl'))"
  using create_seat_sells_or_refunds [of sample_env "sample_fleet sample_db" "{OfferEpoch (sample_epoch 4)}"
      sample_config sample_input "sample_epoch 5" sample_identity Some "\<lambda>_ _. None" 9]
    sample_reach sample_fleet_ok
  by (auto simp: sample_fleet_def sample_config_def sample_input_def verified_ok_def seat_id_from_quote_def)

section \<open>Selection of a seat\<close>

text \<open>
  C24. A request reaches a seat exactly when its signer owns it. In a
  fleet whose registry agrees with its store, \<open>authorize\<close> gives the seat of that id if the
  stored owner is the signer, and otherwise the one error \<open>UnknownSeat\<close>, so that a seat of
  somebody else cannot be told from no seat.
\<close>

theorem authorize_is_ownership:
  assumes "wf c (fl_db fl)" and "fleet_ok cfg c fl"
  shows "case select_seat c (seat_id_bytes i) (fl_db fl) of
      Inr (Some facts) \<Rightarrow>
        if sf_fa_id facts = signer
        then \<exists>rt. authorize i signer fl = Inr rt \<and> ds_facts (rt_state rt) = facts
        else authorize i signer fl = Inl UnknownSeat
    | _ \<Rightarrow> authorize i signer fl = Inl UnknownSeat"
proof (cases "seat_by_id i fl")
  case (Some rt)
  then show ?thesis
    using fleet_okD [OF assms(2) Some] by (auto simp: authorize_def runtime_ok_def Let_def)
next
  case None
  then have "\<not> tbl_exists (seats (fl_db fl)) (seat_id_bytes i)"
    using assms(2) by (auto simp: fleet_ok_def)
  with None show ?thesis
    by (simp add: authorize_def select_seat_wf [OF assms(1)] tbl_exists_def)
qed

theorem authorize_is_ownership_witness:
  "authorize (SeatId (replicate 32 7)) [1] (sample_fleet sample_db) = Inl UnknownSeat"
proof -
  have wf: "wf sample_codec sample_db" using reach_wf(1) [OF sample_reach] by simp
  have "select_seat sample_codec (replicate 32 7) sample_db = Inr None"
    by (simp add: select_seat_wf [OF wf]) (simp add: sample_db_eq empty_db_def)
  then show ?thesis
    using authorize_is_ownership [OF _ sample_fleet_ok, of "SeatId (replicate 32 7)" "[1]"] wf
    by (simp add: sample_fleet_def)
qed

section \<open>Opening\<close>

lemma open_seats_ok:
  assumes "open_seats cfg c identity s listed t = Inr t'"
    and "\<And>r. r \<in> set listed \<Longrightarrow> select_seat c (seat_id_bytes (sf_seat_id (rec_facts r))) s = Inr (Some (rec_facts r))"
    and "\<And>i rt. map_of t i = Some rt \<Longrightarrow> runtime_ok cfg c s i rt"
  shows "(\<forall>i rt. map_of t' i = Some rt \<longrightarrow> runtime_ok cfg c s i rt) \<and>
    (\<forall>i. map_of t i \<noteq> None \<or> i \<in> (\<lambda>r. sf_seat_id (rec_facts r)) ` set listed \<longrightarrow> map_of t' i \<noteq> None)"
  using assms
proof (induction cfg c identity s listed t rule: open_seats.induct)
  case (2 cfg c identity s seat rest t)
  let ?i = "sf_seat_id (rec_facts seat)"
  from "2.prems"(1) obtain phase b keys where
    phase: "db_transfer_phase c ?i s = Inr phase" and
    b: "seat_port_base (sf_seat_no (rec_facts seat)) (fc_first_port_base cfg) = Some b" and
    keys: "load_effective_keys c identity s (rec_facts seat) = Inr keys"
    by (auto simp: Let_def elim!: and_then_InrE split: sum.splits option.splits)
  let ?rt = "\<lparr>rt_state = \<lparr>ds_facts = rec_facts seat, ds_formed_invite = formed_federation_invite ?i s,
      ds_decommissioned_at_ms = rec_decommissioned_at_ms seat, ds_transfer_phase = phase\<rparr>,
    rt_ports = SeatPorts b, rt_keys = keys\<rparr>"
  have eq: "open_seats cfg c identity s rest (upsert_row ?i ?rt t) = Inr t'"
    using "2.prems"(1) phase b keys by (simp add: Let_def)
  have "runtime_ok cfg c s ?i ?rt"
    using "2.prems"(2) [of seat] b by (simp add: runtime_ok_def Let_def)
  then have "runtime_ok cfg c s i rt" if "map_of (upsert_row ?i ?rt t) i = Some rt" for i rt
    using that "2.prems"(3) by (auto simp: map_of_upsert_row split: if_splits)
  from "2.IH" [OF refl refl phase b eq _ this] "2.prems"(2) show ?case
    by (auto simp: map_of_upsert_row)
qed simp

lemma listed_selected:
  assumes "wf c s" and "list_seats c s = Inr rs" and "r \<in> set rs"
  shows "select_seat c (seat_id_bytes (sf_seat_id (rec_facts r))) s = Inr (Some (rec_facts r))"
proof -
  obtain k row where "(k, row) \<in> set (seats s)" and r: "rec_facts r = facts_of c k row"
    using listed_seat [OF assms(2,3)] .
  then have "map_of (seats s) k = Some row"
    using wfD(2) [OF assms(1)] by (simp add: seats_ok_def keyed_def map_of_eq_Some_iff)
  then show ?thesis by (simp add: r select_seat_wf [OF assms(1)] facts_of_def)
qed



end
