(* ===== verification/Guardian_Service.thy ===== *)
theory Guardian_Service
  imports Fleet_Properties
begin

text \<open>
  The RPC service (\<open>crates/mg/core/src/service.rs\<close>) from the quote to the seat: availability,
  \<open>get_quote\<close>, \<open>create_seat\<close>, and the vocabulary of errors on the wire
  (\<open>crates/service-manifold-guardian/src/error.rs\<close>).

  The wallet is the trait \<open>EcashWallet\<close>: a parameter with the three methods that the service
  calls. The JSON forms of the messages are the parameters of their verbs, as in \<open>Signing\<close>.
  A panic of a handler is \<open>RpcPanic\<close>; every other failure is a wire error.
\<close>

section \<open>Wire errors\<close>

datatype manifold_guardian_error =
    GePlanNotOffered | GePaymentFederationNotAccepted | GePaymentFederationUnavailable
  | GeInvalidPayment | GeCapacityExhausted | GeUnknownSeat | GeUnsupportedVersion
  | GeUnsupportedFederationSize | GeUnauthorized | GeWrongState service_status | GeSeatUnavailable
  | GeAwaitingSessionEnd | GeAwaitingBackup | GeFederationIsRunning | GeInvalidDkgInput string
  | GeMetaKeyRefused | GeMetaValueInvalid | GeGuardianVerificationFeeAccountUnavailable
  | GeGuardianVerificationFeeAccountMismatch | GeMetaConsensusChanged
  | GeFormationMetaAlreadyPublished | GeMetaTargetConflict | GeInvalidGatewayApiUrl
  | GeSeatTransferGrantMismatch | GeFederationAlreadyHosted | GeUnsupportedVerb string | GeOther string

datatype rpc_failure = Wire manifold_guardian_error | RpcPanic string

definition internal :: manifold_guardian_error where
  "internal = GeOther ''internal error''"

fun map_seat_error :: "string \<Rightarrow> seat_verb_error \<Rightarrow> manifold_guardian_error" where
  "map_seat_error verb UnknownSeat = GeUnknownSeat"
| "map_seat_error verb SeatUnavailable = GeSeatUnavailable"
| "map_seat_error verb AwaitingSessionEnd = GeAwaitingSessionEnd"
| "map_seat_error verb AwaitingBackup = GeAwaitingBackup"
| "map_seat_error verb FederationIsRunning = GeFederationIsRunning"
| "map_seat_error verb (WrongState status) = GeWrongState status"
| "map_seat_error verb (InvalidDkgInput reason) = GeInvalidDkgInput reason"
| "map_seat_error verb MetaKeyRefused = GeMetaKeyRefused"
| "map_seat_error verb MetaValueInvalid = GeMetaValueInvalid"
| "map_seat_error verb MetaConsensusChanged = GeMetaConsensusChanged"
| "map_seat_error verb FormationMetaAlreadyPublished = GeFormationMetaAlreadyPublished"
| "map_seat_error verb MetaTargetConflict = GeMetaTargetConflict"
| "map_seat_error verb TransferGrantMismatch = GeSeatTransferGrantMismatch"
| "map_seat_error verb ReplacementGuardianUnverified = GeUnauthorized"
| "map_seat_error verb TransferDisabled = GeUnsupportedVerb verb"
| "map_seat_error verb (Internal e) = internal"

fun manifold_guardian_error_kind :: "manifold_guardian_error \<Rightarrow> string" where
  "manifold_guardian_error_kind GePlanNotOffered = ''plan_not_offered''"
| "manifold_guardian_error_kind GePaymentFederationNotAccepted = ''payment_federation_not_accepted''"
| "manifold_guardian_error_kind GePaymentFederationUnavailable = ''payment_federation_unavailable''"
| "manifold_guardian_error_kind GeInvalidPayment = ''invalid_payment''"
| "manifold_guardian_error_kind GeCapacityExhausted = ''capacity_exhausted''"
| "manifold_guardian_error_kind GeUnknownSeat = ''unknown_seat''"
| "manifold_guardian_error_kind GeUnsupportedVersion = ''unsupported_version''"
| "manifold_guardian_error_kind GeUnsupportedFederationSize = ''unsupported_federation_size''"
| "manifold_guardian_error_kind GeUnauthorized = ''unauthorized''"
| "manifold_guardian_error_kind (GeWrongState _) = ''wrong_state''"
| "manifold_guardian_error_kind GeSeatUnavailable = ''seat_unavailable''"
| "manifold_guardian_error_kind GeAwaitingSessionEnd = ''awaiting_session_end''"
| "manifold_guardian_error_kind GeAwaitingBackup = ''awaiting_backup''"
| "manifold_guardian_error_kind GeFederationIsRunning = ''federation_is_running''"
| "manifold_guardian_error_kind (GeInvalidDkgInput _) = ''invalid_dkg_input''"
| "manifold_guardian_error_kind GeMetaKeyRefused = ''meta_key_refused''"
| "manifold_guardian_error_kind GeMetaValueInvalid = ''meta_value_invalid''"
| "manifold_guardian_error_kind GeGuardianVerificationFeeAccountUnavailable =
     ''guardian_verification_fee_account_unavailable''"
| "manifold_guardian_error_kind GeGuardianVerificationFeeAccountMismatch =
     ''guardian_verification_fee_account_mismatch''"
| "manifold_guardian_error_kind GeMetaConsensusChanged = ''meta_consensus_changed''"
| "manifold_guardian_error_kind GeFormationMetaAlreadyPublished = ''formation_meta_already_published''"
| "manifold_guardian_error_kind GeMetaTargetConflict = ''meta_target_conflict''"
| "manifold_guardian_error_kind GeInvalidGatewayApiUrl = ''invalid_gateway_api_url''"
| "manifold_guardian_error_kind GeSeatTransferGrantMismatch = ''seat_transfer_grant_mismatch''"
| "manifold_guardian_error_kind GeFederationAlreadyHosted = ''federation_already_hosted''"
| "manifold_guardian_error_kind (GeUnsupportedVerb _) = ''unsupported_verb''"
| "manifold_guardian_error_kind (GeOther _) = ''internal_or_other''"

section \<open>The service\<close>

datatype locked_payment_prepare_error = PrepareInvalid | PrepareUnavailable | PrepareInternal string

record ecash_wallet =
  quote_locked :: "federation_id \<Rightarrow> u64 \<Rightarrow> bytes \<Rightarrow> locked_payment_prepare_error + payment_terms"
  validate_quote_refund :: "payment_terms \<Rightarrow> refund_issuance \<Rightarrow> locked_payment_prepare_error + unit"
  verify_locked :: "quote_id \<Rightarrow> quote_terms \<Rightarrow> locked_blinded_signature list \<Rightarrow>
    locked_payment_prepare_error + verified_locked_payment"

record create_seat_request =
  csr_ts :: u64
  csr_fa_id :: fa_id
  csr_quote :: signed_response
  csr_payment_signatures :: "locked_blinded_signature list"

record 'account service =
  sv_crypto :: crypto
  sv_signing_key :: bytes
  sv_quote_verb :: "quote_terms verb"
  sv_request_verb :: "create_seat_request verb"
  sv_response_verb :: "'account create_seat_response verb"
  sv_wallet :: ecash_wallet
  sv_fee_account :: "seat_id \<Rightarrow> 'account"
  sv_config :: fleet_config
  sv_codec :: transfer_codec
  sv_identity :: root_identity
  sv_e2e_local_iroh :: bool

definition FEDIMINTD_VERSION_0_1 :: string where
  "FEDIMINTD_VERSION_0_1 = ''0.12.0+fedi''"

definition FEDERATION_SIZES_0_1 :: "u16 list" where
  "FEDERATION_SIZES_0_1 = [7, 8, 9, 10, 11, 12, 13, 14, 15, 16, 17, 18, 19, 20]"

definition is_local_single_guardian_e2e :: "'account service \<Rightarrow> u16 \<Rightarrow> bool" where
  "is_local_single_guardian_e2e sv n \<longleftrightarrow> n = 1 \<and> sv_e2e_local_iroh sv"

text \<open>A panic below the service unwinds through it; every other fleet error is internal.\<close>

fun map_fleet_error :: "fleet_error \<Rightarrow> rpc_failure" where
  "map_fleet_error (FleetPanic message) = RpcPanic message"
| "map_fleet_error (FleetDb (Panicked message)) = RpcPanic message"
| "map_fleet_error e = Wire internal"

definition map_fleet :: "fleet_error + 'a \<Rightarrow> rpc_failure + 'a" where
  "map_fleet r = (case r of Inl e \<Rightarrow> Inl (map_fleet_error e) | Inr x \<Rightarrow> Inr x)"

record get_availability_response =
  ga_accepting_seats :: bool
  ga_fedimintd_version :: string
  ga_federation_sizes :: "federation_size list"
  ga_plans :: "plan list"

definition get_availability :: "'account service \<Rightarrow> fleet \<Rightarrow> rpc_failure + get_availability_response" where
  "get_availability sv fl =
     and_then (map_fleet (take_availability_snapshot (sv_config sv) fl)) (\<lambda>availability.
     Inr \<lparr>ga_accepting_seats = av_accepting_seats availability,
          ga_fedimintd_version = FEDIMINTD_VERSION_0_1,
          ga_federation_sizes = map FederationSize FEDERATION_SIZES_0_1 @
            (if is_local_single_guardian_e2e sv 1 then [FederationSize 1] else []),
          ga_plans = av_plans availability\<rparr>)"

text \<open>The mapping of the wallet's errors: only the answer to an invalid input differs by call.\<close>

definition map_prepare ::
    "manifold_guardian_error \<Rightarrow> locked_payment_prepare_error + 'a \<Rightarrow> rpc_failure + 'a" where
  "map_prepare invalid r =
     (case r of
        Inr x \<Rightarrow> Inr x
      | Inl PrepareInvalid \<Rightarrow> Inl (Wire invalid)
      | Inl PrepareUnavailable \<Rightarrow> Inl (Wire GePaymentFederationUnavailable)
      | Inl (PrepareInternal _) \<Rightarrow> Inl (Wire internal))"

definition quote_payment ::
    "ecash_wallet \<Rightarrow> quote_settings \<Rightarrow> get_quote_request \<Rightarrow> u64 \<Rightarrow> bytes \<Rightarrow>
     rpc_failure + payment_terms option" where
  "quote_payment w settings request price nonce =
     (if price = 0
      then if gq_payment_federation_id request \<noteq> None \<or> gq_refund_issuance request \<noteq> None
        then Inl (Wire GePlanNotOffered) else Inr None
      else
        and_then (ok_or (gq_payment_federation_id request) (Wire GePaymentFederationNotAccepted)) (\<lambda>selected.
        if selected \<notin> set (qs_payment_federations settings)
        then Inl (Wire GePaymentFederationNotAccepted)
        else
        and_then (map_prepare GePaymentFederationNotAccepted (quote_locked w selected price nonce)) (\<lambda>quoted.
        and_then (ok_or (gq_refund_issuance request) (Wire GePlanNotOffered)) (\<lambda>refund.
        and_then (map_prepare GePlanNotOffered (validate_quote_refund w quoted refund)) (\<lambda>_.
        Inr (Some quoted))))))"

definition get_quote ::
    "'account service \<Rightarrow> fleet \<Rightarrow> get_quote_request \<Rightarrow> bytes \<Rightarrow> rpc_failure + signed_response" where
  "get_quote sv fl request quote_nonce =
     (if gq_fedimintd_version request \<noteq> FEDIMINTD_VERSION_0_1 then Inl (Wire GeUnsupportedVersion)
      else if federation_size_get (gq_federation_size request) \<notin> set FEDERATION_SIZES_0_1 \<and>
         \<not> is_local_single_guardian_e2e sv (federation_size_get (gq_federation_size request))
      then Inl (Wire GeUnsupportedFederationSize)
      else
        and_then (map_fleet (quote_offer (sv_config sv) fl)) (\<lambda>offered.
        and_then (ok_or offered (Wire GeCapacityExhausted)) (\<lambda>offer.
        if gq_plan request \<notin> set (quote_settings_plans (of_settings offer))
        then Inl (Wire GePlanNotOffered)
        else
        and_then (case gq_plan request of
            InfiniteBestEffort price_msats \<Rightarrow> Inr price_msats
          | SubscriptionBased _ _ _ \<Rightarrow> Inl (Wire internal)) (\<lambda>price.
        and_then (quote_payment (sv_wallet sv) (of_settings offer) request price quote_nonce) (\<lambda>payment.
        and_then (case compose request (of_epoch offer) price quote_nonce payment of
            Inl _ \<Rightarrow> Inl (Wire internal) | Inr terms \<Rightarrow> Inr terms) (\<lambda>terms.
        Inr (signed_response_create (sv_crypto sv) (sv_quote_verb sv) terms (sv_signing_key sv))))))))"

text \<open>The payment of a quote: nothing for a free one, the verified signatures for a paid one.\<close>

definition verify_payment ::
    "ecash_wallet \<Rightarrow> quote_id \<Rightarrow> quote_terms \<Rightarrow> locked_blinded_signature list \<Rightarrow> rpc_failure + verified_payment" where
  "verify_payment w quote_id terms signatures =
     (case qt_payment terms of
        None \<Rightarrow> if signatures \<noteq> [] then Inl (Wire GeInvalidPayment) else Inr FreePayment
      | Some payment_terms \<Rightarrow>
          and_then (map_prepare GeInvalidPayment (verify_locked w quote_id terms signatures)) (\<lambda>verified.
          Inr (LockedPayment (payment_federation_id payment_terms) verified)))"

definition create_seat_verify ::
    "'account service \<Rightarrow> signed_request \<Rightarrow> u64 \<Rightarrow> rpc_failure + verified_create_seat" where
  "create_seat_verify sv envelope now_secs =
     (case signed_request_verify (sv_crypto sv) (sv_request_verb sv) envelope now_secs of
        Inl _ \<Rightarrow> Inl (Wire GeUnauthorized)
      | Inr request \<Rightarrow>
          (case signed_response_verify (sv_crypto sv) (sv_quote_verb sv) (csr_quote request)
              (x_only_public_key (sv_crypto sv) (sv_signing_key sv)) of
             Inl _ \<Rightarrow> Inl (Wire GeInvalidPayment)
           | Inr quote \<Rightarrow>
               (let terms = sv_inner quote; quote_id = QuoteId (sv_payload_sha256 quote) in
                if check_coherent terms \<noteq> Inr () then Inl (Wire GeInvalidPayment)
                else if gq_fa_id (qt_request terms) \<noteq> sq_fa_id envelope then Inl (Wire GeInvalidPayment)
                else
                and_then (verify_payment (sv_wallet sv) quote_id terms (csr_payment_signatures request)) (\<lambda>payment.
                Inr \<lparr>vc_fa_id = sq_fa_id envelope, vc_quote_id = quote_id, vc_quote_terms = terms,
                     vc_payment = payment\<rparr>))))"

definition accepted_response :: "'account service \<Rightarrow> quote_id \<Rightarrow> seat_id \<Rightarrow> signed_response" where
  "accepted_response sv quote_id seat_id =
     signed_response_create (sv_crypto sv) (sv_response_verb sv)
       \<lparr>cp_quote_id = quote_id, cp_outcome = Accepted seat_id (sv_fee_account sv seat_id)\<rparr> (sv_signing_key sv)"

definition refused_response ::
    "'account service \<Rightarrow> quote_id \<Rightarrow> refusal_reason \<Rightarrow> refund_transaction option \<Rightarrow> signed_response" where
  "refused_response sv quote_id reason refund =
     signed_response_create (sv_crypto sv) (sv_response_verb sv)
       \<lparr>cp_quote_id = quote_id, cp_outcome = Refused reason refund\<rparr> (sv_signing_key sv)"

definition create_seat ::
    "'account service \<Rightarrow> signed_request \<Rightarrow> u64 \<Rightarrow> int \<Rightarrow> bytes \<Rightarrow> fleet \<Rightarrow>
     (rpc_failure + signed_response) \<times> fleet" where
  "create_seat sv envelope now_secs now fresh fl =
     (case create_seat_verify sv envelope now_secs of
        Inl e \<Rightarrow> (Inl e, fl)
      | Inr input \<Rightarrow>
          (let (r, fl') = fleet_create_seat (sv_config sv) (sv_codec sv) (sv_identity sv) input
             (\<lambda>seat_id. Inr (accepted_response sv (vc_quote_id input) seat_id))
             (\<lambda>reason refund. Inr (refused_response sv (vc_quote_id input) reason refund)) now fresh fl
           in (map_fleet r, fl')))"

section \<open>Quotes\<close>

text \<open>What a quote that was given commits to.\<close>

lemma get_quote_Inr:
  assumes "get_quote sv fl request nonce = Inr quote"
  obtains snapshot terms where "take_offer_snapshot (fc_first_port_base (sv_config sv)) (fl_db fl) = Inr snapshot"
    and "sn_slots snapshot > 0" and "sn_ready_for_new_seats snapshot"
    and "quote = signed_response_create (sv_crypto sv) (sv_quote_verb sv) terms (sv_signing_key sv)"
    and "check_coherent terms = Inr ()" and "qt_request terms = request" and "qt_quote_nonce terms = nonce"
    and "qt_offer_epoch terms = of_epoch (sn_offer snapshot)"
    and "gq_plan request = InfiniteBestEffort (qt_price_msats terms)"
    and "qs_price (of_settings (sn_offer snapshot)) = Some (qt_price_msats terms)"
    and "0 < federation_size_get (gq_federation_size request)"
proof -
  from assms obtain snapshot where snapshot: "take_offer_snapshot (fc_first_port_base (sv_config sv)) (fl_db fl) = Inr snapshot"
    by (cases "take_offer_snapshot (fc_first_port_base (sv_config sv)) (fl_db fl)")
      (auto simp: get_quote_def quote_offer_def map_fleet_def split: if_splits)
  from assms snapshot obtain price payment terms where
    "sn_slots snapshot > 0" "sn_ready_for_new_seats snapshot"
    and size: "federation_size_get (gq_federation_size request) \<in> set FEDERATION_SIZES_0_1 \<or>
      is_local_single_guardian_e2e sv (federation_size_get (gq_federation_size request))"
    and plan: "gq_plan request = InfiniteBestEffort price"
      "gq_plan request \<in> set (quote_settings_plans (of_settings (sn_offer snapshot)))"
    and terms: "compose request (of_epoch (sn_offer snapshot)) price nonce payment = Inr terms"
    and "quote = signed_response_create (sv_crypto sv) (sv_quote_verb sv) terms (sv_signing_key sv)"
    by (auto simp: get_quote_def quote_offer_def map_fleet_def elim!: and_then_InrE
        split: if_splits plan.splits sum.splits)
  moreover have "0 < federation_size_get (gq_federation_size request)"
    using size by (auto simp: FEDERATION_SIZES_0_1_def is_local_single_guardian_e2e_def)
  moreover have "qs_price (of_settings (sn_offer snapshot)) = Some price"
    using plan by (auto simp: quote_settings_plans_def split: option.splits)
  moreover have "check_coherent terms = Inr ()" "qt_request terms = request" "qt_quote_nonce terms = nonce"
    "qt_offer_epoch terms = of_epoch (sn_offer snapshot)" "qt_price_msats terms = price"
    using terms by (auto simp: compose_def Let_def elim!: and_then_InrE)
  ultimately show thesis using that [OF snapshot, of terms] by simp
qed

text \<open>
  C14. A quote is given only for a seat that can be sold, at the operator's price.
  If \<open>get_quote\<close> answers with a quote, then the fleet has a free slot and is ready, the terms
  are coherent, they carry the requested plan and the price on offer, and minting the quote is
  a step of the store's transition system that adds the current epoch to the quoted ones.
\<close>

theorem quote_is_a_mint:
  assumes "get_quote sv fl request nonce = Inr quote"
    and "onboarding_stage_text (fl_db fl) = ''complete''"
    and "fc_first_port_base (sv_config sv) = en_first_port_base en"
  shows "\<exists>terms. quote = signed_response_create (sv_crypto sv) (sv_quote_verb sv) terms (sv_signing_key sv) \<and>
    check_coherent terms = Inr () \<and> qt_request terms = request \<and>
    qt_offer_epoch terms = current_epoch (fl_db fl) \<and>
    (\<exists>sn. take_offer_snapshot (en_first_port_base en) (fl_db fl) = Inr sn \<and>
      qs_price (of_settings (sn_offer sn)) = Some (qt_price_msats terms)) \<and>
    store_step en (fl_db fl, Q) (fl_db fl, insert (qt_offer_epoch terms) Q)"
  using assms(1)
proof (rule get_quote_Inr)
  fix snapshot terms
  assume "take_offer_snapshot (fc_first_port_base (sv_config sv)) (fl_db fl) = Inr snapshot"
  then have snapshot: "take_offer_snapshot (en_first_port_base en) (fl_db fl) = Inr snapshot" by (simp add: assms(3))
  assume slots: "sn_slots snapshot > 0" "sn_ready_for_new_seats snapshot"
    and epoch: "qt_offer_epoch terms = of_epoch (sn_offer snapshot)"
    and "quote = signed_response_create (sv_crypto sv) (sv_quote_verb sv) terms (sv_signing_key sv)"
    "check_coherent terms = Inr ()" "qt_request terms = request"
    "qs_price (of_settings (sn_offer snapshot)) = Some (qt_price_msats terms)"
  moreover have "qt_offer_epoch terms = current_epoch (fl_db fl)"
    using minted_epoch(1) [OF snapshot] epoch by simp
  moreover have "store_step en (fl_db fl, Q) (fl_db fl, insert (qt_offer_epoch terms) Q)"
    unfolding epoch by (rule store_step.mint [OF assms(2) snapshot slots])
  ultimately show ?thesis using snapshot by blast
qed

section \<open>Redemption\<close>

lemma reach_run: "reach init step s \<Longrightarrow> step\<^sup>*\<^sup>* s t \<Longrightarrow> reach init step t"
  by (rotate_tac 1, induction rule: rtranclp_induct) (auto intro: reach.reach_step)

text \<open>The verification of an envelope that presents a quote of this service.\<close>

lemma create_seat_verify_own:
  assumes "signed_request_verify (sv_crypto sv) (sv_request_verb sv) envelope now_secs = Inr redeem"
    and "csr_quote redeem = signed_response_create (sv_crypto sv) (sv_quote_verb sv) terms (sv_signing_key sv)"
    and "\<And>m. verify_schnorr (sv_crypto sv) (sign_schnorr (sv_crypto sv) m (sv_signing_key sv)) m
      (x_only_public_key (sv_crypto sv) (sv_signing_key sv))"
    and "\<And>t. verb_from_json (sv_quote_verb sv) (verb_to_json (sv_quote_verb sv) t) = Some t"
    and "check_coherent terms = Inr ()" and "gq_fa_id (qt_request terms) = sq_fa_id envelope"
    and "verify_payment (sv_wallet sv) (QuoteId (payload_sha256 (sv_crypto sv) (sp_payload (csr_quote redeem)))) terms
      (csr_payment_signatures redeem) = Inr paid"
  shows "create_seat_verify sv envelope now_secs = Inr \<lparr>vc_fa_id = sq_fa_id envelope,
    vc_quote_id = QuoteId (payload_sha256 (sv_crypto sv) (sp_payload (csr_quote redeem))),
    vc_quote_terms = terms, vc_payment = paid\<rparr>"
  using assms
  by (simp add: create_seat_verify_def signed_response_verify_def signed_response_create_def Let_def)

lemma refund_of_payment:
  assumes "verify_payment w quote_id terms signatures = Inr paid" and "check_coherent terms = Inr ()"
  shows "into_refund paid = None \<longleftrightarrow> qt_price_msats terms = 0"
  using assms
  by (auto simp: verify_payment_def check_coherent_def Let_def elim!: and_then_InrE split: option.splits if_splits)

text \<open>A given quote is known to the store at every later time.\<close>

lemma quoted_terms:
  assumes quoted: "get_quote sv fl0 request nonce = Inr quote" "onboarding_stage_text (fl_db fl0) = ''complete''"
    and same: "fc_first_port_base (sv_config sv) = en_first_port_base en"
    and start: "reach (store_init en) (store_step en) (fl_db fl0, Q0)"
    and run: "(store_step en)\<^sup>*\<^sup>* (fl_db fl0, insert (current_epoch (fl_db fl0)) Q0) (s, Q)"
    and json: "\<And>t. verb_from_json (sv_quote_verb sv) (verb_to_json (sv_quote_verb sv) t) = Some t"
    and terms: "verb_from_json (sv_quote_verb sv) (sp_payload quote) = Some terms"
  shows "quote = signed_response_create (sv_crypto sv) (sv_quote_verb sv) terms (sv_signing_key sv)"
    and "check_coherent terms = Inr ()" and "qt_request terms = request"
    and "0 < federation_size_get (gq_federation_size request)"
    and "reach (store_init en) (store_step en) (s, Q)" and "qt_offer_epoch terms \<in> Q"
proof -
  from quoted(1) obtain snapshot where snapshot:
    "take_offer_snapshot (fc_first_port_base (sv_config sv)) (fl_db fl0) = Inr snapshot"
    "sn_slots snapshot > 0" "sn_ready_for_new_seats snapshot"
    and facts: "quote = signed_response_create (sv_crypto sv) (sv_quote_verb sv) terms (sv_signing_key sv)"
      "check_coherent terms = Inr ()" "qt_request terms = request"
      "0 < federation_size_get (gq_federation_size request)"
    and epoch: "qt_offer_epoch terms = of_epoch (sn_offer snapshot)"
    using terms json by (auto elim!: get_quote_Inr simp: signed_response_create_def Let_def)
  show "quote = signed_response_create (sv_crypto sv) (sv_quote_verb sv) terms (sv_signing_key sv)"
    "check_coherent terms = Inr ()" "qt_request terms = request"
    "0 < federation_size_get (gq_federation_size request)" by (rule facts)+
  have current: "qt_offer_epoch terms = current_epoch (fl_db fl0)"
    using minted_epoch(1) [OF snapshot(1)] epoch by simp
  have step: "store_step en (fl_db fl0, Q0) (fl_db fl0, insert (current_epoch (fl_db fl0)) Q0)"
    using store_step.mint [OF quoted(2) snapshot [unfolded same], of Q0] current epoch by simp
  have minted: "reach (store_init en) (store_step en) (fl_db fl0, insert (current_epoch (fl_db fl0)) Q0)"
    using start step by (rule reach.reach_step)
  then show "reach (store_init en) (store_step en) (s, Q)" using run by (rule reach_run)
  show "qt_offer_epoch terms \<in> Q" using run_keeps(3) [OF minted run] current by auto
qed

text \<open>
  C1. A quote is honoured or refunded. Let the service have given a quote, and let
  its FA later present it, after any operations on the store, in an envelope that verifies and
  with a payment that verifies. Then \<open>create_seat\<close> does not fail: it answers with a commitment
  to the seat that the quote names, which is then in the registry; or with a refusal that
  carries a refund transaction exactly if the quote had a price, and nothing has changed.
\<close>

theorem quote_redeems:
  fixes sv :: "'account service" and en :: store_env
  assumes quoted: "get_quote sv fl0 request nonce = Inr quote" "onboarding_stage_text (fl_db fl0) = ''complete''"
    and same: "fc_first_port_base (sv_config sv) = en_first_port_base en" "sv_codec sv = en_codec en"
    and start: "reach (store_init en) (store_step en) (fl_db fl0, Q0)"
    and run: "(store_step en)\<^sup>*\<^sup>* (fl_db fl0, insert (current_epoch (fl_db fl0)) Q0) (fl_db fl, Q)"
    and ok: "fleet_ok (sv_config sv) (en_codec en) fl"
    and crypto: "\<And>m. verify_schnorr (sv_crypto sv) (sign_schnorr (sv_crypto sv) m (sv_signing_key sv)) m
        (x_only_public_key (sv_crypto sv) (sv_signing_key sv))"
      "\<And>b. length (sha256 (sv_crypto sv) b) = 32"
    and json: "\<And>t. verb_from_json (sv_quote_verb sv) (verb_to_json (sv_quote_verb sv) t) = Some t"
    and envelope: "signed_request_verify (sv_crypto sv) (sv_request_verb sv) envelope now_secs = Inr redeem"
      "csr_quote redeem = quote" "sq_fa_id envelope = gq_fa_id request"
    and terms: "verb_from_json (sv_quote_verb sv) (sp_payload quote) = Some terms"
    and paid: "verify_payment (sv_wallet sv) (QuoteId (payload_sha256 (sv_crypto sv) (sp_payload quote))) terms
      (csr_payment_signatures redeem) = Inr paid"
    and fresh: "length fresh = 32"
  shows "\<exists>quote_id fl'. quote_id = QuoteId (payload_sha256 (sv_crypto sv) (sp_payload quote)) \<and>
    (create_seat sv envelope now_secs now fresh fl =
        (Inr (accepted_response sv quote_id (seat_id_from_quote quote_id)), fl') \<and>
      seat_by_id (seat_id_from_quote quote_id) fl' \<noteq> None
     \<or> create_seat sv envelope now_secs now fresh fl =
        (Inr (refused_response sv quote_id OfferChangedRefusal (map_option snd (into_refund paid))), fl') \<and> fl' = fl \<and>
      (into_refund paid = None \<longleftrightarrow> qt_price_msats terms = 0))"
proof -
  note facts = quoted_terms [OF quoted same(1) start run json terms]
  note coherent = facts(2) and reach = facts(5) and known = facts(6)
  define quote_id where "quote_id = QuoteId (payload_sha256 (sv_crypto sv) (sp_payload quote))"
  define input where "input = \<lparr>vc_fa_id = sq_fa_id envelope, vc_quote_id = quote_id, vc_quote_terms = terms,
    vc_payment = paid\<rparr>"
  have verify: "create_seat_verify sv envelope now_secs = Inr input"
    unfolding input_def quote_id_def
    using create_seat_verify_own [OF envelope(1) _ crypto(1) json coherent] envelope(2,3) facts(1,3) paid by simp
  have "verified_ok input"
    using crypto(2) facts(3,4) by (simp add: verified_ok_def input_def quote_id_def payload_sha256_def)
  note decide = create_seat_cases [where input = input and cfg = "sv_config sv" and identity = "sv_identity sv" and now = now
      and sign = "\<lambda>i. Inr (accepted_response sv quote_id i)"
      and sign_refusal = "\<lambda>reason refund. Inr (refused_response sv quote_id reason refund)",
      OF reach ok same(1) _ this fresh refl refl]
  have create: "create_seat sv envelope now_secs now fresh fl =
    (case fleet_create_seat (sv_config sv) (en_codec en) (sv_identity sv) input
      (\<lambda>i. Inr (accepted_response sv quote_id i)) (\<lambda>reason refund. Inr (refused_response sv quote_id reason refund))
      now fresh fl of (r, fl') \<Rightarrow> (map_fleet r, fl'))"
    by (simp add: create_seat_def verify same(2) input_def)
  show ?thesis
  proof (rule decide)
    show "qt_offer_epoch (vc_quote_terms input) \<in> Q" using known by (simp add: input_def)
  next
    fix fl' facts rt
    assume "fleet_create_seat (sv_config sv) (en_codec en) (sv_identity sv) input
      (\<lambda>i. Inr (accepted_response sv quote_id i)) (\<lambda>reason refund. Inr (refused_response sv quote_id reason refund))
      now fresh fl = (Inr (accepted_response sv quote_id (seat_id_from_quote (vc_quote_id input))), fl')"
      and "seat_by_id (seat_id_from_quote (vc_quote_id input)) fl' = Some rt"
    then show ?thesis
      by (intro exI [of _ quote_id] exI [of _ fl']) (simp add: create map_fleet_def input_def quote_id_def)
  next
    assume "fleet_create_seat (sv_config sv) (en_codec en) (sv_identity sv) input
      (\<lambda>i. Inr (accepted_response sv quote_id i)) (\<lambda>reason refund. Inr (refused_response sv quote_id reason refund))
      now fresh fl =
      (Inr (refused_response sv quote_id OfferChangedRefusal (map_option snd (into_refund (vc_payment input)))), fl)"
    then show ?thesis
      using refund_of_payment [OF paid coherent]
      by (intro exI [of _ quote_id] exI [of _ fl]) (simp add: create map_fleet_def input_def quote_id_def)
  qed
qed

section \<open>A concrete service\<close>

definition option_field :: "bytes option \<Rightarrow> bytes" where
  "option_field v = (case v of None \<Rightarrow> pack [] | Some b \<Rightarrow> pack [b])"

definition field_option :: "bytes \<Rightarrow> bytes option option" where
  "field_option b = (case unpack b of Some [] \<Rightarrow> Some None | Some [x] \<Rightarrow> Some (Some x) | _ \<Rightarrow> None)"

lemma field_option_field [simp]: "field_option (option_field v) = Some v"
  by (cases v) (simp_all add: option_field_def field_option_def)

fun payment_fields :: "payment_terms \<Rightarrow> bytes list" where
  "payment_fields (MintV1 f rs) = [as_bytes f, print_list request_fields rs]"
| "payment_fields (MintV2 f rs) = [as_bytes f, print_list request_v2_fields rs, []]"

fun fields_payment :: "bytes list \<Rightarrow> payment_terms option" where
  "fields_payment [f, rs] = map_option (MintV1 (text_of f)) (parse_list fields_request rs)"
| "fields_payment [f, rs, _] = map_option (MintV2 (text_of f)) (parse_list fields_request_v2 rs)"
| "fields_payment _ = None"

interpretation payment_format: field_format payment_fields fields_payment
proof
  fix x show "fields_payment (payment_fields x) = Some x"
    by (cases x) (simp_all add: request_format.parse_print_list request_v2_format.parse_print_list)
qed

fun refund_fields :: "refund_issuance \<Rightarrow> bytes list" where
  "refund_fields (RefundMintV1 k rs) = [k, print_list request_fields rs]"
| "refund_fields (RefundMintV2 k rs) = [k, print_list request_v2_fields rs, []]"

fun fields_refund :: "bytes list \<Rightarrow> refund_issuance option" where
  "fields_refund [k, rs] = map_option (RefundMintV1 k) (parse_list fields_request rs)"
| "fields_refund [k, rs, _] = map_option (RefundMintV2 k) (parse_list fields_request_v2 rs)"
| "fields_refund _ = None"

interpretation refund_format: field_format refund_fields fields_refund
proof
  fix x show "fields_refund (refund_fields x) = Some x"
    by (cases x) (simp_all add: request_format.parse_print_list request_v2_format.parse_print_list)
qed

text \<open>An optional structured field.\<close>

definition opt_fields :: "('a \<Rightarrow> bytes list) \<Rightarrow> 'a option \<Rightarrow> bytes" where
  "opt_fields to_fields v = option_field (map_option (\<lambda>x. pack (to_fields x)) v)"

definition fields_opt :: "(bytes list \<Rightarrow> 'a option) \<Rightarrow> bytes \<Rightarrow> 'a option option" where
  "fields_opt from_fields b =
     Option.bind (field_option b) (\<lambda>v. case v of None \<Rightarrow> Some None
       | Some f \<Rightarrow> map_option Some (Option.bind (unpack f) from_fields))"

lemma fields_opt_fields:
  "(\<And>x. from_fields (to_fields x) = Some x) \<Longrightarrow> fields_opt from_fields (opt_fields to_fields v) = Some v"
  by (cases v) (simp_all add: fields_opt_def opt_fields_def)

definition terms_fields :: "quote_terms \<Rightarrow> bytes list" where
  "terms_fields t = (let r = qt_request t in
     [qt_quote_nonce t, epoch_bytes (qt_offer_epoch t), gq_fa_id r, as_bytes (gq_fedimintd_version r),
      word_field (federation_size_get (gq_federation_size r)), pack (plan_fields (gq_plan r)),
      option_field (map_option as_bytes (gq_payment_federation_id r)),
      opt_fields refund_fields (gq_refund_issuance r), word_field (qt_price_msats t),
      opt_fields payment_fields (qt_payment t)])"

fun fields_terms :: "bytes list \<Rightarrow> quote_terms option" where
  "fields_terms [n, e, a, v, s, p, f, r, m, q] =
     Option.bind (Option.bind (unpack p) fields_plan) (\<lambda>plan.
     Option.bind (field_option f) (\<lambda>fed.
     Option.bind (fields_opt fields_refund r) (\<lambda>refund.
     Option.bind (fields_opt fields_payment q) (\<lambda>pay.
     Some \<lparr>qt_quote_nonce = n, qt_offer_epoch = OfferEpoch e,
       qt_request = \<lparr>gq_fa_id = a, gq_fedimintd_version = text_of v,
         gq_federation_size = FederationSize (field_word s), gq_plan = plan,
         gq_payment_federation_id = map_option text_of fed, gq_refund_issuance = refund\<rparr>,
       qt_price_msats = field_word m, qt_payment = pay\<rparr>))))"
| "fields_terms _ = None"

lemma wrapper_ids [simp]: "OfferEpoch (epoch_bytes e) = e" "FederationSize (federation_size_get n) = n"
  by (cases e; simp) (cases n; simp)

interpretation terms_format: field_format terms_fields fields_terms
  by unfold_locales
    (simp add: terms_fields_def Let_def plan_format.fields_roundtrip option.map_comp comp_def
      option.map_ident fields_opt_fields refund_format.fields_roundtrip payment_format.fields_roundtrip)

definition sample_request :: get_quote_request where
  "sample_request = \<lparr>gq_fa_id = [1], gq_fedimintd_version = FEDIMINTD_VERSION_0_1,
     gq_federation_size = FederationSize 7, gq_plan = InfiniteBestEffort 0,
     gq_payment_federation_id = None, gq_refund_issuance = None\<rparr>"

definition sample_terms :: quote_terms where
  "sample_terms = \<lparr>qt_quote_nonce = [3], qt_offer_epoch = OfferEpoch (sample_epoch 4),
     qt_request = sample_request, qt_price_msats = 0, qt_payment = None\<rparr>"

definition sample_crypto :: crypto where
  "sample_crypto = \<lparr>sha256 = (\<lambda>_. replicate 32 7), verify_schnorr = (\<lambda>s m k. s = m @ k),
     sign_schnorr = (\<lambda>m k. m @ k), x_only_public_key = (\<lambda>k. k)\<rparr>"

definition sample_quote_verb :: "quote_terms verb" where
  "sample_quote_verb = \<lparr>verb_label = ''get_quote'', verb_to_json = (\<lambda>t. pack (terms_fields t)),
     verb_from_json = (\<lambda>b. Option.bind (unpack b) fields_terms), verb_signer = (\<lambda>_. []), verb_ts = (\<lambda>_. 0),
     verb_is_fresh = (\<lambda>_ _. True)\<rparr>"

definition sample_quote :: signed_response where
  "sample_quote = signed_response_create sample_crypto sample_quote_verb sample_terms [5]"

definition sample_redeem :: create_seat_request where
  "sample_redeem = \<lparr>csr_ts = 0, csr_fa_id = [1], csr_quote = sample_quote, csr_payment_signatures = []\<rparr>"

definition sample_envelope :: signed_request where
  "sample_envelope = \<lparr>sq_fa_id = [1], sq_payload = [9], sq_fa_signature = replicate 32 7 @ [1]\<rparr>"

definition sample_service :: "unit service" where
  "sample_service = \<lparr>sv_crypto = sample_crypto, sv_signing_key = [5], sv_quote_verb = sample_quote_verb,
     sv_request_verb = \<lparr>verb_label = ''create_seat'', verb_to_json = (\<lambda>_. [9]),
       verb_from_json = (\<lambda>b. if b = [9] then Some sample_redeem else None), verb_signer = csr_fa_id,
       verb_ts = csr_ts, verb_is_fresh = (\<lambda>_ _. True)\<rparr>,
     sv_response_verb = \<lparr>verb_label = ''create_seat'', verb_to_json = (\<lambda>_. []), verb_from_json = (\<lambda>_. None),
       verb_signer = (\<lambda>_. []), verb_ts = (\<lambda>_. 0), verb_is_fresh = (\<lambda>_ _. True)\<rparr>,
     sv_wallet = \<lparr>quote_locked = (\<lambda>_ _ _. Inl PrepareInvalid), validate_quote_refund = (\<lambda>_ _. Inl PrepareInvalid),
       verify_locked = (\<lambda>_ _ _. Inl PrepareInvalid)\<rparr>,
     sv_fee_account = (\<lambda>_. ()), sv_config = sample_config, sv_codec = sample_codec,
     sv_identity = sample_identity, sv_e2e_local_iroh = False\<rparr>"

lemma sample_get_quote: "get_quote sample_service (sample_fleet sample_db) sample_request [3] = Inr sample_quote"
proof -
  obtain snapshot where snapshot: "take_offer_snapshot (PortBase 20000) sample_db = Inr snapshot"
    "sn_ready_for_new_seats snapshot" using sample_db_slots(2) by blast
  have "sn_slots snapshot > 0"
    using minted_epoch(2) [OF snapshot(1)] sample_db_slots(1) by (simp add: word_less_nat_alt)
  moreover have "of_epoch (sn_offer snapshot) = OfferEpoch (sample_epoch 4)"
    using minted_epoch(1) [OF snapshot(1)] by (simp add: current_epoch_def sample_db_eq offered_row_def)
  moreover have "qs_price (of_settings (sn_offer snapshot)) = Some 0"
    using snapshot(1) by (auto simp: take_offer_snapshot_def sample_db_eq offered_row_def parse_offer_epoch_def
        stored_max_seats_range u32_range_def stored_price_def try_from_int_def Let_def elim!: and_then_InrE)
  ultimately show ?thesis
    using snapshot
    by (simp add: get_quote_def sample_service_def sample_request_def FEDERATION_SIZES_0_1_def quote_offer_def
        sample_config_def sample_fleet_def map_fleet_def quote_settings_plans_def quote_payment_def compose_def
        check_coherent_def sample_quote_def sample_terms_def Let_def)
qed

lemma sample_complete: "onboarding_stage_text (fl_db (sample_fleet sample_db)) = ''complete''"
  by (simp add: sample_fleet_def sample_db_eq)

theorem quote_is_a_mint_witness:
  "\<exists>terms. sample_quote = signed_response_create sample_crypto sample_quote_verb terms [5] \<and>
    check_coherent terms = Inr () \<and> qt_offer_epoch terms = current_epoch sample_db \<and>
    store_step sample_env (sample_db, {}) (sample_db, {qt_offer_epoch terms})"
  using quote_is_a_mint [OF sample_get_quote sample_complete, of sample_env "{}"]
  by (auto simp: sample_service_def sample_config_def sample_fleet_def)

theorem quote_redeems_witness:
  "\<exists>fl'. create_seat sample_service sample_envelope 0 9 (sample_epoch 5) (sample_fleet sample_db) =
      (Inr (accepted_response sample_service (QuoteId (replicate 32 7)) (SeatId (replicate 32 7))), fl') \<or>
    create_seat sample_service sample_envelope 0 9 (sample_epoch 5) (sample_fleet sample_db) =
      (Inr (refused_response sample_service (QuoteId (replicate 32 7)) OfferChangedRefusal None), fl')"
proof -
  let ?sv = sample_service
  have sv: "sv_crypto ?sv = sample_crypto" "sv_quote_verb ?sv = sample_quote_verb" "sv_config ?sv = sample_config"
    "sv_codec ?sv = sample_codec" "sv_signing_key ?sv = [5]"
    by (simp_all add: sample_service_def)
  have start: "reach (store_init sample_env) (store_step sample_env)
      (fl_db (sample_fleet sample_db), {OfferEpoch (sample_epoch 4)})"
    using sample_reach by (simp add: sample_fleet_def)
  have run: "(store_step sample_env)\<^sup>*\<^sup>*
      (fl_db (sample_fleet sample_db), insert (current_epoch (fl_db (sample_fleet sample_db))) {OfferEpoch (sample_epoch 4)})
      (fl_db (sample_fleet sample_db), {OfferEpoch (sample_epoch 4)})"
    by (simp add: sample_fleet_def current_epoch_def sample_db_eq offered_row_def)
  have envelope: "signed_request_verify (sv_crypto ?sv) (sv_request_verb ?sv) sample_envelope 0 = Inr sample_redeem"
    by (simp add: signed_request_verify_def sample_service_def sample_crypto_def sample_envelope_def
        fa_request_signing_digest_def signing_digest_def sample_redeem_def)
  have terms: "verb_from_json (sv_quote_verb ?sv) (sp_payload sample_quote) = Some sample_terms"
    by (simp add: sv sample_quote_def signed_response_create_def sample_quote_verb_def Let_def
        terms_format.fields_roundtrip)
  have paid: "verify_payment (sv_wallet ?sv) (QuoteId (payload_sha256 (sv_crypto ?sv) (sp_payload sample_quote)))
      sample_terms (csr_payment_signatures sample_redeem) = Inr FreePayment"
    by (simp add: verify_payment_def sample_terms_def sample_redeem_def)
  from quote_redeems [OF sample_get_quote sample_complete _ _ start run _ _ _ _ envelope _ _ terms paid,
      of "sample_epoch 5" 9] sample_fleet_ok
  show ?thesis
    by (auto simp: sv sample_config_def sample_crypto_def sample_quote_verb_def sample_redeem_def sample_envelope_def
        sample_request_def payload_sha256_def seat_id_from_quote_def terms_format.fields_roundtrip)
qed

end
