(* ===== verification/Seat_Loop.thy ===== *)
theory Seat_Loop
  imports Fleet "HOL-Library.Sorting_Algorithms"
begin

text \<open>
  The runtime of one seat (\<open>crates/mg/core/src/seat.rs\<close>, \<open>seat/transfer.rs\<close>,
  \<open>seat/import.rs\<close>): the loop that owns the child process, publishes the runtime facts and
  executes the commands of the seat one at a time.

  The state of the loop is the record \<open>seat_loop\<close>. It holds the database, the runtime facts,
  the process slot with its deadlines, and the data directory of the guardian. What the outside
  decides during one step (whether a child starts, what it reports, whether a stop proves its
  exit, whether a file operation succeeds, the clock) is the \<open>script\<close> of that step, consumed
  from the front; every theorem is for all scripts. The ceremonies sent to children and the
  material handed to a destination are recorded in the state.

  The codecs and digests of the third-party crates, and the parsing of invites, are fields of
  \<open>seat_env\<close>.
\<close>

section \<open>State\<close>

record respawn_policy =
  initial_backoff :: nat
  max_backoff :: nat
  backoff_reset_after :: nat
  unresponsive_restart_after :: nat

definition default_respawn_policy :: respawn_policy where
  "default_respawn_policy =
     \<lparr>initial_backoff = 1 * 1000, max_backoff = 60 * 1000, backoff_reset_after = 60 * 1000,
      unresponsive_restart_after = 15 * 60 * 1000\<rparr>"

definition HEALTHY_WATCHDOG_INTERVAL :: nat where
  "HEALTHY_WATCHDOG_INTERVAL = 60 * 1000"

definition UNHEALTHY_WATCHDOG_INTERVAL :: nat where
  "UNHEALTHY_WATCHDOG_INTERVAL = 5 * 1000"

definition SESSION_BOUNDARY_EXIT_CODE :: int where
  "SESSION_BOUNDARY_EXIT_CODE = 3"

text \<open>What a child says on its control socket.\<close>

datatype child_state = NeedsParams | AlreadyConfigured string

datatype driven_dkg_event =
    ConfigPersisted string | DkgStarted | ParamsRejected string | DkgFailed string
  | ConsensusStarted | ControlChannelRetired

text \<open>A slot with a child keeps the control client, here the state the child reported at first.\<close>

datatype process_slot =
    SlotEmpty
  | Parked child_state
  | DkgAcknowledged child_state
  | Configured "child_state option"
  | ExitUnproven

datatype process_slot_phase =
  PhaseEmpty | PhaseParked | PhaseDkgAcknowledged | PhaseConfigured | PhaseExitUnproven

fun slot_phase :: "process_slot \<Rightarrow> process_slot_phase" where
  "slot_phase SlotEmpty = PhaseEmpty"
| "slot_phase (Parked _) = PhaseParked"
| "slot_phase (DkgAcknowledged _) = PhaseDkgAcknowledged"
| "slot_phase (Configured _) = PhaseConfigured"
| "slot_phase ExitUnproven = PhaseExitUnproven"

fun slot_client :: "process_slot \<Rightarrow> child_state option" where
  "slot_client (Parked client) = Some client"
| "slot_client (DkgAcknowledged client) = Some client"
| "slot_client (Configured client) = client"
| "slot_client _ = None"

fun slot_is_live :: "process_slot \<Rightarrow> bool" where
  "slot_is_live (Parked _) = True"
| "slot_is_live (DkgAcknowledged _) = True"
| "slot_is_live (Configured _) = True"
| "slot_is_live _ = False"

datatype seat_health = Healthy | Unavailable | Failed

record seat_runtime_facts =
  rf_formed_invite :: "string option"
  rf_process_slot :: process_slot_phase
  rf_decommissioned_at_ms :: "int option"
  rf_transfer_phase :: "transfer_phase option"
  rf_health :: seat_health

text \<open>The guardian archive, the material of a move, and the data directory.\<close>

record guardian_archive =
  ga_private_json :: bytes
  ga_local_json :: bytes
  ga_consensus_json :: bytes

record transfer_material =
  mt_archive :: guardian_archive
  mt_keys :: imported_keys

record validated_guardian =
  vg_invite :: string
  vg_material :: transfer_material

text \<open>A directory may be present without a readable archive.\<close>

datatype data_dir = NoDir | Dir "guardian_archive option"

text \<open>
  One poll of the event stream of a child: an event, a protocol error, the expiry of the
  surrounding timeout, or its expiry while an invite was being recorded, after the database
  committed and before the loop went on. The stream closes where the list ends.
\<close>

datatype poll = PollEvent driven_dkg_event | PollError | PollTimeout | PollCancelled string

datatype send_outcome = Sent | SendFailed | SendTimedOut

datatype probe = ProbeOk | ProbeTimeout | ProbeUnreachable | ProbeRejected | ProbeInvalidResponse

record script =
  sc_now :: nat
  sc_now_ms :: int
  sc_stops :: "bool list"
  sc_io :: "bool list"
  sc_starts :: "bool list"
  sc_hellos :: "child_state option list"
  sc_send :: send_outcome
  sc_polls :: "poll list"
  sc_probe :: probe

text \<open>A ceremony sent to a child, with the stored inputs and the formed invite at that moment.\<close>

record ceremony =
  cm_our_index :: nat
  cm_codes :: "string list"
  cm_inputs :: "string option"
  cm_formed :: "string option"

record seat_loop =
  sl_facts :: seat_facts
  sl_db :: db
  sl_keys :: seat_keys
  sl_ports :: seat_ports
  sl_state :: seat_runtime_facts
  sl_child :: process_slot
  sl_child_started :: "nat option"
  sl_respawn_at :: "nat option"
  sl_watchdog_at :: "nat option"
  sl_unresponsive_since :: "nat option"
  sl_backoff :: nat
  sl_data :: data_dir
  sl_backup_marked :: bool
  sl_hooks_marked :: bool
  sl_transfer_marked :: bool
  sl_open :: bool
  sl_ceremonies :: "ceremony list"
  sl_exported :: "transfer_material list"
  sl_script :: script

text \<open>The setup code of a peer, as the source builds it.\<close>

datatype peer_endpoints = IrohEndpoints bytes bytes | OtherEndpoints bytes

record peer_setup_code =
  ps_name :: string
  ps_endpoints :: peer_endpoints
  ps_federation_name :: "string option"
  ps_disable_base_fees :: "bool option"
  ps_enabled_modules :: "string list option"
  ps_federation_size :: "u32 option"
  ps_network :: string
  ps_fedimint_version :: string

record seat_env =
  se_codec :: transfer_codec
  se_crypto :: crypto
  se_grant_verb :: "seat_transfer_grant verb"
  se_policy :: respawn_policy
  se_decode_code :: "string \<Rightarrow> peer_setup_code option"
  se_encode_code :: "peer_setup_code \<Rightarrow> string"
  se_code_order :: "peer_setup_code comparator"
  se_public_key :: "bytes \<Rightarrow> bytes"
  se_hex_encode :: "bytes \<Rightarrow> string"
  se_network :: string
  se_fedimintd_version :: string
  se_invite_federation :: "string \<Rightarrow> string option"
  se_archive_cbor :: "guardian_archive \<Rightarrow> bytes"
  se_backup_format :: u32
  se_e2e_local_iroh :: bool

section \<open>Operations\<close>

text \<open>An operation of the loop gives a result and the next state; an error keeps what was done.\<close>

type_synonym 'a op = "seat_loop \<Rightarrow> (seat_verb_error + 'a) \<times> seat_loop"

definition bind_op :: "'a op \<Rightarrow> ('a \<Rightarrow> 'b op) \<Rightarrow> 'b op" where
  "bind_op m f L = (case m L of (Inl e, L') \<Rightarrow> (Inl e, L') | (Inr x, L') \<Rightarrow> f x L')"

definition catch_op :: "'a op \<Rightarrow> (seat_verb_error \<Rightarrow> 'a op) \<Rightarrow> 'a op" where
  "catch_op m h L = (case m L of (Inl e, L') \<Rightarrow> h e L' | (Inr x, L') \<Rightarrow> (Inr x, L'))"

definition return_op :: "'a \<Rightarrow> 'a op" where
  "return_op x L = (Inr x, L)"

definition fail_op :: "seat_verb_error \<Rightarrow> 'a op" where
  "fail_op e L = (Inl e, L)"

definition read_op :: "(seat_loop \<Rightarrow> 'a) \<Rightarrow> 'a op" where
  "read_op f L = (Inr (f L), L)"

definition lift_op :: "(seat_loop \<Rightarrow> seat_verb_error + 'a) \<Rightarrow> 'a op" where
  "lift_op f L = (f L, L)"

definition modify_op :: "(seat_loop \<Rightarrow> seat_loop) \<Rightarrow> unit op" where
  "modify_op f L = (Inr (), f L)"

text \<open>A database call; its error becomes the internal error of the verb.\<close>

definition db_op :: "(db \<Rightarrow> (db_error + 'a) \<times> db) \<Rightarrow> 'a op" where
  "db_op f L =
     (case f (sl_db L) of
        (Inl _, s) \<Rightarrow> (Inl (Internal ''database''), L\<lparr>sl_db := s\<rparr>)
      | (Inr x, s) \<Rightarrow> (Inr x, L\<lparr>sl_db := s\<rparr>))"

definition db_read :: "(db \<Rightarrow> db_error + 'a) \<Rightarrow> 'a op" where
  "db_read f L = (case f (sl_db L) of Inl _ \<Rightarrow> (Inl (Internal ''database''), L) | Inr x \<Rightarrow> (Inr x, L))"

definition map_state :: "(seat_runtime_facts \<Rightarrow> seat_runtime_facts) \<Rightarrow> seat_loop \<Rightarrow> seat_loop" where
  "map_state f L = L\<lparr>sl_state := f (sl_state L)\<rparr>"

text \<open>The next answer of the script.\<close>

definition ask :: "(script \<Rightarrow> 'x list) \<Rightarrow> ('x list \<Rightarrow> script \<Rightarrow> script) \<Rightarrow> 'x \<Rightarrow> 'x op" where
  "ask get put otherwise L =
     (case get (sl_script L) of
        [] \<Rightarrow> (Inr otherwise, L)
      | x # xs \<Rightarrow> (Inr x, L\<lparr>sl_script := put xs (sl_script L)\<rparr>))"

definition ask_stop :: "bool op" where
  "ask_stop = ask sc_stops (\<lambda>xs. sc_stops_update (\<lambda>_. xs)) True"

definition ask_io :: "bool op" where
  "ask_io = ask sc_io (\<lambda>xs. sc_io_update (\<lambda>_. xs)) True"

definition ask_start :: "bool op" where
  "ask_start = ask sc_starts (\<lambda>xs. sc_starts_update (\<lambda>_. xs)) True"

definition ask_hello :: "child_state option op" where
  "ask_hello = ask sc_hellos (\<lambda>xs. sc_hellos_update (\<lambda>_. xs)) None"

definition time_now :: "seat_loop \<Rightarrow> nat" where
  "time_now L = sc_now (sl_script L)"

definition time_ms :: "seat_loop \<Rightarrow> int" where
  "time_ms L = sc_now_ms (sl_script L)"

section \<open>Runtime facts\<close>

definition transfer_status :: "seat_runtime_facts \<Rightarrow> service_status option" where
  "transfer_status f = Option.bind (rf_transfer_phase f) phase_service_status"

definition unformed_status :: "seat_runtime_facts \<Rightarrow> service_status" where
  "unformed_status f =
     (case transfer_status f of
        Some status \<Rightarrow> status
      | None \<Rightarrow> if rf_process_slot f = PhaseDkgAcknowledged then StatusDkgInProcess else StatusNew)"

definition reject_decommissioned :: "seat_runtime_facts \<Rightarrow> seat_verb_error + unit" where
  "reject_decommissioned f =
     (if rf_decommissioned_at_ms f \<noteq> None then Inl (WrongState StatusDecommissioned) else Inr ())"

definition reject_transfer_work :: "seat_runtime_facts \<Rightarrow> seat_verb_error + unit" where
  "reject_transfer_work f =
     (case transfer_status f of Some status \<Rightarrow> Inl (WrongState status) | None \<Rightarrow> Inr ())"

definition runtime_service_status :: "seat_runtime_facts \<Rightarrow> bool \<Rightarrow> service_status" where
  "runtime_service_status f final_data_exists =
     (if rf_decommissioned_at_ms f \<noteq> None then StatusDecommissioned
      else case transfer_status f of
        Some status \<Rightarrow> status
      | None \<Rightarrow>
          if rf_formed_invite f \<noteq> None
          then if final_data_exists then StatusRunning else StatusDataLoss
          else unformed_status f)"

datatype seat_phase =
  TransferPhase service_status | Created | DkgInProgress | DataLoss string | Running string

datatype seat_report = Decommissioned int | Active seat_phase seat_health

definition runtime_report :: "seat_runtime_facts \<Rightarrow> bool \<Rightarrow> seat_report" where
  "runtime_report f final_data_exists =
     (case rf_decommissioned_at_ms f of
        Some at_ms \<Rightarrow> Decommissioned at_ms
      | None \<Rightarrow>
          (case transfer_status f of
             Some status \<Rightarrow> Active (TransferPhase status) Unavailable
           | None \<Rightarrow>
               (case rf_formed_invite f of
                  Some invite \<Rightarrow>
                    if final_data_exists then Active (Running invite) (rf_health f)
                    else Active (DataLoss invite) Unavailable
                | None \<Rightarrow>
                    if rf_process_slot f = PhaseDkgAcknowledged then Active DkgInProgress Healthy
                    else Active Created Unavailable)))"

section \<open>Watchdog\<close>

definition final_data_exists :: "bool op" where
  "final_data_exists =
     bind_op ask_io (\<lambda>ok.
     if ok then read_op (\<lambda>L. sl_data L \<noteq> NoDir) else fail_op (Internal ''inspect final seat data dir''))"

definition watchdog_eligible :: "bool op" where
  "watchdog_eligible =
     bind_op (read_op sl_state) (\<lambda>st.
     if transfer_status st \<noteq> None then return_op False
     else if rf_formed_invite st = None then return_op False
     else final_data_exists)"

definition deschedule_watchdog :: "seat_loop \<Rightarrow> seat_loop" where
  "deschedule_watchdog L = map_state (\<lambda>st. st\<lparr>rf_health := Unavailable\<rparr>) (L\<lparr>sl_watchdog_at := None\<rparr>)"

definition schedule_watchdog :: "nat \<Rightarrow> unit op" where
  "schedule_watchdog delay =
     bind_op (catch_op watchdog_eligible (\<lambda>_. return_op False)) (\<lambda>eligible.
     modify_op (\<lambda>L. L\<lparr>sl_watchdog_at := if eligible then Some (time_now L + delay) else None\<rparr>))"

section \<open>Process slot\<close>

definition set_process_slot :: "process_slot \<Rightarrow> seat_loop \<Rightarrow> seat_loop" where
  "set_process_slot slot L =
     map_state (\<lambda>st. st\<lparr>rf_process_slot := slot_phase slot\<rparr>) (L\<lparr>sl_child := slot\<rparr>)"

definition mark_dkg_acknowledged :: "seat_loop \<Rightarrow> seat_loop" where
  "mark_dkg_acknowledged L =
     set_process_slot (case sl_child L of Parked client \<Rightarrow> DkgAcknowledged client | other \<Rightarrow> other) L"

definition mark_configured :: "seat_loop \<Rightarrow> seat_loop" where
  "mark_configured L =
     set_process_slot (case sl_child L of
         Parked client \<Rightarrow> Configured (Some client)
       | DkgAcknowledged client \<Rightarrow> Configured (Some client)
       | other \<Rightarrow> other) L"

definition retire_control_channel :: "seat_loop \<Rightarrow> seat_loop" where
  "retire_control_channel L =
     set_process_slot (case sl_child L of Configured _ \<Rightarrow> Configured None | other \<Rightarrow> other) L"

text \<open>A failed stop leaves the exit unproved, and the slot is never reused.\<close>

definition stop_child :: "unit op" where
  "stop_child =
     bind_op (read_op sl_child) (\<lambda>child.
     bind_op (modify_op (\<lambda>L. set_process_slot SlotEmpty (L\<lparr>sl_respawn_at := None\<rparr>))) (\<lambda>_.
     bind_op
       (if slot_is_live child then
          bind_op ask_stop (\<lambda>stopped.
          if stopped then return_op ()
          else bind_op (modify_op (set_process_slot ExitUnproven)) (\<lambda>_. fail_op (Internal ''child stop failed'')))
        else if child = ExitUnproven then
          bind_op (modify_op (set_process_slot ExitUnproven)) (\<lambda>_. fail_op (Internal ''a prior child stop failed''))
        else return_op ()) (\<lambda>_.
     modify_op (\<lambda>L. L\<lparr>sl_child_started := None\<rparr>))))"

definition schedule_respawn :: "seat_env \<Rightarrow> seat_loop \<Rightarrow> seat_loop" where
  "schedule_respawn en L =
     (if transfer_status (sl_state L) \<noteq> None then L\<lparr>sl_respawn_at := None\<rparr>
      else if sl_respawn_at L \<noteq> None \<or> sl_child L = ExitUnproven then L
      else L\<lparr>sl_respawn_at := Some (time_now L + sl_backoff L),
             sl_backoff := min (sl_backoff L * 2) (max_backoff (se_policy en))\<rparr>)"

definition retire_failed_ceremony :: "seat_env \<Rightarrow> unit op" where
  "retire_failed_ceremony en = bind_op stop_child (\<lambda>_. modify_op (schedule_respawn en))"

text \<open>A run that lasted long enough resets the backoff.\<close>

definition reset_backoff :: "seat_env \<Rightarrow> seat_loop \<Rightarrow> seat_loop" where
  "reset_backoff en L =
     (case sl_child_started L of
        Some started \<Rightarrow>
          if backoff_reset_after (se_policy en) \<le> time_now L - started
          then L\<lparr>sl_backoff := initial_backoff (se_policy en)\<rparr> else L
      | None \<Rightarrow> L)"

definition restart_if_unresponsive :: "seat_env \<Rightarrow> unit op" where
  "restart_if_unresponsive en =
     bind_op (read_op (\<lambda>L. case sl_unresponsive_since L of Some t \<Rightarrow> t | None \<Rightarrow> time_now L)) (\<lambda>since.
     bind_op (modify_op (\<lambda>L. L\<lparr>sl_unresponsive_since := Some since\<rparr>)) (\<lambda>_.
     bind_op (read_op (\<lambda>L. time_now L - since < unresponsive_restart_after (se_policy en) \<or>
         slot_phase (sl_child L) \<noteq> PhaseConfigured)) (\<lambda>wait.
     if wait then return_op ()
     else
     bind_op (modify_op (reset_backoff en)) (\<lambda>_.
     catch_op (retire_failed_ceremony en) (\<lambda>_. return_op ())))))"

definition set_watchdog_health :: "bool \<Rightarrow> seat_loop \<Rightarrow> seat_loop" where
  "set_watchdog_health healthy =
     map_state (\<lambda>st. st\<lparr>rf_health := if healthy then Healthy else Unavailable\<rparr>)"

definition watchdog_tick :: "seat_env \<Rightarrow> unit op" where
  "watchdog_tick en =
     bind_op (catch_op watchdog_eligible (\<lambda>_. return_op False)) (\<lambda>eligible.
     if \<not> eligible then modify_op deschedule_watchdog
     else
     bind_op (read_op (\<lambda>L. sc_probe (sl_script L) = ProbeOk)) (\<lambda>healthy.
     bind_op (modify_op (set_watchdog_health healthy)) (\<lambda>_.
     bind_op (modify_op (\<lambda>L. L\<lparr>sl_watchdog_at := Some (time_now L +
         (if healthy then HEALTHY_WATCHDOG_INTERVAL else UNHEALTHY_WATCHDOG_INTERVAL))\<rparr>)) (\<lambda>_.
     if healthy then modify_op (\<lambda>L. L\<lparr>sl_unresponsive_since := None\<rparr>)
     else restart_if_unresponsive en))))"

section \<open>Ceremony\<close>

text \<open>The Iroh keys of the child; the local test harness derives them from the port.\<close>

definition e2e_iroh_key :: "seat_env \<Rightarrow> u16 \<Rightarrow> bytes \<Rightarrow> bytes" where
  "e2e_iroh_key en port role =
     sha256 (se_crypto en) (as_bytes ''fman-e2e-local-iroh-v1'' @ [0] @
       [ucast (drop_bit 8 port), ucast port] @ role)"

definition effective_iroh_p2p_key :: "seat_env \<Rightarrow> seat_keys \<Rightarrow> seat_ports \<Rightarrow> bytes" where
  "effective_iroh_p2p_key en keys ports =
     (if \<not> sk_preserve_guardian_identity keys \<and> se_e2e_local_iroh en
      then e2e_iroh_key en (p2p_port ports) (as_bytes ''p2p'') else sk_iroh_p2p keys)"

definition effective_iroh_api_key :: "seat_env \<Rightarrow> seat_keys \<Rightarrow> seat_ports \<Rightarrow> bytes" where
  "effective_iroh_api_key en keys ports =
     (if \<not> sk_preserve_guardian_identity keys \<and> se_e2e_local_iroh en
      then e2e_iroh_key en (api_port ports) (as_bytes ''api'') else sk_iroh_api keys)"

definition mint_setup_code :: "seat_env \<Rightarrow> seat_loop \<Rightarrow> string option \<Rightarrow> guardian_code" where
  "mint_setup_code en L federation_name =
     GuardianCode (se_encode_code en
       \<lparr>ps_name = ''fm-'' @ take 8 (seat_id_to_string (se_hex_encode en) (sf_seat_id (sl_facts L))),
        ps_endpoints = IrohEndpoints
          (se_public_key en (effective_iroh_api_key en (sl_keys L) (sl_ports L)))
          (se_public_key en (effective_iroh_p2p_key en (sl_keys L) (sl_ports L))),
        ps_federation_name = federation_name,
        ps_disable_base_fees = None,
        ps_enabled_modules = (case federation_name of None \<Rightarrow> None
          | Some _ \<Rightarrow> Some [''lnv2'', ''meta'', ''mintv2'', ''multi_sig_stability_pool'', ''walletv2'']),
        ps_federation_size = (case federation_name of None \<Rightarrow> None
          | Some _ \<Rightarrow> Some (ucast (federation_size_get (sf_federation_size (sl_facts L))))),
        ps_network = se_network en,
        ps_fedimint_version = se_fedimintd_version en\<rparr>)"

text \<open>The own code of a set: the one code with the API key of this seat, recomputed.\<close>

fun find_own_code :: "seat_env \<Rightarrow> seat_loop \<Rightarrow> guardian_code list \<Rightarrow> guardian_code option \<Rightarrow>
    seat_verb_error + guardian_code option" where
  "find_own_code en L [] own = Inr own"
| "find_own_code en L (code # codes) own =
     (case se_decode_code en (code_text code) of
        None \<Rightarrow> Inl (InvalidDkgInput ''guardian code'')
      | Some setup \<Rightarrow>
          if (case ps_endpoints setup of
                IrohEndpoints api_pk _ \<Rightarrow>
                  api_pk = se_public_key en (effective_iroh_api_key en (sl_keys L) (sl_ports L))
              | OtherEndpoints _ \<Rightarrow> False)
          then if own \<noteq> None then Inl (InvalidDkgInput ''multiple guardian codes use this seat's API key'')
            else if mint_setup_code en L (ps_federation_name setup) \<noteq> code
            then Inl (InvalidDkgInput ''own guardian code failed deterministic recomputation'')
            else find_own_code en L codes (Some code)
          else find_own_code en L codes own)"

definition validate_dkg_codes ::
    "seat_env \<Rightarrow> guardian_code list \<Rightarrow> seat_loop \<Rightarrow> seat_verb_error + dkg_code_set \<times> guardian_code" where
  "validate_dkg_codes en codes L =
     and_then (find_own_code en L codes None) (\<lambda>own.
     and_then (ok_or own (InvalidDkgInput ''own guardian code missing from the set'')) (\<lambda>own_code.
     case dkg_code_set_validate codes (sf_federation_size (sl_facts L)) own_code of
       Inl _ \<Rightarrow> Inl (InvalidDkgInput ''code set'')
     | Inr submitted \<Rightarrow> Inr (submitted, own_code)))"

text \<open>The peers in the order of their setup codes; \<open>sort_by\<close> is stable.\<close>

definition ceremony_params ::
    "seat_env \<Rightarrow> dkg_code_set \<Rightarrow> guardian_code \<Rightarrow> seat_verb_error + nat \<times> string list" where
  "ceremony_params en submitted own_code =
     and_then (collect_results (map (\<lambda>code.
         and_then (ok_or (se_decode_code en (code_text code)) (InvalidDkgInput ''guardian code'')) (\<lambda>decoded.
         Inr (decoded, code_text code, code = own_code))) (code_set_codes submitted))) (\<lambda>entries.
     let ordered = Sorting_Algorithms.sort (key fst (se_code_order en)) entries;
         our_index = length (takeWhile (\<lambda>entry. \<not> snd (snd entry)) ordered)
     in if our_index < length ordered \<and> our_index < 2 ^ 16
        then Inr (our_index, map (\<lambda>entry. fst (snd entry)) ordered)
        else Inl (Internal ''validated federation size and own code fit a peer id''))"

definition mark_hints :: "seat_loop \<Rightarrow> seat_loop" where
  "mark_hints L = L\<lparr>sl_backup_marked := True, sl_hooks_marked := True\<rparr>"

definition handle_persisted_invite :: "string \<Rightarrow> unit op" where
  "handle_persisted_invite invite =
     bind_op (\<lambda>L. db_op (record_formed (sf_seat_id (sl_facts L)) invite (time_ms L)) L) (\<lambda>_.
     bind_op (modify_op (map_state (\<lambda>st. st\<lparr>rf_formed_invite := Some invite\<rparr>))) (\<lambda>_.
     bind_op (modify_op mark_configured) (\<lambda>_.
     bind_op (schedule_watchdog 0) (\<lambda>_.
     modify_op mark_hints))))"

fun handle_driven_event :: "driven_dkg_event \<Rightarrow> unit op" where
  "handle_driven_event (ConfigPersisted invite) = handle_persisted_invite invite"
| "handle_driven_event DkgStarted = modify_op mark_dkg_acknowledged"
| "handle_driven_event _ = return_op ()"

text \<open>Waiting for the acknowledgement: \<open>True\<close> when it came, \<open>False\<close> when the timeout expired.\<close>

fun await_dkg_started :: "poll list \<Rightarrow> bool op" where
  "await_dkg_started polls L =
     (case slot_client (sl_child L) of
        None \<Rightarrow> (Inl SeatUnavailable, L)
      | Some _ \<Rightarrow>
          (case polls of
             [] \<Rightarrow> (Inl (Internal ''driven-DKG event stream closed''), L)
           | PollError # _ \<Rightarrow> (Inl (Internal ''driven-DKG protocol''), L)
           | PollTimeout # _ \<Rightarrow> (Inr False, L)
           | PollCancelled invite # _ \<Rightarrow>
               (Inr False, L\<lparr>sl_db := snd (record_formed (sf_seat_id (sl_facts L)) invite (time_ms L) (sl_db L))\<rparr>)
           | PollEvent DkgStarted # _ \<Rightarrow>
               bind_op (handle_driven_event DkgStarted) (\<lambda>_. return_op True) L
           | PollEvent (ParamsRejected reason) # _ \<Rightarrow> (Inl (InvalidDkgInput reason), L)
           | PollEvent (DkgFailed reason) # _ \<Rightarrow> (Inl (Internal reason), L)
           | PollEvent ConsensusStarted # rest \<Rightarrow>
               if rf_formed_invite (sl_state L) \<noteq> None then (Inr True, L)
               else bind_op (handle_driven_event ConsensusStarted) (\<lambda>_. await_dkg_started rest) L
           | PollEvent other # rest \<Rightarrow>
               bind_op (handle_driven_event other) (\<lambda>_. await_dkg_started rest) L))"

declare await_dkg_started.simps [simp del]

definition send_run_dkg :: "nat \<times> string list \<Rightarrow> bool op" where
  "send_run_dkg params =
     bind_op (lift_op (\<lambda>L. ok_or (slot_client (sl_child L)) SeatUnavailable)) (\<lambda>_.
     bind_op (modify_op (\<lambda>L. L\<lparr>sl_ceremonies := sl_ceremonies L @
         [\<lparr>cm_our_index = fst params, cm_codes = snd params,
           cm_inputs = map_of (dkg_inputs (sl_db L)) (seat_id_bytes (sf_seat_id (sl_facts L))),
           cm_formed = rf_formed_invite (sl_state L)\<rparr>]\<rparr>)) (\<lambda>_.
     bind_op (read_op sl_script) (\<lambda>script.
     case sc_send script of
       SendFailed \<Rightarrow> fail_op (Internal ''run_dkg'')
     | SendTimedOut \<Rightarrow> return_op False
     | Sent \<Rightarrow> await_dkg_started (sc_polls script))))"

definition run_validated_dkg :: "seat_env \<Rightarrow> dkg_code_set \<Rightarrow> guardian_code \<Rightarrow> unit op" where
  "run_validated_dkg en submitted own_code =
     bind_op (lift_op (\<lambda>_. ceremony_params en submitted own_code)) (\<lambda>params.
     bind_op
       (catch_op (send_run_dkg params) (\<lambda>error.
          bind_op (catch_op (retire_failed_ceremony en)
            (\<lambda>_. fail_op (Internal ''ceremony cleanup also failed''))) (\<lambda>_. fail_op error))) (\<lambda>started.
     if started then return_op ()
     else
     bind_op (retire_failed_ceremony en) (\<lambda>_.
     fail_op (Internal ''timed out waiting for driven DKG start acknowledgement''))))"

fun handle_child_state :: "seat_env \<Rightarrow> child_state \<Rightarrow> unit op" where
  "handle_child_state en NeedsParams =
     bind_op (read_op (\<lambda>L. rf_formed_invite (sl_state L) \<noteq> None)) (\<lambda>formed.
     if formed then return_op ()
     else
     bind_op final_data_exists (\<lambda>exists.
     if exists then return_op ()
     else
     bind_op (\<lambda>L. db_read (stored_dkg_inputs (se_codec en) (sf_seat_id (sl_facts L))) L) (\<lambda>stored.
     case stored of
       None \<Rightarrow> return_op ()
     | Some codes \<Rightarrow>
         bind_op (lift_op (validate_dkg_codes en codes)) (\<lambda>(submitted, own_code).
         run_validated_dkg en submitted own_code))))"
| "handle_child_state en (AlreadyConfigured invite) = handle_persisted_invite invite"

section \<open>Spawning\<close>

text \<open>A child that was started and is not wanted: its exit is proved or the slot is lost.\<close>

definition discard_child :: "bool op" where
  "discard_child =
     bind_op ask_stop (\<lambda>stopped.
     if stopped then return_op True
     else bind_op (modify_op (set_process_slot ExitUnproven)) (\<lambda>_. return_op False))"

text \<open>The slot takes a child; if its state cannot be handled, it is stopped again.\<close>

definition adopt_child :: "seat_env \<Rightarrow> child_state \<Rightarrow> unit op" where
  "adopt_child en state =
     bind_op (modify_op (set_process_slot (case state of
         NeedsParams \<Rightarrow> Parked state
       | AlreadyConfigured _ \<Rightarrow> Configured (Some state)))) (\<lambda>_.
     bind_op (modify_op (\<lambda>L. L\<lparr>sl_child_started := Some (time_now L), sl_unresponsive_since := None\<rparr>)) (\<lambda>_.
     catch_op (handle_child_state en state) (\<lambda>error.
       bind_op (read_op (\<lambda>L. slot_is_live (sl_child L))) (\<lambda>live.
       bind_op (if live then stop_child else return_op ()) (\<lambda>_.
       fail_op error)))))"

definition spawn_child_inner :: "seat_env \<Rightarrow> string option \<Rightarrow> unit op" where
  "spawn_child_inner en imported_invite =
     bind_op (read_op sl_child) (\<lambda>child.
     if child \<noteq> SlotEmpty then fail_op (Internal ''child replacement requires a proved empty process slot'')
     else
     bind_op ask_start (\<lambda>started.
     if \<not> started then fail_op (Internal ''spawn'')
     else
     bind_op ask_hello (\<lambda>hello.
     case hello of
       None \<Rightarrow> bind_op discard_child (\<lambda>_. fail_op (Internal ''driven client''))
     | Some state \<Rightarrow>
         if (case imported_invite of None \<Rightarrow> False | Some expected \<Rightarrow> state \<noteq> AlreadyConfigured expected)
         then bind_op discard_child (\<lambda>_. fail_op SeatUnavailable)
         else adopt_child en state)))"

definition spawn_child :: "seat_env \<Rightarrow> unit op" where
  "spawn_child en =
     bind_op (lift_op (\<lambda>L. reject_decommissioned (sl_state L))) (\<lambda>_.
     bind_op (lift_op (\<lambda>L. reject_transfer_work (sl_state L))) (\<lambda>_.
     spawn_child_inner en None))"

text \<open>A spawn whose failure is retried after the backoff.\<close>

definition spawn_or_schedule :: "seat_env \<Rightarrow> unit op" where
  "spawn_or_schedule en = catch_op (spawn_child en) (\<lambda>_. modify_op (schedule_respawn en))"

section \<open>Ceremony verbs\<close>

definition dkg_code :: "seat_env \<Rightarrow> string option \<Rightarrow> guardian_code op" where
  "dkg_code en federation_name =
     bind_op final_data_exists (\<lambda>exists.
     bind_op (lift_op (\<lambda>L. reject_decommissioned (sl_state L))) (\<lambda>_.
     bind_op (lift_op (\<lambda>L. reject_transfer_work (sl_state L))) (\<lambda>_.
     bind_op (read_op sl_state) (\<lambda>st.
     if rf_formed_invite st \<noteq> None then fail_op (WrongState (runtime_service_status st exists))
     else read_op (\<lambda>L. mint_setup_code en L federation_name)))))"

text \<open>The checks that \<open>start_dkg\<close> and \<open>restart_dkg\<close> begin with.\<close>

definition check_unformed :: "unit op" where
  "check_unformed =
     bind_op final_data_exists (\<lambda>exists.
     bind_op (lift_op (\<lambda>L. reject_decommissioned (sl_state L))) (\<lambda>_.
     bind_op (lift_op (\<lambda>L. reject_transfer_work (sl_state L))) (\<lambda>_.
     bind_op (read_op sl_state) (\<lambda>st.
     if rf_formed_invite st \<noteq> None then fail_op (WrongState (runtime_service_status st exists))
     else if exists then fail_op (Internal ''unformed seat has a final configuration directory'')
     else return_op ()))))"

definition record_inputs ::
    "seat_env \<Rightarrow> dkg_code_set \<Rightarrow> dkg_completion_callback option \<Rightarrow> unit op" where
  "record_inputs en submitted callback L =
     db_op (record_dkg_inputs (se_codec en) (sf_seat_id (sl_facts L)) submitted callback (time_ms L)) L"

definition start_dkg ::
    "seat_env \<Rightarrow> guardian_code list \<Rightarrow> dkg_completion_callback option \<Rightarrow> unit op" where
  "start_dkg en codes callback =
     bind_op check_unformed (\<lambda>_.
     bind_op (read_op sl_state) (\<lambda>st.
     if unformed_status st = StatusDkgInProcess then fail_op (WrongState StatusDkgInProcess)
     else
     bind_op (read_op (\<lambda>L. slot_client (sl_child L))) (\<lambda>client.
     if client \<noteq> Some NeedsParams then fail_op SeatUnavailable
     else
     bind_op (lift_op (validate_dkg_codes en codes)) (\<lambda>(submitted, own_code).
     bind_op (record_inputs en submitted callback) (\<lambda>_.
     bind_op (modify_op (\<lambda>L. L\<lparr>sl_hooks_marked := True\<rparr>)) (\<lambda>_.
     run_validated_dkg en submitted own_code))))))"

definition restart_dkg :: "seat_env \<Rightarrow> guardian_code list \<Rightarrow> service_status op" where
  "restart_dkg en codes =
     bind_op check_unformed (\<lambda>_.
     bind_op (lift_op (validate_dkg_codes en codes)) (\<lambda>(submitted, _).
     bind_op (record_inputs en submitted None) (\<lambda>_.
     bind_op stop_child (\<lambda>_.
     bind_op (catch_op (spawn_child en) (\<lambda>error.
       bind_op (modify_op (schedule_respawn en)) (\<lambda>_. fail_op error))) (\<lambda>_.
     bind_op (read_op sl_state) (\<lambda>st.
     if rf_formed_invite st \<noteq> None then return_op StatusRunning
     else if unformed_status st \<noteq> StatusDkgInProcess then fail_op SeatUnavailable
     else return_op StatusDkgInProcess))))))"

definition decommission :: "bool op" where
  "decommission =
     bind_op (\<lambda>L. db_op (decommission_seat (sf_seat_id (sl_facts L)) (time_ms L)) L) (\<lambda>at_ms.
     bind_op (modify_op (\<lambda>L. map_state (\<lambda>st. st\<lparr>rf_decommissioned_at_ms := Some at_ms\<rparr>)
         (L\<lparr>sl_hooks_marked := True\<rparr>))) (\<lambda>_.
     bind_op stop_child (\<lambda>_.
     return_op True)))"

definition invite_code :: "string op" where
  "invite_code =
     lift_op (\<lambda>L. ok_or (rf_formed_invite (sl_state L)) (WrongState (unformed_status (sl_state L))))"

text \<open>The API client of a running seat: only a formed, healthy seat outside a transfer has one.\<close>

definition running_client :: "unit op" where
  "running_client =
     bind_op (lift_op (\<lambda>L. reject_transfer_work (sl_state L))) (\<lambda>_.
     bind_op (read_op sl_state) (\<lambda>st.
     if rf_formed_invite st = None then fail_op (WrongState (unformed_status st))
     else if rf_health st = Healthy then return_op () else fail_op SeatUnavailable))"

section \<open>Transfer source\<close>

definition verified_grant :: "seat_env \<Rightarrow> signed_request \<Rightarrow> seat_loop \<Rightarrow> seat_verb_error + seat_transfer_grant" where
  "verified_grant en grant_request L =
     (case signed_request_verify (se_crypto en) (se_grant_verb en) grant_request (word_of_int (time_ms L div 1000)) of
        Inl _ \<Rightarrow> Inl TransferGrantMismatch
      | Inr grant \<Rightarrow> Inr grant)"

definition check_source_grant ::
    "seat_env \<Rightarrow> signed_request \<Rightarrow> bytes \<Rightarrow> seat_loop \<Rightarrow> seat_verb_error + seat_transfer_grant" where
  "check_source_grant en grant_request service_pubkey L =
     and_then (reject_decommissioned (sl_state L)) (\<lambda>_.
     and_then (verified_grant en grant_request L) (\<lambda>grant.
     let federation = Option.bind (rf_formed_invite (sl_state L)) (se_invite_federation en) in
     if gr_fa_id grant \<noteq> sf_fa_id (sl_facts L) \<or>
        gr_source_seat_id grant \<noteq> sf_seat_id (sl_facts L) \<or>
        loc_service_pubkey (gr_source grant) \<noteq> service_pubkey \<or>
        federation \<noteq> Some (gr_federation_id grant)
     then Inl TransferGrantMismatch
     else Inr grant))"

definition mirror_transfer :: "transfer_phase \<Rightarrow> seat_loop \<Rightarrow> seat_loop" where
  "mirror_transfer phase L =
     map_state (\<lambda>st. st\<lparr>rf_transfer_phase := Some phase\<rparr>)
       (L\<lparr>sl_transfer_marked := True, sl_hooks_marked := True, sl_backup_marked := True\<rparr>)"

definition exported_keys :: "seat_env \<Rightarrow> seat_loop \<Rightarrow> imported_keys" where
  "exported_keys en L =
     \<lparr>ik_iroh_api = effective_iroh_api_key en (sl_keys L) (sl_ports L),
      ik_iroh_p2p = effective_iroh_p2p_key en (sl_keys L) (sl_ports L)\<rparr>"

definition SEAT_TRANSFER_MATERIAL_MAX_BYTES :: nat where
  "SEAT_TRANSFER_MATERIAL_MAX_BYTES = 384 * 1024"

definition check_size :: "guardian_archive \<Rightarrow> bool" where
  "check_size archive \<longleftrightarrow>
     64 + length (ga_private_json archive) + length (ga_local_json archive) +
       length (ga_consensus_json archive) \<le> SEAT_TRANSFER_MATERIAL_MAX_BYTES"

definition archive_digest :: "seat_env \<Rightarrow> guardian_archive \<Rightarrow> string" where
  "archive_digest en archive = se_hex_encode en (sha256 (se_crypto en) (se_archive_cbor en archive))"

definition read_material :: "seat_env \<Rightarrow> transfer_material op" where
  "read_material en =
     bind_op ask_io (\<lambda>ok.
     lift_op (\<lambda>L. case sl_data L of
        Dir (Some archive) \<Rightarrow>
          if ok \<and> check_size archive
          then Inr \<lparr>mt_archive = archive, mt_keys = exported_keys en L\<rparr>
          else Inl (Internal ''guardian transfer material'')
      | _ \<Rightarrow> Inl (Internal ''guardian transfer material'')))"

text \<open>
  Asking the child to stop after its session changes nothing in the loop; the exit is observed
  later.
\<close>

definition transfer_out :: "seat_env \<Rightarrow> signed_request \<Rightarrow> bytes \<Rightarrow> transfer_material op" where
  "transfer_out en grant_request service_pubkey =
     bind_op (lift_op (check_source_grant en grant_request service_pubkey)) (\<lambda>_.
     bind_op (\<lambda>L. db_read (outgoing (sf_seat_id (sl_facts L))) L) (\<lambda>out.
     case out of
       None \<Rightarrow> bind_op (read_material en) (\<lambda>_. fail_op AwaitingSessionEnd)
     | Some Removed \<Rightarrow> fail_op (WrongState StatusRemoved)
     | Some Stopped \<Rightarrow>
         bind_op (\<lambda>L. db_read (backup_publication (sf_seat_id (sl_facts L)) (se_backup_format en)) L) (\<lambda>publication.
         if Option.bind publication bp_confirmed_outgoing \<noteq> Some Stopped
         then bind_op (modify_op (\<lambda>L. L\<lparr>sl_backup_marked := True\<rparr>)) (\<lambda>_. fail_op AwaitingBackup)
         else
         bind_op (read_material en) (\<lambda>material.
         bind_op (lift_op (check_source_grant en grant_request service_pubkey)) (\<lambda>_.
         bind_op (modify_op (\<lambda>L. L\<lparr>sl_exported := sl_exported L @ [material]\<rparr>)) (\<lambda>_.
         return_op material))))))"

definition commit_session_boundary_exit :: "int option \<Rightarrow> bool op" where
  "commit_session_boundary_exit exit_code =
     (if exit_code \<noteq> Some SESSION_BOUNDARY_EXIT_CODE then return_op False
      else
      bind_op (catch_op (\<lambda>L. db_op (retire_for_transfer (sf_seat_id (sl_facts L))) L) (\<lambda>_. return_op False)) (\<lambda>retired.
      if retired
      then bind_op (modify_op (mirror_transfer (PhaseOutgoing Stopped))) (\<lambda>_. return_op True)
      else return_op False))"

definition remove_transferred :: "bool op" where
  "remove_transferred =
     bind_op (lift_op (\<lambda>L. reject_decommissioned (sl_state L))) (\<lambda>_.
     bind_op (read_op (\<lambda>L. rf_transfer_phase (sl_state L))) (\<lambda>phase.
     if phase = Some (PhaseOutgoing Removed) then return_op True
     else if phase \<noteq> Some (PhaseOutgoing Stopped) then fail_op SeatUnavailable
     else
     bind_op ask_io (\<lambda>removed.
     if \<not> removed then fail_op SeatUnavailable
     else
     bind_op (modify_op (\<lambda>L. L\<lparr>sl_data := NoDir\<rparr>)) (\<lambda>_.
     bind_op ask_io (\<lambda>synced.
     if \<not> synced then fail_op (Internal ''sync seat directory'')
     else
     bind_op (\<lambda>L. db_op (record_transfer_removal (sf_seat_id (sl_facts L))) L) (\<lambda>recorded.
     if \<not> recorded then fail_op SeatUnavailable
     else
     bind_op (modify_op (mirror_transfer (PhaseOutgoing Removed))) (\<lambda>_.
     return_op False)))))))"

section \<open>Transfer destination\<close>

definition check_import_allowed :: "seat_loop \<Rightarrow> seat_verb_error + unit" where
  "check_import_allowed L =
     and_then (reject_decommissioned (sl_state L)) (\<lambda>_.
     case rf_transfer_phase (sl_state L) of
       Some (PhaseOutgoing _) \<Rightarrow> Inl SeatUnavailable
     | _ \<Rightarrow> Inr ())"

definition seat_admit_transfer ::
    "seat_env \<Rightarrow> signed_request \<Rightarrow> bytes \<Rightarrow> dkg_completion_callback option \<Rightarrow> incoming_transfer op" where
  "seat_admit_transfer en grant_request service_key callback =
     bind_op (lift_op check_import_allowed) (\<lambda>_.
     bind_op (lift_op (verified_grant en grant_request)) (\<lambda>grant.
     bind_op (read_op sl_facts) (\<lambda>facts.
     if gr_fa_id grant \<noteq> sf_fa_id facts \<or> gr_destination_seat_id grant \<noteq> sf_seat_id facts \<or>
        gr_destination_service_pubkey grant \<noteq> service_key
     then fail_op TransferGrantMismatch
     else
     bind_op (\<lambda>L. db_op (admit_transfer (se_crypto en) (se_grant_verb en) (se_codec en) grant_request callback (time_ms L)) L) (\<lambda>admitted.
     bind_op (lift_op (\<lambda>_. ok_or admitted TransferGrantMismatch)) (\<lambda>record.
     bind_op (modify_op (mirror_transfer (incoming_phase (in_state record)))) (\<lambda>_.
     bind_op (case in_state record of Imported _ \<Rightarrow> return_op () | Waiting _ \<Rightarrow> stop_child) (\<lambda>_.
     return_op record)))))))"

definition current_import :: "seat_env \<Rightarrow> incoming_transfer op" where
  "current_import en =
     bind_op (lift_op check_import_allowed) (\<lambda>_.
     bind_op (\<lambda>L. db_read (incoming (se_codec en) (sf_seat_id (sl_facts L))) L) (\<lambda>record.
     lift_op (\<lambda>_. ok_or record SeatUnavailable)))"

text \<open>
  Installing the archive: the staging directory is cleared, an archive already in place is
  adopted if its digest is the same, and otherwise the staged copy is renamed into place.
\<close>

definition install_imported_material :: "seat_env \<Rightarrow> transfer_material \<Rightarrow> unit op" where
  "install_imported_material en material =
     bind_op ask_io (\<lambda>cleared.
     if \<not> cleared then fail_op (Internal ''staging'')
     else
     bind_op final_data_exists (\<lambda>exists.
     if exists
     then bind_op ask_io (\<lambda>readable.
       lift_op (\<lambda>L. case sl_data L of
          Dir (Some archive) \<Rightarrow>
            if readable \<and> archive_digest en archive = archive_digest en (mt_archive material) then Inr ()
            else Inl (Internal ''seat data directory holds a different guardian'')
        | _ \<Rightarrow> Inl (Internal ''seat data directory holds a different guardian'')))
     else
     bind_op ask_io (\<lambda>staged.
     if \<not> staged then fail_op (Internal ''write archive'')
     else
     bind_op ask_io (\<lambda>renamed.
     if \<not> renamed then fail_op (Internal ''rename archive'')
     else
     bind_op (modify_op (\<lambda>L. L\<lparr>sl_data := Dir (Some (mt_archive material))\<rparr>)) (\<lambda>_.
     bind_op ask_io (\<lambda>synced.
     if synced then return_op () else fail_op (Internal ''sync seat directory'')))))))"

text \<open>From the acceptance on, the imported guardian is a formed seat whose child may fail.\<close>

definition run_imported :: "seat_env \<Rightarrow> string \<Rightarrow> unit op" where
  "run_imported en invite =
     bind_op (modify_op (map_state (\<lambda>st. st\<lparr>rf_formed_invite := Some invite\<rparr>))) (\<lambda>_.
     bind_op (modify_op (mirror_transfer PhaseImported)) (\<lambda>_.
     bind_op (catch_op (spawn_child_inner en (Some invite)) (\<lambda>_. modify_op (schedule_respawn en))) (\<lambda>_.
     bind_op (schedule_watchdog 0) (\<lambda>_.
     modify_op mark_hints))))"

definition install_guardian :: "seat_env \<Rightarrow> transfer_move \<Rightarrow> validated_guardian \<Rightarrow> unit op" where
  "install_guardian en binding guardian =
     bind_op stop_child (\<lambda>_.
     bind_op (modify_op (\<lambda>L. L\<lparr>sl_keys :=
         imported_seat_keys (mt_keys (vg_material guardian)) (sk_api_auth (sl_keys L))\<rparr>)) (\<lambda>_.
     bind_op (install_imported_material en (vg_material guardian)) (\<lambda>_.
     bind_op (\<lambda>L. db_op (accept_transfer (se_codec en) (sf_seat_id (sl_facts L)) binding
         (mt_keys (vg_material guardian)) (vg_invite guardian) (time_ms L)) L) (\<lambda>accepted.
     if \<not> accepted then fail_op SeatUnavailable else run_imported en (vg_invite guardian)))))"

definition install_transfer :: "seat_env \<Rightarrow> transfer_move \<Rightarrow> validated_guardian \<Rightarrow> unit op" where
  "install_transfer en binding guardian =
     bind_op (current_import en) (\<lambda>record.
     if in_binding record \<noteq> binding then fail_op TransferGrantMismatch
     else if se_invite_federation en (vg_invite guardian) \<noteq> Some (tm_federation_id binding)
     then fail_op TransferGrantMismatch
     else case in_state record of
       Imported _ \<Rightarrow> fail_op SeatUnavailable
     | Waiting _ \<Rightarrow> install_guardian en binding guardian)"

section \<open>Observations\<close>

datatype process_observation = Driven "(string + driven_dkg_event) option" | Exited "int option"

text \<open>The events still in the stream of an exited child; handling errors are only logged.\<close>

fun drain_events :: "poll list \<Rightarrow> unit op" where
  "drain_events (PollEvent event # rest) =
     bind_op (catch_op (handle_driven_event event) (\<lambda>_. return_op ())) (\<lambda>_. drain_events rest)"
| "drain_events _ = return_op ()"

definition handle_child_exit :: "seat_env \<Rightarrow> int option \<Rightarrow> unit op" where
  "handle_child_exit en exit_code =
     bind_op (read_op (\<lambda>L. slot_client (sl_child L))) (\<lambda>client.
     bind_op (modify_op (set_process_slot SlotEmpty)) (\<lambda>_.
     bind_op (read_op (\<lambda>L. sc_polls (sl_script L))) (\<lambda>polls.
     bind_op (if client \<noteq> None then drain_events polls else return_op ()) (\<lambda>_.
     bind_op (commit_session_boundary_exit exit_code) (\<lambda>committed.
     if committed then return_op ()
     else modify_op (\<lambda>L. schedule_respawn en ((reset_backoff en L)\<lparr>sl_child_started := None\<rparr>)))))))"

fun handle_process_observation :: "seat_env \<Rightarrow> process_observation \<Rightarrow> unit op" where
  "handle_process_observation en (Driven (Some (Inr event))) =
     bind_op (catch_op (handle_driven_event event) (\<lambda>_. return_op ())) (\<lambda>_.
     case event of
       ParamsRejected _ \<Rightarrow> catch_op (retire_failed_ceremony en) (\<lambda>_. return_op ())
     | DkgFailed _ \<Rightarrow> catch_op (retire_failed_ceremony en) (\<lambda>_. return_op ())
     | ControlChannelRetired \<Rightarrow> modify_op retire_control_channel
     | _ \<Rightarrow> return_op ())"
| "handle_process_observation en (Driven (Some (Inl _))) = catch_op (retire_failed_ceremony en) (\<lambda>_. return_op ())"
| "handle_process_observation en (Driven None) = catch_op (retire_failed_ceremony en) (\<lambda>_. return_op ())"
| "handle_process_observation en (Exited exit_code) = handle_child_exit en exit_code"

section \<open>The loop\<close>

definition seat_start ::
    "seat_env \<Rightarrow> seat_durable_state \<Rightarrow> seat_keys \<Rightarrow> seat_ports \<Rightarrow> db \<Rightarrow> data_dir \<Rightarrow> script \<Rightarrow> seat_loop" where
  "seat_start en durable keys ports s dir script =
     \<lparr>sl_facts = ds_facts durable, sl_db = s, sl_keys = keys, sl_ports = ports,
      sl_state = \<lparr>rf_formed_invite = ds_formed_invite durable, rf_process_slot = PhaseEmpty,
        rf_decommissioned_at_ms = ds_decommissioned_at_ms durable,
        rf_transfer_phase = ds_transfer_phase durable, rf_health = Unavailable\<rparr>,
      sl_child = SlotEmpty, sl_child_started = None, sl_respawn_at = None, sl_watchdog_at = None,
      sl_unresponsive_since = None, sl_backoff = initial_backoff (se_policy en), sl_data = dir,
      sl_backup_marked = False, sl_hooks_marked = False, sl_transfer_marked = False,
      sl_open = (ds_decommissioned_at_ms durable = None), sl_ceremonies = [], sl_exported = [],
      sl_script = script\<rparr>"

text \<open>What the loop does before its first command.\<close>

definition run_prologue :: "seat_env \<Rightarrow> unit op" where
  "run_prologue en = bind_op (spawn_or_schedule en) (\<lambda>_. schedule_watchdog 0)"

definition seat_boot ::
    "seat_env \<Rightarrow> seat_durable_state \<Rightarrow> seat_keys \<Rightarrow> seat_ports \<Rightarrow> db \<Rightarrow> data_dir \<Rightarrow> script \<Rightarrow> seat_loop" where
  "seat_boot en durable keys ports s dir script =
     (let L = seat_start en durable keys ports s dir script
      in if sl_open L then snd (run_prologue en L) else L)"

datatype seat_command =
    CmdDkgCode "string option"
  | CmdStartDkg "guardian_code list" "dkg_completion_callback option"
  | CmdRestartDkg "guardian_code list"
  | CmdInviteCode
  | CmdRunningClient
  | CmdAdmitTransfer signed_request bytes "dkg_completion_callback option"
  | CmdInstallTransfer transfer_move validated_guardian
  | CmdTransferOut signed_request bytes
  | CmdRemoveTransferred
  | CmdDecommission
  | CmdShutdown

text \<open>The state after a command; a terminal decommission and a shutdown end the loop.\<close>

fun handle_command :: "seat_env \<Rightarrow> seat_command \<Rightarrow> seat_loop \<Rightarrow> seat_loop" where
  "handle_command en (CmdDkgCode name) L = snd (dkg_code en name L)"
| "handle_command en (CmdStartDkg codes callback) L = snd (start_dkg en codes callback L)"
| "handle_command en (CmdRestartDkg codes) L = snd (restart_dkg en codes L)"
| "handle_command en CmdInviteCode L = snd (invite_code L)"
| "handle_command en CmdRunningClient L = snd (running_client L)"
| "handle_command en (CmdAdmitTransfer grant service_key callback) L =
     snd (seat_admit_transfer en grant service_key callback L)"
| "handle_command en (CmdInstallTransfer binding guardian) L = snd (install_transfer en binding guardian L)"
| "handle_command en (CmdTransferOut grant service_pubkey) L = snd (transfer_out en grant service_pubkey L)"
| "handle_command en CmdRemoveTransferred L = snd (remove_transferred L)"
| "handle_command en CmdDecommission L =
     (let L' = snd (decommission L)
      in if rf_decommissioned_at_ms (sl_state L') \<noteq> None then L'\<lparr>sl_open := False\<rparr> else L')"
| "handle_command en CmdShutdown L = (snd (stop_child L))\<lparr>sl_open := False\<rparr>"

text \<open>The durable state of a seat, as the fleet reads it to start a runtime.\<close>

definition durable_state :: "seat_env \<Rightarrow> seat_facts \<Rightarrow> db \<Rightarrow> db_error + seat_durable_state" where
  "durable_state en facts s =
     and_then (db_transfer_phase (se_codec en) (sf_seat_id facts) s) (\<lambda>phase.
     Inr \<lparr>ds_facts = facts, ds_formed_invite = formed_federation_invite (sf_seat_id facts) s,
          ds_decommissioned_at_ms = decommissioned_at_ms (sf_seat_id facts) s, ds_transfer_phase = phase\<rparr>)"

text \<open>The rows of a seat that its own runtime writes.\<close>

definition seat_rows where
  "seat_rows k s =
     (map_of (seats s) k, map_of (formed_seats s) k, map_of (decommissioned_seats s) k,
      map_of (seat_transfer_in s) k, map_of (seat_transfer_out s) k, map_of (dkg_inputs s) k)"

text \<open>
  One step: an observation of the child, an expired deadline, a command, a change by somebody
  else (the rest of the database, the data directory), or a restart of the daemon, which ends
  the child and starts the runtime from the database.
\<close>

inductive seat_step :: "seat_env \<Rightarrow> seat_loop \<Rightarrow> seat_loop \<Rightarrow> bool" for en :: seat_env where
  observe: "sl_open L \<Longrightarrow> slot_is_live (sl_child L) \<Longrightarrow>
    seat_step en L (snd (handle_process_observation en observation (L\<lparr>sl_script := script\<rparr>)))"
| respawn: "sl_open L \<Longrightarrow> sl_respawn_at L = Some t \<Longrightarrow> t \<le> sc_now script \<Longrightarrow>
    seat_step en L (snd (spawn_or_schedule en (L\<lparr>sl_respawn_at := None, sl_script := script\<rparr>)))"
| watchdog: "sl_open L \<Longrightarrow> sl_watchdog_at L = Some t \<Longrightarrow> t \<le> sc_now script \<Longrightarrow>
    seat_step en L (snd (watchdog_tick en (L\<lparr>sl_watchdog_at := None, sl_script := script\<rparr>)))"
| cmd: "sl_open L \<Longrightarrow> seat_step en L (handle_command en command (L\<lparr>sl_script := script\<rparr>))"
| others: "wf (se_codec en) s \<Longrightarrow>
    seat_rows (seat_id_bytes (sf_seat_id (sl_facts L))) s = seat_rows (seat_id_bytes (sf_seat_id (sl_facts L))) (sl_db L) \<Longrightarrow>
    seat_step en L (L\<lparr>sl_db := s, sl_data := dir\<rparr>)"
| restart: "durable_state en (sl_facts L) (sl_db L) = Inr durable \<Longrightarrow>
    seat_step en L (seat_boot en durable keys ports (sl_db L) (sl_data L) script)"

definition seat_init :: "seat_env \<Rightarrow> seat_loop \<Rightarrow> bool" where
  "seat_init en L \<longleftrightarrow>
     (\<exists>facts s durable keys ports dir script.
        wf (se_codec en) s \<and> tbl_exists (seats s) (seat_id_bytes (sf_seat_id facts)) \<and>
        durable_state en facts s = Inr durable \<and> L = seat_boot en durable keys ports s dir script)"

end
