(* ===== verification/Seat_Loop_Invariant.thy ===== *)
theory Seat_Loop_Invariant
  imports Seat_Loop
begin

text \<open>
  What holds in every state of a seat runtime. Operations are reasoned about backwards: \<open>wp m Q E\<close>
  holds of a state from which \<open>m\<close> ends in \<open>Q\<close> with its result or in \<open>E\<close> with its error. The
  rules of the operation combinators are in \<open>op_wp\<close>; an operation used by several others has
  one rule of its own.
\<close>

section \<open>Backward reasoning\<close>

definition wp :: "'a op \<Rightarrow> ('a \<Rightarrow> seat_loop \<Rightarrow> bool) \<Rightarrow> (seat_verb_error \<Rightarrow> seat_loop \<Rightarrow> bool) \<Rightarrow> seat_loop \<Rightarrow> bool" where
  "wp m Q E L \<longleftrightarrow> (case m L of (Inr x, L') \<Rightarrow> Q x L' | (Inl e, L') \<Rightarrow> E e L')"

named_theorems op_wp \<open>backward rules of the operation combinators\<close>

lemma wp_bind [op_wp]: "wp (bind_op m f) Q E = wp m (\<lambda>x. wp (f x) Q E) E"
  by (rule ext) (simp add: wp_def bind_op_def split: prod.split sum.split)

lemma wp_catch [op_wp]: "wp (catch_op m h) Q E = wp m Q (\<lambda>e. wp (h e) Q E)"
  by (rule ext) (simp add: wp_def catch_op_def split: prod.split sum.split)

lemma wp_basic [op_wp]:
  "wp (return_op x) Q E = Q x"
  "wp (fail_op e) Q E = E e"
  "wp (read_op f) Q E = (\<lambda>L. Q (f L) L)"
  "wp (modify_op g) Q' E = (\<lambda>L. Q' () (g L))"
  "wp (lift_op r) Q E = (\<lambda>L. case r L of Inr x \<Rightarrow> Q x L | Inl e \<Rightarrow> E e L)"
  by (simp_all add: fun_eq_iff wp_def return_op_def fail_op_def read_op_def modify_op_def lift_op_def split: sum.split)

lemma wp_if [op_wp]: "wp (if b then m else m') Q E = (if b then wp m Q E else wp m' Q E)"
  by simp

lemma wp_db_op [op_wp]:
  "wp (\<lambda>L. db_op (f L) L) Q E =
     (\<lambda>L. case f L (sl_db L) of (Inr x, s) \<Rightarrow> Q x (L\<lparr>sl_db := s\<rparr>) | (Inl _, s) \<Rightarrow> E (Internal ''database'') (L\<lparr>sl_db := s\<rparr>))"
  by (rule ext) (simp add: wp_def db_op_def split: prod.split sum.split)

lemma wp_db_read [op_wp]:
  "wp (\<lambda>L. db_read (f L) L) Q E =
     (\<lambda>L. case f L (sl_db L) of Inr x \<Rightarrow> Q x L | Inl _ \<Rightarrow> E (Internal ''database'') L)"
  by (rule ext) (simp add: wp_def db_read_def split: sum.split)

lemma wp_cases:
  obtains (Ok) x where "fst (m L) = Inr x" "\<And>Q E. wp m Q E L \<longleftrightarrow> Q x (snd (m L))"
    | (Err) e where "fst (m L) = Inl e" "\<And>Q E. wp m Q E L \<longleftrightarrow> E e (snd (m L))"
  by (cases "fst (m L)"; cases "m L") (simp_all add: wp_def)

lemma wp_mono:
  assumes "wp m Q E L" and "\<And>x L'. Q x L' \<Longrightarrow> Q' x L'" and "\<And>e L'. E e L' \<Longrightarrow> E' e L'"
  shows "wp m Q' E' L"
  by (rule wp_cases [of m L]) (use assms in simp_all)

lemma wp_conj: "wp m Q E L \<Longrightarrow> wp m Q' E' L \<Longrightarrow> wp m (\<lambda>x L'. Q x L' \<and> Q' x L') (\<lambda>e L'. E e L' \<and> E' e L') L"
  by (rule wp_cases [of m L]) simp_all

lemma wp_snd: "wp m (\<lambda>_. P) (\<lambda>_. P) L \<longleftrightarrow> P (snd (m L))"
  by (rule wp_cases [of m L]) simp_all

text \<open>An answer of the script only consumes it.\<close>

lemma wp_ask: "(\<And>x script. Q x (L\<lparr>sl_script := script\<rparr>)) \<Longrightarrow> wp (ask get put otherwise) Q E L"
proof -
  assume q: "\<And>x script. Q x (L\<lparr>sl_script := script\<rparr>)"
  have "Q otherwise L" using q [of otherwise "sl_script L"] by simp
  with q show ?thesis by (simp add: wp_def ask_def split: list.split)
qed

lemma wp_asks [intro]:
  "(\<And>x script. Q x (L\<lparr>sl_script := script\<rparr>)) \<Longrightarrow> wp ask_stop Q E L"
  "(\<And>x script. Q x (L\<lparr>sl_script := script\<rparr>)) \<Longrightarrow> wp ask_io Q E L"
  "(\<And>x script. Q x (L\<lparr>sl_script := script\<rparr>)) \<Longrightarrow> wp ask_start Q E L"
  "(\<And>x script. R x (L\<lparr>sl_script := script\<rparr>)) \<Longrightarrow> wp ask_hello R E L"
  unfolding ask_stop_def ask_io_def ask_start_def ask_hello_def by (erule wp_ask)+

lemma wp_final_data_exists:
  assumes "\<And>script. Q (sl_data L \<noteq> NoDir) (L\<lparr>sl_script := script\<rparr>)"
    and "\<And>script. E (Internal ''inspect final seat data dir'') (L\<lparr>sl_script := script\<rparr>)"
  shows "wp final_data_exists Q E L"
  using assms by (auto simp: final_data_exists_def op_wp)

lemma wp_watchdog_eligible:
  assumes "\<And>x script. Q x (L\<lparr>sl_script := script\<rparr>)" and "\<And>e script. E e (L\<lparr>sl_script := script\<rparr>)"
  shows "wp watchdog_eligible Q E L"
proof -
  have "Q False L" using assms(1) [of False "sl_script L"] by simp
  then show ?thesis
    by (simp add: watchdog_eligible_def op_wp wp_final_data_exists assms)
qed

lemma wp_schedule_watchdog:
  assumes "\<And>t script. Q () (L\<lparr>sl_script := script, sl_watchdog_at := t\<rparr>)"
  shows "wp (schedule_watchdog delay) Q E L"
  unfolding schedule_watchdog_def op_wp by (intro wp_watchdog_eligible) (simp_all add: op_wp assms)

lemma wp_stop_child:
  assumes "\<And>script. sl_child L \<noteq> ExitUnproven \<Longrightarrow>
      Q () ((set_process_slot SlotEmpty (L\<lparr>sl_respawn_at := None\<rparr>))\<lparr>sl_script := script, sl_child_started := None\<rparr>)"
    and "\<And>e script. E e (set_process_slot ExitUnproven
      ((set_process_slot SlotEmpty (L\<lparr>sl_respawn_at := None\<rparr>))\<lparr>sl_script := script\<rparr>))"
  shows "wp stop_child Q E L"
proof -
  let ?L = "set_process_slot SlotEmpty (L\<lparr>sl_respawn_at := None\<rparr>)"
  have same: "?L\<lparr>sl_script := sl_script L\<rparr> = ?L" by (simp add: set_process_slot_def map_state_def)
  have "wp ask_stop (\<lambda>stopped. wp (if stopped then return_op ()
          else bind_op (modify_op (set_process_slot ExitUnproven)) (\<lambda>_. fail_op (Internal ''child stop failed'')))
        (\<lambda>_. wp (modify_op (\<lambda>L. L\<lparr>sl_child_started := None\<rparr>)) Q E) E) E ?L" if "sl_child L \<noteq> ExitUnproven"
    by (intro wp_asks) (simp add: op_wp assms that)
  then show ?thesis
    using assms(1) [of "sl_script L"] assms(2) [of "Internal ''a prior child stop failed''" "sl_script L"]
    unfolding same
    by (cases "sl_child L") (simp_all add: stop_child_def op_wp)
qed

section \<open>The invariant\<close>

text \<open>
  The runtime facts agree with the database (a recorded invite may be ahead of them), a child
  is live only while the seat is neither decommissioned nor fenced by a transfer, a respawn is
  pending only for an empty slot, the backoff is within its bound, and every ceremony that was
  sent is the one of the stored inputs.
\<close>

definition ceremony_ok :: "seat_env \<Rightarrow> ceremony \<Rightarrow> bool" where
  "ceremony_ok en cm \<longleftrightarrow>
     cm_formed cm = None \<and> cm_our_index cm < length (cm_codes cm) \<and>
     (\<exists>texts. Option.bind (cm_inputs cm) (codes_from_json (se_codec en)) = Some texts \<and>
       mset (cm_codes cm) = mset texts)"

definition mirrors :: "seat_env \<Rightarrow> seat_facts \<Rightarrow> seat_runtime_facts \<Rightarrow> db \<Rightarrow> bool" where
  "mirrors en facts st s \<longleftrightarrow>
     wf (se_codec en) s \<and> tbl_exists (seats s) (seat_id_bytes (sf_seat_id facts)) \<and>
     (\<forall>i. rf_formed_invite st = Some i \<longrightarrow> formed_federation_invite (sf_seat_id facts) s = Some i) \<and>
     rf_decommissioned_at_ms st = decommissioned_at_ms (sf_seat_id facts) s \<and>
     db_transfer_phase (se_codec en) (sf_seat_id facts) s = Inr (rf_transfer_phase st)"

definition active :: "seat_loop \<Rightarrow> bool" where
  "active L \<longleftrightarrow> rf_decommissioned_at_ms (sl_state L) = None \<and> transfer_status (sl_state L) = None"

definition seat_core :: "seat_env \<Rightarrow> seat_loop \<Rightarrow> bool" where
  "seat_core en L \<longleftrightarrow>
     mirrors en (sl_facts L) (sl_state L) (sl_db L) \<and>
     rf_process_slot (sl_state L) = slot_phase (sl_child L) \<and>
     (slot_is_live (sl_child L) \<longrightarrow> active L) \<and>
     (sl_respawn_at L \<noteq> None \<longrightarrow> sl_child L = SlotEmpty) \<and>
     sl_backoff L \<le> max_backoff (se_policy en) \<and>
     (\<forall>cm \<in> set (sl_ceremonies L). ceremony_ok en cm)"

definition seat_env_ok :: "seat_env \<Rightarrow> bool" where
  "seat_env_ok en \<longleftrightarrow>
     transfer_codec_ok (se_codec en) \<and> initial_backoff (se_policy en) \<le> max_backoff (se_policy en)"

text \<open>What most operations leave alone.\<close>

definition fence :: "seat_loop \<Rightarrow> seat_loop \<Rightarrow> bool" where
  "fence L L' \<longleftrightarrow>
     sl_facts L' = sl_facts L \<and> sl_open L' = sl_open L \<and>
     rf_decommissioned_at_ms (sl_state L') = rf_decommissioned_at_ms (sl_state L) \<and>
     rf_transfer_phase (sl_state L') = rf_transfer_phase (sl_state L)"

lemma fence_refl [simp]: "fence L L"
  by (simp add: fence_def)

lemma fence_trans: "fence L L1 \<Longrightarrow> fence L1 L2 \<Longrightarrow> fence L L2"
  by (simp add: fence_def)

lemma fence_active: "fence L L' \<Longrightarrow> active L' \<longleftrightarrow> active L"
  by (simp add: fence_def active_def transfer_status_def)

text \<open>A step from \<open>L\<close> that keeps the invariant and the fence.\<close>

definition goes :: "seat_env \<Rightarrow> seat_loop \<Rightarrow> seat_loop \<Rightarrow> bool" where
  "goes en L L' \<longleftrightarrow> seat_core en L' \<and> fence L L'"

lemma goesD: assumes "goes en L L'" shows "seat_core en L'" and "fence L L'" and "active L' \<longleftrightarrow> active L"
  using assms by (simp_all add: goes_def fence_active)

lemma goes_refl: "seat_core en L \<Longrightarrow> goes en L L"
  by (simp add: goes_def)

lemma goes_trans: "goes en L L1 \<Longrightarrow> goes en L1 L2 \<Longrightarrow> goes en L L2"
  by (auto simp: goes_def elim: fence_trans)

text \<open>Fields the invariant does not read.\<close>

lemma seat_core_fields [simp]:
  "seat_core en (L\<lparr>sl_script := script\<rparr>) \<longleftrightarrow> seat_core en L"
  "seat_core en (L\<lparr>sl_watchdog_at := t\<rparr>) \<longleftrightarrow> seat_core en L"
  "seat_core en (L\<lparr>sl_child_started := t\<rparr>) \<longleftrightarrow> seat_core en L"
  "seat_core en (L\<lparr>sl_unresponsive_since := t\<rparr>) \<longleftrightarrow> seat_core en L"
  "seat_core en (L\<lparr>sl_keys := keys\<rparr>) \<longleftrightarrow> seat_core en L"
  "seat_core en (L\<lparr>sl_data := dir\<rparr>) \<longleftrightarrow> seat_core en L"
  "seat_core en (L\<lparr>sl_backup_marked := b\<rparr>) \<longleftrightarrow> seat_core en L"
  "seat_core en (L\<lparr>sl_hooks_marked := b\<rparr>) \<longleftrightarrow> seat_core en L"
  "seat_core en (L\<lparr>sl_transfer_marked := b\<rparr>) \<longleftrightarrow> seat_core en L"
  "seat_core en (L\<lparr>sl_exported := ms\<rparr>) \<longleftrightarrow> seat_core en L"
  "seat_core en (L\<lparr>sl_open := b\<rparr>) \<longleftrightarrow> seat_core en L"
  by (simp_all add: seat_core_def active_def)

lemma fence_fields [simp]:
  "fence L (L'\<lparr>sl_script := script\<rparr>) \<longleftrightarrow> fence L L'"
  "fence L (L'\<lparr>sl_watchdog_at := t\<rparr>) \<longleftrightarrow> fence L L'"
  "fence L (L'\<lparr>sl_child_started := t\<rparr>) \<longleftrightarrow> fence L L'"
  "fence L (L'\<lparr>sl_unresponsive_since := t\<rparr>) \<longleftrightarrow> fence L L'"
  "fence L (L'\<lparr>sl_keys := keys\<rparr>) \<longleftrightarrow> fence L L'"
  "fence L (L'\<lparr>sl_data := dir\<rparr>) \<longleftrightarrow> fence L L'"
  "fence L (L'\<lparr>sl_backup_marked := b\<rparr>) \<longleftrightarrow> fence L L'"
  "fence L (L'\<lparr>sl_hooks_marked := b\<rparr>) \<longleftrightarrow> fence L L'"
  "fence L (L'\<lparr>sl_transfer_marked := b\<rparr>) \<longleftrightarrow> fence L L'"
  "fence L (L'\<lparr>sl_exported := ms\<rparr>) \<longleftrightarrow> fence L L'"
  "fence L (L'\<lparr>sl_db := s\<rparr>) \<longleftrightarrow> fence L L'"
  "fence L (L'\<lparr>sl_child := child\<rparr>) \<longleftrightarrow> fence L L'"
  "fence L (L'\<lparr>sl_respawn_at := t\<rparr>) \<longleftrightarrow> fence L L'"
  "fence L (L'\<lparr>sl_backoff := n\<rparr>) \<longleftrightarrow> fence L L'"
  "fence L (L'\<lparr>sl_ceremonies := cs\<rparr>) \<longleftrightarrow> fence L L'"
  "fence L (set_process_slot slot L') \<longleftrightarrow> fence L L'"
  by (simp_all add: fence_def set_process_slot_def map_state_def)

section \<open>The process slot\<close>

text \<open>An active seat has a live child, a pending respawn, or a slot that is lost for good.\<close>

definition guarded :: "seat_loop \<Rightarrow> bool" where
  "guarded L \<longleftrightarrow> slot_is_live (sl_child L) \<or> sl_respawn_at L \<noteq> None \<or> sl_child L = ExitUnproven"

definition supervised :: "seat_loop \<Rightarrow> bool" where
  "supervised L \<longleftrightarrow> (active L \<longrightarrow> guarded L)"

lemma mirrors_fields [simp]:
  "mirrors en facts (st\<lparr>rf_process_slot := p\<rparr>) s \<longleftrightarrow> mirrors en facts st s"
  "mirrors en facts (st\<lparr>rf_health := h\<rparr>) s \<longleftrightarrow> mirrors en facts st s"
  by (simp_all add: mirrors_def)

lemma set_process_slot_fields [simp]:
  "sl_child (set_process_slot slot L) = slot"
  "sl_respawn_at (set_process_slot slot L) = sl_respawn_at L"
  "sl_db (set_process_slot slot L) = sl_db L"
  "sl_facts (set_process_slot slot L) = sl_facts L"
  "sl_script (set_process_slot slot L) = sl_script L"
  "sl_ceremonies (set_process_slot slot L) = sl_ceremonies L"
  "rf_formed_invite (sl_state (set_process_slot slot L)) = rf_formed_invite (sl_state L)"
  "active (set_process_slot slot L) \<longleftrightarrow> active L"
  by (simp_all add: set_process_slot_def map_state_def active_def transfer_status_def)

lemma active_fields [simp]:
  "active (L\<lparr>sl_script := script\<rparr>) \<longleftrightarrow> active L"
  "active (L\<lparr>sl_respawn_at := t\<rparr>) \<longleftrightarrow> active L"
  "active (L\<lparr>sl_child_started := t\<rparr>) \<longleftrightarrow> active L"
  "active (L\<lparr>sl_unresponsive_since := t\<rparr>) \<longleftrightarrow> active L"
  "active (L\<lparr>sl_watchdog_at := t\<rparr>) \<longleftrightarrow> active L"
  "active (L\<lparr>sl_backoff := n\<rparr>) \<longleftrightarrow> active L"
  "active (L\<lparr>sl_db := s\<rparr>) \<longleftrightarrow> active L"
  "active (L\<lparr>sl_data := dir\<rparr>) \<longleftrightarrow> active L"
  by (simp_all add: active_def)

lemma set_process_slot_core:
  assumes "seat_core en L" and "slot_is_live slot \<Longrightarrow> active L" and "sl_respawn_at L \<noteq> None \<Longrightarrow> slot = SlotEmpty"
  shows "seat_core en (set_process_slot slot L)"
  using assms
  by (simp add: seat_core_def set_process_slot_def map_state_def active_def transfer_status_def)

lemma seat_core_no_respawn: "seat_core en L \<Longrightarrow> seat_core en (L\<lparr>sl_respawn_at := None\<rparr>)"
  by (simp add: seat_core_def active_def)

definition vacant :: "seat_loop \<Rightarrow> bool" where
  "vacant L \<longleftrightarrow> sl_child L = SlotEmpty \<and> sl_respawn_at L = None"

text \<open>Stopping needs the invariant only for what remains without the child.\<close>

lemma stop_child_core:
  assumes "seat_core en (set_process_slot SlotEmpty (L\<lparr>sl_respawn_at := None\<rparr>))"
  shows "wp stop_child (\<lambda>_ L'. goes en L L' \<and> vacant L') (\<lambda>_ L'. goes en L L' \<and> sl_child L' = ExitUnproven) L"
  using assms by (intro wp_stop_child) (simp_all add: goes_def vacant_def, rule set_process_slot_core, simp_all)

lemma stop_child_goes:
  assumes "seat_core en L"
  shows "wp stop_child (\<lambda>_ L'. goes en L L' \<and> vacant L') (\<lambda>_ L'. goes en L L' \<and> sl_child L' = ExitUnproven) L"
  by (rule stop_child_core, rule set_process_slot_core [OF seat_core_no_respawn [OF assms]]) simp_all

lemma schedule_respawn_goes:
  assumes "seat_core en L" and "\<not> slot_is_live (sl_child L)"
  shows "goes en L (schedule_respawn en L)" and "sl_child (schedule_respawn en L) = sl_child L"
    and "supervised (schedule_respawn en L)"
proof -
  have "sl_child L = SlotEmpty" if "sl_child L \<noteq> ExitUnproven" using assms(2) that by (cases "sl_child L") simp_all
  then show "goes en L (schedule_respawn en L)"
    using assms by (auto simp: goes_def schedule_respawn_def seat_core_def active_def)
  show "sl_child (schedule_respawn en L) = sl_child L" by (simp add: schedule_respawn_def)
  show "supervised (schedule_respawn en L)"
    by (cases "transfer_status (sl_state L)") (simp_all add: supervised_def guarded_def schedule_respawn_def active_def)
qed

lemma retire_failed_ceremony_goes:
  assumes "seat_core en L"
  shows "wp (retire_failed_ceremony en)
    (\<lambda>_ L'. goes en L L' \<and> \<not> slot_is_live (sl_child L') \<and> supervised L')
    (\<lambda>_ L'. goes en L L' \<and> \<not> slot_is_live (sl_child L') \<and> supervised L') L"
  unfolding retire_failed_ceremony_def op_wp
proof (rule wp_mono [OF stop_child_goes [OF assms]])
  fix x :: unit and L'
  assume L': "goes en L L' \<and> vacant L'"
  then show "goes en L (schedule_respawn en L') \<and> \<not> slot_is_live (sl_child (schedule_respawn en L')) \<and>
      supervised (schedule_respawn en L')"
    using schedule_respawn_goes [of en L'] goes_trans [of en L L'] goesD(1) [of en L L'] by (simp add: vacant_def)
next
  fix e :: seat_verb_error and L'
  assume "goes en L L' \<and> sl_child L' = ExitUnproven"
  then show "goes en L L' \<and> \<not> slot_is_live (sl_child L') \<and> supervised L'"
    by (simp add: supervised_def guarded_def)
qed

section \<open>Ceremonies\<close>

lemma db_transfer_phase_cong:
  assumes "map_of (seat_transfer_out s') (seat_id_bytes i) = map_of (seat_transfer_out s) (seat_id_bytes i)"
    and "map_of (seat_transfer_in s') (seat_id_bytes i) = map_of (seat_transfer_in s) (seat_id_bytes i)"
  shows "db_transfer_phase c i s' = db_transfer_phase c i s"
proof -
  have "outgoing i s' = outgoing i s" and "incoming c i s' = incoming c i s"
    using assms by (simp_all add: outgoing_def incoming_def)
  then show ?thesis by (simp add: db_transfer_phase_def cong: option.case_cong)
qed

lemma mirrors_rows:
  assumes "mirrors en facts st s" and "wf (se_codec en) s'"
    and "seat_rows (seat_id_bytes (sf_seat_id facts)) s' = seat_rows (seat_id_bytes (sf_seat_id facts)) s"
  shows "mirrors en facts st s'"
  using assms db_transfer_phase_cong [of s' "sf_seat_id facts" s "se_codec en"]
  by (simp add: mirrors_def seat_rows_def tbl_exists_def formed_federation_invite_def decommissioned_at_ms_def)

text \<open>Recording an invite only writes the latch of the seat, once.\<close>

lemma record_formed_effect:
  assumes "record_formed i invite t s = (r, s')"
  shows "seats s' = seats s \<and> decommissioned_seats s' = decommissioned_seats s \<and>
      seat_transfer_in s' = seat_transfer_in s \<and> seat_transfer_out s' = seat_transfer_out s \<and>
      dkg_inputs s' = dkg_inputs s"
    and "formed_federation_invite i s = Some j \<Longrightarrow> formed_federation_invite i s' = Some j"
    and "r = Inr x \<Longrightarrow> formed_federation_invite i s' = Some invite"
  using assms
  by (auto simp: record_formed_def Let_def formed_federation_invite_def map_of_insert_or_ignore
      tbl_exists_def split: if_splits option.splits)

lemma record_formed_mirrors:
  assumes "mirrors en facts st s" and "record_formed (sf_seat_id facts) invite t s = (r, s')"
  shows "mirrors en facts st s'" and "r = Inr x \<Longrightarrow> mirrors en facts (st\<lparr>rf_formed_invite := Some invite\<rparr>) s'"
proof -
  note effect = record_formed_effect [OF assms(2)]
  have wf: "wf (se_codec en) s'"
    using record_formed_wf [of "se_codec en" s "sf_seat_id facts" invite t] assms by (simp add: mirrors_def)
  show "mirrors en facts st s'"
    using assms(1) effect(1,2) wf db_transfer_phase_cong [of s' "sf_seat_id facts" s "se_codec en"]
    by (simp add: mirrors_def tbl_exists_def decommissioned_at_ms_def)
  then show "mirrors en facts (st\<lparr>rf_formed_invite := Some invite\<rparr>) s'" if "r = Inr x"
    using effect(3) [OF that] by (simp add: mirrors_def)
qed

text \<open>Operations that leave liveness of the slot and the respawn deadline alone.\<close>

definition steady :: "seat_loop \<Rightarrow> seat_loop \<Rightarrow> bool" where
  "steady L L' \<longleftrightarrow>
     slot_is_live (sl_child L') = slot_is_live (sl_child L) \<and>
     (sl_child L' = ExitUnproven) = (sl_child L = ExitUnproven) \<and>
     sl_respawn_at L' = sl_respawn_at L"

lemma steady_refl [simp]: "steady L L"
  by (simp add: steady_def)

lemma steady_trans: "steady L L1 \<Longrightarrow> steady L1 L2 \<Longrightarrow> steady L L2"
  by (simp add: steady_def)

lemma steady_guarded: "steady L L' \<Longrightarrow> guarded L' \<longleftrightarrow> guarded L"
  by (simp add: steady_def guarded_def)

definition goes_steady :: "seat_env \<Rightarrow> seat_loop \<Rightarrow> seat_loop \<Rightarrow> bool" where
  "goes_steady en L L' \<longleftrightarrow> goes en L L' \<and> steady L L'"

lemma goes_steady_trans: "goes_steady en L L1 \<Longrightarrow> goes_steady en L1 L2 \<Longrightarrow> goes_steady en L L2"
  by (auto simp: goes_steady_def elim: goes_trans steady_trans)

lemma goes_steady_refl: "seat_core en L \<Longrightarrow> goes_steady en L L"
  by (simp add: goes_steady_def goes_refl)

lemma goes_steadyD:
  assumes "goes_steady en L L'"
  shows "seat_core en L'" and "goes en L L'" and "steady L L'" and "supervised L' \<longleftrightarrow> supervised L"
  using assms goesD [of en L L'] steady_guarded [of L L'] by (simp_all add: goes_steady_def supervised_def)

text \<open>Changing the form of a live slot, and nothing else.\<close>

lemma reslot_goes_steady:
  assumes "seat_core en L" and "slot_is_live slot = slot_is_live (sl_child L)"
    and "\<not> slot_is_live (sl_child L) \<Longrightarrow> slot = sl_child L"
  shows "goes_steady en L (set_process_slot slot L)"
proof -
  have "seat_core en (set_process_slot slot L)"
  proof (rule set_process_slot_core [OF assms(1)])
    show "active L" if "slot_is_live slot" using assms that by (simp add: seat_core_def)
    show "slot = SlotEmpty" if "sl_respawn_at L \<noteq> None" using assms that by (simp add: seat_core_def)
  qed
  moreover have "(slot = ExitUnproven) = (sl_child L = ExitUnproven)"
    using assms(2,3) by (cases "slot_is_live (sl_child L)") auto
  ultimately show ?thesis using assms(2) by (simp add: goes_steady_def goes_def steady_def)
qed

lemma slot_marks_goes_steady:
  assumes "seat_core en L"
  shows "goes_steady en L (mark_dkg_acknowledged L)" and "goes_steady en L (mark_configured L)"
    and "goes_steady en L (retire_control_channel L)"
  unfolding mark_dkg_acknowledged_def mark_configured_def retire_control_channel_def
  by (rule reslot_goes_steady [OF assms]; cases "sl_child L"; simp)+

lemma goes_steady_fields [simp]:
  "goes_steady en L (L'\<lparr>sl_script := script\<rparr>) \<longleftrightarrow> goes_steady en L L'"
  "goes_steady en L (L'\<lparr>sl_watchdog_at := t\<rparr>) \<longleftrightarrow> goes_steady en L L'"
  "goes_steady en L (L'\<lparr>sl_child_started := t\<rparr>) \<longleftrightarrow> goes_steady en L L'"
  "goes_steady en L (L'\<lparr>sl_unresponsive_since := t\<rparr>) \<longleftrightarrow> goes_steady en L L'"
  "goes_steady en L (L'\<lparr>sl_hooks_marked := b\<rparr>) \<longleftrightarrow> goes_steady en L L'"
  "goes_steady en L (L'\<lparr>sl_backup_marked := b\<rparr>) \<longleftrightarrow> goes_steady en L L'"
  "goes_steady en L (L'\<lparr>sl_data := dir\<rparr>) \<longleftrightarrow> goes_steady en L L'"
  "goes_steady en L (L'\<lparr>sl_exported := ms\<rparr>) \<longleftrightarrow> goes_steady en L L'"
  by (simp_all add: goes_steady_def goes_def steady_def)

lemma handle_persisted_invite_goes:
  assumes "seat_core en L"
  shows "wp (handle_persisted_invite invite) (\<lambda>_. goes_steady en L) (\<lambda>_. goes_steady en L) L"
proof (cases "record_formed (sf_seat_id (sl_facts L)) invite (time_ms L) (sl_db L)")
  case (Pair r s')
  have mirrors: "mirrors en (sl_facts L) (sl_state L) (sl_db L)" using assms by (simp add: seat_core_def)
  note kept = record_formed_mirrors [OF mirrors Pair]
  show ?thesis
  proof (cases r)
    case (Inl e)
    have "goes_steady en L (L\<lparr>sl_db := s'\<rparr>)"
      using assms kept(1) by (simp add: goes_steady_def goes_def steady_def seat_core_def)
    then show ?thesis by (simp add: handle_persisted_invite_def op_wp Pair Inl)
  next
    case (Inr x)
    let ?L = "map_state (\<lambda>st. st\<lparr>rf_formed_invite := Some invite\<rparr>) (L\<lparr>sl_db := s'\<rparr>)"
    have L: "goes_steady en L ?L"
      using assms kept(2) [OF Inr]
      by (simp add: goes_steady_def goes_def steady_def seat_core_def map_state_def fence_def active_def transfer_status_def)
    then have "goes_steady en L (mark_configured ?L)"
      using slot_marks_goes_steady(2) [OF goes_steadyD(1) [OF L]] goes_steady_trans by blast
    then show ?thesis
      by (simp add: handle_persisted_invite_def op_wp Pair Inr)
        (rule wp_schedule_watchdog, simp add: op_wp mark_hints_def)
  qed
qed

lemma handle_driven_event_goes:
  assumes "seat_core en L"
  shows "wp (handle_driven_event event) (\<lambda>_. goes_steady en L) (\<lambda>_. goes_steady en L) L"
  using handle_persisted_invite_goes [OF assms] slot_marks_goes_steady(1) [OF assms] goes_steady_refl [OF assms]
  by (cases event) (simp_all add: op_wp)

text \<open>Sequencing after an operation that leaves the slot alone.\<close>

lemma wp_then:
  assumes "wp m (\<lambda>_. goes_steady en L) (\<lambda>_. goes_steady en L) L"
    and "\<And>x L'. goes_steady en L L' \<Longrightarrow> wp (f x) Q E L'"
    and "\<And>e L'. goes_steady en L L' \<Longrightarrow> E e L'"
  shows "wp (bind_op m f) Q E L"
  unfolding wp_bind by (rule wp_mono [OF assms(1)]) (use assms(2,3) in blast)+

lemma cancelled_invite_goes:
  assumes "seat_core en L"
  shows "goes_steady en L (L\<lparr>sl_db := snd (record_formed (sf_seat_id (sl_facts L)) invite t (sl_db L))\<rparr>)"
proof -
  have "mirrors en (sl_facts L) (sl_state L) (sl_db L)" using assms by (simp add: seat_core_def)
  from record_formed_mirrors(1) [OF this prod.collapse [symmetric], of invite t] assms show ?thesis
    by (simp add: goes_steady_def goes_def steady_def seat_core_def)
qed

lemma await_dkg_started_goes:
  assumes "seat_core en L"
  shows "wp (await_dkg_started polls) (\<lambda>_. goes_steady en L) (\<lambda>_. goes_steady en L) L"
  using assms
proof (induction polls arbitrary: L)
  case Nil
  then show ?case
    by (cases "slot_client (sl_child L)") (simp_all add: wp_def await_dkg_started.simps [of "[]"] goes_steady_refl)
next
  case (Cons p rest)
  have next_event: "wp (bind_op (handle_driven_event event) (\<lambda>_. await_dkg_started rest))
      (\<lambda>_. goes_steady en L) (\<lambda>_. goes_steady en L) L" for event
  proof (rule wp_then [OF handle_driven_event_goes [OF Cons.prems]])
    fix x :: unit and L' assume L': "goes_steady en L L'"
    show "wp (await_dkg_started rest) (\<lambda>_. goes_steady en L) (\<lambda>_. goes_steady en L) L'"
      by (rule wp_mono [OF Cons.IH [OF goes_steadyD(1) [OF L']]]) (erule goes_steady_trans [OF L'])+
  qed
  have started: "wp (bind_op (handle_driven_event DkgStarted) (\<lambda>_. return_op True))
      (\<lambda>_. goes_steady en L) (\<lambda>_. goes_steady en L) L"
    using slot_marks_goes_steady(1) [OF Cons.prems] by (simp add: op_wp)
  note refl = goes_steady_refl [OF Cons.prems] and cancelled = cancelled_invite_goes [OF Cons.prems]
  show ?case
  proof (cases "slot_client (sl_child L)")
    case None
    with refl show ?thesis by (simp add: wp_def await_dkg_started.simps [of "p # rest"])
  next
    case (Some client)
    note step = await_dkg_started.simps [of "x # rest" for x]
    show ?thesis
    proof (cases p)
      case (PollEvent event)
      then show ?thesis using Some next_event [of event] started refl by (cases event) (simp_all add: wp_def step)
    qed (use Some refl cancelled in \<open>simp_all add: wp_def step\<close>)
  qed
qed

lemma ceremony_entries:
  assumes "map (\<lambda>code. and_then (ok_or (se_decode_code en (code_text code)) (InvalidDkgInput ''guardian code''))
      (\<lambda>decoded. Inr (decoded, code_text code, code = own_code))) codes = map Inr entries"
  shows "map (\<lambda>entry. fst (snd entry)) entries = map code_text codes"
    and "entry \<in> set entries \<Longrightarrow> snd (snd entry) \<Longrightarrow> fst (snd entry) = code_text own_code"
  using assms
  by (induction codes arbitrary: entries) (auto simp: and_then_eq_Inr Cons_eq_map_conv)

text \<open>The order of a ceremony is a permutation of the submitted codes that has our own.\<close>

lemma ceremony_params_Inr:
  assumes "ceremony_params en submitted own_code = Inr (our_index, codes)"
  shows "mset codes = mset (map code_text (code_set_codes submitted))" and "our_index < length codes"
    and "codes ! our_index = code_text own_code"
proof -
  let ?entry = "\<lambda>code. and_then (ok_or (se_decode_code en (code_text code)) (InvalidDkgInput ''guardian code''))
    (\<lambda>decoded. Inr (decoded, code_text code, code = own_code))"
  from assms obtain entries where entries: "collect_results (map ?entry (code_set_codes submitted)) = Inr entries"
    and ordered: "let ordered = Sorting_Algorithms.sort (key fst (se_code_order en)) entries;
        i = length (takeWhile (\<lambda>entry. \<not> snd (snd entry)) ordered)
      in i < length ordered \<and> our_index = i \<and> codes = map (\<lambda>entry. fst (snd entry)) ordered"
    unfolding ceremony_params_def by (auto simp: Let_def split: if_splits elim!: and_then_InrE)
  let ?ordered = "Sorting_Algorithms.sort (key fst (se_code_order en)) entries"
  let ?i = "length (takeWhile (\<lambda>entry. \<not> snd (snd entry)) ?ordered)"
  note entry = ceremony_entries [OF entries [unfolded collect_results_Inr]]
  have "mset codes = image_mset (\<lambda>entry. fst (snd entry)) (mset entries)" using ordered by (simp add: Let_def)
  then show "mset codes = mset (map code_text (code_set_codes submitted))"
    using entry(1) by (metis mset_map)
  show "our_index < length codes" using ordered by (simp add: Let_def)
  have "snd (snd (?ordered ! ?i))" and "?ordered ! ?i \<in> set ?ordered"
    using ordered nth_length_takeWhile [of "\<lambda>entry. \<not> snd (snd entry)" ?ordered] nth_mem [of ?i ?ordered]
    by (simp_all add: Let_def)
  then show "codes ! our_index = code_text own_code"
    using ordered entry(2) by (simp add: Let_def)
qed

text \<open>The stored inputs are those of the submitted set, and the seat is not known to be formed.\<close>

definition inputs_for :: "seat_env \<Rightarrow> dkg_code_set \<Rightarrow> seat_loop \<Rightarrow> bool" where
  "inputs_for en submitted L \<longleftrightarrow>
     rf_formed_invite (sl_state L) = None \<and>
     (\<exists>texts. Option.bind (map_of (dkg_inputs (sl_db L)) (seat_id_bytes (sf_seat_id (sl_facts L))))
        (codes_from_json (se_codec en)) = Some texts \<and>
       mset (map code_text (code_set_codes submitted)) = mset texts)"

lemma send_run_dkg_goes:
  assumes "seat_core en L" and "ceremony_params en submitted own_code = Inr params" and "inputs_for en submitted L"
  shows "wp (send_run_dkg params) (\<lambda>_. goes_steady en L) (\<lambda>_. goes_steady en L) L"
proof -
  obtain our_index codes where params: "params = (our_index, codes)" by (cases params)
  let ?cm = "\<lparr>cm_our_index = our_index, cm_codes = codes,
    cm_inputs = map_of (dkg_inputs (sl_db L)) (seat_id_bytes (sf_seat_id (sl_facts L))),
    cm_formed = rf_formed_invite (sl_state L)\<rparr>"
  let ?L = "L\<lparr>sl_ceremonies := sl_ceremonies L @ [?cm]\<rparr>"
  have "ceremony_ok en ?cm"
    using assms(3) ceremony_params_Inr [OF assms(2) [unfolded params]] by (simp add: ceremony_ok_def inputs_for_def)
  then have L: "goes_steady en L ?L"
    using assms(1) by (simp add: goes_steady_def goes_def steady_def seat_core_def active_def)
  have "wp (await_dkg_started polls) (\<lambda>_. goes_steady en L) (\<lambda>_. goes_steady en L) ?L" for polls
    by (rule wp_mono [OF await_dkg_started_goes [OF goes_steadyD(1) [OF L]]]) (erule goes_steady_trans [OF L])+
  with L goes_steady_refl [OF assms(1)] show ?thesis
    by (cases "slot_client (sl_child L)"; cases "sc_send (sl_script L)")
      (simp_all add: send_run_dkg_def op_wp params)
qed

lemma run_validated_dkg_goes:
  assumes "seat_core en L" and "slot_is_live (sl_child L)" and "inputs_for en submitted L"
  shows "wp (run_validated_dkg en submitted own_code)
    (\<lambda>_ L'. goes en L L' \<and> slot_is_live (sl_child L')) (\<lambda>_ L'. goes en L L' \<and> supervised L') L"
proof (cases "ceremony_params en submitted own_code")
  case (Inl e)
  then show ?thesis
    using assms(2) goes_refl [OF assms(1)] by (simp add: run_validated_dkg_def op_wp supervised_def guarded_def)
next
  case (Inr params)
  have retire: "wp (retire_failed_ceremony en) (\<lambda>_ L2. goes en L L2 \<and> supervised L2)
      (\<lambda>_ L2. goes en L L2 \<and> supervised L2) L'" if "goes_steady en L L'" for L'
    by (rule wp_mono [OF retire_failed_ceremony_goes [OF goes_steadyD(1) [OF that]]])
      (auto dest: goes_trans [OF goes_steadyD(2) [OF that]])
  have live: "goes en L L' \<and> slot_is_live (sl_child L')" if "goes_steady en L L'" for L'
    using goes_steadyD(2,3) [OF that] assms(2) by (simp add: steady_def)
  show ?thesis
    by (simp add: run_validated_dkg_def op_wp Inr)
      (rule wp_mono [OF send_run_dkg_goes [OF assms(1) Inr assms(3)]]; simp add: op_wp retire live)
qed

text \<open>What a child that was just put into the slot leads to.\<close>

lemma validated_inputs:
  assumes "validate_dkg_codes en codes L = Inr (submitted, own_code)"
  shows "mset (map code_text (code_set_codes submitted)) = mset (map code_text codes)"
  using assms
  by (auto simp: validate_dkg_codes_def dkg_code_set_validate_Inr elim!: and_then_InrE split: sum.splits)

lemma stored_inputs:
  assumes "stored_dkg_inputs c i s = Inr (Some codes)"
  shows "Option.bind (map_of (dkg_inputs s) (seat_id_bytes i)) (codes_from_json c) = Some (map code_text codes)"
  using assms
  by (auto simp: stored_dkg_inputs_def Let_def comp_def transpose_result_Inr_Some elim!: and_then_InrE split: if_splits)

lemma handle_child_state_goes:
  assumes "seat_core en L" and "slot_is_live (sl_child L)"
  shows "wp (handle_child_state en state)
    (\<lambda>_ L'. goes en L L' \<and> slot_is_live (sl_child L')) (\<lambda>_. goes en L) L"
proof (cases state)
  case NeedsParams
  note refl = goes_refl [OF assms(1)]
  have params: "wp (bind_op (lift_op (validate_dkg_codes en codes)) (\<lambda>(submitted, own_code).
      run_validated_dkg en submitted own_code))
    (\<lambda>_ L'. goes en L L' \<and> slot_is_live (sl_child L')) (\<lambda>_. goes en L) (L\<lparr>sl_script := script\<rparr>)"
    if unformed: "rf_formed_invite (sl_state L) = None"
      and stored: "stored_dkg_inputs (se_codec en) (sf_seat_id (sl_facts L)) (sl_db L) = Inr (Some codes)"
    for codes script
  proof (cases "validate_dkg_codes en codes (L\<lparr>sl_script := script\<rparr>)")
    case (Inl e)
    with refl show ?thesis by (simp add: op_wp goes_def)
  next
    case (Inr validated)
    then obtain submitted own_code where valid:
      "validate_dkg_codes en codes (L\<lparr>sl_script := script\<rparr>) = Inr (submitted, own_code)" by (cases validated) simp
    have inputs: "inputs_for en submitted (L\<lparr>sl_script := script\<rparr>)"
      using unformed stored_inputs [OF stored] validated_inputs [OF valid] by (simp add: inputs_for_def)
    have "goes en L (L\<lparr>sl_script := script\<rparr>)" using refl by (simp add: goes_def)
    from goes_trans [OF this] show ?thesis
      by (simp add: op_wp valid)
        (rule wp_mono [OF run_validated_dkg_goes [OF _ _ inputs]]; simp add: assms)
  qed
  show ?thesis
  proof (cases "rf_formed_invite (sl_state L)")
    case None
    have stored: "wp (\<lambda>L. db_read (stored_dkg_inputs (se_codec en) (sf_seat_id (sl_facts L))) L)
        (\<lambda>stored. wp (case stored of None \<Rightarrow> return_op () | Some codes \<Rightarrow>
          bind_op (lift_op (validate_dkg_codes en codes)) (\<lambda>(submitted, own_code).
            run_validated_dkg en submitted own_code))
          (\<lambda>_ L'. goes en L L' \<and> slot_is_live (sl_child L')) (\<lambda>_. goes en L))
        (\<lambda>_. goes en L) (L\<lparr>sl_script := script\<rparr>)" for script
      using params [OF None] refl assms(2)
      by (simp add: wp_db_read wp_basic goes_def split: sum.split option.split)
    show ?thesis
      using refl assms(2) stored
      by (simp add: NeedsParams wp_bind wp_basic None)
        (intro wp_final_data_exists; simp add: wp_basic wp_bind goes_def)
  qed (use refl assms(2) in \<open>simp add: NeedsParams op_wp\<close>)
next
  case (AlreadyConfigured invite)
  have "goes en L L' \<and> slot_is_live (sl_child L')" if "goes_steady en L L'" for L'
    using goes_steadyD(2,3) [OF that] assms(2) by (simp add: steady_def)
  then show ?thesis
    unfolding AlreadyConfigured handle_child_state.simps
    by (intro wp_mono [OF handle_persisted_invite_goes [OF assms(1)]]) blast+
qed

section \<open>Spawning\<close>

lemma goes_script [simp]:
  "goes en L (L'\<lparr>sl_script := script\<rparr>) \<longleftrightarrow> goes en L L'"
  "goes en (L\<lparr>sl_script := script\<rparr>) L' \<longleftrightarrow> goes en L L'"
  by (simp_all add: goes_def fence_def)

lemma discard_child_goes:
  assumes "seat_core en L" and "vacant L"
  shows "wp discard_child (\<lambda>_ L'. goes en L L' \<and> \<not> slot_is_live (sl_child L')) E L"
proof -
  have "seat_core en (set_process_slot ExitUnproven (L\<lparr>sl_script := script\<rparr>))" for script
    by (rule set_process_slot_core) (use assms in \<open>simp_all add: vacant_def\<close>)
  then show ?thesis
    unfolding discard_child_def wp_bind
    by (intro wp_asks) (use assms in \<open>simp add: op_wp goes_def vacant_def\<close>)
qed

lemma adopt_child_goes:
  assumes "seat_core en L" and "vacant L" and "active L"
  shows "wp (adopt_child en state)
    (\<lambda>_ L'. goes en L L' \<and> slot_is_live (sl_child L')) (\<lambda>_ L'. goes en L L' \<and> \<not> slot_is_live (sl_child L')) L"
proof -
  define slot where "slot = (case state of NeedsParams \<Rightarrow> Parked state | AlreadyConfigured _ \<Rightarrow> Configured (Some state))"
  define L1 where "L1 = (set_process_slot slot L)\<lparr>sl_child_started := Some (time_now (set_process_slot slot L)), sl_unresponsive_since := None\<rparr>"
  have live: "slot_is_live (sl_child L1)" by (cases state) (simp_all add: L1_def slot_def)
  have "seat_core en (set_process_slot slot L)"
    by (rule set_process_slot_core [OF assms(1)]) (use assms in \<open>simp_all add: vacant_def\<close>)
  then have L1: "goes en L L1" by (simp add: goes_def L1_def)
  have stop: "wp stop_child (\<lambda>_ L2. goes en L L2 \<and> \<not> slot_is_live (sl_child L2))
      (\<lambda>_ L2. goes en L L2 \<and> \<not> slot_is_live (sl_child L2)) L'" if "goes en L1 L'" for L'
    by (rule wp_mono [OF stop_child_goes [OF goesD(1) [OF that]]])
      (auto simp: vacant_def dest: goes_trans [OF goes_trans [OF L1 that]])
  have "wp (handle_child_state en state) (\<lambda>_ L'. goes en L L' \<and> slot_is_live (sl_child L'))
      (\<lambda>e L'. wp (bind_op (if slot_is_live (sl_child L') then stop_child else return_op ()) (\<lambda>_. fail_op e))
        (\<lambda>_ L'. goes en L L' \<and> slot_is_live (sl_child L')) (\<lambda>_ L'. goes en L L' \<and> \<not> slot_is_live (sl_child L')) L') L1"
    by (rule wp_mono [OF handle_child_state_goes [OF goesD(1) [OF L1] live]])
      (simp_all add: op_wp stop goes_trans [OF L1])
  then show ?thesis by (simp add: adopt_child_def op_wp L1_def slot_def)
qed

lemma spawn_child_inner_goes:
  assumes "seat_core en L" and "vacant L" and "active L"
  shows "wp (spawn_child_inner en imported_invite)
    (\<lambda>_ L'. goes en L L' \<and> slot_is_live (sl_child L')) (\<lambda>_ L'. goes en L L' \<and> \<not> slot_is_live (sl_child L')) L"
proof -
  have hello: "wp (case hello of
       None \<Rightarrow> bind_op discard_child (\<lambda>_. fail_op (Internal ''driven client''))
     | Some state \<Rightarrow>
         if (case imported_invite of None \<Rightarrow> False | Some expected \<Rightarrow> state \<noteq> AlreadyConfigured expected)
         then bind_op discard_child (\<lambda>_. fail_op SeatUnavailable)
         else adopt_child en state)
    (\<lambda>_ L2. goes en L' L2 \<and> slot_is_live (sl_child L2)) (\<lambda>_ L2. goes en L' L2 \<and> \<not> slot_is_live (sl_child L2)) L'"
    if "seat_core en L'" "vacant L'" "active L'" for hello L'
    using discard_child_goes [OF that(1,2)] adopt_child_goes [OF that]
    by (cases hello) (simp_all add: op_wp)
  show ?thesis
    using assms hello [of "L\<lparr>sl_script := script\<rparr>" for script] goes_refl [OF assms(1)]
    by (simp add: spawn_child_inner_def op_wp vacant_def)
      (intro wp_asks, simp add: op_wp, intro conjI impI wp_asks, simp_all)
qed

lemma spawn_child_goes:
  assumes "seat_core en L" and "vacant L"
  shows "wp (spawn_child en)
    (\<lambda>_ L'. goes en L L' \<and> slot_is_live (sl_child L')) (\<lambda>_ L'. goes en L L' \<and> \<not> slot_is_live (sl_child L')) L"
  using spawn_child_inner_goes [OF assms] goes_refl [OF assms(1)] assms(2)
  by (cases "rf_decommissioned_at_ms (sl_state L)"; cases "transfer_status (sl_state L)")
    (simp_all add: spawn_child_def op_wp reject_decommissioned_def reject_transfer_work_def active_def vacant_def)

lemma spawn_or_schedule_goes:
  assumes "seat_core en L" and "vacant L"
  shows "wp (spawn_or_schedule en) (\<lambda>_ L'. goes en L L' \<and> supervised L') E L"
  unfolding spawn_or_schedule_def op_wp
proof (rule wp_mono [OF spawn_child_goes [OF assms]])
  fix e :: seat_verb_error and L'
  assume L': "goes en L L' \<and> \<not> slot_is_live (sl_child L')"
  then show "goes en L (schedule_respawn en L') \<and> supervised (schedule_respawn en L')"
    using schedule_respawn_goes [of en L'] goes_trans [of en L L'] goesD(1) [of en L L'] by simp
qed (simp add: supervised_def guarded_def)

end
