(* ===== verification/Seat_Loop_Steps.thy ===== *)
theory Seat_Loop_Steps
  imports Seat_Loop_Invariant
begin

text \<open>
  Every step of a seat runtime keeps the invariant, and an active seat stays supervised: it has
  a live child, a pending respawn, or a slot whose exit could not be proved. The locales
  \<open>invariant_system\<close> and \<open>monotone_system\<close> are interpreted on the runtime.
\<close>

section \<open>Rows of one seat\<close>

lemma mirrors_tables:
  assumes "mirrors en facts st s" and "wf (se_codec en) s'" and "seats s' = seats s"
    and "formed_seats s' = formed_seats s" and "decommissioned_seats s' = decommissioned_seats s"
    and "seat_transfer_in s' = seat_transfer_in s" and "seat_transfer_out s' = seat_transfer_out s"
  shows "mirrors en facts st s'"
  using assms db_transfer_phase_cong [of s' "sf_seat_id facts" s "se_codec en"]
  by (simp add: mirrors_def formed_federation_invite_def decommissioned_at_ms_def)

lemma install_callback_cases:
  assumes "tx_install_completion_callback c k callback now s = Inr s'"
  obtains t where "s' = s\<lparr>completion_callbacks := t\<rparr>"
proof -
  have "s' = s\<lparr>completion_callbacks := completion_callbacks s'\<rparr>"
    using assms by (auto simp: tx_install_completion_callback_def elim!: and_then_InrE split: if_splits)
  then show thesis by (rule that)
qed

lemma record_inputs_effect:
  assumes "record_dkg_inputs c i submitted callback now s = (r, s')"
  shows "seats s' = seats s" "formed_seats s' = formed_seats s" "decommissioned_seats s' = decommissioned_seats s"
    "seat_transfer_in s' = seat_transfer_in s" "seat_transfer_out s' = seat_transfer_out s"
    and "r = Inr x \<Longrightarrow> map_of (dkg_inputs s') (seat_id_bytes i) =
      Some (codes_to_json c (map code_text (code_set_codes submitted)))"
  using assms
  by (auto simp: record_dkg_inputs_def in_tx_def Let_def map_of_upsert_row
      elim!: and_then_InrE install_callback_cases split: if_splits sum.splits)

lemma decommission_effect:
  assumes "decommission_seat i t s = (Inr at_ms, s')"
  shows "seats s' = seats s" "formed_seats s' = formed_seats s"
    "seat_transfer_in s' = seat_transfer_in s" "seat_transfer_out s' = seat_transfer_out s"
    and "decommissioned_at_ms i s' = Some at_ms"
    and "decommissioned_at_ms i s = None"
  using assms
  by (auto simp: decommission_seat_def in_tx_def Let_def seat_insert_Inr decommissioned_at_ms_def tbl_exists_def
      map_add_new elim!: and_then_InrE split: sum.splits)

lemma decommission_refused: "decommission_seat i t s = (Inl e, s') \<Longrightarrow> s' = s"
  by (auto simp: decommission_seat_def in_tx_def Let_def split: sum.splits)

text \<open>The transfer phase after an admission, an acceptance, a retirement and a removal.\<close>

lemma incoming_saved:
  assumes "save_transfer c i record s = Inr s'" and "transfer_codec_ok c"
  shows "incoming c i s' = Inr (Some record)"
  using assms by (auto simp: incoming_def save_transfer_Inr map_of_upsert_row decode_saved_transfer)

lemma saved_tables:
  assumes "save_transfer c i record s = Inr s'"
  shows "seats s' = seats s" "formed_seats s' = formed_seats s" "decommissioned_seats s' = decommissioned_seats s"
    "seat_transfer_out s' = seat_transfer_out s"
  using assms by (simp_all add: save_transfer_Inr)

lemma incoming_other_table [simp]: "incoming c i (s\<lparr>completion_callbacks := t\<rparr>) = incoming c i s"
  "incoming c i (s\<lparr>formed_seats := u\<rparr>) = incoming c i s"
  by (simp_all add: incoming_def)

lemma not_retired_phase:
  assumes "\<not> is_retired i s" and "seat_transfer_out s' = seat_transfer_out s" and "incoming c i s' = Inr (Some record)"
  shows "db_transfer_phase c i s' = Inr (Some (incoming_phase (in_state record)))"
  using assms by (simp add: db_transfer_phase_def outgoing_def is_retired_def retired_def tbl_exists_def)

lemma admit_verified_effect:
  assumes "admit_verified_transfer cr c request grant callback now s = Inr (Some record, s')"
    and "gr_destination_seat_id grant = i" and "transfer_codec_ok c"
  shows "seats s' = seats s" "formed_seats s' = formed_seats s" "decommissioned_seats s' = decommissioned_seats s"
    and "seat_transfer_out s' = seat_transfer_out s" and "\<not> is_retired i s" and "incoming c i s' = Inr (Some record)"
  using assms
  by (auto simp: admit_verified_transfer_def Let_def saved_tables elim!: and_then_InrE install_callback_cases
      split: if_splits option.splits incoming_state.splits) (rule incoming_saved)

lemma admit_transfer_effect:
  assumes "admit_transfer cr v c request callback now s = (Inr (Some record), s')"
    and "signed_request_verify cr v request (word_of_int (now div 1000)) = Inr grant"
    and "gr_destination_seat_id grant = i" and "transfer_codec_ok c" and "mirrors en facts st s"
    and "se_codec en = c" and "sf_seat_id facts = i"
  shows "mirrors en facts (st\<lparr>rf_transfer_phase := Some (incoming_phase (in_state record))\<rparr>) s'"
proof -
  have admit: "admit_verified_transfer cr c request grant callback now s = Inr (Some record, s')"
    using assms(1,2) by (simp add: admit_transfer_def in_tx_def split: sum.splits prod.splits)
  note effect = admit_verified_effect [OF admit assms(3,4)]
  have "wf c s'" using admit_verified_transfer_wf [OF admit] assms(4,5,6) by (simp add: mirrors_def)
  then show ?thesis
    using assms(5-7) effect not_retired_phase [OF effect(5,4,6)]
    by (simp add: mirrors_def formed_federation_invite_def decommissioned_at_ms_def)
qed

lemma admit_transfer_refused:
  assumes "admit_transfer cr v c request callback now s = (r, s')" and "r = Inr None \<or> r = Inl e"
  shows "s' = s"
  using assms
  by (auto simp: admit_transfer_def in_tx_def admit_verified_transfer_def Let_def elim!: and_then_InrE
      split: sum.splits if_splits option.splits incoming_state.splits)

lemma accept_transfer_effect:
  assumes "accept_transfer (se_codec en) (sf_seat_id facts) binding keys invite now s = (r, s')"
    and "transfer_codec_ok (se_codec en)" and "mirrors en facts st s"
  shows "r = Inr True \<Longrightarrow> mirrors en facts (st\<lparr>rf_formed_invite := Some invite, rf_transfer_phase := Some PhaseImported\<rparr>) s'"
    and "r \<noteq> Inr True \<Longrightarrow> s' = s"
proof -
  have wf: "wf (se_codec en) s'"
    using accept_transfer_wf [OF _ assms(2), of s "sf_seat_id facts" binding keys invite now] assms(1,3)
    by (simp add: mirrors_def)
  show "s' = s" if "r \<noteq> Inr True"
    using assms(1) that
    by (auto simp: accept_transfer_def in_tx_def Let_def elim!: and_then_InrE
        split: sum.splits if_splits option.splits incoming_state.splits)
  assume r: "r = Inr True"
  then obtain entry s1 t where "\<not> is_retired (sf_seat_id facts) s"
    and s1: "save_transfer (se_codec en) (sf_seat_id facts) (entry\<lparr>in_state := Imported keys\<rparr>) s = Inr s1"
    and t: "seat_insert ''formed_seats'' (seat_id_bytes (sf_seat_id facts))
        \<lparr>fr_federation_invite = invite, fr_formed_at_ms = now\<rparr> s1 (formed_seats s1) = Inr t"
    and s': "s' = s1\<lparr>formed_seats := t\<rparr>"
    using assms(1)
    by (auto simp: accept_transfer_def in_tx_def Let_def elim!: and_then_InrE
        split: sum.splits if_splits option.splits incoming_state.splits)
  have "db_transfer_phase (se_codec en) (sf_seat_id facts) s' = Inr (Some PhaseImported)"
    using not_retired_phase [of "sf_seat_id facts" s s' "se_codec en" "entry\<lparr>in_state := Imported keys\<rparr>"]
      incoming_saved [OF s1 assms(2)] saved_tables [OF s1] \<open>\<not> is_retired (sf_seat_id facts) s\<close> s' by simp
  then show "mirrors en facts (st\<lparr>rf_formed_invite := Some invite, rf_transfer_phase := Some PhaseImported\<rparr>) s'"
    using assms(3) wf saved_tables [OF s1] t s'
    by (auto simp: mirrors_def formed_federation_invite_def decommissioned_at_ms_def seat_insert_Inr map_add_new)
qed

lemma retire_effect:
  assumes "retire_for_transfer (sf_seat_id facts) s = (r, s')" and "mirrors en facts st s"
  shows "r = Inr True \<Longrightarrow> mirrors en facts (st\<lparr>rf_transfer_phase := Some (PhaseOutgoing Stopped)\<rparr>) s'"
    and "r \<noteq> Inr True \<Longrightarrow> s' = s" and "r = Inr True \<Longrightarrow> outgoing (sf_seat_id facts) s = Inr None"
proof -
  have wf: "wf (se_codec en) s'"
    using retire_for_transfer_wf [of "se_codec en" s "sf_seat_id facts"] assms by (simp add: mirrors_def)
  show "s' = s" if "r \<noteq> Inr True"
    using assms(1) that by (auto simp: retire_for_transfer_def Let_def split: if_splits)
  show "outgoing (sf_seat_id facts) s = Inr None" if "r = Inr True"
    using assms(1) that by (auto simp: retire_for_transfer_def Let_def outgoing_def tbl_exists_def split: if_splits)
  assume "r = Inr True"
  with assms(1) have s': "s' = s\<lparr>seat_transfer_out := seat_transfer_out s @ [(seat_id_bytes (sf_seat_id facts), ''stopped'')]\<rparr>"
    and "\<not> tbl_exists (seat_transfer_out s) (seat_id_bytes (sf_seat_id facts))"
    by (auto simp: retire_for_transfer_def Let_def split: if_splits)
  then have "db_transfer_phase (se_codec en) (sf_seat_id facts) s' = Inr (Some (PhaseOutgoing Stopped))"
    by (simp add: db_transfer_phase_def outgoing_def map_add_new outgoing_from_db_str_def)
  then show "mirrors en facts (st\<lparr>rf_transfer_phase := Some (PhaseOutgoing Stopped)\<rparr>) s'"
    using assms(2) wf s' by (simp add: mirrors_def formed_federation_invite_def decommissioned_at_ms_def)
qed

lemma removal_effect:
  assumes "record_transfer_removal (sf_seat_id facts) s = (r, s')" and "mirrors en facts st s"
  shows "r = Inr True \<Longrightarrow> mirrors en facts (st\<lparr>rf_transfer_phase := Some (PhaseOutgoing Removed)\<rparr>) s'"
    and "r \<noteq> Inr True \<Longrightarrow> mirrors en facts st s'"
proof -
  let ?k = "seat_id_bytes (sf_seat_id facts)" and ?out = "seat_transfer_out s"
  have wf: "wf (se_codec en) s'"
    using record_transfer_removal_wf [of "se_codec en" s "sf_seat_id facts"] assms by (simp add: mirrors_def)
  have "keyed ?out" using assms(2) wfD(10) [of "se_codec en" s] by (simp add: mirrors_def child_ok_def)
  then have r: "r = Inr (map_of ?out ?k = Some ''stopped'')"
    using assms(1) by (auto simp: record_transfer_removal_def Let_def matching_key split: option.splits if_splits)
  have out: "map_of (seat_transfer_out s') ?k =
      map_option (\<lambda>phase. if phase = ''stopped'' then ''removed'' else phase) (map_of ?out ?k)"
    and same: "seats s' = seats s" "formed_seats s' = formed_seats s" "decommissioned_seats s' = decommissioned_seats s"
      "dkg_inputs s' = dkg_inputs s"
    using assms(1) by (auto simp: record_transfer_removal_def Let_def map_of_update_where)
  show "mirrors en facts (st\<lparr>rf_transfer_phase := Some (PhaseOutgoing Removed)\<rparr>) s'" if "r = Inr True"
    using that assms(2) wf out same r
    by (simp add: mirrors_def formed_federation_invite_def decommissioned_at_ms_def db_transfer_phase_def outgoing_def
        outgoing_from_db_str_def)
  show "mirrors en facts st s'" if "r \<noteq> Inr True"
  proof (rule mirrors_rows [OF assms(2) wf])
    have "seat_transfer_in s' = seat_transfer_in s"
      using that assms(1) by (auto simp: record_transfer_removal_def Let_def split: if_splits)
    then show "seat_rows ?k s' = seat_rows ?k s"
      using that r out same by (cases "map_of ?out ?k") (auto simp: seat_rows_def)
  qed
qed

section \<open>Operations\<close>

text \<open>A decommission and a departure are for good; a removal follows a stop.\<close>

definition latched :: "seat_runtime_facts \<Rightarrow> seat_runtime_facts \<Rightarrow> bool" where
  "latched st st' \<longleftrightarrow>
     (\<forall>t. rf_decommissioned_at_ms st = Some t \<longrightarrow> rf_decommissioned_at_ms st' = Some t) \<and>
     (\<forall>out. rf_transfer_phase st = Some (PhaseOutgoing out) \<longrightarrow>
        rf_transfer_phase st' = Some (PhaseOutgoing out) \<or> rf_transfer_phase st' = Some (PhaseOutgoing Removed))"

lemma latched_refl [simp]: "latched st st"
  by (simp add: latched_def)

lemma latched_trans: "latched st st1 \<Longrightarrow> latched st1 st2 \<Longrightarrow> latched st st2"
  by (auto simp: latched_def)

lemma fence_latched: "fence L L' \<Longrightarrow> latched (sl_state L) (sl_state L')"
  by (simp add: fence_def latched_def)

definition moves :: "seat_env \<Rightarrow> seat_loop \<Rightarrow> seat_loop \<Rightarrow> bool" where
  "moves en L L' \<longleftrightarrow>
     seat_core en L' \<and> sl_facts L' = sl_facts L \<and> sl_open L' = sl_open L \<and> latched (sl_state L) (sl_state L') \<and>
     (supervised L \<longrightarrow> supervised L')"

lemma movesI: "goes en L L' \<Longrightarrow> supervised L' \<Longrightarrow> moves en L L'"
  using fence_latched [of L L'] by (simp add: moves_def goes_def fence_def)

lemma steady_moves: "goes_steady en L L' \<Longrightarrow> moves en L L'"
  using goes_steadyD [of en L L'] fence_latched [of L L'] by (simp add: moves_def goes_def fence_def)

lemma moves_trans: "moves en L L1 \<Longrightarrow> moves en L1 L2 \<Longrightarrow> moves en L L2"
  using latched_trans [of "sl_state L" "sl_state L1" "sl_state L2"] by (simp add: moves_def)

lemma moves_refl: "seat_core en L \<Longrightarrow> moves en L L"
  by (simp add: moves_def)

lemma live_supervised: "slot_is_live (sl_child L) \<Longrightarrow> supervised L"
  by (simp add: supervised_def guarded_def)

lemma unproven_supervised: "sl_child L = ExitUnproven \<Longrightarrow> supervised L"
  by (simp add: supervised_def guarded_def)

lemma inactive_supervised: "\<not> active L \<Longrightarrow> supervised L"
  by (simp add: supervised_def)

lemma retire_moves:
  assumes "seat_core en L"
  shows "wp (catch_op (retire_failed_ceremony en) (\<lambda>_. return_op ())) (\<lambda>_. moves en L) (\<lambda>_. moves en L) L"
  unfolding op_wp by (rule wp_mono [OF retire_failed_ceremony_goes [OF assms]]) (simp_all add: movesI)

lemma reset_backoff_steady:
  assumes "seat_env_ok en" and "seat_core en L"
  shows "goes_steady en L (reset_backoff en L)"
  using assms
  by (simp add: goes_steady_def goes_def steady_def reset_backoff_def seat_core_def seat_env_ok_def
      active_def split: option.split)

lemma restart_if_unresponsive_moves:
  assumes "seat_env_ok en" and "seat_core en L"
  shows "wp (restart_if_unresponsive en) (\<lambda>_. moves en L) (\<lambda>_. moves en L) L"
proof -
  define L1 where "L1 = L\<lparr>sl_unresponsive_since := Some (case sl_unresponsive_since L of Some t \<Rightarrow> t | None \<Rightarrow> time_now L)\<rparr>"
  have L1: "goes_steady en L L1" using goes_steady_refl [OF assms(2)] by (simp add: L1_def)
  note L2 = goes_steady_trans [OF L1 reset_backoff_steady [OF assms(1) goes_steadyD(1) [OF L1]]]
  have "wp (catch_op (retire_failed_ceremony en) (\<lambda>_. return_op ())) (\<lambda>_. moves en L) (\<lambda>_. moves en L) (reset_backoff en L1)"
    by (rule wp_mono [OF retire_moves [OF goes_steadyD(1) [OF L2]]]) (erule moves_trans [OF steady_moves [OF L2]])+
  with steady_moves [OF L1] show ?thesis
    by (simp add: restart_if_unresponsive_def op_wp L1_def)
qed

lemma health_steady:
  assumes "seat_core en L"
  shows "goes_steady en L (set_watchdog_health healthy L)" and "goes_steady en L (deschedule_watchdog L)"
  using assms
  by (simp_all add: goes_steady_def goes_def steady_def fence_def set_watchdog_health_def deschedule_watchdog_def
      map_state_def seat_core_def active_def transfer_status_def)

lemma watchdog_tick_moves:
  assumes "seat_env_ok en" and "seat_core en L"
  shows "wp (watchdog_tick en) (\<lambda>_. moves en L) (\<lambda>_. moves en L) L"
proof -
  have off: "moves en L (deschedule_watchdog (L\<lparr>sl_script := script\<rparr>))" for script
    using health_steady(2) [of en "L\<lparr>sl_script := script\<rparr>"] assms(2)
    by (intro steady_moves [OF goes_steady_trans [of en L "L\<lparr>sl_script := script\<rparr>"]]) (simp_all add: goes_steady_refl)
  have health: "goes_steady en L ((set_watchdog_health healthy (L\<lparr>sl_script := script\<rparr>))\<lparr>sl_watchdog_at := t\<rparr>)"
    for healthy script t
    using health_steady(1) [of en "L\<lparr>sl_script := script\<rparr>" healthy] assms(2)
      goes_steady_trans [of en L "L\<lparr>sl_script := script\<rparr>"] by (simp add: goes_steady_refl)
  have health_seen: "moves en L ((set_watchdog_health healthy (L\<lparr>sl_script := script\<rparr>))
      \<lparr>sl_watchdog_at := t, sl_unresponsive_since := None\<rparr>)" for healthy script t
    using health [where healthy = healthy and script = script and t = t] by (intro steady_moves) simp
  have "wp (restart_if_unresponsive en) (\<lambda>_. moves en L) (\<lambda>_. moves en L)
      ((set_watchdog_health healthy (L\<lparr>sl_script := script\<rparr>))\<lparr>sl_watchdog_at := t\<rparr>)" for healthy script t
    by (rule wp_mono [OF restart_if_unresponsive_moves [OF assms(1) goes_steadyD(1) [OF health]]])
      (erule moves_trans [OF steady_moves [OF health]])+
  then show ?thesis
    unfolding watchdog_tick_def op_wp
    by (intro wp_watchdog_eligible) (simp_all add: op_wp off steady_moves health health_seen)
qed

text \<open>Sequencing of moves.\<close>

lemma moves_after:
  assumes "moves en L L1" and "wp m (\<lambda>_. moves en L1) (\<lambda>_. moves en L1) L1"
  shows "wp m (\<lambda>_. moves en L) (\<lambda>_. moves en L) L1"
  by (rule wp_mono [OF assms(2)]) (erule moves_trans [OF assms(1)])+

lemma stop_moves:
  assumes "seat_core en L"
  shows "wp stop_child (\<lambda>_ L'. goes en L L' \<and> vacant L') (\<lambda>_. moves en L) L"
  by (rule wp_mono [OF stop_child_goes [OF assms]]) (simp_all add: movesI unproven_supervised)

section \<open>Ceremony verbs\<close>

lemma check_unformed_steady:
  assumes "seat_core en L"
  shows "wp check_unformed (\<lambda>_ L'. goes_steady en L L' \<and> sl_child L' = sl_child L \<and> rf_formed_invite (sl_state L') = None)
    (\<lambda>_. goes_steady en L) L"
  unfolding check_unformed_def wp_bind
  by (intro wp_final_data_exists)
    (simp_all add: op_wp goes_steady_refl [OF assms] split: sum.split)

lemma dkg_code_steady:
  assumes "seat_core en L"
  shows "wp (dkg_code en name) (\<lambda>_. goes_steady en L) (\<lambda>_. goes_steady en L) L"
  unfolding dkg_code_def wp_bind
  by (intro wp_final_data_exists)
    (simp_all add: op_wp goes_steady_refl [OF assms] split: sum.split)

lemma client_reads_steady:
  assumes "seat_core en L"
  shows "wp invite_code (\<lambda>_. goes_steady en L) (\<lambda>_. goes_steady en L) L"
    and "wp running_client (\<lambda>_. goes_steady en L) (\<lambda>_. goes_steady en L) L"
  by (simp_all add: invite_code_def running_client_def op_wp goes_steady_refl [OF assms] split: sum.split)

lemma record_inputs_steady:
  assumes "seat_env_ok en" and "seat_core en L"
  shows "wp (record_inputs en submitted callback)
    (\<lambda>_ L'. goes_steady en L L' \<and> sl_child L' = sl_child L \<and>
      (rf_formed_invite (sl_state L) = None \<longrightarrow> inputs_for en submitted L'))
    (\<lambda>_. goes_steady en L) L"
proof (cases "record_dkg_inputs (se_codec en) (sf_seat_id (sl_facts L)) submitted callback (time_ms L) (sl_db L)")
  case (Pair r s')
  note effect = record_inputs_effect [OF Pair]
  have codec: "codec_ok (se_codec en)" using assms(1) by (simp add: seat_env_ok_def transfer_codec_ok_def)
  have mirrors: "mirrors en (sl_facts L) (sl_state L) (sl_db L)" using assms(2) by (simp add: seat_core_def)
  have "wf (se_codec en) s'"
    using record_dkg_inputs_wf [OF _ codec, of "sl_db L" "sf_seat_id (sl_facts L)" submitted callback "time_ms L"] mirrors Pair
    by (simp add: mirrors_def)
  with mirrors effect have "mirrors en (sl_facts L) (sl_state L) s'" by (intro mirrors_tables [OF mirrors])
  then have L: "goes_steady en L (L\<lparr>sl_db := s'\<rparr>)"
    using assms(2) by (simp add: goes_steady_def goes_def steady_def seat_core_def)
  have "inputs_for en submitted (L\<lparr>sl_db := s'\<rparr>)" if "r = Inr x" and "rf_formed_invite (sl_state L) = None" for x
    using effect(6) [OF that(1)] that(2) by (simp add: inputs_for_def codec_okD(5) [OF codec])
  with L show ?thesis by (cases r) (simp_all add: wp_def record_inputs_def db_op_def Pair)
qed

lemma client_live: "slot_client slot = Some client \<Longrightarrow> slot_is_live slot"
  by (cases slot) simp_all

lemma start_dkg_moves:
  assumes "seat_env_ok en" and "seat_core en L"
  shows "wp (start_dkg en codes callback) (\<lambda>_. moves en L) (\<lambda>_. moves en L) L"
proof -
  have run: "wp (run_validated_dkg en submitted own_code) (\<lambda>_. moves en L) (\<lambda>_. moves en L) (L2\<lparr>sl_hooks_marked := True\<rparr>)"
    if L2: "goes_steady en L L2" and live: "slot_is_live (sl_child L2)" and inputs: "inputs_for en submitted L2"
    for L2 submitted own_code
  proof (rule moves_after [OF steady_moves])
    show "goes_steady en L (L2\<lparr>sl_hooks_marked := True\<rparr>)" using L2 by simp
    show "wp (run_validated_dkg en submitted own_code) (\<lambda>_. moves en (L2\<lparr>sl_hooks_marked := True\<rparr>))
        (\<lambda>_. moves en (L2\<lparr>sl_hooks_marked := True\<rparr>)) (L2\<lparr>sl_hooks_marked := True\<rparr>)"
      by (rule wp_mono [OF run_validated_dkg_goes])
        (use goes_steadyD(1) [OF L2] live inputs in \<open>simp_all add: inputs_for_def movesI live_supervised\<close>)
  qed
  have inputs: "wp (record_inputs en submitted callback)
      (\<lambda>_ L2. wp (run_validated_dkg en submitted own_code) (\<lambda>_. moves en L) (\<lambda>_. moves en L) (L2\<lparr>sl_hooks_marked := True\<rparr>))
      (\<lambda>_. moves en L) L1"
    if L1: "goes_steady en L L1" and live: "slot_client (sl_child L1) = Some NeedsParams"
      and unformed: "rf_formed_invite (sl_state L1) = None" for L1 submitted own_code
    by (rule wp_mono [OF record_inputs_steady [OF assms(1) goes_steadyD(1) [OF L1]]])
      (use goes_steady_trans [OF L1] client_live [OF live] unformed in \<open>simp_all add: run steady_moves\<close>)
  show ?thesis
    unfolding start_dkg_def wp_bind
    by (rule wp_mono [OF check_unformed_steady [OF assms(2)]])
      (auto simp: op_wp steady_moves inputs split: sum.split)
qed

lemma restart_dkg_moves:
  assumes "seat_env_ok en" and "seat_core en L"
  shows "wp (restart_dkg en codes) (\<lambda>_. moves en L) (\<lambda>_. moves en L) L"
proof -
  have spawn: "wp (spawn_child en) (\<lambda>_. moves en L) (\<lambda>_ L4. moves en L (schedule_respawn en L4)) L3"
    if L3: "goes en L2 L3" "vacant L3" and L2: "goes_steady en L L2" for L2 L3
  proof (rule wp_mono [OF spawn_child_goes [OF goesD(1) [OF L3(1)] L3(2)]])
    have L: "goes en L L3" by (rule goes_trans [OF goes_steadyD(2) [OF L2] L3(1)])
    show "moves en L L4" if "goes en L3 L4 \<and> slot_is_live (sl_child L4)" for L4
      using goes_trans [OF L] that by (simp add: movesI live_supervised)
    show "moves en L (schedule_respawn en L4)" if "goes en L3 L4 \<and> \<not> slot_is_live (sl_child L4)" for L4
      using schedule_respawn_goes [of en L4] goes_trans [OF L] goes_trans [of en L L4] goesD(1) [of en L3 L4] that
      by (simp add: movesI)
  qed
  have stop: "wp stop_child (\<lambda>_. wp (spawn_child en) (\<lambda>_. moves en L) (\<lambda>_ L4. moves en L (schedule_respawn en L4)))
      (\<lambda>_. moves en L) L2" if L2: "goes_steady en L L2" for L2
    by (rule wp_mono [OF stop_moves [OF goes_steadyD(1) [OF L2]]])
      (simp_all add: spawn [OF _ _ L2] moves_trans [OF steady_moves [OF L2]])
  have inputs: "wp (record_inputs en submitted None)
      (\<lambda>_. wp stop_child (\<lambda>_. wp (spawn_child en) (\<lambda>_. moves en L) (\<lambda>_ L4. moves en L (schedule_respawn en L4)))
        (\<lambda>_. moves en L)) (\<lambda>_. moves en L) L1" if L1: "goes_steady en L L1" for L1 submitted
    by (rule wp_mono [OF record_inputs_steady [OF assms(1) goes_steadyD(1) [OF L1]]])
      (use goes_steady_trans [OF L1] in \<open>simp_all add: stop steady_moves\<close>)
  show ?thesis
    unfolding restart_dkg_def wp_bind
    by (rule wp_mono [OF check_unformed_steady [OF assms(2)]])
      (auto simp: op_wp steady_moves inputs cong: if_cong split: sum.split split del: if_split)
qed

lemma decommission_moves:
  assumes "seat_core en L"
  shows "wp decommission (\<lambda>_. moves en L) (\<lambda>_. moves en L) L"
proof (cases "decommission_seat (sf_seat_id (sl_facts L)) (time_ms L) (sl_db L)")
  case (Pair r s')
  have mirrors: "mirrors en (sl_facts L) (sl_state L) (sl_db L)" using assms by (simp add: seat_core_def)
  show ?thesis
  proof (cases r)
    case (Inl e)
    with decommission_refused [of _ _ _ e s'] Pair have "s' = sl_db L" by simp
    with Inl Pair show ?thesis by (simp add: decommission_def op_wp moves_refl [OF assms])
  next
    case (Inr at_ms)
    note effect = decommission_effect [OF Pair [unfolded Inr]]
    let ?L = "map_state (\<lambda>st. st\<lparr>rf_decommissioned_at_ms := Some at_ms\<rparr>) (L\<lparr>sl_db := s', sl_hooks_marked := True\<rparr>)"
    have "wf (se_codec en) s'"
      using decommission_seat_wf [of "se_codec en" "sl_db L" "sf_seat_id (sl_facts L)" "time_ms L"] mirrors Pair
      by (simp add: mirrors_def)
    then have "mirrors en (sl_facts L) ((sl_state L)\<lparr>rf_decommissioned_at_ms := Some at_ms\<rparr>) s'"
      using mirrors effect db_transfer_phase_cong [of s' "sf_seat_id (sl_facts L)" "sl_db L" "se_codec en"]
      by (simp add: mirrors_def formed_federation_invite_def)
    then have core: "seat_core en (set_process_slot SlotEmpty (?L\<lparr>sl_respawn_at := None\<rparr>))"
      using assms by (simp add: seat_core_def set_process_slot_def map_state_def)
    have moves: "moves en L L'" if "goes en ?L L'" for L'
      using that effect(6) mirrors
      by (simp add: goes_def moves_def fence_def map_state_def supervised_def active_def latched_def mirrors_def)
    have "wp stop_child (\<lambda>_. moves en L) (\<lambda>_. moves en L) ?L"
      by (rule wp_mono [OF stop_child_core [OF core]]) (simp_all add: moves)
    with Inr Pair show ?thesis by (simp add: decommission_def op_wp)
  qed
qed

section \<open>Transfer verbs\<close>

lemma read_material_steady:
  assumes "\<And>material script. Q material (L\<lparr>sl_script := script\<rparr>)" and "\<And>e script. E e (L\<lparr>sl_script := script\<rparr>)"
  shows "wp (read_material en) Q E L"
  unfolding read_material_def wp_bind
  by (intro wp_asks) (simp add: op_wp assms split: data_dir.split option.split)

lemma transfer_out_steady:
  assumes "seat_core en L"
  shows "wp (transfer_out en request service_pubkey) (\<lambda>_. goes_steady en L) (\<lambda>_. goes_steady en L) L"
proof -
  note refl = goes_steady_refl [OF assms]
  have ready: "wp (read_material en) (\<lambda>material. wp (bind_op (lift_op (check_source_grant en request service_pubkey)) (\<lambda>_.
      bind_op (modify_op (\<lambda>L. L\<lparr>sl_exported := sl_exported L @ [material]\<rparr>)) (\<lambda>_. return_op material)))
      (\<lambda>_. goes_steady en L) (\<lambda>_. goes_steady en L)) (\<lambda>_. goes_steady en L) L"
    by (rule read_material_steady) (simp_all add: op_wp refl split: sum.split)
  have unready: "wp (read_material en) (\<lambda>_. goes_steady en L) (\<lambda>_. goes_steady en L) L"
    by (rule read_material_steady) (simp_all add: refl)
  show ?thesis
    using ready unready refl
    by (simp add: transfer_out_def op_wp split: sum.split option.split outgoing_transfer.split)
qed

lemma mirror_transfer_fields [simp]:
  "sl_facts (mirror_transfer phase L) = sl_facts L" "sl_open (mirror_transfer phase L) = sl_open L"
  "sl_child (mirror_transfer phase L) = sl_child L" "sl_respawn_at (mirror_transfer phase L) = sl_respawn_at L"
  "sl_state (mirror_transfer phase L) = (sl_state L)\<lparr>rf_transfer_phase := Some phase\<rparr>"
  by (simp_all add: mirror_transfer_def map_state_def)

text \<open>A slot without a live child follows the database to any phase.\<close>

lemma mirror_transfer_core:
  assumes "seat_core en L" and "mirrors en (sl_facts L) ((sl_state L)\<lparr>rf_transfer_phase := Some phase\<rparr>) s"
    and "slot_is_live (sl_child L) \<Longrightarrow> active (mirror_transfer phase L)"
  shows "seat_core en (mirror_transfer phase (L\<lparr>sl_db := s\<rparr>))"
  using assms by (simp add: seat_core_def mirror_transfer_def map_state_def active_def transfer_status_def)

lemma db_core:
  assumes "seat_core en L" and "mirrors en (sl_facts L) (sl_state L) s"
  shows "goes_steady en L (L\<lparr>sl_db := s\<rparr>)"
  using assms by (simp add: goes_steady_def goes_def steady_def seat_core_def)

lemma outgoing_inactive: "rf_transfer_phase (sl_state L) = Some (PhaseOutgoing out) \<Longrightarrow> \<not> active L"
  "rf_transfer_phase (sl_state L) = Some PhaseWaiting \<Longrightarrow> \<not> active L"
  by (cases out) (simp_all add: active_def transfer_status_def)

lemma incoming_phase_in: "incoming_phase state \<noteq> PhaseOutgoing out"
  by (cases state) simp_all

lemma commit_boundary_exit:
  assumes "seat_core en L" and "\<not> slot_is_live (sl_child L)"
  shows "wp (commit_session_boundary_exit exit_code)
    (\<lambda>committed L'. seat_core en L' \<and> sl_facts L' = sl_facts L \<and> sl_open L' = sl_open L \<and>
      latched (sl_state L) (sl_state L') \<and> (if committed then \<not> active L' else goes_steady en L L')) E L"
proof (cases "retire_for_transfer (sf_seat_id (sl_facts L)) (sl_db L)")
  case (Pair r s')
  have mirrors: "mirrors en (sl_facts L) (sl_state L) (sl_db L)" using assms(1) by (simp add: seat_core_def)
  note effect = retire_effect [OF Pair mirrors]
  have kept: "L\<lparr>sl_db := s'\<rparr> = L" if "r \<noteq> Inr True" using effect(2) [OF that] by simp
  have core: "seat_core en (mirror_transfer (PhaseOutgoing Stopped) (L\<lparr>sl_db := s'\<rparr>))" if "r = Inr True"
    using mirror_transfer_core [OF assms(1) effect(1) [OF that]] assms(2) by simp
  have inactive: "\<not> active (mirror_transfer (PhaseOutgoing Stopped) (L\<lparr>sl_db := s'\<rparr>))"
    by (simp add: outgoing_inactive)
  have latched: "latched (sl_state L) ((sl_state L)\<lparr>rf_transfer_phase := Some (PhaseOutgoing Stopped)\<rparr>)" if "r = Inr True"
    using mirrors effect(3) [OF that] incoming_phase_in
    by (auto simp: latched_def mirrors_def db_transfer_phase_def elim!: and_then_InrE)
  show ?thesis
    using kept core inactive latched assms(1) goes_steady_refl [OF assms(1)]
    by (cases r) (simp_all add: commit_session_boundary_exit_def op_wp Pair)
qed

lemma remove_transferred_moves:
  assumes "seat_core en L"
  shows "wp remove_transferred (\<lambda>_. moves en L) (\<lambda>_. moves en L) L"
proof -
  have refl: "moves en L (L\<lparr>sl_script := script\<rparr>)" "moves en L (L\<lparr>sl_data := dir, sl_script := script\<rparr>)" for script dir
    by (simp_all add: steady_moves goes_steady_refl [OF assms])
  have removal: "wp (\<lambda>L. db_op (record_transfer_removal (sf_seat_id (sl_facts L))) L)
      (\<lambda>recorded. wp (if \<not> recorded then fail_op SeatUnavailable
        else bind_op (modify_op (mirror_transfer (PhaseOutgoing Removed))) (\<lambda>_. return_op False))
        (\<lambda>_. moves en L) (\<lambda>_. moves en L)) (\<lambda>_. moves en L) L1"
    if L1: "goes_steady en L L1" and stopped: "rf_transfer_phase (sl_state L1) = Some (PhaseOutgoing Stopped)" for L1
  proof (cases "record_transfer_removal (sf_seat_id (sl_facts L1)) (sl_db L1)")
    case (Pair r s')
    have core: "seat_core en L1" by (rule goes_steadyD(1) [OF L1])
    then have "mirrors en (sl_facts L1) (sl_state L1) (sl_db L1)" by (simp add: seat_core_def)
    note effect = removal_effect [OF Pair this]
    have idle: "\<not> slot_is_live (sl_child L1)" using outgoing_inactive(1) [OF stopped] core by (simp add: seat_core_def)
    have kept: "moves en L (L1\<lparr>sl_db := s'\<rparr>)" if "r \<noteq> Inr True"
      by (rule moves_trans [OF steady_moves [OF L1] steady_moves [OF db_core [OF core effect(2) [OF that]]]])
    have "moves en L1 (mirror_transfer (PhaseOutgoing Removed) (L1\<lparr>sl_db := s'\<rparr>))" if "r = Inr True"
      using mirror_transfer_core [OF core effect(1) [OF that]] idle
      by (simp add: moves_def inactive_supervised outgoing_inactive latched_def stopped)
    with moves_trans [OF steady_moves [OF L1]] kept show ?thesis by (cases r) (simp_all add: op_wp Pair)
  qed
  show ?thesis
  proof (cases "rf_transfer_phase (sl_state L) = Some (PhaseOutgoing Stopped)")
    case True
    show ?thesis
      unfolding remove_transferred_def
      by (simp add: wp_bind wp_basic wp_if True moves_refl [OF assms] split: sum.split)
        (auto simp: wp_bind wp_basic refl removal True goes_steady_refl [OF assms]
          intro!: wp_asks)
  next
    case False
    then show ?thesis
      by (simp add: remove_transferred_def op_wp moves_refl [OF assms] split: sum.split)
  qed
qed

text \<open>A repeated admission of an imported guardian finds the phase already imported.\<close>

lemma admit_imported:
  assumes "admit_transfer cr v c request callback now s = (Inr (Some entry), s')" and "in_state entry = Imported keys"
    and "signed_request_verify cr v request (word_of_int (now div 1000)) = Inr grant"
  shows "db_transfer_phase c (gr_destination_seat_id grant) s = Inr (Some PhaseImported)"
proof -
  have "\<not> is_retired (gr_destination_seat_id grant) s \<and> incoming c (gr_destination_seat_id grant) s = Inr (Some entry)"
    using assms
    by (auto simp: admit_transfer_def in_tx_def admit_verified_transfer_def Let_def elim!: and_then_InrE
        split: sum.splits if_splits option.splits incoming_state.splits)
  with assms(2) not_retired_phase [of "gr_destination_seat_id grant" s s c entry] show ?thesis by simp
qed

lemma import_allowed:
  assumes "check_import_allowed L = Inr ()"
  shows "rf_decommissioned_at_ms (sl_state L) = None" and "rf_transfer_phase (sl_state L) \<noteq> Some (PhaseOutgoing out)"
  using assms
  by (auto simp: check_import_allowed_def reject_decommissioned_def elim!: and_then_InrE split: if_splits)

lemma admitted_phase_moves:
  assumes "seat_core en L" and "rf_decommissioned_at_ms (sl_state L) = None"
    and "mirrors en (sl_facts L) ((sl_state L)\<lparr>rf_transfer_phase := Some (incoming_phase state)\<rparr>) s"
    and "\<And>keys. state = Imported keys \<Longrightarrow> rf_transfer_phase (sl_state L) = Some PhaseImported"
    and "\<And>out. rf_transfer_phase (sl_state L) \<noteq> Some (PhaseOutgoing out)"
  shows "wp (case state of Imported _ \<Rightarrow> return_op () | Waiting _ \<Rightarrow> stop_child) (\<lambda>_. moves en L) (\<lambda>_. moves en L)
    (mirror_transfer (incoming_phase state) (L\<lparr>sl_db := s\<rparr>))"
proof (cases state)
  case (Imported keys)
  have "active (mirror_transfer PhaseImported L)" using assms(2) by (simp add: active_def transfer_status_def)
  with mirror_transfer_core [OF assms(1,3)] assms(4) [OF Imported] have "moves en L (mirror_transfer PhaseImported (L\<lparr>sl_db := s\<rparr>))"
    by (simp add: Imported moves_def supervised_def guarded_def active_def transfer_status_def latched_def)
  then show ?thesis by (simp add: Imported wp_basic)
next
  case (Waiting request)
  let ?L = "mirror_transfer PhaseWaiting (L\<lparr>sl_db := s\<rparr>)"
  have core: "seat_core en (set_process_slot SlotEmpty (?L\<lparr>sl_respawn_at := None\<rparr>))"
    using assms(1,3) by (simp add: Waiting seat_core_def set_process_slot_def mirror_transfer_def map_state_def)
  have "moves en L L'" if "goes en ?L L'" for L'
    using that assms(5) by (simp add: goes_def moves_def fence_def inactive_supervised outgoing_inactive latched_def assms(2))
  with wp_mono [OF stop_child_core [OF core]] show ?thesis by (simp add: Waiting)
qed

lemma seat_admit_transfer_moves:
  assumes "seat_env_ok en" and "seat_core en L"
  shows "wp (seat_admit_transfer en request service_key callback) (\<lambda>_. moves en L) (\<lambda>_. moves en L) L"
proof (cases "check_import_allowed L")
  case (Inl e)
  then show ?thesis by (simp add: seat_admit_transfer_def op_wp moves_refl [OF assms(2)])
next
  case (Inr u)
  then have live: "rf_decommissioned_at_ms (sl_state L) = None" and present: "rf_transfer_phase (sl_state L) \<noteq> Some (PhaseOutgoing out)" for out
    using import_allowed [of L] by simp_all
  have mirrors: "mirrors en (sl_facts L) (sl_state L) (sl_db L)" using assms(2) by (simp add: seat_core_def)
  have codec: "transfer_codec_ok (se_codec en)" using assms(1) by (simp add: seat_env_ok_def)
  note step = seat_admit_transfer_def op_wp Inr
  show ?thesis
  proof (cases "verified_grant en request L")
    case (Inl e)
    then show ?thesis by (simp add: step moves_refl [OF assms(2)])
  next
    case (Inr grant)
    then have verify: "signed_request_verify (se_crypto en) (se_grant_verb en) request (word_of_int (time_ms L div 1000)) = Inr grant"
      by (simp add: verified_grant_def split: sum.splits)
    obtain r s' where admit: "admit_transfer (se_crypto en) (se_grant_verb en) (se_codec en) request callback (time_ms L) (sl_db L) = (r, s')"
      by (cases "admit_transfer (se_crypto en) (se_grant_verb en) (se_codec en) request callback (time_ms L) (sl_db L)")
    have kept: "L\<lparr>sl_db := s'\<rparr> = L" if "r = Inr None \<or> r = Inl e" for e
      using admit_transfer_refused [OF admit that] by simp
    have "wp (case in_state entry of Imported _ \<Rightarrow> return_op () | Waiting _ \<Rightarrow> stop_child) (\<lambda>_. moves en L) (\<lambda>_. moves en L)
        (mirror_transfer (incoming_phase (in_state entry)) (L\<lparr>sl_db := s'\<rparr>))"
      if r: "r = Inr (Some entry)" and dest: "gr_destination_seat_id grant = sf_seat_id (sl_facts L)" for entry
    proof (rule admitted_phase_moves [OF assms(2) live])
      show "mirrors en (sl_facts L) ((sl_state L)\<lparr>rf_transfer_phase := Some (incoming_phase (in_state entry))\<rparr>) s'"
        by (rule admit_transfer_effect [OF admit [unfolded r] verify dest codec mirrors refl refl])
      show "rf_transfer_phase (sl_state L) = Some PhaseImported" if "in_state entry = Imported keys" for keys
        using admit_imported [OF admit [unfolded r] that verify] mirrors dest by (simp add: mirrors_def)
    qed (rule present)
    then show ?thesis
      using kept by (auto simp: step Inr admit ok_or_def moves_refl [OF assms(2)] split: sum.split option.split option.splits)
  qed
qed

lemma wp_current_import:
  assumes "\<And>entry. check_import_allowed L = Inr () \<Longrightarrow>
      incoming (se_codec en) (sf_seat_id (sl_facts L)) (sl_db L) = Inr (Some entry) \<Longrightarrow> Q entry L"
    and "\<And>e. E e L"
  shows "wp (current_import en) Q E L"
  using assms by (simp add: current_import_def op_wp ok_or_def split: sum.split option.split)

lemma waiting_phase:
  assumes "seat_core en L" and "check_import_allowed L = Inr ()"
    and "incoming (se_codec en) (sf_seat_id (sl_facts L)) (sl_db L) = Inr (Some entry)" and "in_state entry = Waiting request"
  shows "rf_transfer_phase (sl_state L) = Some PhaseWaiting"
proof -
  have "db_transfer_phase (se_codec en) (sf_seat_id (sl_facts L)) (sl_db L) = Inr (rf_transfer_phase (sl_state L))"
    using assms(1) by (simp add: seat_core_def mirrors_def)
  then show ?thesis
    using assms(3,4) import_allowed(2) [OF assms(2)]
    by (auto simp: db_transfer_phase_def elim!: and_then_InrE split: option.splits dest: sym)
qed

lemma wp_install_imported_material:
  assumes "\<And>script dir. Q () (L\<lparr>sl_data := dir, sl_script := script\<rparr>)" and "\<And>e script dir. E e (L\<lparr>sl_data := dir, sl_script := script\<rparr>)"
  shows "wp (install_imported_material en material) Q E L"
proof -
  have "Q () (L\<lparr>sl_script := script\<rparr>)" "E e (L\<lparr>sl_script := script\<rparr>)" for script e
    using assms(1) [where dir = "sl_data L" and script = script]
      assms(2) [where e = e and dir = "sl_data L" and script = script] by simp_all
  then show ?thesis
    unfolding install_imported_material_def wp_bind
    by (intro wp_asks)
      (auto simp: op_wp assms intro!: wp_asks wp_final_data_exists split: data_dir.split option.split)
qed

definition displaced :: "seat_env \<Rightarrow> seat_loop \<Rightarrow> seat_loop \<Rightarrow> bool" where
  "displaced en L L' \<longleftrightarrow> goes en L L' \<and> vacant L'"

lemma displaced_fields [simp]:
  "displaced en L (L'\<lparr>sl_script := script\<rparr>) \<longleftrightarrow> displaced en L L'"
  "displaced en L (L'\<lparr>sl_data := dir\<rparr>) \<longleftrightarrow> displaced en L L'"
  "displaced en L (L'\<lparr>sl_keys := keys\<rparr>) \<longleftrightarrow> displaced en L L'"
  by (simp_all add: displaced_def goes_def vacant_def)

lemma displaced_inactive:
  assumes "displaced en L L'" and "rf_transfer_phase (sl_state L) = Some PhaseWaiting"
  shows "moves en L L'"
proof -
  have "\<not> active L'" using assms outgoing_inactive(2) [of L] fence_active [of L L'] by (simp add: displaced_def goes_def)
  with assms fence_latched [of L L'] show ?thesis by (simp add: moves_def displaced_def goes_def fence_def inactive_supervised)
qed

text \<open>A guardian that was accepted into an empty slot is spawned or scheduled.\<close>

lemma imported_spawn_moves:
  assumes "seat_core en L" and "vacant L" and "active L"
  shows "wp (bind_op (catch_op (spawn_child_inner en imported_invite) (\<lambda>_. modify_op (schedule_respawn en))) (\<lambda>_.
      bind_op (schedule_watchdog 0) (\<lambda>_. modify_op mark_hints))) (\<lambda>_ L'. goes en L L' \<and> supervised L') E L"
proof -
  have marked: "goes en L (mark_hints (L'\<lparr>sl_script := script, sl_watchdog_at := t\<rparr>)) \<and>
      supervised (mark_hints (L'\<lparr>sl_script := script, sl_watchdog_at := t\<rparr>))"
    if "goes en L L'" and "supervised L'" for L' script t
    using that by (simp add: goes_def mark_hints_def supervised_def guarded_def active_def)
  have later: "wp (schedule_watchdog 0) (\<lambda>_ L'. goes en L (mark_hints L') \<and> supervised (mark_hints L')) E L'"
    if "goes en L L'" and "supervised L'" for L'
    by (rule wp_schedule_watchdog) (rule marked [OF that])
  show ?thesis
    unfolding op_wp
  proof (rule wp_mono [OF spawn_child_inner_goes [OF assms]])
    fix e :: seat_verb_error and L'
    assume L': "goes en L L' \<and> \<not> slot_is_live (sl_child L')"
    then show "wp (schedule_watchdog 0) (\<lambda>_ L'. goes en L (mark_hints L') \<and> supervised (mark_hints L')) E (schedule_respawn en L')"
      using schedule_respawn_goes [of en L'] goes_trans [of en L L'] goesD(1) [of en L L'] by (intro later) simp_all
  qed (simp add: later live_supervised)
qed

lemma run_imported_moves:
  assumes "seat_core en L1" and "vacant L1" and "rf_decommissioned_at_ms (sl_state L1) = None"
    and "rf_transfer_phase (sl_state L1) = Some PhaseWaiting" and "mirrors en (sl_facts L1) ((sl_state L1)\<lparr>rf_formed_invite := Some invite, rf_transfer_phase := Some PhaseImported\<rparr>) s"
  shows "wp (run_imported en invite) (\<lambda>_. moves en L1) (\<lambda>_. moves en L1) (L1\<lparr>sl_db := s\<rparr>)"
proof -
  let ?L = "mirror_transfer PhaseImported (map_state (\<lambda>st. st\<lparr>rf_formed_invite := Some invite\<rparr>) (L1\<lparr>sl_db := s\<rparr>))"
  have active: "active ?L" using assms(3) by (simp add: active_def transfer_status_def map_state_def)
  have "seat_core en ?L" and "vacant ?L"
    using assms active by (simp_all add: seat_core_def vacant_def mirror_transfer_def map_state_def)
  moreover have "moves en L1 L'" if "goes en ?L L' \<and> supervised L'" for L'
    using that assms(3,4) by (simp add: moves_def goes_def fence_def map_state_def latched_def)
  ultimately have "wp (bind_op (catch_op (spawn_child_inner en (Some invite)) (\<lambda>_. modify_op (schedule_respawn en))) (\<lambda>_.
      bind_op (schedule_watchdog 0) (\<lambda>_. modify_op mark_hints))) (\<lambda>_. moves en L1) (\<lambda>_. moves en L1) ?L"
    using active by (intro wp_mono [OF imported_spawn_moves]) simp_all
  then show ?thesis by (simp add: run_imported_def op_wp)
qed

lemma accept_moves:
  assumes "seat_env_ok en" and waiting: "rf_transfer_phase (sl_state L) = Some PhaseWaiting"
    and live: "rf_decommissioned_at_ms (sl_state L) = None" and L1: "displaced en L L1"
  shows "wp (\<lambda>L. db_op (accept_transfer (se_codec en) (sf_seat_id (sl_facts L)) binding keys invite (time_ms L)) L)
    (\<lambda>accepted. wp (if \<not> accepted then fail_op SeatUnavailable else run_imported en invite) (\<lambda>_. moves en L) (\<lambda>_. moves en L))
    (\<lambda>_. moves en L) L1"
proof (cases "accept_transfer (se_codec en) (sf_seat_id (sl_facts L1)) binding keys invite (time_ms L1) (sl_db L1)")
  case (Pair r s')
  have core: "seat_core en L1" and fence: "fence L L1" and vacant: "vacant L1"
    using L1 by (simp_all add: displaced_def goes_def)
  have mirrors: "mirrors en (sl_facts L1) (sl_state L1) (sl_db L1)" using core by (simp add: seat_core_def)
  have codec: "transfer_codec_ok (se_codec en)" using assms(1) by (simp add: seat_env_ok_def)
  note effect = accept_transfer_effect [OF Pair codec mirrors] and moved = displaced_inactive [OF L1 waiting]
  have kept: "moves en L (L1\<lparr>sl_db := s'\<rparr>)" if "r \<noteq> Inr True"
    using effect(2) [OF that] moved by simp
  have run: "wp (run_imported en invite) (\<lambda>_. moves en L1) (\<lambda>_. moves en L1) (L1\<lparr>sl_db := s'\<rparr>)" if "r = Inr True"
    using run_imported_moves [OF core vacant _ _ effect(1) [OF that]] fence live waiting by (simp add: fence_def)
  have "wp (run_imported en invite) (\<lambda>_. moves en L) (\<lambda>_. moves en L) (L1\<lparr>sl_db := s'\<rparr>)" if "r = Inr True"
    by (rule wp_mono [OF run [OF that]]) (erule moves_trans [OF moved])+
  with kept show ?thesis by (cases r) (simp_all add: wp_db_op wp_if wp_basic Pair)
qed

lemma install_transfer_moves:
  assumes "seat_env_ok en" and "seat_core en L"
  shows "wp (install_transfer en binding guardian) (\<lambda>_. moves en L) (\<lambda>_. moves en L) L"
proof -
  have install: "wp (install_guardian en binding guardian) (\<lambda>_. moves en L) (\<lambda>_. moves en L) L"
    if waiting: "rf_transfer_phase (sl_state L) = Some PhaseWaiting" and live: "rf_decommissioned_at_ms (sl_state L) = None"
  proof -
    note accept = accept_moves [OF assms(1) waiting live] and failed = displaced_inactive [OF _ waiting]
    have "wp (install_imported_material en material) (\<lambda>_.
        wp (\<lambda>L. db_op (accept_transfer (se_codec en) (sf_seat_id (sl_facts L)) binding keys' invite (time_ms L)) L)
          (\<lambda>accepted. wp (if \<not> accepted then fail_op SeatUnavailable else run_imported en invite) (\<lambda>_. moves en L) (\<lambda>_. moves en L))
          (\<lambda>_. moves en L)) (\<lambda>_. moves en L) (L1\<lparr>sl_keys := keys\<rparr>)"
      if "displaced en L L1" for L1 keys keys' material invite
      by (rule wp_install_imported_material; (rule accept | rule failed); simp add: that)
    then show ?thesis
      unfolding install_guardian_def wp_bind
      by (intro wp_mono [OF stop_moves [OF assms(2)]]) (simp_all add: wp_basic displaced_def)
  qed
  show ?thesis
    unfolding install_transfer_def wp_bind
    using install waiting_phase [OF assms(2)] import_allowed(1) moves_refl [OF assms(2)]
    by (intro wp_current_import) (simp_all add: wp_if wp_basic split: incoming_state.split)
qed

section \<open>Observations\<close>

lemma caught_event_steady:
  assumes "seat_core en L"
  shows "wp (catch_op (handle_driven_event event) (\<lambda>_. return_op ())) (\<lambda>_. goes_steady en L) E L"
  using handle_driven_event_goes [OF assms] by (simp add: op_wp)

lemma drain_events_steady:
  assumes "seat_core en L"
  shows "wp (drain_events polls) (\<lambda>_. goes_steady en L) E L"
  using assms
proof (induction polls arbitrary: L)
  case (Cons p rest)
  show ?case
  proof (cases p)
    case (PollEvent event)
    have "wp (drain_events rest) (\<lambda>_. goes_steady en L) E L1" if L1: "goes_steady en L L1" for L1
      by (rule wp_mono [OF Cons.IH [OF goes_steadyD(1) [OF L1]]]) (erule goes_steady_trans [OF L1])
    then show ?thesis
      unfolding PollEvent drain_events.simps wp_bind
      by (intro wp_mono [OF caught_event_steady [OF Cons.prems]])
  qed (simp_all add: op_wp goes_steady_refl [OF Cons.prems])
qed (simp add: op_wp goes_steady_refl)

lemma exit_supervised:
  assumes "seat_env_ok en" and "seat_core en L" and "\<not> slot_is_live (sl_child L)"
  shows "goes en L (schedule_respawn en ((reset_backoff en L)\<lparr>sl_child_started := None\<rparr>))"
    and "supervised (schedule_respawn en ((reset_backoff en L)\<lparr>sl_child_started := None\<rparr>))"
proof -
  let ?L = "(reset_backoff en L)\<lparr>sl_child_started := None\<rparr>"
  have L: "goes_steady en L ?L" using reset_backoff_steady [OF assms(1,2)] by simp
  then have idle: "\<not> slot_is_live (sl_child ?L)" using assms(3) by (simp only: goes_steady_def steady_def) simp
  note sched = schedule_respawn_goes [OF goes_steadyD(1) [OF L] idle]
  show "goes en L (schedule_respawn en ?L)" by (rule goes_trans [OF goes_steadyD(2) [OF L] sched(1)])
  show "supervised (schedule_respawn en ?L)" by (rule sched(3))
qed

lemma commit_lands:
  assumes "seat_env_ok en" and "seat_core en L" and "\<not> slot_is_live (sl_child L)"
  shows "wp (bind_op (commit_session_boundary_exit exit_code) (\<lambda>committed.
      if committed then return_op ()
      else modify_op (\<lambda>L. schedule_respawn en ((reset_backoff en L)\<lparr>sl_child_started := None\<rparr>))))
    (\<lambda>_ L'. moves en L L' \<and> supervised L') E L"
  unfolding wp_bind
proof (rule wp_mono [OF commit_boundary_exit [OF assms(2,3)]])
  fix committed L'
  assume L': "seat_core en L' \<and> sl_facts L' = sl_facts L \<and> sl_open L' = sl_open L \<and>
      latched (sl_state L) (sl_state L') \<and> (if committed then \<not> active L' else goes_steady en L L')"
  show "wp (if committed then return_op ()
      else modify_op (\<lambda>L. schedule_respawn en ((reset_backoff en L)\<lparr>sl_child_started := None\<rparr>)))
    (\<lambda>_ L'. moves en L L' \<and> supervised L') E L'"
  proof (cases committed)
    case True
    with L' show ?thesis by (simp add: op_wp moves_def inactive_supervised)
  next
    case False
    with L' have L1: "goes_steady en L L'" by simp
    then have idle: "\<not> slot_is_live (sl_child L')" using assms(3) by (simp add: goes_steady_def steady_def)
    note exit = exit_supervised [OF assms(1) goes_steadyD(1) [OF L1] idle]
    show ?thesis using False exit(2) movesI [OF goes_trans [OF goes_steadyD(2) [OF L1] exit(1)] exit(2)] by (simp add: op_wp)
  qed
qed

text \<open>However a child exits, the seat it leaves behind is supervised.\<close>

lemma handle_child_exit_lands:
  assumes "seat_env_ok en" and "seat_core en L"
  shows "wp (handle_child_exit en exit_code) (\<lambda>_ L'. moves en L L' \<and> supervised L') E L"
proof -
  let ?L = "set_process_slot SlotEmpty L"
  have core: "seat_core en ?L" by (rule set_process_slot_core [OF assms(2)]) simp_all
  let ?commit = "bind_op (commit_session_boundary_exit exit_code) (\<lambda>committed.
      if committed then return_op ()
      else modify_op (\<lambda>L. schedule_respawn en ((reset_backoff en L)\<lparr>sl_child_started := None\<rparr>)))"
  have commit: "wp ?commit (\<lambda>_ L'. moves en L L' \<and> supervised L') E L1" if L1: "goes_steady en ?L L1" for L1
  proof (rule wp_mono [OF commit_lands [OF assms(1) goes_steadyD(1) [OF L1]]])
    show "\<not> slot_is_live (sl_child L1)" using L1 by (simp add: goes_steady_def steady_def)
    fix L' assume L': "moves en L1 L' \<and> supervised L'"
    have "fence L ?L" by simp
    then have "fence L L1" using goesD(2) [OF goes_steadyD(2) [OF L1]] by (rule fence_trans)
    with L' latched_trans [OF fence_latched] show "moves en L L' \<and> supervised L'"
      by (simp add: moves_def fence_def)
  qed
  have "wp (drain_events polls) (\<lambda>_. wp ?commit (\<lambda>_ L'. moves en L L' \<and> supervised L') E) E ?L" for polls
    by (rule wp_mono [OF drain_events_steady [OF core]]) (erule commit)
  then show ?thesis
    using commit [OF goes_steady_refl [OF core]]
    by (simp add: handle_child_exit_def wp_bind wp_basic wp_if)
qed

lemma observation_moves:
  assumes "seat_env_ok en" and "seat_core en L"
  shows "wp (handle_process_observation en observation) (\<lambda>_. moves en L) (\<lambda>_. moves en L) L"
proof -
  note retire = retire_moves [OF assms(2)]
  have after: "wp (case event of
       ParamsRejected _ \<Rightarrow> catch_op (retire_failed_ceremony en) (\<lambda>_. return_op ())
     | DkgFailed _ \<Rightarrow> catch_op (retire_failed_ceremony en) (\<lambda>_. return_op ())
     | ControlChannelRetired \<Rightarrow> modify_op retire_control_channel
     | _ \<Rightarrow> return_op ()) (\<lambda>_. moves en L) (\<lambda>_. moves en L) L1" if L1: "goes_steady en L L1" for event L1
  proof (rule moves_after [OF steady_moves [OF L1]])
    have core: "seat_core en L1" by (rule goes_steadyD(1) [OF L1])
    show "wp (case event of
       ParamsRejected _ \<Rightarrow> catch_op (retire_failed_ceremony en) (\<lambda>_. return_op ())
     | DkgFailed _ \<Rightarrow> catch_op (retire_failed_ceremony en) (\<lambda>_. return_op ())
     | ControlChannelRetired \<Rightarrow> modify_op retire_control_channel
     | _ \<Rightarrow> return_op ()) (\<lambda>_. moves en L1) (\<lambda>_. moves en L1) L1"
      using retire_moves [OF core] steady_moves [OF slot_marks_goes_steady(3) [OF core]] moves_refl [OF core]
      by (cases event) (simp_all add: wp_basic)
  qed
  have event: "wp (handle_process_observation en (Driven (Some (Inr event)))) (\<lambda>_. moves en L) (\<lambda>_. moves en L) L" for event
    unfolding handle_process_observation.simps wp_bind
    by (rule wp_mono [OF caught_event_steady [OF assms(2)]]) (erule after)
  have exit: "wp (handle_child_exit en exit_code) (\<lambda>_. moves en L) (\<lambda>_. moves en L) L" for exit_code
    by (rule wp_mono [OF handle_child_exit_lands [OF assms]]) simp_all
  show ?thesis
  proof (cases observation)
    case (Driven answer)
    show ?thesis
    proof (cases answer)
      case (Some result)
      then show ?thesis using event retire by (cases result) (simp_all add: Driven del: handle_process_observation.simps(1))
    qed (use retire in \<open>simp add: Driven\<close>)
  qed (use exit in simp)
qed

section \<open>The loop\<close>

text \<open>A step of the loop: it may also close.\<close>

definition follows :: "seat_env \<Rightarrow> seat_loop \<Rightarrow> seat_loop \<Rightarrow> bool" where
  "follows en L L' \<longleftrightarrow>
     seat_core en L' \<and> sl_facts L' = sl_facts L \<and> latched (sl_state L) (sl_state L') \<and>
     (sl_open L' \<longrightarrow> sl_open L \<and> (supervised L \<longrightarrow> supervised L'))"

lemma moves_follows: "moves en L L' \<Longrightarrow> follows en L L'"
  by (simp add: moves_def follows_def)

lemma closed_follows: "moves en L L' \<Longrightarrow> follows en L (L'\<lparr>sl_open := False\<rparr>)"
  by (simp add: moves_def follows_def)

lemma verb_moves:
  assumes "seat_env_ok en" and "seat_core en L" and "command \<noteq> CmdDecommission" and "command \<noteq> CmdShutdown"
  shows "moves en L (handle_command en command L)"
proof -
  note steady = dkg_code_steady [OF assms(2), unfolded wp_snd] client_reads_steady [OF assms(2), unfolded wp_snd]
    transfer_out_steady [OF assms(2), unfolded wp_snd]
  note moving = start_dkg_moves [OF assms(1,2), unfolded wp_snd] restart_dkg_moves [OF assms(1,2), unfolded wp_snd]
    seat_admit_transfer_moves [OF assms(1,2), unfolded wp_snd] install_transfer_moves [OF assms(1,2), unfolded wp_snd]
    remove_transferred_moves [OF assms(2), unfolded wp_snd]
  show ?thesis
    using assms(3,4) by (cases command) (simp_all add: steady_moves steady moving)
qed

lemma handle_command_follows:
  assumes "seat_env_ok en" and "seat_core en L"
  shows "follows en L (handle_command en command L)"
proof -
  have decommission: "moves en L (snd (decommission L))"
    by (rule decommission_moves [OF assms(2), unfolded wp_snd])
  have "goes en L (snd (stop_child L))"
    by (rule wp_snd [THEN iffD1], rule wp_mono [OF stop_child_goes [OF assms(2)]]) simp_all
  then have shutdown: "follows en L ((snd (stop_child L))\<lparr>sl_open := False\<rparr>)"
    using fence_latched [of L "snd (stop_child L)"] by (simp add: follows_def goes_def fence_def)
  show ?thesis
  proof (cases "command = CmdDecommission \<or> command = CmdShutdown")
    case True
    then show ?thesis
      using decommission shutdown by (auto simp: Let_def moves_follows closed_follows)
  next
    case False
    then show ?thesis by (intro moves_follows verb_moves [OF assms]) simp_all
  qed
qed

lemma seat_start_core:
  assumes "seat_env_ok en" and "wf (se_codec en) s" and "tbl_exists (seats s) (seat_id_bytes (sf_seat_id facts))"
    and "durable_state en facts s = Inr durable"
  shows "seat_core en (seat_start en durable keys ports s dir script)"
    and "vacant (seat_start en durable keys ports s dir script)"
    and "sl_facts (seat_start en durable keys ports s dir script) = facts"
  using assms
  by (auto simp: seat_core_def seat_start_def vacant_def durable_state_def mirrors_def seat_env_ok_def
      elim!: and_then_InrE)

lemma run_prologue_goes:
  assumes "seat_core en L" and "vacant L"
  shows "goes en L (snd (run_prologue en L))" and "supervised (snd (run_prologue en L))"
proof -
  have later: "goes en L (L'\<lparr>sl_script := script, sl_watchdog_at := t\<rparr>) \<and> supervised (L'\<lparr>sl_script := script, sl_watchdog_at := t\<rparr>)"
    if "goes en L L' \<and> supervised L'" for L' script t
    using that by (simp add: goes_def supervised_def guarded_def)
  have "wp (run_prologue en) (\<lambda>_ L'. goes en L L' \<and> supervised L') (\<lambda>_ L'. goes en L L' \<and> supervised L') L"
    unfolding run_prologue_def wp_bind
    by (rule wp_mono [OF spawn_or_schedule_goes [OF assms]]) (rule wp_schedule_watchdog, erule later)
  then show "goes en L (snd (run_prologue en L))" and "supervised (snd (run_prologue en L))" by (simp_all only: wp_snd)
qed

text \<open>A boot from the database establishes everything.\<close>

lemma seat_boot_inv:
  assumes "seat_env_ok en" and "wf (se_codec en) s" and "tbl_exists (seats s) (seat_id_bytes (sf_seat_id facts))"
    and "durable_state en facts s = Inr durable"
  shows "seat_core en (seat_boot en durable keys ports s dir script)"
    and "sl_facts (seat_boot en durable keys ports s dir script) = facts"
    and "sl_open (seat_boot en durable keys ports s dir script) \<Longrightarrow> supervised (seat_boot en durable keys ports s dir script)"
    and "fence (seat_start en durable keys ports s dir script) (seat_boot en durable keys ports s dir script)"
proof -
  let ?L = "seat_start en durable keys ports s dir script"
  note start = seat_start_core [OF assms, of keys ports dir script]
  note run = run_prologue_goes [OF start(1,2)]
  show "seat_core en (seat_boot en durable keys ports s dir script)"
    "sl_facts (seat_boot en durable keys ports s dir script) = facts"
    "fence ?L (seat_boot en durable keys ports s dir script)"
    using start run(1) by (simp_all add: seat_boot_def Let_def goes_def fence_def)
  show "supervised (seat_boot en durable keys ports s dir script)" if "sl_open (seat_boot en durable keys ports s dir script)"
    using that run(2) by (auto simp: seat_boot_def Let_def split: if_splits)
qed

definition seat_inv :: "seat_env \<Rightarrow> seat_loop \<Rightarrow> bool" where
  "seat_inv en L \<longleftrightarrow> (seat_env_ok en \<longrightarrow> seat_core en L \<and> (sl_open L \<longrightarrow> supervised L))"

lemma follows_inv: "follows en L L' \<Longrightarrow> sl_open L \<Longrightarrow> supervised L \<Longrightarrow> seat_inv en L'"
  by (simp add: follows_def seat_inv_def)

definition seat_latched :: "seat_env \<Rightarrow> seat_loop \<Rightarrow> seat_loop \<Rightarrow> bool" where
  "seat_latched en L L' \<longleftrightarrow>
     (seat_env_ok en \<longrightarrow> sl_facts L' = sl_facts L \<and> latched (sl_state L) (sl_state L'))"

lemma restart_state:
  assumes "seat_core en L" and "durable_state en (sl_facts L) (sl_db L) = Inr durable"
  shows "latched (sl_state L) (sl_state (seat_start en durable keys ports (sl_db L) dir script))"
  using assms
  by (auto simp: seat_core_def mirrors_def durable_state_def seat_start_def latched_def elim!: and_then_InrE)

lemma seat_step_inv:
  assumes "seat_step en L L'" and "seat_env_ok en" and "seat_core en L" and "sl_open L \<longrightarrow> supervised L"
  shows "seat_core en L' \<and> (sl_open L' \<longrightarrow> supervised L') \<and> sl_facts L' = sl_facts L \<and> latched (sl_state L) (sl_state L')"
  using assms
proof (induction rule: seat_step.induct)
  case (observe L observation script)
  have "moves en (L\<lparr>sl_script := script\<rparr>) (snd (handle_process_observation en observation (L\<lparr>sl_script := script\<rparr>)))"
    by (rule observation_moves [unfolded wp_snd]) (use observe in simp_all)
  with observe show ?case by (simp add: moves_def supervised_def guarded_def)
next
  case (respawn L t script)
  let ?L = "L\<lparr>sl_respawn_at := None, sl_script := script\<rparr>"
  have "vacant ?L" using respawn by (simp add: seat_core_def vacant_def)
  moreover have "seat_core en ?L" using respawn seat_core_no_respawn [of en L] by simp
  ultimately have "wp (spawn_or_schedule en) (\<lambda>_ L'. goes en ?L L' \<and> supervised L') (\<lambda>_ L'. goes en ?L L' \<and> supervised L') ?L"
    by (intro spawn_or_schedule_goes)
  then have "goes en ?L (snd (spawn_or_schedule en ?L)) \<and> supervised (snd (spawn_or_schedule en ?L))" by (simp only: wp_snd)
  with fence_latched [of ?L "snd (spawn_or_schedule en ?L)"] show ?case by (simp add: goes_def fence_def)
next
  case (watchdog L t script)
  have "moves en (L\<lparr>sl_watchdog_at := None, sl_script := script\<rparr>)
      (snd (watchdog_tick en (L\<lparr>sl_watchdog_at := None, sl_script := script\<rparr>)))"
    by (rule watchdog_tick_moves [unfolded wp_snd]) (use watchdog in simp_all)
  with watchdog show ?case by (simp add: moves_def supervised_def guarded_def)
next
  case (cmd L command script)
  have "follows en (L\<lparr>sl_script := script\<rparr>) (handle_command en command (L\<lparr>sl_script := script\<rparr>))"
    by (rule handle_command_follows) (use cmd in simp_all)
  with cmd show ?case by (simp add: follows_def supervised_def guarded_def)
next
  case (others s L dir)
  have "mirrors en (sl_facts L) (sl_state L) (sl_db L)" using others by (simp add: seat_core_def)
  from db_core [OF _ mirrors_rows [OF this]] others have "goes_steady en L (L\<lparr>sl_db := s\<rparr>)" by simp
  with others show ?case by (simp add: goes_steady_def goes_def supervised_def guarded_def)
next
  case (restart L durable keys ports script)
  have rows: "wf (se_codec en) (sl_db L)" "tbl_exists (seats (sl_db L)) (seat_id_bytes (sf_seat_id (sl_facts L)))"
    using restart by (simp_all add: seat_core_def mirrors_def)
  note boot = seat_boot_inv [OF restart(2) rows restart(1), of keys ports "sl_data L" script]
  show ?case
    using boot(1-3) latched_trans [OF restart_state [OF restart(3,1)] fence_latched [OF boot(4)]] by simp
qed

interpretation seat: monotone_system "seat_init en" "seat_step en" "seat_inv en" "seat_latched en"
proof
  fix L L' L'' :: seat_loop
  show "seat_init en L \<Longrightarrow> seat_inv en L"
    by (auto simp: seat_init_def seat_inv_def intro: seat_boot_inv)
  show "seat_inv en L \<Longrightarrow> seat_step en L L' \<Longrightarrow> seat_inv en L'"
    using seat_step_inv [of en L L'] by (simp add: seat_inv_def)
  show "seat_latched en L L" by (simp add: seat_latched_def)
  show "seat_latched en L L' \<Longrightarrow> seat_latched en L' L'' \<Longrightarrow> seat_latched en L L''"
    using latched_trans [of "sl_state L" "sl_state L'" "sl_state L''"] by (simp add: seat_latched_def)
  show "seat_inv en L \<Longrightarrow> seat_step en L L' \<Longrightarrow> seat_latched en L L'"
    using seat_step_inv [of en L L'] by (simp add: seat_inv_def seat_latched_def)
qed

end
