(* ===== verification/Sample_Seat.thy ===== *)
theory Sample_Seat
  imports Seat_Loop_Steps Fleet_Properties
begin

text \<open>
  Concrete seat runtimes, on which the hypotheses of the properties about runtimes are
  discharged: the seat of the sold sample store, and the same seat after its guardian stopped
  for a transfer.
\<close>

text \<open>Setup codes whose text is their API key.\<close>

definition sample_setup :: "string \<Rightarrow> peer_setup_code" where
  "sample_setup t =
     \<lparr>ps_name = t, ps_endpoints = IrohEndpoints (as_bytes t) [], ps_federation_name = None,
      ps_disable_base_fees = None, ps_enabled_modules = None, ps_federation_size = None,
      ps_network = ''regtest'', ps_fedimint_version = ''0''\<rparr>"

definition sample_encode :: "peer_setup_code \<Rightarrow> string" where
  "sample_encode setup = (case ps_endpoints setup of IrohEndpoints api_pk _ \<Rightarrow> text_of api_pk | OtherEndpoints b \<Rightarrow> text_of b)"

definition sample_grant :: seat_transfer_grant where
  "sample_grant =
     \<lparr>gr_ts = 0, gr_fa_id = [1], gr_federation_id = ''fed'', gr_source = \<lparr>loc_endpoint_addr = '''', loc_service_pubkey = [2]\<rparr>,
      gr_source_seat_id = SeatId (replicate 32 7), gr_destination_service_pubkey = [3],
      gr_destination_seat_id = SeatId (replicate 32 9)\<rparr>"

definition sample_request :: signed_request where
  "sample_request = \<lparr>sq_fa_id = [1], sq_payload = [], sq_fa_signature = []\<rparr>"

definition sample_seat_env :: seat_env where
  "sample_seat_env =
     \<lparr>se_codec = sample_codec,
      se_crypto = \<lparr>sha256 = id, verify_schnorr = (\<lambda>_ _ _. True), sign_schnorr = (\<lambda>_ m. m), x_only_public_key = id\<rparr>,
      se_grant_verb = grant_verb (\<lambda>_. []) (\<lambda>_. Some sample_grant),
      se_policy = default_respawn_policy, se_decode_code = (\<lambda>t. Some (sample_setup t)), se_encode_code = sample_encode,
      se_code_order = key ps_name default, se_public_key = id, se_hex_encode = (\<lambda>_. ''0000000000''),
      se_network = ''regtest'', se_fedimintd_version = ''0'', se_invite_federation = (\<lambda>invite. Some invite),
      se_archive_cbor = ga_private_json, se_backup_format = 1, se_e2e_local_iroh = False\<rparr>"

lemma sample_codec_env: "se_codec sample_seat_env = sample_codec"
  by (simp add: sample_seat_env_def)

lemma sample_seat_env_ok: "seat_env_ok sample_seat_env"
  using sample_codec_ok by (simp add: seat_env_ok_def sample_seat_env_def default_respawn_policy_def)

definition sample_keys :: "string \<Rightarrow> seat_keys" where
  "sample_keys name =
     \<lparr>sk_iroh_api = as_bytes name, sk_iroh_p2p = as_bytes name, sk_api_auth = ''auth'', sk_preserve_guardian_identity = False\<rparr>"

definition sample_script :: script where
  "sample_script =
     \<lparr>sc_now = 0, sc_now_ms = 0, sc_stops = [], sc_io = [], sc_starts = [], sc_hellos = [Some NeedsParams],
      sc_send = Sent, sc_polls = [PollEvent DkgStarted], sc_probe = ProbeOk\<rparr>"

definition sample_facts :: seat_facts where
  "sample_facts = new_facts sample_new 0 9"

lemma sample_facts_simps [simp]: "sf_seat_id sample_facts = SeatId (replicate 32 7)" "sf_fa_id sample_facts = [1]"
  "sf_federation_size sample_facts = FederationSize 4"
  by (simp_all add: sample_facts_def new_facts_def sample_new_def)

definition sample_durable :: "string option \<Rightarrow> transfer_phase option \<Rightarrow> seat_durable_state" where
  "sample_durable invite phase =
     \<lparr>ds_facts = sample_facts, ds_formed_invite = invite, ds_decommissioned_at_ms = None, ds_transfer_phase = phase\<rparr>"

definition sample_loop :: seat_loop where
  "sample_loop = seat_boot sample_seat_env (sample_durable None None) (sample_keys ''b'') (SeatPorts (PortBase 20000)) sample_sold NoDir
     sample_script"

lemma sample_sold_tables [simp]:
  "formed_seats sample_sold = []" "decommissioned_seats sample_sold = []" "seat_transfer_in sample_sold = []"
  "seat_transfer_out sample_sold = []" "dkg_inputs sample_sold = []" "seat_backup_publications sample_sold = []"
  "completion_callbacks sample_sold = []" "tbl_exists (seats sample_sold) (replicate 32 7)"
  by (simp_all add: sample_sold_def sample_db_eq empty_db_def tbl_exists_def)

lemmas evaluate = run_prologue_def spawn_or_schedule_def spawn_child_def spawn_child_inner_def adopt_child_def
  catch_op_def bind_op_def lift_op_def return_op_def fail_op_def modify_op_def read_op_def db_op_def db_read_def
  ask_start_def ask_hello_def ask_io_def ask_def reject_decommissioned_def reject_transfer_work_def transfer_status_def
  set_process_slot_def map_state_def time_now_def time_ms_def final_data_exists_def stored_dkg_inputs_def
  schedule_watchdog_def watchdog_eligible_def schedule_respawn_def

lemma sample_loop_reach: "reach (seat_init sample_seat_env) (seat_step sample_seat_env) sample_loop"
proof (rule reach_init)
  have "durable_state sample_seat_env sample_facts sample_sold = Inr (sample_durable None None)"
    by (simp add: durable_state_def db_transfer_phase_def outgoing_def incoming_def sample_durable_def
        formed_federation_invite_def decommissioned_at_ms_def)
  moreover have "wf (se_codec sample_seat_env) sample_sold"
    using store.inv_reach [OF sample_sold_reach] by (simp add: store_inv_def sample_seat_env_def sample_env_def)
  ultimately show "seat_init sample_seat_env sample_loop"
    unfolding seat_init_def sample_loop_def
    by (intro exI [of _ sample_facts] exI [of _ sample_sold] exI [of _ "sample_durable None None"] exI conjI) simp_all
qed

lemma sample_loop_child: "sl_child sample_loop = Parked NeedsParams" "sl_respawn_at sample_loop = None" "sl_open sample_loop"
  by (simp_all add: sample_loop_def seat_boot_def seat_start_def sample_durable_def Let_def sample_script_def evaluate)

section \<open>A stopped guardian\<close>

definition sample_moved :: db where
  "sample_moved = sample_sold
     \<lparr>formed_seats := [(replicate 32 7, \<lparr>fr_federation_invite = ''fed'', fr_formed_at_ms = 10\<rparr>)],
      seat_backup_publications := [(replicate 32 7, \<lparr>pr_doc_sha256 = ''doc'', pr_published_at_ms = 12,
        pr_archive_digest = None, pr_confirmed_outgoing = Some ''stopped'', pr_schema_version = 1\<rparr>)],
      seat_transfer_out := [(replicate 32 7, ''stopped'')]\<rparr>"

definition sample_archive :: guardian_archive where
  "sample_archive = \<lparr>ga_private_json = [1], ga_local_json = [2], ga_consensus_json = [3]\<rparr>"

definition sample_moved_durable :: seat_durable_state where
  "sample_moved_durable = sample_durable (Some ''fed'') (Some (PhaseOutgoing Stopped))"

definition sample_moved_loop :: seat_loop where
  "sample_moved_loop = seat_boot sample_seat_env sample_moved_durable (sample_keys ''b'')
     (SeatPorts (PortBase 20000)) sample_moved (Dir (Some sample_archive)) sample_script"

lemma sample_moved_state: "durable_state sample_seat_env sample_facts sample_moved = Inr sample_moved_durable"
  by (simp add: durable_state_def db_transfer_phase_def outgoing_def sample_durable_def outgoing_from_db_str_def
      formed_federation_invite_def decommissioned_at_ms_def sample_moved_def sample_moved_durable_def)

lemma sample_sold_wf: "wf sample_codec sample_sold"
  using store.inv_reach [OF sample_sold_reach] by (simp add: store_inv_def sample_env_def)

lemma sample_moved_wf: "wf sample_codec sample_moved"
  unfolding sample_moved_def
  by (intro wf_transfer_out wf_publications wf_formed sample_sold_wf)
    (simp_all add: child_ok_def keyed_def outgoing_from_db_str_def publication_row_ok_def)

lemma sample_moved_reach: "reach (seat_init sample_seat_env) (seat_step sample_seat_env) sample_moved_loop"
proof (rule reach_init)
  have "wf (se_codec sample_seat_env) sample_moved" using sample_moved_wf by (simp add: sample_seat_env_def)
  moreover have "tbl_exists (seats sample_moved) (replicate 32 7)" by (simp add: sample_moved_def)
  ultimately show "seat_init sample_seat_env sample_moved_loop"
    unfolding seat_init_def sample_moved_loop_def
    by (intro exI [of _ sample_facts] exI [of _ sample_moved] exI [of _ sample_moved_durable] exI conjI)
      (simp_all add: sample_moved_state)
qed

lemma sample_moved_out:
  "fst (transfer_out sample_seat_env sample_request [2] sample_moved_loop) =
     Inr \<lparr>mt_archive = sample_archive, mt_keys = \<lparr>ik_iroh_api = as_bytes ''b'', ik_iroh_p2p = as_bytes ''b''\<rparr>\<rparr>"
  "sl_db (snd (transfer_out sample_seat_env sample_request [2] sample_moved_loop)) = sample_moved"
  "sl_facts (snd (transfer_out sample_seat_env sample_request [2] sample_moved_loop)) = sample_facts"
  by (simp_all add: transfer_out_def check_source_grant_def verified_grant_def signed_request_verify_def sample_request_def
      sample_moved_loop_def seat_boot_def seat_start_def sample_moved_durable_def sample_durable_def Let_def evaluate
      outgoing_def outgoing_from_db_str_def sample_moved_def backup_publication_def sample_seat_env_def grant_verb_def
      sample_grant_def grant_is_valid_at_def read_material_def check_size_def sample_archive_def
      SEAT_TRANSFER_MATERIAL_MAX_BYTES_def exported_keys_def effective_iroh_api_key_def effective_iroh_p2p_key_def
      sample_keys_def sample_script_def)

section \<open>A ceremony\<close>

definition sample_codes :: "guardian_code list" where
  "sample_codes = map GuardianCode [''d'', ''b'', ''a'', ''c'']"

definition sample_peer :: "string \<Rightarrow> seat_loop" where
  "sample_peer name = seat_start sample_seat_env (sample_durable None None) (sample_keys name)
     (SeatPorts (PortBase 20000)) sample_sold NoDir sample_script"

lemma sample_validated:
  "validate_dkg_codes sample_seat_env sample_codes (sample_peer ''b'') =
     Inr (DkgCodeSet (map GuardianCode [''a'', ''b'', ''c'', ''d'']), GuardianCode ''b'')"
  "validate_dkg_codes sample_seat_env (rev sample_codes) (sample_peer ''c'') =
     Inr (DkgCodeSet (map GuardianCode [''a'', ''b'', ''c'', ''d'']), GuardianCode ''c'')"
proof -
  have sort: "sort_key code_text sample_codes = map GuardianCode [''a'', ''b'', ''c'', ''d'']"
    "sort_key code_text (rev sample_codes) = map GuardianCode [''a'', ''b'', ''c'', ''d'']"
    by code_simp+
  note own = sample_codes_def sample_seat_env_def sample_setup_def sample_encode_def mint_setup_code_def
    effective_iroh_api_key_def effective_iroh_p2p_key_def sample_peer_def seat_start_def sample_keys_def as_bytes_def
  have "find_own_code sample_seat_env (sample_peer ''b'') sample_codes None = Inr (Some (GuardianCode ''b''))"
    "find_own_code sample_seat_env (sample_peer ''c'') (rev sample_codes) None = Inr (Some (GuardianCode ''c''))"
    using text_of_as_bytes [of "''b''"] text_of_as_bytes [of "''c''"] by (simp_all add: own)
  moreover have "sl_facts (sample_peer name) = sample_facts" for name
    by (simp add: sample_peer_def seat_start_def sample_durable_def)
  ultimately show "validate_dkg_codes sample_seat_env sample_codes (sample_peer ''b'') =
     Inr (DkgCodeSet (map GuardianCode [''a'', ''b'', ''c'', ''d'']), GuardianCode ''b'')"
    and "validate_dkg_codes sample_seat_env (rev sample_codes) (sample_peer ''c'') =
     Inr (DkgCodeSet (map GuardianCode [''a'', ''b'', ''c'', ''d'']), GuardianCode ''c'')"
    using sort by (simp_all add: validate_dkg_codes_def dkg_code_set_validate_def sample_codes_def Let_def)
qed

lemma sample_params:
  "ceremony_params sample_seat_env (DkgCodeSet (map GuardianCode [''a'', ''b'', ''c'', ''d''])) (GuardianCode ''b'') =
     Inr (1, [''a'', ''b'', ''c'', ''d''])"
proof -
  have "\<not> ''b'' < ''a''" "\<not> ''c'' < ''b''" "\<not> ''d'' < ''c''" by code_simp+
  then show ?thesis
    by (simp add: ceremony_params_def sample_seat_env_def sample_setup_def Let_def)
qed

definition sample_started :: seat_loop where
  "sample_started = handle_command sample_seat_env (CmdStartDkg sample_codes None) (sample_loop\<lparr>sl_script := sample_script\<rparr>)"

lemma sample_started_reach: "reach (seat_init sample_seat_env) (seat_step sample_seat_env) sample_started"
  unfolding sample_started_def
  by (rule reach_step [OF sample_loop_reach]) (rule seat_step.cmd, rule sample_loop_child(3))

lemma sample_loop_eq:
  "sample_loop\<lparr>sl_script := sample_script\<rparr> =
     (set_process_slot (Parked NeedsParams) (sample_peer ''b''))\<lparr>sl_child_started := Some 0\<rparr>"
  by (simp add: sample_loop_def seat_boot_def sample_peer_def seat_start_def sample_durable_def Let_def sample_script_def evaluate)

lemma validate_cong:
  assumes "sl_keys L' = sl_keys L" and "sl_ports L' = sl_ports L" and "sl_facts L' = sl_facts L"
  shows "validate_dkg_codes en codes L' = validate_dkg_codes en codes L"
proof -
  have "mint_setup_code en L' = mint_setup_code en L" using assms by (simp add: mint_setup_code_def fun_eq_iff split: option.split)
  note mint = this
  have "find_own_code en L' codes own = find_own_code en L codes own" for own
  proof (induction codes arbitrary: own)
    case (Cons code codes)
    show ?case unfolding find_own_code.simps mint assms Cons.IH by (rule refl)
  qed simp
  then show ?thesis using assms by (simp add: validate_dkg_codes_def)
qed

lemma sample_started_ceremonies:
  "sl_ceremonies sample_started = [\<lparr>cm_our_index = 1, cm_codes = [''a'', ''b'', ''c'', ''d''],
     cm_inputs = Some (codes_to_json sample_codec [''a'', ''b'', ''c'', ''d'']), cm_formed = None\<rparr>]"
proof -
  let ?L = "(set_process_slot (Parked NeedsParams) (sample_peer ''b''))\<lparr>sl_child_started := Some 0\<rparr>"
  have valid: "validate_dkg_codes sample_seat_env sample_codes ?L =
      Inr (DkgCodeSet (map GuardianCode [''a'', ''b'', ''c'', ''d'']), GuardianCode ''b'')"
    unfolding sample_validated(1) [symmetric] by (rule validate_cong) (simp_all add: set_process_slot_def map_state_def)
  have checked: "check_unformed ?L = (Inr (), ?L)"
    by (simp add: check_unformed_def evaluate sample_peer_def seat_start_def sample_durable_def sample_script_def)
  show ?thesis
    unfolding sample_started_def sample_loop_eq
    using valid checked sample_params
    by (simp add: start_dkg_def evaluate sample_peer_def seat_start_def sample_durable_def
        unformed_status_def record_inputs_def record_dkg_inputs_def in_tx_def tx_install_completion_callback_def Let_def
        run_validated_dkg_def send_run_dkg_def await_dkg_started.simps sample_script_def mark_dkg_acknowledged_def
        tbl_exists_def [of "[]"] map_of_upsert_row seat_insert_def insert_row_def sample_codec_env)
qed

end
