(* ===== verification/Seat_Properties.thy ===== *)
theory Seat_Properties
  imports Sample_Seat
begin

text \<open>
  Properties of a seat runtime over all its runs, daemon restarts included, and of the
  ceremonies it takes part in.
\<close>

section \<open>Reachable runtimes\<close>

lemma seat_reach_inv:
  assumes "reach (seat_init en) (seat_step en) L" and "seat_env_ok en"
  shows "seat_core en L" and "sl_open L \<Longrightarrow> supervised L"
  using seat.inv_reach [OF assms(1)] assms(2) by (simp_all add: seat_inv_def)

lemma seat_run_latched:
  assumes "seat_core en L" and "sl_open L \<longrightarrow> supervised L" and "seat_env_ok en" and "(seat_step en)\<^sup>*\<^sup>* L L'"
  shows "seat_core en L'" and "sl_facts L' = sl_facts L" and "latched (sl_state L) (sl_state L')"
proof -
  have "seat_inv en L" using assms by (simp add: seat_inv_def)
  from seat.inv_run [OF this assms(4)] seat.rel_run [OF this assms(4)] assms(3)
  show "seat_core en L'" "sl_facts L' = sl_facts L" "latched (sl_state L) (sl_state L')"
    by (simp_all add: seat_inv_def seat_latched_def)
qed

definition runnable :: "seat_env \<Rightarrow> seat_loop \<Rightarrow> bool" where
  "runnable en L \<longleftrightarrow>
     decommissioned_at_ms (sf_seat_id (sl_facts L)) (sl_db L) = None \<and>
     (db_transfer_phase (se_codec en) (sf_seat_id (sl_facts L)) (sl_db L) = Inr None \<or>
      db_transfer_phase (se_codec en) (sf_seat_id (sl_facts L)) (sl_db L) = Inr (Some PhaseImported))"

lemma active_runnable: "seat_core en L \<Longrightarrow> active L \<longleftrightarrow> runnable en L"
proof -
  assume "seat_core en L"
  then have "db_transfer_phase (se_codec en) (sf_seat_id (sl_facts L)) (sl_db L) = Inr (rf_transfer_phase (sl_state L))"
    "rf_decommissioned_at_ms (sl_state L) = decommissioned_at_ms (sf_seat_id (sl_facts L)) (sl_db L)"
    by (simp_all add: seat_core_def mirrors_def)
  moreover have "phase_service_status phase = None \<longleftrightarrow> phase = PhaseImported" for phase
    by (cases phase rule: phase_service_status.cases) simp_all
  ultimately show ?thesis
    by (cases "rf_transfer_phase (sl_state L)") (simp_all add: active_def runnable_def transfer_status_def)
qed

lemma sample_loop_runnable: "runnable sample_seat_env sample_loop"
proof -
  have "active sample_loop" using seat_reach_inv(1) [OF sample_loop_reach sample_seat_env_ok] by (simp add: seat_core_def sample_loop_child)
  with active_runnable [OF seat_reach_inv(1) [OF sample_loop_reach sample_seat_env_ok]] show ?thesis by simp
qed

lemma sample_loop_schedule: "sl_respawn_at (schedule_respawn sample_seat_env sample_loop) = Some 1000"
  by (simp add: sample_loop_def seat_boot_def seat_start_def sample_durable_def Let_def sample_script_def evaluate
      sample_seat_env_def default_respawn_policy_def)

lemma sample_moved_not_runnable: "\<not> runnable sample_seat_env sample_moved_loop"
proof -
  have "rf_transfer_phase (sl_state sample_moved_loop) = Some (PhaseOutgoing Stopped)"
    by (simp add: sample_moved_loop_def seat_boot_def seat_start_def sample_moved_durable_def sample_durable_def Let_def
        sample_script_def evaluate)
  then have "\<not> active sample_moved_loop" by (rule outgoing_inactive)
  with active_runnable [OF seat_reach_inv(1) [OF sample_moved_reach sample_seat_env_ok]] show ?thesis by simp
qed

section \<open>Properties of the loop\<close>

text \<open>
  C5. Only an active seat has a child. In every reachable state of a
  runtime, whatever its children, the file system and the rest of the daemon did, a live child
  means that the database holds neither a decommission of the seat nor a transfer that fences
  it: no transfer at all, or a completed import.
\<close>

theorem live_child_is_runnable:
  assumes "reach (seat_init en) (seat_step en) L" and "seat_env_ok en" and "slot_is_live (sl_child L)"
  shows "runnable en L"
  using seat_reach_inv(1) [OF assms(1,2)] assms(3) active_runnable [of en L] by (simp add: seat_core_def)

theorem live_child_is_runnable_witness:
  "slot_is_live (sl_child sample_loop) \<and> runnable sample_seat_env sample_loop"
  using live_child_is_runnable [OF sample_loop_reach sample_seat_env_ok] by (simp add: sample_loop_child)

text \<open>
  C6. A seat that should run is never forgotten. In every reachable
  state of an open runtime whose database lets the seat run, a child is live, a respawn is
  scheduled, or a stop failed without proof that the child exited, which blocks every
  replacement until the daemon restarts.
\<close>

theorem runnable_seat_is_supervised:
  assumes "reach (seat_init en) (seat_step en) L" and "seat_env_ok en" and "sl_open L" and "runnable en L"
  shows "slot_is_live (sl_child L) \<or> sl_respawn_at L \<noteq> None \<or> sl_child L = ExitUnproven"
  using seat_reach_inv [OF assms(1,2)] assms(3,4) active_runnable [of en L]
  by (simp add: supervised_def guarded_def)

theorem runnable_seat_is_supervised_witness:
  "slot_is_live (sl_child sample_loop) \<or> sl_respawn_at sample_loop \<noteq> None \<or> sl_child sample_loop = ExitUnproven"
  by (rule runnable_seat_is_supervised [OF sample_loop_reach sample_seat_env_ok sample_loop_child(3) sample_loop_runnable])

text \<open>
  C2. A guardian runs in one place. Once a runtime has given the
  material of its guardian to the destination of a transfer, no child of this seat is live in
  any later state, daemon restarts included.
\<close>

theorem handed_over_seat_never_runs:
  assumes "reach (seat_init en) (seat_step en) L" and "seat_env_ok en"
    and "transfer_out en grant service_pubkey L = (Inr material, L')" and "(seat_step en)\<^sup>*\<^sup>* L' L''"
  shows "\<not> slot_is_live (sl_child L'')"
proof -
  note core = seat_reach_inv [OF assms(1,2)]
  have steady: "goes_steady en L L'"
    using transfer_out_steady [OF core(1), of grant service_pubkey] by (simp add: wp_snd assms(3))
  have "outgoing (sf_seat_id (sl_facts L)) (sl_db L) = Inr (Some Stopped)"
    using assms(3)
    by (auto simp: transfer_out_def bind_op_def fail_op_def db_read_def lift_op_def
        split: sum.splits prod.splits option.splits outgoing_transfer.splits)
  then have "rf_transfer_phase (sl_state L) = Some (PhaseOutgoing Stopped)"
    using core(1) by (simp add: seat_core_def mirrors_def db_transfer_phase_def)
  then have "rf_transfer_phase (sl_state L') = Some (PhaseOutgoing Stopped)"
    using goesD(2) [OF goes_steadyD(2) [OF steady]] by (simp add: fence_def)
  moreover have "sl_open L' \<longrightarrow> supervised L'"
    using core(2) goes_steadyD(4) [OF steady] goesD(2) [OF goes_steadyD(2) [OF steady]] by (simp add: fence_def)
  note run = seat_run_latched [OF goes_steadyD(1) [OF steady] this assms(2,4)]
  ultimately have "\<not> active L''"
    using run(3) outgoing_inactive(1) by (auto simp: latched_def)
  with run(1) show ?thesis by (simp add: seat_core_def)
qed

theorem handed_over_seat_never_runs_witness:
  "\<not> slot_is_live (sl_child (seat_boot sample_seat_env sample_moved_durable (sample_keys ''b'') (SeatPorts (PortBase 20000))
      sample_moved (sl_data (snd (transfer_out sample_seat_env sample_request [2] sample_moved_loop))) sample_script))"
proof (rule handed_over_seat_never_runs [OF sample_moved_reach sample_seat_env_ok])
  let ?L = "snd (transfer_out sample_seat_env sample_request [2] sample_moved_loop)"
  show "transfer_out sample_seat_env sample_request [2] sample_moved_loop =
      (Inr \<lparr>mt_archive = sample_archive, mt_keys = \<lparr>ik_iroh_api = as_bytes ''b'', ik_iroh_p2p = as_bytes ''b''\<rparr>\<rparr>, ?L)"
    using sample_moved_out(1) by (simp add: prod_eq_iff)
  have "durable_state sample_seat_env (sl_facts ?L) (sl_db ?L) = Inr sample_moved_durable"
    by (simp add: sample_moved_out sample_moved_state)
  from seat_step.restart [OF this] show "(seat_step sample_seat_env)\<^sup>*\<^sup>* ?L
      (seat_boot sample_seat_env sample_moved_durable (sample_keys ''b'') (SeatPorts (PortBase 20000)) sample_moved
        (sl_data ?L) sample_script)"
    unfolding sample_moved_out by (rule r_into_rtranclp)
qed

text \<open>
  C8. Every ceremony a runtime has ever sent to a child is the one its
  database recorded before: when it was sent the seat had no federation, the stored code set
  was the set of the ceremony, and the own index names one of its peers.
\<close>

theorem ceremonies_follow_inputs:
  assumes "reach (seat_init en) (seat_step en) L" and "seat_env_ok en" and "cm \<in> set (sl_ceremonies L)"
  shows "cm_formed cm = None \<and> cm_our_index cm < length (cm_codes cm) \<and>
    (\<exists>stored texts. cm_inputs cm = Some stored \<and> codes_from_json (se_codec en) stored = Some texts \<and>
      mset (cm_codes cm) = mset texts)"
proof -
  have "ceremony_ok en cm" using seat_reach_inv(1) [OF assms(1,2)] assms(3) by (simp add: seat_core_def)
  then show ?thesis by (cases "cm_inputs cm") (simp_all add: ceremony_ok_def)
qed

theorem ceremonies_follow_inputs_witness:
  "\<exists>stored texts. stored = codes_to_json sample_codec [''a'', ''b'', ''c'', ''d''] \<and>
     codes_from_json sample_codec stored = Some texts \<and> mset [''a'', ''b'', ''c'', ''d''] = mset texts"
  using ceremonies_follow_inputs [OF sample_started_reach sample_seat_env_ok, unfolded sample_started_ceremonies, OF list.set_intros(1)]
  by (simp add: sample_codec_env)



section \<open>Ceremonies\<close>

text \<open>The order of a stable sort by the first component depends on the first components only.\<close>

lemma insort_key_fst_map:
  assumes "\<And>x. fst (g x) = fst x"
  shows "Sorting_Algorithms.insort (key fst cmp) (g x) (map g ys) = map g (Sorting_Algorithms.insort (key fst cmp) x ys)"
  using assms by (induction ys) simp_all

lemma sort_key_fst_map:
  assumes "\<And>x. fst (g x) = fst x"
  shows "Sorting_Algorithms.sort (key fst cmp) (map g xs) = map g (Sorting_Algorithms.sort (key fst cmp) xs)"
  by (induction xs) (simp_all add: insort_key_fst_map assms)

text \<open>The code sets that two peers accept for the same codes are the same.\<close>

lemma sorted_codes_unique:
  assumes "mset codes = mset codes'"
  shows "sort_key code_text codes = sort_key code_text codes'"
proof -
  have "List.sort (map code_text codes) = map code_text (sort_key code_text xs)" if "mset xs = mset codes" for xs
    using that by (intro properties_for_sort) simp_all
  from this [of codes] this [of codes'] assms
  have "map code_text (sort_key code_text codes) = map code_text (sort_key code_text codes')" by simp
  then show ?thesis using inj_code_text by (simp add: inj_map_eq_map)
qed

lemma find_own_code_decodes:
  assumes "find_own_code en L codes own = Inr r" and "code \<in> set codes"
  shows "\<exists>setup. se_decode_code en (code_text code) = Some setup"
  using assms by (induction codes arbitrary: own) (auto split: option.splits if_splits)

lemma takeWhile_stops: "\<exists>x\<in>set xs. \<not> P x \<Longrightarrow> length (takeWhile P xs) < length xs"
  by (induction xs) auto

text \<open>
  What the ceremony parameters of a validated set are: the codes in the order of the decoded
  setups, which does not depend on the peer, and the position of the own code in it.
\<close>

definition ceremony_order :: "seat_env \<Rightarrow> dkg_code_set \<Rightarrow> string list" where
  "ceremony_order en submitted =
     map snd (Sorting_Algorithms.sort (key fst (se_code_order en))
       (map (\<lambda>code. (the (se_decode_code en (code_text code)), code_text code)) (code_set_codes submitted)))"

lemma validated_ceremony:
  assumes "validate_dkg_codes en codes L = Inr (submitted, own_code)"
  obtains our_index where "ceremony_params en submitted own_code = Inr (our_index, ceremony_order en submitted)"
    and "our_index < length codes" and "submitted = DkgCodeSet (sort_key code_text codes)"
proof -
  from assms have find: "find_own_code en L codes None = Inr (Some own_code)"
    and valid: "dkg_code_set_validate codes (sf_federation_size (sl_facts L)) own_code = Inr submitted"
    by (auto simp: validate_dkg_codes_def elim!: and_then_InrE split: sum.splits)
  from valid have submitted: "submitted = DkgCodeSet (sort_key code_text codes)" and own: "own_code \<in> set codes"
    and size: "length codes < 2 ^ 16"
    using unsigned_less [of "federation_size_get (sf_federation_size (sl_facts L))", where 'a = nat]
    by (simp_all add: dkg_code_set_validate_Inr)
  let ?decode = "\<lambda>code. the (se_decode_code en (code_text code))"
  let ?entries = "map (\<lambda>code. (?decode code, code_text code, code = own_code)) (sort_key code_text codes)"
  let ?ordered = "Sorting_Algorithms.sort (key fst (se_code_order en)) ?entries"
  let ?i = "length (takeWhile (\<lambda>entry. \<not> snd (snd entry)) ?ordered)"
  have "and_then (ok_or (se_decode_code en (code_text code)) (InvalidDkgInput ''guardian code''))
      (\<lambda>decoded. Inr (decoded, code_text code, code = own_code)) = Inr (?decode code, code_text code, code = own_code)"
    if "code \<in> set codes" for code
    using find_own_code_decodes [OF find that] by auto
  then have entries: "collect_results (map (\<lambda>code.
      and_then (ok_or (se_decode_code en (code_text code)) (InvalidDkgInput ''guardian code''))
        (\<lambda>decoded. Inr (decoded, code_text code, code = own_code))) (sort_key code_text codes)) = Inr ?entries"
    by (simp add: collect_results_Inr)
  have "(?decode own_code, code_text own_code, True) \<in> set ?ordered" using own by simp
  then have "?i < length ?ordered" by (intro takeWhile_stops bexI) auto
  then have i: "?i < length codes" by simp
  have "map (\<lambda>entry. fst (snd entry)) ?ordered = ceremony_order en submitted"
    using arg_cong [of _ _ "map snd", OF sort_key_fst_map [of "\<lambda>entry. (fst entry, fst (snd entry))" "se_code_order en" ?entries]]
    by (simp add: ceremony_order_def submitted comp_def)
  with i size entries have "ceremony_params en submitted own_code = Inr (?i, ceremony_order en submitted)"
    by (simp add: ceremony_params_def submitted Let_def)
  with i submitted show thesis by (intro that)
qed

text \<open>
  C7. Peers that accept the same codes run the same ceremony. When two seats
  accept code sets with the same codes, in whatever order they were submitted, the parameters
  of both exist, list the codes in the same order, and give each seat the position of its own
  code, so that seats with different codes have different positions.
\<close>

theorem ceremony_agreement:
  assumes "validate_dkg_codes en codes1 L1 = Inr (submitted1, own1)"
    and "validate_dkg_codes en codes2 L2 = Inr (submitted2, own2)" and "mset codes1 = mset codes2"
  shows "\<exists>order i1 i2.
    ceremony_params en submitted1 own1 = Inr (i1, order) \<and> ceremony_params en submitted2 own2 = Inr (i2, order) \<and>
    mset order = mset (map code_text codes1) \<and>
    i1 < length order \<and> order ! i1 = code_text own1 \<and> i2 < length order \<and> order ! i2 = code_text own2 \<and>
    (own1 = own2 \<or> i1 \<noteq> i2)"
proof -
  obtain i1 where i1: "ceremony_params en submitted1 own1 = Inr (i1, ceremony_order en submitted1)"
    and s1: "submitted1 = DkgCodeSet (sort_key code_text codes1)" using assms(1) by (rule validated_ceremony)
  obtain i2 where i2: "ceremony_params en submitted2 own2 = Inr (i2, ceremony_order en submitted2)"
    and s2: "submitted2 = DkgCodeSet (sort_key code_text codes2)" using assms(2) by (rule validated_ceremony)
  have same: "submitted2 = submitted1" using sorted_codes_unique [OF assms(3)] s1 s2 by simp
  note params = ceremony_params_Inr [OF i1] ceremony_params_Inr [OF i2 [unfolded same]]
  have "own1 = own2 \<or> i1 \<noteq> i2" using params(3,6) inj_code_text by (auto simp: inj_eq)
  with i1 i2 same params s1 show ?thesis by (intro exI [of _ "ceremony_order en submitted1"] exI [of _ i1] exI [of _ i2]) simp
qed

theorem ceremony_agreement_witness:
  "\<exists>order i1 i2.
    ceremony_params sample_seat_env (DkgCodeSet (map GuardianCode [''a'', ''b'', ''c'', ''d''])) (GuardianCode ''b'') = Inr (i1, order) \<and>
    ceremony_params sample_seat_env (DkgCodeSet (map GuardianCode [''a'', ''b'', ''c'', ''d''])) (GuardianCode ''c'') = Inr (i2, order) \<and>
    order ! i1 = ''b'' \<and> order ! i2 = ''c'' \<and> i1 \<noteq> i2"
  using ceremony_agreement [OF sample_validated] by auto

section \<open>Fenced seats\<close>

lemma inactive_refuses:
  assumes "\<not> active L"
  shows "(\<exists>e. reject_decommissioned (sl_state L) = Inl e) \<or>
    reject_decommissioned (sl_state L) = Inr () \<and> (\<exists>e. reject_transfer_work (sl_state L) = Inl e)"
  using assms by (auto simp: active_def reject_decommissioned_def reject_transfer_work_def split: option.split)

definition untouched :: "seat_loop \<Rightarrow> seat_loop \<Rightarrow> bool" where
  "untouched L L' \<longleftrightarrow> L' = L\<lparr>sl_script := sl_script L'\<rparr>"

lemma untouched_script [simp]: "untouched L (L\<lparr>sl_script := script\<rparr>)"
  by (simp add: untouched_def)

definition refuses :: "'a op \<Rightarrow> seat_loop \<Rightarrow> bool" where
  "refuses m L \<longleftrightarrow> (\<exists>e. fst (m L) = Inl e) \<and> untouched L (snd (m L))"

lemma refuses_wp: "refuses m L \<longleftrightarrow> wp m (\<lambda>_ _. False) (\<lambda>_. untouched L) L"
  by (rule wp_cases [of m L]) (simp_all add: refuses_def)

lemma fenced_check:
  assumes "\<not> active L"
  shows "wp check_unformed Q (\<lambda>_. untouched L) L" and "wp (dkg_code en name) Q' (\<lambda>_. untouched L) L"
  unfolding check_unformed_def dkg_code_def wp_bind
  using inactive_refuses [OF assms] by (intro wp_final_data_exists; elim disjE conjE exE; simp add: op_wp)+

text \<open>
  A decommissioned seat, a seat that waits for its import and
  a seat that was handed over take part in no ceremony: asking for the setup code, starting and
  restarting all fail, and the database, the child and the schedule stay as they are.
\<close>

lemma fenced_seat_refuses_ceremonies:
  assumes "reach (seat_init en) (seat_step en) L" and "seat_env_ok en" and "\<not> runnable en L"
  shows "refuses (dkg_code en name) L \<and> refuses (start_dkg en codes callback) L \<and> refuses (restart_dkg en codes) L"
proof -
  have "\<not> active L" using active_runnable [OF seat_reach_inv(1) [OF assms(1,2)]] assms(3) by simp
  note fenced = fenced_check [OF this]
  show ?thesis
    unfolding refuses_wp start_dkg_def restart_dkg_def wp_bind [of check_unformed] by (intro conjI fenced)
qed

end
