(* ===== verification/Gateway_Store.thy ===== *)
theory Gateway_Store
  imports Prelude "HOL-Library.Product_Lexorder" "HOL-Library.List_Lexorder" "HOL-Library.Char_ord"
begin

text \<open>
  The durable state of the push gateway (\<open>src/crates/push-gateway-storage\<close>): the tables of its
  migrations, one record per row, and the statements the repositories share.

  \<^item> A row's primary key is the key of the association list; the other columns are the fields of
    the record. Time stamps and counters are the signed 64-bit columns of the schema, as \<open>int\<close>;
    \<open>i64_saturating\<close> is the range of the Rust type where the code saturates.
  \<^item> An \<open>INSERT\<close> is refused with \<open>SqlxDatabase\<close> when a primary key, a unique index, a foreign key
    or a \<open>CHECK\<close> of the schema rejects the row. Deletions cascade as the foreign keys say.
  \<^item> A transaction is \<open>gw_tx\<close>: an error restores the state at its beginning. The clock readings
    and the random identifiers a function draws are its arguments.
  \<^item> \<open>ORDER BY ... LIMIT\<close> is \<open>select_ordered\<close>; rows that agree on the ordering columns, whose order
    SQL leaves open, come in table order.
\<close>

section \<open>Values of the wire types\<close>

text \<open>\<open>serde_json::Value\<close>, a number by its text, and \<open>Map<String, Value>\<close>, ordered by key.\<close>

datatype json =
    JNull
  | JBool bool
  | JNumber string
  | JString string
  | JArray "json list"
  | JObject "(string \<times> json) list"

type_synonym json_map = "(string \<times> json) list"

text \<open>\<open>Map::insert\<close>: replace the value of the key, or add it at its place in the order.\<close>

fun json_insert :: "string \<Rightarrow> json \<Rightarrow> json_map \<Rightarrow> json_map" where
  "json_insert k v [] = [(k, v)]"
| "json_insert k v ((k', v') # m) =
     (if k = k' then (k, v) # m
      else if k < k' then (k, v) # (k', v') # m
      else (k', v') # json_insert k v m)"

datatype hook_privacy = DisplayText | DataOnly

fun privacy_as_str :: "hook_privacy \<Rightarrow> string" where
  "privacy_as_str DisplayText = ''display_text''"
| "privacy_as_str DataOnly = ''data_only''"

definition privacy_from :: "string option \<Rightarrow> hook_privacy" where
  "privacy_from v = (if v = Some ''data_only'' then DataOnly else DisplayText)"

datatype hook_open_behavior = OpenApp | OpenWorkflow | OpenDeepLink

fun open_behavior_as_str :: "hook_open_behavior \<Rightarrow> string" where
  "open_behavior_as_str OpenApp = ''open_app''"
| "open_behavior_as_str OpenWorkflow = ''open_workflow''"
| "open_behavior_as_str OpenDeepLink = ''open_deep_link''"

definition open_behavior_from :: "string option \<Rightarrow> hook_open_behavior" where
  "open_behavior_from v =
     (if v = Some ''open_workflow'' then OpenWorkflow
      else if v = Some ''open_deep_link'' then OpenDeepLink else OpenApp)"

record notification =
  nt_recipient_id :: string
  nt_notification_id :: string
  nt_kind :: string
  nt_title :: "string option"
  nt_body :: "string option"
  nt_data :: json_map

text \<open>
  The code of other packages that the gateway calls: the JSON printer and parser, and the
  SHA-256 digest of a hook token in hexadecimal.
\<close>

record gateway_codec =
  gc_notification_to_json :: "notification \<Rightarrow> string"
  gc_notification_from_json :: "string \<Rightarrow> notification option"
  gc_data_to_json :: "json_map \<Rightarrow> string"
  gc_data_from_json :: "string \<Rightarrow> json_map option"
  gc_value_to_string :: "json \<Rightarrow> string"
  gc_hash_hex :: "string \<Rightarrow> string"

section \<open>Rows\<close>

record registration_row =
  pr_fcm_token :: string
  pr_platform :: "string option"
  pr_created_at :: int
  pr_updated_at :: int
  pr_last_seen_at :: int
  pr_disabled_at :: "int option"
  pr_disabled_reason :: "string option"

record token_owner_row =
  ow_recipient_id :: string
  ow_installation_id :: string
  ow_updated_at :: int

record hook_row =
  hk_secret_hash :: string
  hk_recipient_id :: string
  hk_installation_id :: string
  hk_label :: "string option"
  hk_kind :: "string option"
  hk_workflow :: "string option"
  hk_action :: "string option"
  hk_deep_link :: "string option"
  hk_open_behavior :: string
  hk_privacy :: string
  hk_title :: "string option"
  hk_body :: "string option"
  hk_data_json :: string
  hk_created_at :: int
  hk_expires_at :: "int option"
  hk_revoked_at :: "int option"
  hk_max_uses :: "int option"
  hk_use_count :: int
  hk_last_used_at :: "int option"
  hk_rate_limit_window_seconds :: "int option"
  hk_rate_limit_max_requests :: "int option"
  hk_rate_limit_window_started_at :: "int option"
  hk_rate_limit_count :: int

record event_row =
  ev_hook_id :: string
  ev_caller_idempotency_key :: "string option"
  ev_recipient_id :: string
  ev_notification_json :: string
  ev_target_count :: int
  ev_created_at :: int

datatype outbox_status = Pending | InProgress | Retrying | Succeeded | InvalidToken | DeadLetter

record outbox_row =
  ob_event_id :: string
  ob_recipient_id :: string
  ob_installation_id :: string
  ob_fcm_token :: string
  ob_platform :: "string option"
  ob_notification_json :: string
  ob_status :: outbox_status
  ob_attempts :: int
  ob_next_attempt_at :: int
  ob_last_attempt_at :: "int option"
  ob_last_error :: "string option"
  ob_claim_id :: "string option"
  ob_created_at :: int
  ob_updated_at :: int

record tombstone_row =
  tb_target_count :: int
  tb_accepted_at :: int
  tb_retain_until :: int

record gateway_db =
  push_registrations :: "(string \<times> string, registration_row) tbl"
  token_owners :: "(string, token_owner_row) tbl"
  notification_hooks :: "(string, hook_row) tbl"
  notification_events :: "(string, event_row) tbl"
  delivery_outbox :: "(string, outbox_row) tbl"
  hook_tombstones :: "(string \<times> string, tombstone_row) tbl"
  admission_locks :: "(string, int) tbl"

text \<open>The database the migrations create.\<close>

definition migrated_db :: gateway_db where
  "migrated_db =
     \<lparr> push_registrations = [], token_owners = [], notification_hooks = [], notification_events = [],
       delivery_outbox = [], hook_tombstones = [],
       admission_locks = [(''registration'', 0), (''hook'', 0)] \<rparr>"

section \<open>Statements\<close>

datatype gw_error =
    SqlxDatabase
  | SqlxRowNotFound
  | SqlxDecode
  | SqlxConfiguration string

definition gw_tx :: "'s \<Rightarrow> (gw_error + 'a \<times> 's) \<Rightarrow> (gw_error + 'a) \<times> 's" where
  "gw_tx s r = (case r of Inl e \<Rightarrow> (Inl e, s) | Inr (x, t) \<Rightarrow> (Inr x, t))"

definition i64_saturating :: "int \<Rightarrow> int" where
  "i64_saturating i = max (- (2 ^ 63)) (min (2 ^ 63 - 1) i)"

text \<open>\<open>i64::try_from(batch_size).unwrap_or(i64::MAX)\<close>, as the limit of a selection.\<close>

definition sql_limit :: "u64 \<Rightarrow> nat" where
  "sql_limit n = min (unat n) (2 ^ 63 - 1)"

definition select_ordered ::
  "('k \<Rightarrow> 'v \<Rightarrow> 'o::linorder) \<Rightarrow> nat \<Rightarrow> ('k \<Rightarrow> 'v \<Rightarrow> bool) \<Rightarrow> ('k, 'v) tbl \<Rightarrow> ('k \<times> 'v) list" where
  "select_ordered ord n p t = take n (sort_key (\<lambda>(k, v). ord k v) (filter (\<lambda>(k, v). p k v) t))"

definition delete_keys :: "'k list \<Rightarrow> ('k, 'v) tbl \<Rightarrow> ('k, 'v) tbl" where
  "delete_keys ks t = delete_where (\<lambda>k _. k \<in> set ks) t"

text \<open>The row that carries a token, which the unique index makes unique.\<close>

definition find_by_token ::
  "string \<Rightarrow> gateway_db \<Rightarrow> ((string \<times> string) \<times> registration_row) option" where
  "find_by_token tok s = List.find (\<lambda>(_, v). pr_fcm_token v = tok) (push_registrations s)"

definition token_registered :: "gateway_db \<Rightarrow> string \<Rightarrow> bool" where
  "token_registered s tok = (\<exists>(_, v) \<in> set (push_registrations s). pr_fcm_token v = tok)"

definition hook_row_check :: "hook_row \<Rightarrow> bool" where
  "hook_row_check h \<longleftrightarrow>
     0 \<le> hk_created_at h \<and> 0 \<le> hk_use_count h \<and> 0 \<le> hk_rate_limit_count h
     \<and> (case hk_rate_limit_window_seconds h of None \<Rightarrow> False | Some w \<Rightarrow> 0 < w)
     \<and> (case hk_rate_limit_max_requests h of None \<Rightarrow> False | Some m \<Rightarrow> 0 < m)
     \<and> (case hk_expires_at h of None \<Rightarrow> True | Some e \<Rightarrow> 0 \<le> e)
     \<and> (case hk_revoked_at h of None \<Rightarrow> True | Some r \<Rightarrow> 0 \<le> r)
     \<and> (case hk_max_uses h of None \<Rightarrow> True | Some m \<Rightarrow> 0 < m)
     \<and> (case hk_last_used_at h of None \<Rightarrow> True | Some u \<Rightarrow> 0 \<le> u)
     \<and> (case hk_rate_limit_window_started_at h of None \<Rightarrow> True | Some w \<Rightarrow> 0 \<le> w)"

definition event_row_check :: "event_row \<Rightarrow> bool" where
  "event_row_check e \<longleftrightarrow> 0 \<le> ev_target_count e \<and> 0 \<le> ev_created_at e"

definition outbox_row_check :: "outbox_row \<Rightarrow> bool" where
  "outbox_row_check b \<longleftrightarrow>
     0 \<le> ob_attempts b \<and> 0 \<le> ob_next_attempt_at b \<and> 0 \<le> ob_created_at b \<and> 0 \<le> ob_updated_at b
     \<and> (case ob_last_attempt_at b of None \<Rightarrow> True | Some l \<Rightarrow> 0 \<le> l)"

definition registration_row_check :: "registration_row \<Rightarrow> bool" where
  "registration_row_check v \<longleftrightarrow>
     0 \<le> pr_created_at v \<and> 0 \<le> pr_updated_at v \<and> 0 \<le> pr_last_seen_at v
     \<and> (case pr_disabled_at v of None \<Rightarrow> True | Some d \<Rightarrow> 0 \<le> d)"

definition token_owner_row_check :: "token_owner_row \<Rightarrow> bool" where
  "token_owner_row_check v \<longleftrightarrow> 0 \<le> ow_updated_at v"

definition tombstone_row_check :: "tombstone_row \<Rightarrow> bool" where
  "tombstone_row_check v \<longleftrightarrow> 0 \<le> tb_target_count v \<and> 0 \<le> tb_accepted_at v \<and> 0 \<le> tb_retain_until v"

text \<open>Inserting a row whose \<open>CHECK\<close> and extra uniqueness rule are given.\<close>

definition insert_checked ::
  "('v \<Rightarrow> bool) \<Rightarrow> ('k \<Rightarrow> 'v \<Rightarrow> bool) \<Rightarrow> 'k \<Rightarrow> 'v \<Rightarrow> ('k, 'v) tbl \<Rightarrow> gw_error + ('k, 'v) tbl" where
  "insert_checked ok clash k v t =
     (if ok v \<and> (\<forall>(k', v') \<in> set t. \<not> clash k' v') then ok_or (insert_row k v t) SqlxDatabase
      else Inl SqlxDatabase)"

definition insert_hook :: "string \<Rightarrow> hook_row \<Rightarrow> gateway_db \<Rightarrow> gw_error + gateway_db" where
  "insert_hook k h s =
     and_then (insert_checked hook_row_check (\<lambda>_ h'. hk_secret_hash h' = hk_secret_hash h) k h
         (notification_hooks s))
       (\<lambda>t. Inr (s\<lparr>notification_hooks := t\<rparr>))"

text \<open>A null idempotency key never clashes: SQL compares nulls as distinct.\<close>

definition same_event_key :: "event_row \<Rightarrow> event_row \<Rightarrow> bool" where
  "same_event_key e e' \<longleftrightarrow>
     ev_hook_id e = ev_hook_id e' \<and> ev_caller_idempotency_key e \<noteq> None
     \<and> ev_caller_idempotency_key e = ev_caller_idempotency_key e'"

definition insert_event :: "string \<Rightarrow> event_row \<Rightarrow> gateway_db \<Rightarrow> gw_error + gateway_db" where
  "insert_event k e s =
     (if tbl_exists (notification_hooks s) (ev_hook_id e)
      then and_then (insert_checked event_row_check (\<lambda>_ e'. same_event_key e e') k e
               (notification_events s))
             (\<lambda>t. Inr (s\<lparr>notification_events := t\<rparr>))
      else Inl SqlxDatabase)"

definition same_target :: "outbox_row \<Rightarrow> outbox_row \<Rightarrow> bool" where
  "same_target b b' \<longleftrightarrow>
     ob_event_id b = ob_event_id b' \<and> ob_recipient_id b = ob_recipient_id b'
     \<and> ob_installation_id b = ob_installation_id b'"

definition insert_outbox :: "string \<Rightarrow> outbox_row \<Rightarrow> gateway_db \<Rightarrow> gw_error + gateway_db" where
  "insert_outbox k b s =
     (if tbl_exists (notification_events s) (ob_event_id b)
      then and_then (insert_checked outbox_row_check (\<lambda>_ b'. same_target b b') k b (delivery_outbox s))
             (\<lambda>t. Inr (s\<lparr>delivery_outbox := t\<rparr>))
      else Inl SqlxDatabase)"

definition insert_tombstone ::
  "string \<times> string \<Rightarrow> tombstone_row \<Rightarrow> gateway_db \<Rightarrow> gw_error + gateway_db" where
  "insert_tombstone k v s =
     (if tbl_exists (notification_hooks s) (fst k)
      then and_then (insert_checked tombstone_row_check (\<lambda>_ _. False) k v (hook_tombstones s))
             (\<lambda>t. Inr (s\<lparr>hook_tombstones := t\<rparr>))
      else Inl SqlxDatabase)"

definition insert_token_owner :: "string \<Rightarrow> token_owner_row \<Rightarrow> gateway_db \<Rightarrow> gw_error + gateway_db" where
  "insert_token_owner k v s =
     and_then (insert_checked token_owner_row_check (\<lambda>_ _. False) k v (token_owners s))
       (\<lambda>t. Inr (s\<lparr>token_owners := t\<rparr>))"

text \<open>Deletions with their cascades.\<close>

definition delete_events :: "string list \<Rightarrow> gateway_db \<Rightarrow> gateway_db" where
  "delete_events ks s =
     s\<lparr>notification_events := delete_keys ks (notification_events s),
       delivery_outbox := delete_where (\<lambda>_ b. ob_event_id b \<in> set ks) (delivery_outbox s)\<rparr>"

definition delete_hooks :: "string list \<Rightarrow> gateway_db \<Rightarrow> gateway_db" where
  "delete_hooks ks s =
     (let es = map fst (filter (\<lambda>(_, e). ev_hook_id e \<in> set ks) (notification_events s));
          s' = delete_events es s
      in s'\<lparr>notification_hooks := delete_keys ks (notification_hooks s'),
            hook_tombstones := delete_where (\<lambda>k _. fst k \<in> set ks) (hook_tombstones s')\<rparr>)"

text \<open>\<open>acquire_admission_lock\<close>: the mutex row of a resource must exist.\<close>

definition acquire_admission_lock :: "string \<Rightarrow> int \<Rightarrow> gateway_db \<Rightarrow> gw_error + gateway_db" where
  "acquire_admission_lock resource now s =
     (if tbl_exists (admission_locks s) resource
      then Inr (s\<lparr>admission_locks := update_where (\<lambda>k _. k = resource) (\<lambda>_. now) (admission_locks s)\<rparr>)
      else Inl SqlxRowNotFound)"

text \<open>A unique index: no two rows that the index compares as equal.\<close>

definition unique_under :: "('v \<Rightarrow> 'v \<Rightarrow> bool) \<Rightarrow> ('k, 'v) tbl \<Rightarrow> bool" where
  "unique_under R t \<longleftrightarrow> (\<forall>(k, v) \<in> set t. \<forall>(k', v') \<in> set t. R v v' \<longrightarrow> k = k')"

section \<open>Facts about the statements\<close>

lemma gw_tx_Inl [simp]: "gw_tx s (Inl e) = (Inl e, s)"
  by (simp add: gw_tx_def)

lemma gw_tx_Inr [simp]: "gw_tx s (Inr (x, t)) = (Inr x, t)"
  by (simp add: gw_tx_def)

lemma select_ordered_subset: "set (select_ordered ord n p t) \<subseteq> {(k, v) \<in> set t. p k v}"
  unfolding select_ordered_def by (auto dest!: in_set_takeD)

lemma select_ordered_one:
  "select_ordered ord (Suc 0) p t =
     (case sort_key (\<lambda>(k, v). ord k v) (filter (\<lambda>(k, v). p k v) t) of [] \<Rightarrow> [] | r # _ \<Rightarrow> [r])"
  by (simp add: select_ordered_def take_Suc split: list.split)

lemma insert_checked_Inr:
  "insert_checked ok clash k v t = Inr t' \<longleftrightarrow>
     ok v \<and> (\<forall>(k', v') \<in> set t. \<not> clash k' v') \<and> \<not> tbl_exists t k \<and> t' = t @ [(k, v)]"
  by (auto simp: insert_checked_def insert_row_Some)

lemma insert_checked_Inl:
  "insert_checked ok clash k v t = Inl e \<longleftrightarrow>
     e = SqlxDatabase \<and> \<not> (ok v \<and> (\<forall>(k', v') \<in> set t. \<not> clash k' v') \<and> \<not> tbl_exists t k)"
  by (auto simp: insert_checked_def insert_row_def)

lemma keyed_delete_keys [table_simps]: "keyed t \<Longrightarrow> keyed (delete_keys ks t)"
  by (simp add: delete_keys_def keyed_delete_where)

lemma set_delete_where [table_simps]: "set (delete_where p t) = {(k, v) \<in> set t. \<not> p k v}"
  by (auto simp: delete_where_def)

lemma set_delete_keys [table_simps]: "set (delete_keys ks t) = {(k, v) \<in> set t. k \<notin> set ks}"
  by (auto simp: delete_keys_def set_delete_where)

lemma set_update_where [table_simps]:
  "set (update_where p f t) = (\<lambda>(k, v). (k, if p k v then f v else v)) ` set t"
  by (simp add: update_where_def)

lemma matching_delete_where:
  "matching p (delete_where q t) + matching (\<lambda>k v. p k v \<and> q k v) t = matching p t"
  by (induction t) (auto simp: matching_def delete_where_def)

lemma length_delete_where: "length (delete_where q t) + matching q t = length t"
  by (induction t) (auto simp: matching_def delete_where_def)

lemma matching_update_where:
  "matching p (update_where q f t) = matching (\<lambda>k v. p k (if q k v then f v else v)) t"
proof -
  have "(\<lambda>(k, v). p k v) \<circ> (\<lambda>(k, v). (k, if q k v then f v else v)) =
      (\<lambda>(k, v). p k (if q k v then f v else v))"
    by (auto simp: fun_eq_iff)
  then show ?thesis by (simp add: matching_def update_where_def filter_map)
qed

lemma matching_split: "matching p t = matching (\<lambda>k v. p k v \<and> q k v) t + matching (\<lambda>k v. p k v \<and> \<not> q k v) t"
  by (induction t) (auto simp: matching_def)

lemma unique_underD:
  "unique_under R t \<Longrightarrow> (k, v) \<in> set t \<Longrightarrow> (k', v') \<in> set t \<Longrightarrow> R v v' \<Longrightarrow> k = k'"
  by (auto simp: unique_under_def)

lemma unique_under_Nil [simp]: "unique_under R []"
  by (simp add: unique_under_def)

lemma unique_under_subset: "unique_under R t \<Longrightarrow> set t' \<subseteq> set t \<Longrightarrow> unique_under R t'"
  by (fastforce simp: unique_under_def)

lemma unique_under_snoc:
  assumes "unique_under R t" and "\<And>k' v'. (k', v') \<in> set t \<Longrightarrow> \<not> R v v' \<and> \<not> R v' v"
  shows "unique_under R (t @ [(k, v)])"
  using assms by (fastforce simp: unique_under_def)

lemma unique_under_update_where:
  assumes "unique_under R t" and "\<And>v v'. R (f v) v' = R v v'" and "\<And>v v'. R v (f v') = R v v'"
  shows "unique_under R (update_where p f t)"
  using assms by (fastforce simp: unique_under_def set_update_where split: if_splits)

lemma set_upsert_keyed:
  assumes "keyed t"
  shows "set (upsert_row k v t) = insert (k, v) {(k', v') \<in> set t. k' \<noteq> k}"
proof (cases "tbl_exists t k")
  case True
  then obtain v0 where v0: "(k, v0) \<in> set t" by (auto simp: tbl_exists_iff)
  let ?f = "\<lambda>(k', v'). (k', if k' = k then v else v')"
  have "?f ` set t = insert (k, v) {(k', v') \<in> set t. k' \<noteq> k}"
  proof (intro subset_antisym subsetI)
    fix x assume "x \<in> insert (k, v) {(k', v') \<in> set t. k' \<noteq> k}"
    then show "x \<in> ?f ` set t" using v0 by (cases "x = (k, v)") (auto intro: rev_image_eqI)
  qed (auto split: if_splits)
  with True show ?thesis by (simp add: upsert_row_def set_update_where)
next
  case False
  then show ?thesis by (auto simp: upsert_row_def tbl_exists_iff image_iff)
qed

lemma unique_under_upsert:
  assumes "unique_under R t" and "keyed t"
    and "\<And>k' v'. (k', v') \<in> set t \<Longrightarrow> k' \<noteq> k \<Longrightarrow> \<not> R v v' \<and> \<not> R v' v"
  shows "unique_under R (upsert_row k v t)"
  using assms by (fastforce simp: unique_under_def set_upsert_keyed)

lemma matching_card_rows:
  assumes "keyed t"
  shows "matching p t = card {x \<in> set t. p (fst x) (snd x)}"
proof -
  have "distinct t" using assms by (simp add: keyed_def distinct_map)
  then have "matching p t = card (set (filter (\<lambda>(k, v). p k v) t))"
    unfolding matching_def by (intro distinct_card [symmetric]) simp
  also have "set (filter (\<lambda>(k, v). p k v) t) = {x \<in> set t. p (fst x) (snd x)}"
    by auto
  finally show ?thesis .
qed

lemma map_of_in_set: "keyed t \<Longrightarrow> map_of t k = Some v \<longleftrightarrow> (k, v) \<in> set t"
  by (simp add: keyed_def)

lemma map_of_delete_keys [table_simps]:
  "keyed t \<Longrightarrow> map_of (delete_keys ks t) k = (if k \<in> set ks then None else map_of t k)"
  by (simp add: delete_keys_def map_of_delete_where split: option.split)

lemma find_Some_set: "List.find P xs = Some x \<Longrightarrow> x \<in> set xs \<and> P x"
  by (induction xs) (auto split: if_splits)

lemma i64_saturating_id [simp]:
  "- (2 ^ 63) \<le> i \<Longrightarrow> i < 2 ^ 63 \<Longrightarrow> i64_saturating i = i"
  by (simp add: i64_saturating_def)

lemma i64_saturating_mono: "i \<le> j \<Longrightarrow> i64_saturating i \<le> i64_saturating j"
  by (auto simp: i64_saturating_def)

end
