(* ===== verification/Gateway_Registrations.thy ===== *)
theory Gateway_Registrations
  imports Gateway_Store
begin

text \<open>
  Installations that may receive notifications
  (\<open>src/crates/push-gateway-storage/src/push_registration_repository.rs\<close>): admission with its
  ceilings and its token-ownership rule, deletion, disabling, and the stale-row sweep. The lemmas
  at the end show that the counts the admission projects are the counts after its writes.
\<close>

record register_request =
  rq_installation_id :: string
  rq_fcm_token :: string
  rq_platform :: "string option"

record registration_limits =
  rl_max_active_per_recipient :: u64
  rl_max_active_global :: u64
  rl_max_total_rows :: u64
  rl_reclamation_batch_size :: u64

datatype registration_outcome =
    Registered
  | RecipientCapacityExceeded
  | GlobalCapacityExceeded
  | GlobalRowCapacityExceeded
  | TokenBoundToDifferentInstallation

record push_registration =
  reg_recipient_id :: string
  reg_installation_id :: string
  reg_fcm_token :: string
  reg_platform :: "string option"
  reg_created_at :: int
  reg_last_seen_at :: int
  reg_disabled_at :: "int option"
  reg_disabled_reason :: "string option"

fun row_to_registration :: "(string \<times> string) \<times> registration_row \<Rightarrow> push_registration" where
  "row_to_registration ((r, i), v) =
     \<lparr> reg_recipient_id = r, reg_installation_id = i, reg_fcm_token = pr_fcm_token v,
       reg_platform = pr_platform v, reg_created_at = pr_created_at v,
       reg_last_seen_at = pr_last_seen_at v, reg_disabled_at = pr_disabled_at v,
       reg_disabled_reason = pr_disabled_reason v \<rparr>"

definition registration_row_is_active :: "registration_row \<Rightarrow> int \<Rightarrow> bool" where
  "registration_row_is_active v cutoff \<longleftrightarrow> pr_disabled_at v = None \<and> cutoff \<le> pr_last_seen_at v"

definition active_registration_count :: "string option \<Rightarrow> int \<Rightarrow> gateway_db \<Rightarrow> nat" where
  "active_registration_count recipient cutoff s =
     matching (\<lambda>k v. (case recipient of None \<Rightarrow> True | Some r \<Rightarrow> fst k = r)
         \<and> registration_row_is_active v cutoff) (push_registrations s)"

definition physical_registration_count :: "gateway_db \<Rightarrow> nat" where
  "physical_registration_count s = length (push_registrations s) + length (token_owners s)"

definition token_owner_matches_installation ::
  "string \<Rightarrow> string \<Rightarrow> string \<Rightarrow> gateway_db \<Rightarrow> bool" where
  "token_owner_matches_installation tok r i s =
     (matching (\<lambda>k v. k = tok \<and> ow_recipient_id v = r \<and> ow_installation_id v = i) (token_owners s) = 1)"

definition purge_orphaned_token_owners :: "int \<Rightarrow> nat \<Rightarrow> gateway_db \<Rightarrow> nat \<times> gateway_db" where
  "purge_orphaned_token_owners cutoff batch s =
     (if batch = 0 then (0, s)
      else let gone = map fst (select_ordered (\<lambda>k v. (ow_updated_at v, k)) batch
                 (\<lambda>k v. ow_updated_at v < cutoff \<and> \<not> token_registered s k) (token_owners s))
           in (length gone, s\<lparr>token_owners := delete_keys gone (token_owners s)\<rparr>))"

definition purge_stale_in_transaction :: "int \<Rightarrow> u64 \<Rightarrow> gateway_db \<Rightarrow> gateway_db" where
  "purge_stale_in_transaction cutoff batch s =
     (if batch = 0 then s
      else let gone = map fst (select_ordered (\<lambda>_ v. pr_last_seen_at v) (sql_limit batch)
                 (\<lambda>_ v. pr_last_seen_at v < cutoff) (push_registrations s));
               s1 = s\<lparr>push_registrations := delete_keys gone (push_registrations s)\<rparr>
           in snd (purge_orphaned_token_owners cutoff (sql_limit batch) s1))"

section \<open>Admission\<close>

text \<open>
  What \<open>admit_installation\<close> reads inside its transaction, after the sweep: the owner and the
  registration of the token, the target row, and whether the target's previous token is released.
\<close>

record admission_view =
  av_token_owner :: "token_owner_row option"
  av_token_registration :: "((string \<times> string) \<times> registration_row) option"
  av_target :: "registration_row option"
  av_releases_target_old_owner :: bool

definition admission_view_of :: "string \<Rightarrow> register_request \<Rightarrow> gateway_db \<Rightarrow> admission_view" where
  "admission_view_of r req s =
     (let target = map_of (push_registrations s) (r, rq_installation_id req) in
      \<lparr> av_token_owner = map_of (token_owners s) (rq_fcm_token req),
        av_token_registration = find_by_token (rq_fcm_token req) s,
        av_target = target,
        av_releases_target_old_owner =
          (case target of
             None \<Rightarrow> False
           | Some v \<Rightarrow> pr_fcm_token v \<noteq> rq_fcm_token req
               \<and> token_owner_matches_installation (pr_fcm_token v) r (rq_installation_id req) s) \<rparr>)"

definition token_conflict :: "string \<Rightarrow> register_request \<Rightarrow> admission_view \<Rightarrow> bool" where
  "token_conflict r req av \<longleftrightarrow>
     (case av_token_owner av of
        None \<Rightarrow> False
      | Some v \<Rightarrow> ow_recipient_id v \<noteq> r \<and> ow_installation_id v \<noteq> rq_installation_id req)
     \<or> (case av_token_registration av of
          None \<Rightarrow> False
        | Some ((r', i'), _) \<Rightarrow> r' \<noteq> r \<and> i' \<noteq> rq_installation_id req)"

definition other_route :: "string \<Rightarrow> register_request \<Rightarrow> admission_view \<Rightarrow> bool" where
  "other_route r req av \<longleftrightarrow>
     (case av_token_registration av of
        None \<Rightarrow> False
      | Some ((r', i'), _) \<Rightarrow> r' \<noteq> r \<or> i' \<noteq> rq_installation_id req)"

definition target_is_active :: "int \<Rightarrow> admission_view \<Rightarrow> bool" where
  "target_is_active cutoff av \<longleftrightarrow>
     (case av_target av of None \<Rightarrow> False | Some v \<Rightarrow> registration_row_is_active v cutoff)"

definition token_registration_is_active :: "int \<Rightarrow> admission_view \<Rightarrow> bool" where
  "token_registration_is_active cutoff av \<longleftrightarrow>
     (case av_token_registration av of None \<Rightarrow> False | Some (_, v) \<Rightarrow> registration_row_is_active v cutoff)"

definition token_registration_belongs_to :: "string \<Rightarrow> admission_view \<Rightarrow> bool" where
  "token_registration_belongs_to r av \<longleftrightarrow>
     (case av_token_registration av of None \<Rightarrow> False | Some ((r', _), _) \<Rightarrow> r' = r)"

definition projected_recipient :: "string \<Rightarrow> register_request \<Rightarrow> int \<Rightarrow> admission_view \<Rightarrow> gateway_db \<Rightarrow> nat" where
  "projected_recipient r req cutoff av s =
     active_registration_count (Some r) cutoff s
       - (of_bool (target_is_active cutoff av)
          + of_bool (other_route r req av \<and> token_registration_belongs_to r av
              \<and> token_registration_is_active cutoff av)) + 1"

definition projected_global :: "string \<Rightarrow> register_request \<Rightarrow> int \<Rightarrow> admission_view \<Rightarrow> gateway_db \<Rightarrow> nat" where
  "projected_global r req cutoff av s =
     active_registration_count None cutoff s
       - (of_bool (target_is_active cutoff av)
          + of_bool (other_route r req av \<and> token_registration_is_active cutoff av)) + 1"

definition projected_rows :: "string \<Rightarrow> register_request \<Rightarrow> admission_view \<Rightarrow> gateway_db \<Rightarrow> nat" where
  "projected_rows r req av s =
     physical_registration_count s
       - (of_bool (other_route r req av) + of_bool (av_releases_target_old_owner av))
       + (of_bool (av_target av = None) + of_bool (av_token_owner av = None))"

text \<open>\<open>INSERT ... ON CONFLICT(recipient_id, installation_id) DO UPDATE\<close>, under the token index.\<close>

definition upsert_registration ::
  "string \<times> string \<Rightarrow> register_request \<Rightarrow> int \<Rightarrow> gateway_db \<Rightarrow> gw_error + gateway_db" where
  "upsert_registration k req now s =
     (let new = (case map_of (push_registrations s) k of
                   None \<Rightarrow> \<lparr> pr_fcm_token = rq_fcm_token req, pr_platform = rq_platform req,
                       pr_created_at = now, pr_updated_at = now, pr_last_seen_at = now,
                       pr_disabled_at = None, pr_disabled_reason = None \<rparr>
                 | Some v \<Rightarrow> v\<lparr>pr_fcm_token := rq_fcm_token req, pr_platform := rq_platform req,
                       pr_updated_at := now, pr_last_seen_at := now,
                       pr_disabled_at := None, pr_disabled_reason := None\<rparr>)
      in if registration_row_check new
            \<and> (\<forall>(k', v) \<in> set (push_registrations s). k' \<noteq> k \<longrightarrow> pr_fcm_token v \<noteq> rq_fcm_token req)
         then Inr (s\<lparr>push_registrations := upsert_row k new (push_registrations s)\<rparr>)
         else Inl SqlxDatabase)"

definition release_old_token :: "string \<Rightarrow> register_request \<Rightarrow> admission_view \<Rightarrow> gateway_db \<Rightarrow> gateway_db" where
  "release_old_token r req av s =
     (case av_target av of
        Some v \<Rightarrow>
          if av_releases_target_old_owner av
          then s\<lparr>token_owners := delete_where (\<lambda>k w. k = pr_fcm_token v \<and> ow_recipient_id w = r
                   \<and> ow_installation_id w = rq_installation_id req) (token_owners s)\<rparr>
          else s
      | None \<Rightarrow> s)"

definition bind_token_owner ::
  "string \<Rightarrow> register_request \<Rightarrow> int \<Rightarrow> admission_view \<Rightarrow> gateway_db \<Rightarrow> gw_error + gateway_db" where
  "bind_token_owner r req now av s =
     (if av_token_owner av \<noteq> None
      then Inr (s\<lparr>token_owners := update_where (\<lambda>k _. k = rq_fcm_token req)
             (\<lambda>w. w\<lparr>ow_installation_id := rq_installation_id req, ow_updated_at := now,
                   ow_recipient_id := r\<rparr>) (token_owners s)\<rparr>)
      else insert_token_owner (rq_fcm_token req)
             \<lparr> ow_recipient_id = r, ow_installation_id = rq_installation_id req, ow_updated_at = now \<rparr> s)"

text \<open>The writes of an admission that passed its checks.\<close>

definition write_registration ::
  "string \<Rightarrow> register_request \<Rightarrow> int \<Rightarrow> admission_view \<Rightarrow> gateway_db \<Rightarrow> gw_error + gateway_db" where
  "write_registration r req now av s =
     (let s1 = (if other_route r req av
                then s\<lparr>push_registrations := delete_where (\<lambda>_ v. pr_fcm_token v = rq_fcm_token req)
                         (push_registrations s)\<rparr>
                else s);
          s2 = release_old_token r req av s1
      in and_then (upsert_registration (r, rq_installation_id req) req now s2)
           (bind_token_owner r req now av))"

definition admit_installation ::
  "string \<Rightarrow> register_request \<Rightarrow> int \<Rightarrow> registration_limits \<Rightarrow> int \<Rightarrow> gateway_db
    \<Rightarrow> (gw_error + registration_outcome) \<times> gateway_db" where
  "admit_installation r req cutoff limits now s0 =
     gw_tx s0
       (and_then (acquire_admission_lock ''registration'' now s0) (\<lambda>s1.
          let s = purge_stale_in_transaction cutoff (rl_reclamation_batch_size limits) s1;
              av = admission_view_of r req s
          in if token_conflict r req av then Inr (TokenBoundToDifferentInstallation, s0)
             else if 0 < rl_max_active_per_recipient limits
                  \<and> unat (rl_max_active_per_recipient limits) < projected_recipient r req cutoff av s
             then Inr (RecipientCapacityExceeded, s0)
             else if 0 < rl_max_active_global limits
                  \<and> unat (rl_max_active_global limits) < projected_global r req cutoff av s
             then Inr (GlobalCapacityExceeded, s0)
             else if 0 < rl_max_total_rows limits
                  \<and> unat (rl_max_total_rows limits) < projected_rows r req av s
             then Inr (GlobalRowCapacityExceeded, s0)
             else and_then (write_registration r req now av s) (\<lambda>s'. Inr (Registered, s'))))"

section \<open>Reads and the other mutations\<close>

definition list_registrations_for_recipient :: "string \<Rightarrow> int \<Rightarrow> gateway_db \<Rightarrow> push_registration list" where
  "list_registrations_for_recipient r cutoff s =
     map row_to_registration
       (sort_key (\<lambda>((_, i), _). i)
         (filter (\<lambda>((r', _), v). r' = r \<and> registration_row_is_active v cutoff) (push_registrations s)))"

definition eligible_installation :: "string \<Rightarrow> string \<Rightarrow> int \<Rightarrow> gateway_db \<Rightarrow> push_registration option" where
  "eligible_installation r i cutoff s =
     (case map_of (push_registrations s) (r, i) of
        None \<Rightarrow> None
      | Some v \<Rightarrow> if registration_row_is_active v cutoff then Some (row_to_registration ((r, i), v)) else None)"

record registration_row_metrics =
  rm_total :: int
  rm_registrations :: int
  rm_token_owners :: int
  rm_orphaned_token_owners :: int
  rm_active :: int
  rm_disabled :: int
  rm_stale :: int

definition registration_metrics :: "int \<Rightarrow> gateway_db \<Rightarrow> registration_row_metrics" where
  "registration_metrics cutoff s =
     \<lparr> rm_total = i64_saturating (int (length (push_registrations s)) + int (length (token_owners s))),
       rm_registrations = int (length (push_registrations s)),
       rm_token_owners = int (length (token_owners s)),
       rm_orphaned_token_owners = int (matching (\<lambda>k _. \<not> token_registered s k) (token_owners s)),
       rm_active = int (matching (\<lambda>_ v. registration_row_is_active v cutoff) (push_registrations s)),
       rm_disabled = int (matching (\<lambda>_ v. pr_disabled_at v \<noteq> None) (push_registrations s)),
       rm_stale = int (matching (\<lambda>_ v. pr_disabled_at v = None \<and> pr_last_seen_at v < cutoff)
                     (push_registrations s)) \<rparr>"

definition delete_installation ::
  "string \<Rightarrow> string \<Rightarrow> int \<Rightarrow> gateway_db \<Rightarrow> (gw_error + bool) \<times> gateway_db" where
  "delete_installation r i now s0 =
     gw_tx s0
       (and_then (acquire_admission_lock ''registration'' now s0) (\<lambda>s.
          let owned = (\<lambda>_ w. ow_recipient_id w = r \<and> ow_installation_id w = i)
          in Inr (tbl_exists (push_registrations s) (r, i) \<or> 0 < matching owned (token_owners s),
               s\<lparr>push_registrations := delete_where (\<lambda>k _. k = (r, i)) (push_registrations s),
                 token_owners := delete_where owned (token_owners s)\<rparr>)))"

definition disable_row :: "int \<Rightarrow> string option \<Rightarrow> registration_row \<Rightarrow> registration_row" where
  "disable_row now reason v =
     v\<lparr>pr_disabled_at := (case pr_disabled_at v of None \<Rightarrow> Some now | Some d \<Rightarrow> Some d),
       pr_disabled_reason := (case pr_disabled_reason v of None \<Rightarrow> reason | Some d \<Rightarrow> Some d)\<rparr>"

definition disable_installation ::
  "string \<Rightarrow> string \<Rightarrow> string option \<Rightarrow> int \<Rightarrow> gateway_db \<Rightarrow> bool \<times> gateway_db" where
  "disable_installation r i reason now s =
     (tbl_exists (push_registrations s) (r, i),
      s\<lparr>push_registrations := update_where (\<lambda>k _. k = (r, i)) (disable_row now reason)
          (push_registrations s)\<rparr>)"

definition disable_installation_if_token_matches ::
  "string \<Rightarrow> string \<Rightarrow> string \<Rightarrow> string option \<Rightarrow> int \<Rightarrow> gateway_db \<Rightarrow> bool \<times> gateway_db" where
  "disable_installation_if_token_matches r i tok reason now s =
     (0 < matching (\<lambda>k v. k = (r, i) \<and> pr_fcm_token v = tok) (push_registrations s),
      s\<lparr>push_registrations := update_where (\<lambda>k v. k = (r, i) \<and> pr_fcm_token v = tok)
          (disable_row now reason) (push_registrations s)\<rparr>)"

text \<open>The sweep at startup: every stale row, and every orphaned owner past the cutoff.\<close>

definition purge_stale :: "int \<Rightarrow> int \<Rightarrow> gateway_db \<Rightarrow> (gw_error + nat) \<times> gateway_db" where
  "purge_stale cutoff now s0 =
     gw_tx s0
       (and_then (acquire_admission_lock ''registration'' now s0) (\<lambda>s.
          let s1 = s\<lparr>push_registrations := delete_where (\<lambda>_ v. pr_last_seen_at v < cutoff)
                       (push_registrations s)\<rparr>;
              (owners, s2) = purge_orphaned_token_owners cutoff (2 ^ 63 - 1) s1
          in Inr (matching (\<lambda>_ v. pr_last_seen_at v < cutoff) (push_registrations s) + owners, s2)))"

end
