(* ===== verification/Gateway_Hooks.thy ===== *)
theory Gateway_Hooks
  imports Gateway_Registrations
begin

text \<open>
  Notification hooks and the compact markers of accepted idempotency keys
  (\<open>hook_repository.rs\<close> and \<open>hook_idempotency_repository.rs\<close> of
  \<open>src/crates/push-gateway-storage\<close>, record types of \<open>src/crates/push-gateway-types\<close>).
\<close>

section \<open>Requests and records\<close>

record hook_rate_limit_settings =
  ls_window_seconds :: "int option"
  ls_max_requests :: "int option"

record hook_policy_settings =
  ps_expires_in_seconds :: "int option"
  ps_max_uses :: "int option"
  ps_rate_limit :: "hook_rate_limit_settings option"

record hook_notification_settings =
  ns_kind :: "string option"
  ns_title :: "string option"
  ns_body :: "string option"
  ns_privacy :: "hook_privacy option"

record hook_open_settings =
  os_open_behavior :: "hook_open_behavior option"
  os_workflow :: "string option"
  os_action :: "string option"
  os_deep_link :: "string option"

record create_hook_request =
  ch_installation_id :: string
  ch_label :: "string option"
  ch_notification :: hook_notification_settings
  ch_open :: hook_open_settings
  ch_data :: json_map
  ch_policy :: hook_policy_settings

record hook_notification_record =
  hn_kind :: "string option"
  hn_title :: "string option"
  hn_body :: "string option"
  hn_privacy :: hook_privacy

record hook_open_record =
  ho_open_behavior :: hook_open_behavior
  ho_workflow :: "string option"
  ho_action :: "string option"
  ho_deep_link :: "string option"

record hook_rate_limit_record =
  lr_window_seconds :: int
  lr_max_requests :: int
  lr_window_started_at :: "int option"
  lr_count :: int

record hook_policy_record =
  hp_expires_at :: "int option"
  hp_max_uses :: "int option"
  hp_rate_limit :: "hook_rate_limit_record option"

record hook_record =
  hr_hook_id :: string
  hr_recipient_id :: string
  hr_installation_id :: string
  hr_label :: "string option"
  hr_notification :: hook_notification_record
  hr_open :: hook_open_record
  hr_data :: json_map
  hr_policy :: hook_policy_record
  hr_created_at :: int
  hr_revoked_at :: "int option"
  hr_use_count :: int
  hr_last_used_at :: "int option"

definition DEFAULT_RATE_LIMIT_WINDOW_SECONDS :: int where
  "DEFAULT_RATE_LIMIT_WINDOW_SECONDS = 3600"

definition DEFAULT_RATE_LIMIT_MAX_REQUESTS :: int where
  "DEFAULT_RATE_LIMIT_MAX_REQUESTS = 2"

definition MAX_RATE_LIMIT_WINDOW_SECONDS :: int where
  "MAX_RATE_LIMIT_WINDOW_SECONDS = 86400"

definition MAX_RATE_LIMIT_REQUESTS_PER_WINDOW :: int where
  "MAX_RATE_LIMIT_REQUESTS_PER_WINDOW = 10000"

definition MAX_HOOK_LIFETIME_SECONDS :: int where
  "MAX_HOOK_LIFETIME_SECONDS = 31536000"

definition IDEMPOTENCY_CLEANUP_MARGIN_SECONDS :: int where
  "IDEMPOTENCY_CLEANUP_MARGIN_SECONDS = 7 * 86400"

lemmas gateway_consts =
  DEFAULT_RATE_LIMIT_WINDOW_SECONDS_def DEFAULT_RATE_LIMIT_MAX_REQUESTS_def
  MAX_RATE_LIMIT_WINDOW_SECONDS_def MAX_RATE_LIMIT_REQUESTS_PER_WINDOW_def
  MAX_HOOK_LIFETIME_SECONDS_def IDEMPOTENCY_CLEANUP_MARGIN_SECONDS_def

definition hook_record_from_row :: "gateway_codec \<Rightarrow> string \<Rightarrow> hook_row \<Rightarrow> gw_error + hook_record" where
  "hook_record_from_row gc k h =
     and_then (ok_or (gc_data_from_json gc (hk_data_json h)) SqlxDecode) (\<lambda>data.
       Inr \<lparr> hr_hook_id = k, hr_recipient_id = hk_recipient_id h,
             hr_installation_id = hk_installation_id h, hr_label = hk_label h,
             hr_notification = \<lparr> hn_kind = hk_kind h, hn_title = hk_title h, hn_body = hk_body h,
                 hn_privacy = privacy_from (Some (hk_privacy h)) \<rparr>,
             hr_open = \<lparr> ho_open_behavior = open_behavior_from (Some (hk_open_behavior h)),
                 ho_workflow = hk_workflow h, ho_action = hk_action h, ho_deep_link = hk_deep_link h \<rparr>,
             hr_data = data,
             hr_policy = \<lparr> hp_expires_at = hk_expires_at h, hp_max_uses = hk_max_uses h,
                 hp_rate_limit =
                   (case (hk_rate_limit_window_seconds h, hk_rate_limit_max_requests h) of
                      (Some w, Some m) \<Rightarrow>
                        Some \<lparr> lr_window_seconds = w, lr_max_requests = m,
                               lr_window_started_at = hk_rate_limit_window_started_at h,
                               lr_count = hk_rate_limit_count h \<rparr>
                    | _ \<Rightarrow> None) \<rparr>,
             hr_created_at = hk_created_at h, hr_revoked_at = hk_revoked_at h,
             hr_use_count = hk_use_count h, hr_last_used_at = hk_last_used_at h \<rparr>)"

section \<open>Bearer tokens\<close>

definition str_bytes :: "string \<Rightarrow> bytes" where
  "str_bytes s = map of_char s"

unbundle bit_operations_syntax

text \<open>\<open>constant_time_eq\<close>: every byte is compared, whatever the earlier ones gave.\<close>

definition byte_at :: "bytes \<Rightarrow> nat \<Rightarrow> u8" where
  "byte_at bs i = (if i < length bs then bs ! i else 0)"

definition constant_time_eq :: "bytes \<Rightarrow> bytes \<Rightarrow> bool" where
  "constant_time_eq left right =
     (fold (\<lambda>i diff. diff OR ucast (byte_at left i XOR byte_at right i))
        [0..<max (length left) (length right)]
        (of_nat (length left) XOR of_nat (length right) :: u64) = 0)"

section \<open>Idempotency markers\<close>

definition retained_target_count :: "string \<Rightarrow> string \<Rightarrow> gateway_db \<Rightarrow> nat option" where
  "retained_target_count hook key s =
     map_option (\<lambda>v. nat (tb_target_count v)) (map_of (hook_tombstones s) (hook, key))"

definition purge_expired_tombstones :: "int \<Rightarrow> u64 \<Rightarrow> gateway_db \<Rightarrow> gateway_db" where
  "purge_expired_tombstones now batch s =
     (if batch = 0 then s
      else s\<lparr>hook_tombstones :=
             delete_keys (map fst (select_ordered (\<lambda>_ v. tb_retain_until v) (sql_limit batch)
                 (\<lambda>_ v. tb_retain_until v < now) (hook_tombstones s))) (hook_tombstones s)\<rparr>)"

definition ensure_capacity :: "int \<Rightarrow> u64 \<Rightarrow> u64 \<Rightarrow> gateway_db \<Rightarrow> bool \<times> gateway_db" where
  "ensure_capacity now max_rows batch s =
     (let s' = purge_expired_tombstones now batch s
      in (max_rows = 0 \<or> length (hook_tombstones s') < unat max_rows, s'))"

definition record_tombstone ::
  "string \<Rightarrow> string \<Rightarrow> nat \<Rightarrow> int \<Rightarrow> int option \<Rightarrow> gateway_db \<Rightarrow> gw_error + gateway_db" where
  "record_tombstone hook key target_count accepted_at expires_at s =
     (let lifecycle_end =
            (case expires_at of
               None \<Rightarrow> i64_saturating (accepted_at + MAX_HOOK_LIFETIME_SECONDS) | Some e \<Rightarrow> e)
      in insert_tombstone (hook, key)
           \<lparr> tb_target_count = min (int target_count) (2 ^ 63 - 1), tb_accepted_at = accepted_at,
             tb_retain_until =
               i64_saturating (max lifecycle_end accepted_at + IDEMPOTENCY_CLEANUP_MARGIN_SECONDS) \<rparr> s)"

definition purge_expired :: "int \<Rightarrow> gateway_db \<Rightarrow> nat \<times> gateway_db" where
  "purge_expired now s =
     (matching (\<lambda>_ v. tb_retain_until v < now) (hook_tombstones s),
      s\<lparr>hook_tombstones := delete_where (\<lambda>_ v. tb_retain_until v < now) (hook_tombstones s)\<rparr>)"

section \<open>Admission and lifecycle of hooks\<close>

record hook_limits =
  hl_max_active_per_recipient :: u64
  hl_max_active_global :: u64
  hl_max_total_rows :: u64
  hl_reclamation_batch_size :: u64

datatype hook_admission =
    HookCreated hook_record string
  | HookTargetUnavailable
  | HookRecipientCapacityExceeded
  | HookGlobalCapacityExceeded
  | HookGlobalRowCapacityExceeded

definition hook_is_active :: "int \<Rightarrow> hook_row \<Rightarrow> bool" where
  "hook_is_active now h \<longleftrightarrow>
     hk_revoked_at h = None \<and> (case hk_expires_at h of None \<Rightarrow> True | Some e \<Rightarrow> now < e)"

definition hook_is_terminal :: "int \<Rightarrow> hook_row \<Rightarrow> bool" where
  "hook_is_terminal now h \<longleftrightarrow>
     (case hk_expires_at h of None \<Rightarrow> False | Some e \<Rightarrow> e \<le> now) \<or> hk_revoked_at h \<noteq> None"

definition hook_unreferenced :: "gateway_db \<Rightarrow> string \<Rightarrow> bool" where
  "hook_unreferenced s k \<longleftrightarrow> (\<forall>(_, e) \<in> set (notification_events s). ev_hook_id e \<noteq> k)"

definition purge_terminal_in_transaction :: "int \<Rightarrow> u64 \<Rightarrow> gateway_db \<Rightarrow> gateway_db" where
  "purge_terminal_in_transaction now batch s =
     (if batch = 0 then s
      else let s1 = purge_expired_tombstones now batch s
           in delete_hooks (map fst (select_ordered (\<lambda>_ h. hk_created_at h) (sql_limit batch)
                (\<lambda>k h. hook_is_terminal now h \<and> hook_unreferenced s1 k) (notification_hooks s1))) s1)"

definition purge_terminal_unreferenced :: "int \<Rightarrow> gateway_db \<Rightarrow> nat \<times> gateway_db" where
  "purge_terminal_unreferenced now s =
     (let gone = map fst (filter (\<lambda>(k, h). hook_is_terminal now h \<and> hook_unreferenced s k)
                   (notification_hooks s))
      in (length gone, delete_hooks gone s))"

definition new_hook_row :: "gateway_codec \<Rightarrow> string \<Rightarrow> create_hook_request \<Rightarrow> int \<Rightarrow> string \<Rightarrow> hook_row" where
  "new_hook_row gc r req now token =
     \<lparr> hk_secret_hash = gc_hash_hex gc token, hk_recipient_id = r,
       hk_installation_id = ch_installation_id req, hk_label = ch_label req,
       hk_kind = ns_kind (ch_notification req), hk_workflow = os_workflow (ch_open req),
       hk_action = os_action (ch_open req), hk_deep_link = os_deep_link (ch_open req),
       hk_open_behavior = open_behavior_as_str
         (case os_open_behavior (ch_open req) of None \<Rightarrow> OpenApp | Some b \<Rightarrow> b),
       hk_privacy = privacy_as_str
         (case ns_privacy (ch_notification req) of None \<Rightarrow> DisplayText | Some p \<Rightarrow> p),
       hk_title = ns_title (ch_notification req), hk_body = ns_body (ch_notification req),
       hk_data_json = gc_data_to_json gc (ch_data req), hk_created_at = now,
       hk_expires_at = (case ps_expires_in_seconds (ch_policy req) of
           None \<Rightarrow> None | Some n \<Rightarrow> if 0 < n then Some (now + n) else None),
       hk_revoked_at = None,
       hk_max_uses = (case ps_max_uses (ch_policy req) of
           None \<Rightarrow> None | Some m \<Rightarrow> if 0 < m then Some m else None),
       hk_use_count = 0, hk_last_used_at = None,
       hk_rate_limit_window_seconds = Some (case ps_rate_limit (ch_policy req) of
           None \<Rightarrow> DEFAULT_RATE_LIMIT_WINDOW_SECONDS
         | Some l \<Rightarrow> (case ls_window_seconds l of
               None \<Rightarrow> DEFAULT_RATE_LIMIT_WINDOW_SECONDS | Some w \<Rightarrow> w)),
       hk_rate_limit_max_requests = Some (case ps_rate_limit (ch_policy req) of
           None \<Rightarrow> DEFAULT_RATE_LIMIT_MAX_REQUESTS
         | Some l \<Rightarrow> (case ls_max_requests l of
               None \<Rightarrow> DEFAULT_RATE_LIMIT_MAX_REQUESTS | Some m \<Rightarrow> m)),
       hk_rate_limit_window_started_at = None, hk_rate_limit_count = 0 \<rparr>"

definition admit_hook ::
  "gateway_codec \<Rightarrow> string \<Rightarrow> create_hook_request \<Rightarrow> int \<Rightarrow> hook_limits \<Rightarrow> int \<Rightarrow> string \<Rightarrow> string
    \<Rightarrow> gateway_db \<Rightarrow> (gw_error + hook_admission) \<times> gateway_db" where
  "admit_hook gc r req cutoff limits now hook_id token s0 =
     gw_tx s0
       (and_then (acquire_admission_lock ''hook'' now s0) (\<lambda>s1.
          let s = purge_terminal_in_transaction now (hl_reclamation_batch_size limits) s1
          in if eligible_installation r (ch_installation_id req) cutoff s = None
             then Inr (HookTargetUnavailable, s0)
             else if 0 < hl_max_active_per_recipient limits
                  \<and> unat (hl_max_active_per_recipient limits)
                      \<le> matching (\<lambda>_ h. hk_recipient_id h = r \<and> hook_is_active now h) (notification_hooks s)
             then Inr (HookRecipientCapacityExceeded, s0)
             else if 0 < hl_max_active_global limits
                  \<and> unat (hl_max_active_global limits)
                      \<le> matching (\<lambda>_ h. hook_is_active now h) (notification_hooks s)
             then Inr (HookGlobalCapacityExceeded, s0)
             else if 0 < hl_max_total_rows limits
                  \<and> unat (hl_max_total_rows limits) \<le> length (notification_hooks s)
             then Inr (HookGlobalRowCapacityExceeded, s0)
             else and_then (insert_hook hook_id (new_hook_row gc r req now token) s) (\<lambda>s'.
                    and_then (ok_or (map_of (notification_hooks s') hook_id) SqlxRowNotFound) (\<lambda>h.
                      and_then (hook_record_from_row gc hook_id h) (\<lambda>rec.
                        Inr (HookCreated rec token, s'))))))"

definition list_hooks_for_recipient :: "gateway_codec \<Rightarrow> string \<Rightarrow> gateway_db \<Rightarrow> gw_error + hook_record list" where
  "list_hooks_for_recipient gc r s =
     collect_results (map (\<lambda>(k, h). hook_record_from_row gc k h)
       (rev (sort_key (\<lambda>(k, h). (hk_created_at h, k))
         (filter (\<lambda>(_, h). hk_recipient_id h = r) (notification_hooks s)))))"

definition get_hook :: "gateway_codec \<Rightarrow> string \<Rightarrow> gateway_db \<Rightarrow> gw_error + hook_record option" where
  "get_hook gc k s = transpose_result (map_option (hook_record_from_row gc k) (map_of (notification_hooks s) k))"

definition revoke_hook_row :: "string \<Rightarrow> string \<Rightarrow> int \<Rightarrow> gateway_db \<Rightarrow> bool \<times> gateway_db" where
  "revoke_hook_row k r now s =
     (0 < matching (\<lambda>k' h. k' = k \<and> hk_recipient_id h = r) (notification_hooks s),
      s\<lparr>notification_hooks := update_where (\<lambda>k' h. k' = k \<and> hk_recipient_id h = r)
          (\<lambda>h. h\<lparr>hk_revoked_at := (case hk_revoked_at h of None \<Rightarrow> Some now | Some d \<Rightarrow> Some d)\<rparr>)
          (notification_hooks s)\<rparr>)"

section \<open>Verification of a hook capability\<close>

datatype hook_use_outcome =
    UseAccepted hook_record
  | UseNotFound
  | UseExpired
  | UseRevoked
  | UseMaxUsesExceeded
  | UseRateLimited

definition hook_rate_limited :: "hook_record \<Rightarrow> int \<Rightarrow> bool" where
  "hook_rate_limited rec now \<longleftrightarrow>
     (case hp_rate_limit (hr_policy rec) of
        None \<Rightarrow> False
      | Some l \<Rightarrow> (case lr_window_started_at l of
            None \<Rightarrow> False
          | Some started \<Rightarrow> now < started + lr_window_seconds l \<and> lr_max_requests l \<le> lr_count l))"

definition classify_rejection :: "hook_record \<Rightarrow> int \<Rightarrow> hook_use_outcome option" where
  "classify_rejection rec now =
     (if hr_revoked_at rec \<noteq> None then Some UseRevoked
      else if (case hp_expires_at (hr_policy rec) of None \<Rightarrow> False | Some e \<Rightarrow> e \<le> now)
      then Some UseExpired
      else if (case hp_max_uses (hr_policy rec) of None \<Rightarrow> False | Some m \<Rightarrow> m \<le> hr_use_count rec)
      then Some UseMaxUsesExceeded
      else if hook_rate_limited rec now then Some UseRateLimited
      else None)"

definition verify_without_marking_used ::
  "gateway_codec \<Rightarrow> string \<Rightarrow> string \<Rightarrow> int \<Rightarrow> gateway_db \<Rightarrow> gw_error + hook_use_outcome" where
  "verify_without_marking_used gc k token now s =
     (case map_of (notification_hooks s) k of
        None \<Rightarrow> Inr UseNotFound
      | Some h \<Rightarrow>
          if \<not> constant_time_eq (str_bytes (hk_secret_hash h)) (str_bytes (gc_hash_hex gc token))
          then Inr UseNotFound
          else and_then (hook_record_from_row gc k h) (\<lambda>rec.
                 case classify_rejection rec now of
                   Some rejection \<Rightarrow> Inr rejection
                 | None \<Rightarrow> Inr (UseAccepted rec)))"

definition verify_token :: "gateway_codec \<Rightarrow> string \<Rightarrow> string \<Rightarrow> gateway_db \<Rightarrow> bool" where
  "verify_token gc k token s =
     (case map_of (notification_hooks s) k of
        None \<Rightarrow> False
      | Some h \<Rightarrow> constant_time_eq (str_bytes (hk_secret_hash h)) (str_bytes (gc_hash_hex gc token)))"

record hook_row_metrics =
  hm_total :: int
  hm_active :: int
  hm_terminal :: int

definition hook_metrics :: "int \<Rightarrow> gateway_db \<Rightarrow> hook_row_metrics" where
  "hook_metrics now s =
     \<lparr> hm_total = int (length (notification_hooks s)),
       hm_active = int (matching (\<lambda>_ h. hook_is_active now h) (notification_hooks s)),
       hm_terminal = int (matching (\<lambda>_ h. hook_is_terminal now h) (notification_hooks s)) \<rparr>"

section \<open>The constant-time comparison is equality\<close>

lemma str_bytes_inj [simp]: "str_bytes a = str_bytes b \<longleftrightarrow> a = b"
proof -
  have "inj (of_char :: char \<Rightarrow> u8)"
  proof (rule injI)
    fix c d :: char
    assume "(of_char c :: u8) = of_char d"
    then have "(of_nat (of_char c) :: u8) = of_nat (of_char d)" by (simp only: of_nat_of_char)
    then have "unat (of_nat (of_char c) :: u8) = unat (of_nat (of_char d) :: u8)" by (rule arg_cong)
    then have "(of_char c :: nat) = of_char d"
      using nat_of_char_less_256 [of c] nat_of_char_less_256 [of d]
      by (simp add: unsigned_of_nat take_bit_nat_eq_self)
    then show "c = d" by simp
  qed
  then show ?thesis by (simp add: str_bytes_def inj_map_eq_map)
qed

lemma or_eq_zero: "a OR b = 0 \<longleftrightarrow> a = 0 \<and> b = (0 :: 'a::len word)"
  by (auto simp: bit_eq_iff bit_or_iff)

lemma xor_eq_zero: "a XOR b = 0 \<longleftrightarrow> a = (b :: 'a::len word)"
  by (auto simp: bit_eq_iff bit_xor_iff)

lemma ucast_xor_zero: "(ucast (a XOR b) :: u64) = 0 \<longleftrightarrow> a = (b :: u8)"
proof -
  have "(ucast (a XOR b) :: u64) = 0 \<longleftrightarrow> a XOR b = 0"
    using unat_bounds(1) [of "a XOR b"]
    by (simp add: word_unat_eq_iff unsigned_ucast_eq take_bit_nat_eq_self)
  then show ?thesis by (simp add: xor_eq_zero)
qed

lemma fold_or_eq_zero:
  "fold (\<lambda>i diff. diff OR f i) is d = 0 \<longleftrightarrow> d = 0 \<and> (\<forall>i \<in> set is. f i = (0 :: 'a::len word))"
  by (induction "is" arbitrary: d) (auto simp: or_eq_zero)

lemma constant_time_eq_iff:
  assumes "length left < 2 ^ 64" and "length right < 2 ^ 64"
  shows "constant_time_eq left right \<longleftrightarrow> left = right"
proof -
  have "(of_nat (length left) XOR of_nat (length right) :: u64) = 0 \<longleftrightarrow> length left = length right"
    using assms unfolding xor_eq_zero
    by (simp add: word_unat_eq_iff unsigned_of_nat take_bit_nat_eq_self)
  then show ?thesis
    unfolding constant_time_eq_def fold_or_eq_zero ucast_xor_zero list_eq_iff_nth_eq
    by (auto simp: byte_at_def)
qed

end
