(* ===== verification/Delivery_Outbox.thy ===== *)
theory Delivery_Outbox
  imports Gateway_Registrations
begin

text \<open>
  The durable delivery outbox (\<open>src/crates/push-gateway-storage/src/delivery_outbox.rs\<close>). A
  statement that compares against the database clock takes that reading as \<open>db_now\<close>; \<open>now\<close> is the
  process clock of the same call.
\<close>

definition MAX_DELIVERY_ATTEMPTS :: int where
  "MAX_DELIVERY_ATTEMPTS = 5"

definition DELIVERY_RESOLUTION_DEADLINE_SECONDS :: int where
  "DELIVERY_RESOLUTION_DEADLINE_SECONDS = 300"

definition IN_PROGRESS_LEASE_SECONDS :: int where
  "IN_PROGRESS_LEASE_SECONDS = 300"

definition MAX_DEAD_LETTER_ADMIN_SELECTION :: int where
  "MAX_DEAD_LETTER_ADMIN_SELECTION = 1000"

lemmas outbox_consts =
  MAX_DELIVERY_ATTEMPTS_def DELIVERY_RESOLUTION_DEADLINE_SECONDS_def IN_PROGRESS_LEASE_SECONDS_def
  MAX_DEAD_LETTER_ADMIN_SELECTION_def

section \<open>Types\<close>

record enqueue_outcome =
  eo_event_id :: string
  eo_target_count :: nat
  eo_inserted :: bool

record claimed_delivery =
  cd_outbox_id :: string
  cd_registration :: push_registration
  cd_notification :: notification
  cd_claim_id :: string
  cd_created_at :: int

datatype claim_due_outcome =
    Claimed claimed_delivery
  | ClaimEmpty
  | CorruptedDeadLetter

datatype mark_failed_outcome = NotUpdated | MarkedRetrying | DeadLettered

datatype failure_kind = PermanentPayload | Transient

record delivery_failure =
  df_reason :: string
  df_kind :: failure_kind

record outbox_admin_row =
  ad_outbox_id :: string
  ad_event_id :: string
  ad_recipient_id :: string
  ad_installation_id :: string
  ad_platform :: "string option"
  ad_status :: outbox_status
  ad_attempts :: int
  ad_last_error :: "string option"
  ad_next_attempt_at :: int
  ad_last_attempt_at :: "int option"
  ad_created_at :: int
  ad_updated_at :: int

record dead_letter_selector =
  ds_outbox_ids :: "string list"
  ds_limit :: "int option"
  ds_reason :: "string option"

definition backoff_seconds :: "int \<Rightarrow> int" where
  "backoff_seconds attempts =
     (if attempts = 0 \<or> attempts = 1 then 1
      else if attempts = 2 then 5
      else if attempts = 3 then 30
      else 300)"

definition age_seconds :: "int \<Rightarrow> int option \<Rightarrow> int" where
  "age_seconds now t = (case t of None \<Rightarrow> 0 | Some t \<Rightarrow> max 0 (i64_saturating (now - t)))"

definition row_active :: "outbox_row \<Rightarrow> bool" where
  "row_active b \<longleftrightarrow> ob_status b \<in> {Pending, Retrying, InProgress}"

definition deadline_passed :: "int \<Rightarrow> outbox_row \<Rightarrow> bool" where
  "deadline_passed db_now b \<longleftrightarrow> ob_created_at b \<le> db_now - DELIVERY_RESOLUTION_DEADLINE_SECONDS"

section \<open>Enqueueing\<close>

definition find_event :: "string \<Rightarrow> string \<Rightarrow> gateway_db \<Rightarrow> (string \<times> int) option" where
  "find_event hook key s =
     map_option (\<lambda>(k, e). (k, ev_target_count e))
       (List.find (\<lambda>(_, e). ev_hook_id e = hook \<and> ev_caller_idempotency_key e = Some key)
         (notification_events s))"

definition pending_row :: "string \<Rightarrow> string \<Rightarrow> push_registration \<Rightarrow> int \<Rightarrow> outbox_row" where
  "pending_row event_id json reg now =
     \<lparr> ob_event_id = event_id, ob_recipient_id = reg_recipient_id reg,
       ob_installation_id = reg_installation_id reg, ob_fcm_token = reg_fcm_token reg,
       ob_platform = reg_platform reg, ob_notification_json = json, ob_status = Pending,
       ob_attempts = 0, ob_next_attempt_at = now, ob_last_attempt_at = None, ob_last_error = None,
       ob_claim_id = None, ob_created_at = now, ob_updated_at = now \<rparr>"

text \<open>One outbox row per registration, the ids drawn in order.\<close>

fun insert_targets ::
  "string \<Rightarrow> string \<Rightarrow> int \<Rightarrow> (nat \<Rightarrow> string) \<Rightarrow> nat \<Rightarrow> push_registration list \<Rightarrow> gateway_db
    \<Rightarrow> gw_error + gateway_db" where
  "insert_targets event_id json now ids n [] s = Inr s"
| "insert_targets event_id json now ids n (reg # regs) s =
     and_then (insert_outbox (ids n) (pending_row event_id json reg now) s)
       (insert_targets event_id json now ids (Suc n) regs)"

definition new_event_row ::
  "string \<Rightarrow> string option \<Rightarrow> string \<Rightarrow> string \<Rightarrow> nat \<Rightarrow> int \<Rightarrow> event_row" where
  "new_event_row hook key recipient json targets now =
     \<lparr> ev_hook_id = hook, ev_caller_idempotency_key = key, ev_recipient_id = recipient,
       ev_notification_json = json, ev_target_count = min (int targets) (2 ^ 63 - 1),
       ev_created_at = now \<rparr>"

definition find_existing_event :: "string \<Rightarrow> string \<Rightarrow> gateway_db \<Rightarrow> enqueue_outcome option" where
  "find_existing_event hook key s =
     map_option (\<lambda>(k, n). \<lparr> eo_event_id = k, eo_target_count = nat n, eo_inserted = False \<rparr>)
       (find_event hook key s)"

definition enqueue_event ::
  "gateway_codec \<Rightarrow> string \<Rightarrow> string option \<Rightarrow> notification \<Rightarrow> push_registration list \<Rightarrow> int \<Rightarrow> string
    \<Rightarrow> (nat \<Rightarrow> string) \<Rightarrow> gateway_db \<Rightarrow> (gw_error + enqueue_outcome) \<times> gateway_db" where
  "enqueue_event gc hook key nt regs now event_id ids s =
     (case (case key of None \<Rightarrow> None | Some k \<Rightarrow> find_existing_event hook k s) of
        Some existing \<Rightarrow> (Inr existing, s)
      | None \<Rightarrow>
          let json = gc_notification_to_json gc nt;
              row = new_event_row hook key (nt_recipient_id nt) json (length regs) now
          in if \<exists>(_, e) \<in> set (notification_events s). same_event_key row e
             then (Inr (case (case key of None \<Rightarrow> None | Some k \<Rightarrow> find_existing_event hook k s) of
                     Some existing \<Rightarrow> existing
                   | None \<Rightarrow> \<lparr> eo_event_id = event_id, eo_target_count = 0, eo_inserted = False \<rparr>), s)
             else gw_tx s
                (and_then (insert_event event_id row s) (\<lambda>s1.
                   and_then (insert_targets event_id json now ids 0 regs s1) (\<lambda>s2.
                     Inr (\<lparr> eo_event_id = event_id, eo_target_count = length regs, eo_inserted = True \<rparr>,
                          s2)))))"

section \<open>The worker's statements\<close>

definition reset_in_progress :: "int \<Rightarrow> gateway_db \<Rightarrow> nat \<times> gateway_db" where
  "reset_in_progress now s =
     (matching (\<lambda>_ b. ob_status b = InProgress) (delivery_outbox s),
      s\<lparr>delivery_outbox := update_where (\<lambda>_ b. ob_status b = InProgress)
          (\<lambda>b. b\<lparr>ob_status := Pending, ob_updated_at := now\<rparr>) (delivery_outbox s)\<rparr>)"

definition expire_row :: "int \<Rightarrow> outbox_row \<Rightarrow> outbox_row" where
  "expire_row now b =
     b\<lparr>ob_status := DeadLetter, ob_next_attempt_at := now, ob_updated_at := now,
       ob_last_error := Some ''resolution_deadline_exceeded'', ob_claim_id := None\<rparr>"

definition expire_delivery_resolution_deadlines :: "int \<Rightarrow> int \<Rightarrow> gateway_db \<Rightarrow> nat \<times> gateway_db" where
  "expire_delivery_resolution_deadlines now db_now s =
     (let p = (\<lambda>_ b. row_active b \<and> deadline_passed db_now b)
      in (matching p (delivery_outbox s),
          s\<lparr>delivery_outbox := update_where p (expire_row now) (delivery_outbox s)\<rparr>))"

definition claimable :: "int \<Rightarrow> outbox_row \<Rightarrow> bool" where
  "claimable now b \<longleftrightarrow>
     ob_status b \<in> {Pending, Retrying} \<or> ob_status b = InProgress \<and> ob_next_attempt_at b \<le> now"

definition claim_outbox_row :: "int \<Rightarrow> string \<Rightarrow> outbox_row \<Rightarrow> outbox_row" where
  "claim_outbox_row now claim_id b =
     b\<lparr>ob_status := InProgress, ob_claim_id := Some claim_id,
       ob_next_attempt_at := now + IN_PROGRESS_LEASE_SECONDS, ob_updated_at := now\<rparr>"

definition row_to_claimed :: "gateway_codec \<Rightarrow> string \<Rightarrow> string \<Rightarrow> outbox_row \<Rightarrow> claimed_delivery option" where
  "row_to_claimed gc outbox_id claim_id b =
     map_option (\<lambda>nt.
         \<lparr> cd_outbox_id = outbox_id,
           cd_registration =
             \<lparr> reg_recipient_id = ob_recipient_id b, reg_installation_id = ob_installation_id b,
               reg_fcm_token = ob_fcm_token b, reg_platform = ob_platform b,
               reg_created_at = ob_created_at b, reg_last_seen_at = ob_created_at b,
               reg_disabled_at = None, reg_disabled_reason = None \<rparr>,
           cd_notification = nt, cd_claim_id = claim_id, cd_created_at = ob_created_at b \<rparr>)
       (gc_notification_from_json gc (ob_notification_json b))"

text \<open>The fence of a completion: the row is in progress under this claim.\<close>

definition claim_holds :: "string \<Rightarrow> string \<Rightarrow> string \<Rightarrow> outbox_row \<Rightarrow> bool" where
  "claim_holds outbox_id claim_id k b \<longleftrightarrow>
     k = outbox_id \<and> ob_claim_id b = Some claim_id \<and> ob_status b = InProgress"

definition corrupt_row :: "int \<Rightarrow> outbox_row \<Rightarrow> outbox_row" where
  "corrupt_row now b =
     b\<lparr>ob_status := DeadLetter, ob_attempts := ob_attempts b + 1, ob_next_attempt_at := now,
       ob_last_attempt_at := Some now, ob_updated_at := now,
       ob_last_error := Some ''notification_json_invalid'', ob_claim_id := None\<rparr>"

definition mark_corrupted_notification_dead_letter ::
  "string \<Rightarrow> string \<Rightarrow> int \<Rightarrow> gateway_db \<Rightarrow> bool \<times> gateway_db" where
  "mark_corrupted_notification_dead_letter outbox_id claim_id now s =
     (0 < matching (claim_holds outbox_id claim_id) (delivery_outbox s),
      s\<lparr>delivery_outbox := update_where (claim_holds outbox_id claim_id) (corrupt_row now)
          (delivery_outbox s)\<rparr>)"

text \<open>
  The row to claim, the oldest due one, is read and then updated in the same transaction; a row
  whose notification does not parse is dead-lettered, at a later clock reading.
\<close>

definition due_row :: "int \<Rightarrow> gateway_db \<Rightarrow> (string \<times> outbox_row) option" where
  "due_row now s =
     (case select_ordered (\<lambda>_ b. (ob_next_attempt_at b, ob_created_at b)) 1
             (\<lambda>_ b. claimable now b \<and> ob_next_attempt_at b \<le> now) (delivery_outbox s) of
        [] \<Rightarrow> None | r # _ \<Rightarrow> Some r)"

definition claim_due ::
  "gateway_codec \<Rightarrow> int \<Rightarrow> int \<Rightarrow> string \<Rightarrow> gateway_db \<Rightarrow> (gw_error + claim_due_outcome) \<times> gateway_db" where
  "claim_due gc now later claim_id s =
     (case due_row now s of
        None \<Rightarrow> (Inr ClaimEmpty, s)
      | Some (outbox_id, b) \<Rightarrow>
          let hit = (\<lambda>k b. k = outbox_id \<and> claimable now b);
              s1 = s\<lparr>delivery_outbox := update_where hit (claim_outbox_row now claim_id) (delivery_outbox s)\<rparr>
          in if matching hit (delivery_outbox s) = 0 then (Inr ClaimEmpty, s1)
             else case row_to_claimed gc outbox_id claim_id b of
               Some claimed \<Rightarrow> (Inr (Claimed claimed), s1)
             | None \<Rightarrow>
                 let (marked, s2) = mark_corrupted_notification_dead_letter outbox_id claim_id later s1
                 in (if marked then Inr CorruptedDeadLetter else Inl SqlxDecode, s2))"

definition next_claim_due_at :: "gateway_db \<Rightarrow> int option" where
  "next_claim_due_at s =
     (case filter (\<lambda>(_, b). row_active b) (delivery_outbox s) of
        [] \<Rightarrow> None | rs \<Rightarrow> Some (Min (set (map (\<lambda>(_, b). ob_next_attempt_at b) rs))))"

definition succeed_row :: "int \<Rightarrow> outbox_row \<Rightarrow> outbox_row" where
  "succeed_row now b =
     b\<lparr>ob_status := Succeeded, ob_claim_id := None, ob_last_attempt_at := Some now,
       ob_updated_at := now, ob_last_error := None\<rparr>"

definition mark_succeeded :: "string \<Rightarrow> string \<Rightarrow> int \<Rightarrow> int \<Rightarrow> gateway_db \<Rightarrow> bool \<times> gateway_db" where
  "mark_succeeded outbox_id claim_id now db_now s =
     (let p = (\<lambda>k b. claim_holds outbox_id claim_id k b \<and> \<not> deadline_passed db_now b)
      in (0 < matching p (delivery_outbox s),
          s\<lparr>delivery_outbox := update_where p (succeed_row now) (delivery_outbox s)\<rparr>))"

definition fail_row :: "outbox_status \<Rightarrow> int \<Rightarrow> string \<Rightarrow> int \<Rightarrow> int \<Rightarrow> outbox_row \<Rightarrow> outbox_row" where
  "fail_row status next_attempt_at last_error now db_now b =
     b\<lparr>ob_status := (if deadline_passed db_now b then DeadLetter else status),
       ob_attempts := ob_attempts b + 1,
       ob_next_attempt_at := (if deadline_passed db_now b then now else next_attempt_at),
       ob_last_attempt_at := Some now, ob_updated_at := now,
       ob_last_error := Some (if deadline_passed db_now b then ''resolution_deadline_exceeded''
                              else last_error),
       ob_claim_id := None\<rparr>"

definition mark_failed ::
  "string \<Rightarrow> string \<Rightarrow> delivery_failure \<Rightarrow> int \<Rightarrow> int \<Rightarrow> gateway_db
    \<Rightarrow> (gw_error + mark_failed_outcome) \<times> gateway_db" where
  "mark_failed outbox_id claim_id err now db_now s =
     (let plan =
        (case df_kind err of
           PermanentPayload \<Rightarrow> Inr (DeadLetter, now)
         | Transient \<Rightarrow>
             and_then (ok_or (map_of (delivery_outbox s) outbox_id) SqlxRowNotFound) (\<lambda>b.
               Inr (if MAX_DELIVERY_ATTEMPTS \<le> ob_attempts b + 1 then (DeadLetter, now)
                    else (Retrying, now + backoff_seconds (ob_attempts b + 1)))))
      in case plan of
           Inl e \<Rightarrow> (Inl e, s)
         | Inr (status, next_at) \<Rightarrow>
             let s1 = s\<lparr>delivery_outbox := update_where (claim_holds outbox_id claim_id)
                          (fail_row status next_at (df_reason err) now db_now) (delivery_outbox s)\<rparr>
             in if matching (claim_holds outbox_id claim_id) (delivery_outbox s) = 0 then (Inr NotUpdated, s1)
                else (and_then (ok_or (map_of (delivery_outbox s1) outbox_id) SqlxRowNotFound) (\<lambda>b.
                        Inr (if ob_status b = DeadLetter then DeadLettered else MarkedRetrying)), s1))"

definition invalid_token_row :: "int \<Rightarrow> string \<Rightarrow> outbox_row \<Rightarrow> outbox_row" where
  "invalid_token_row now reason b =
     b\<lparr>ob_status := InvalidToken, ob_attempts := ob_attempts b + 1, ob_next_attempt_at := now,
       ob_last_attempt_at := Some now, ob_updated_at := now, ob_last_error := Some reason,
       ob_claim_id := None\<rparr>"

definition mark_invalid_token_and_disable_registration ::
  "claimed_delivery \<Rightarrow> string \<Rightarrow> int \<Rightarrow> gateway_db \<Rightarrow> bool \<times> gateway_db" where
  "mark_invalid_token_and_disable_registration d reason now s =
     (let p = claim_holds (cd_outbox_id d) (cd_claim_id d);
          s1 = s\<lparr>delivery_outbox := update_where p (invalid_token_row now reason) (delivery_outbox s)\<rparr>;
          reg = cd_registration d
      in if matching p (delivery_outbox s) = 0 then (False, s1)
         else (True, s1\<lparr>push_registrations :=
                 update_where (\<lambda>k v. k = (reg_recipient_id reg, reg_installation_id reg)
                     \<and> pr_fcm_token v = reg_fcm_token reg)
                   (disable_row now (Some reason)) (push_registrations s1)\<rparr>))"

section \<open>Counters and administration\<close>

definition count_by_status :: "outbox_status \<Rightarrow> gateway_db \<Rightarrow> int" where
  "count_by_status st s = int (matching (\<lambda>_ b. ob_status b = st) (delivery_outbox s))"

record outbox_status_counts =
  oc_pending :: int
  oc_in_progress :: int
  oc_retrying :: int
  oc_succeeded :: int
  oc_invalid_token :: int
  oc_dead_letter :: int

definition status_counts :: "gateway_db \<Rightarrow> outbox_status_counts" where
  "status_counts s =
     \<lparr> oc_pending = count_by_status Pending s, oc_in_progress = count_by_status InProgress s,
       oc_retrying = count_by_status Retrying s, oc_succeeded = count_by_status Succeeded s,
       oc_invalid_token = count_by_status InvalidToken s, oc_dead_letter = count_by_status DeadLetter s \<rparr>"

definition oldest :: "(outbox_row \<Rightarrow> int) \<Rightarrow> (outbox_row \<Rightarrow> bool) \<Rightarrow> gateway_db \<Rightarrow> int option" where
  "oldest f p s =
     (case filter (\<lambda>(_, b). p b) (delivery_outbox s) of
        [] \<Rightarrow> None | rs \<Rightarrow> Some (Min (set (map (\<lambda>(_, b). f b) rs))))"

record outbox_operational_metrics =
  om_status_counts :: outbox_status_counts
  om_oldest_due_age_seconds :: int
  om_oldest_pending_age_seconds :: int
  om_oldest_retrying_age_seconds :: int
  om_dead_letter_current :: int
  om_dead_letter_total :: int

definition operational_metrics :: "int \<Rightarrow> gateway_db \<Rightarrow> outbox_operational_metrics" where
  "operational_metrics now s =
     \<lparr> om_status_counts = status_counts s,
       om_oldest_due_age_seconds = age_seconds now
         (oldest ob_next_attempt_at (\<lambda>b. row_active b \<and> ob_next_attempt_at b \<le> now) s),
       om_oldest_pending_age_seconds = age_seconds now (oldest ob_created_at (\<lambda>b. ob_status b = Pending) s),
       om_oldest_retrying_age_seconds = age_seconds now
         (oldest ob_updated_at (\<lambda>b. ob_status b = Retrying) s),
       om_dead_letter_current = oc_dead_letter (status_counts s),
       om_dead_letter_total = oc_dead_letter (status_counts s) \<rparr>"

fun row_to_admin_row :: "string \<times> outbox_row \<Rightarrow> outbox_admin_row" where
  "row_to_admin_row (k, b) =
     \<lparr> ad_outbox_id = k, ad_event_id = ob_event_id b, ad_recipient_id = ob_recipient_id b,
       ad_installation_id = ob_installation_id b, ad_platform = ob_platform b, ad_status = ob_status b,
       ad_attempts = ob_attempts b, ad_last_error = ob_last_error b,
       ad_next_attempt_at = ob_next_attempt_at b, ad_last_attempt_at = ob_last_attempt_at b,
       ad_created_at = ob_created_at b, ad_updated_at = ob_updated_at b \<rparr>"

definition validate_admin_limit :: "int \<Rightarrow> gw_error + unit" where
  "validate_admin_limit limit =
     (if 1 \<le> limit \<and> limit \<le> MAX_DEAD_LETTER_ADMIN_SELECTION then Inr ()
      else Inl (SqlxConfiguration ''dead-letter admin limit must be between 1 and 1000''))"

definition validate_dead_letter_selector :: "dead_letter_selector \<Rightarrow> gw_error + unit" where
  "validate_dead_letter_selector sel =
     (if nat MAX_DEAD_LETTER_ADMIN_SELECTION < length (ds_outbox_ids sel)
      then Inl (SqlxConfiguration ''too many outbox ids in selector'')
      else if \<not> distinct (ds_outbox_ids sel)
      then Inl (SqlxConfiguration ''duplicate outbox ids in selector'')
      else case ds_limit sel of None \<Rightarrow> Inr () | Some l \<Rightarrow> validate_admin_limit l)"

text \<open>\<open>ORDER BY updated_at ASC, created_at ASC, outbox_id ASC LIMIT\<close> over dead letters.\<close>

definition oldest_dead_letters :: "(outbox_row \<Rightarrow> bool) \<Rightarrow> int \<Rightarrow> gateway_db \<Rightarrow> outbox_admin_row list" where
  "oldest_dead_letters p limit s =
     map row_to_admin_row
       (select_ordered (\<lambda>k b. (ob_updated_at b, ob_created_at b, k)) (nat limit)
         (\<lambda>_ b. ob_status b = DeadLetter \<and> p b) (delivery_outbox s))"

definition list_dead_letter_rows :: "int \<Rightarrow> gateway_db \<Rightarrow> gw_error + outbox_admin_row list" where
  "list_dead_letter_rows limit s =
     and_then (validate_admin_limit limit) (\<lambda>_. Inr (oldest_dead_letters (\<lambda>_. True) limit s))"

definition dead_letter_reason_counts :: "gateway_db \<Rightarrow> (string \<times> int) list" where
  "dead_letter_reason_counts s =
     (let reasons = map (\<lambda>(_, b). case ob_last_error b of None \<Rightarrow> ''unknown'' | Some e \<Rightarrow> e)
            (filter (\<lambda>(_, b). ob_status b = DeadLetter) (delivery_outbox s))
      in sort_key (\<lambda>(reason, n). (- n, reason))
           (map (\<lambda>reason. (reason, int (count_list reasons reason))) (remdups reasons)))"

definition select_dead_letter_rows ::
  "dead_letter_selector \<Rightarrow> gateway_db \<Rightarrow> gw_error + outbox_admin_row list" where
  "select_dead_letter_rows sel s =
     and_then (validate_dead_letter_selector sel) (\<lambda>_.
       if ds_outbox_ids sel \<noteq> []
       then Inr (map row_to_admin_row (List.map_filter (\<lambda>k.
              case map_of (delivery_outbox s) k of
                Some b \<Rightarrow>
                  if ob_status b = DeadLetter \<and> (ds_reason sel = None \<or> ob_last_error b = ds_reason sel)
                  then Some (k, b) else None
              | None \<Rightarrow> None) (ds_outbox_ids sel)))
       else case ds_limit sel of
              None \<Rightarrow> Inr []
            | Some limit \<Rightarrow>
                (case ds_reason sel of
                   Some reason \<Rightarrow> Inr (oldest_dead_letters (\<lambda>b. ob_last_error b = Some reason) limit s)
                 | None \<Rightarrow> list_dead_letter_rows limit s))"

definition replay_row :: "int \<Rightarrow> outbox_row \<Rightarrow> outbox_row" where
  "replay_row now b =
     b\<lparr>ob_status := Pending, ob_claim_id := None, ob_next_attempt_at := now, ob_updated_at := now\<rparr>"

fun replay_rows :: "int \<Rightarrow> int \<Rightarrow> string list \<Rightarrow> gateway_db \<Rightarrow> gw_error + gateway_db" where
  "replay_rows now db_now [] s = Inr s"
| "replay_rows now db_now (k # ks) s =
     (let p = (\<lambda>k' b. k' = k \<and> ob_status b = DeadLetter \<and> \<not> deadline_passed db_now b)
      in if matching p (delivery_outbox s) = 0
         then Inl (SqlxConfiguration
           ''dead-letter row is past its delivery resolution deadline and cannot be replayed'')
         else replay_rows now db_now ks
                (s\<lparr>delivery_outbox := update_where p (replay_row now) (delivery_outbox s)\<rparr>))"

definition replay_dead_letter_rows ::
  "dead_letter_selector \<Rightarrow> bool \<Rightarrow> int \<Rightarrow> int \<Rightarrow> gateway_db \<Rightarrow> (gw_error + nat) \<times> gateway_db" where
  "replay_dead_letter_rows sel dry_run now db_now s =
     gw_tx s
       (and_then (select_dead_letter_rows sel s) (\<lambda>rows.
          and_then (replay_rows now db_now (map ad_outbox_id rows) s) (\<lambda>s'.
            Inr (length rows, if dry_run then s else s'))))"

fun delete_dead_letters :: "string list \<Rightarrow> gateway_db \<Rightarrow> nat \<times> gateway_db" where
  "delete_dead_letters [] s = (0, s)"
| "delete_dead_letters (k # ks) s =
     (let p = (\<lambda>k' b. k' = k \<and> ob_status b = DeadLetter);
          (n, s') = delete_dead_letters ks
            (s\<lparr>delivery_outbox := delete_where p (delivery_outbox s)\<rparr>)
      in (matching p (delivery_outbox s) + n, s'))"

definition delete_dead_letter_rows ::
  "dead_letter_selector \<Rightarrow> bool \<Rightarrow> gateway_db \<Rightarrow> (gw_error + nat) \<times> gateway_db" where
  "delete_dead_letter_rows sel dry_run s =
     gw_tx s
       (and_then (select_dead_letter_rows sel s) (\<lambda>rows.
          if dry_run then Inr (length rows, s)
          else Inr (delete_dead_letters (map ad_outbox_id rows) s)))"

record retention_purge_counts =
  rp_delivery_outbox_rows :: nat
  rp_disabled_registration_rows :: nat
  rp_notification_event_rows :: nat
  rp_idempotency_tombstone_rows :: nat

definition purge_retained_sensitive_data ::
  "int \<Rightarrow> int \<Rightarrow> gateway_db \<Rightarrow> retention_purge_counts \<times> gateway_db" where
  "purge_retained_sensitive_data cutoff idempotency_cutoff s =
     (let old_row = (\<lambda>_ b. \<not> row_active b \<and> ob_updated_at b < cutoff);
          s1 = s\<lparr>delivery_outbox := delete_where old_row (delivery_outbox s)\<rparr>;
          old_reg = (\<lambda>_ v. case pr_disabled_at v of None \<Rightarrow> False | Some d \<Rightarrow> d < cutoff);
          s2 = s1\<lparr>push_registrations := delete_where old_reg (push_registrations s1)\<rparr>;
          gone = map fst (filter (\<lambda>(k, e). ev_created_at e < cutoff
                   \<and> (\<forall>(_, b) \<in> set (delivery_outbox s2). ob_event_id b \<noteq> k)) (notification_events s2));
          s3 = delete_events gone s2;
          old_tomb = (\<lambda>_ v. tb_retain_until v < idempotency_cutoff);
          s4 = s3\<lparr>hook_tombstones := delete_where old_tomb (hook_tombstones s3)\<rparr>
      in (\<lparr> rp_delivery_outbox_rows = matching old_row (delivery_outbox s),
            rp_disabled_registration_rows = matching old_reg (push_registrations s1),
            rp_notification_event_rows = length gone,
            rp_idempotency_tombstone_rows = matching old_tomb (hook_tombstones s3) \<rparr>, s4))"

end
