(* ===== verification/Rate_Limits.thy ===== *)
theory Rate_Limits
  imports Gateway_Store
begin

text \<open>
  The process-local rate limits and the source identity of a caller
  (\<open>src/crates/push-gateway/src/rate_limits.rs\<close>), and the parts of Rust's \<open>str\<close> that the gateway
  uses. Parsing and printing of an address are arguments.
\<close>

section \<open>Strings\<close>

text \<open>A string is its UTF-8 bytes; \<open>utf8_chars\<close> cuts it into the encodings of its characters.\<close>

definition utf8_continuation :: "char \<Rightarrow> bool" where
  "utf8_continuation c \<longleftrightarrow> 128 \<le> (of_char c :: nat) \<and> (of_char c :: nat) < 192"

function utf8_chars :: "string \<Rightarrow> string list" where
  "utf8_chars [] = []"
| "utf8_chars (c # cs) = (c # takeWhile utf8_continuation cs) # utf8_chars (dropWhile utf8_continuation cs)"
  by pat_completeness auto
termination by (relation "measure length") (auto simp: le_imp_less_Suc length_dropWhile_le)

text \<open>The characters with the property White_Space.\<close>

definition is_whitespace :: "string \<Rightarrow> bool" where
  "is_whitespace c \<longleftrightarrow>
     map of_char c \<in> set ([[9], [10], [11], [12], [13], [32], [194, 133], [194, 160], [225, 154, 128],
       [226, 128, 168], [226, 128, 169], [226, 128, 175], [226, 129, 159], [227, 128, 128]]
       @ map (\<lambda>i. [226, 128, 128 + i]) [0..<11] :: nat list list)"

definition trim :: "string \<Rightarrow> string" where
  "trim s = concat (rev (dropWhile is_whitespace (rev (dropWhile is_whitespace (utf8_chars s)))))"

definition starts_with :: "string \<Rightarrow> string \<Rightarrow> bool" where
  "starts_with p s \<longleftrightarrow> take (length p) s = p"

fun split_on :: "char \<Rightarrow> string \<Rightarrow> string list" where
  "split_on d [] = [[]]"
| "split_on d (c # cs) =
     (if c = d then [] # split_on d cs
      else case split_on d cs of [] \<Rightarrow> [[c]] | w # ws \<Rightarrow> (c # w) # ws)"

text \<open>\<open>split_once\<close>: at the first separator, if there is one.\<close>

definition split_once :: "char \<Rightarrow> string \<Rightarrow> (string \<times> string) option" where
  "split_once d s =
     (case dropWhile (\<lambda>c. c \<noteq> d) s of [] \<Rightarrow> None | _ # rest \<Rightarrow> Some (takeWhile (\<lambda>c. c \<noteq> d) s, rest))"

definition to_ascii_lowercase :: "string \<Rightarrow> string" where
  "to_ascii_lowercase =
     map (\<lambda>c. if 65 \<le> (of_char c :: nat) \<and> (of_char c :: nat) \<le> 90 then char_of (of_char c + 32 :: nat) else c)"

section \<open>Fixed windows\<close>

datatype rate_limit_family =
    AuthSource
  | RegistrationSource
  | RegistrationRecipientSource
  | HookInvocationSource
  | HookInvocationHook
  | HookCreationRecipient

record fixed_window =
  fw_started_at :: int
  fw_window_seconds :: int
  fw_count :: nat

type_synonym rate_limiters = "(rate_limit_family, (string, fixed_window) tbl) tbl"

definition DEFAULT_LIMITER_FAMILY_CAPACITY :: nat where
  "DEFAULT_LIMITER_FAMILY_CAPACITY = 100000"

definition family_windows :: "rate_limiters \<Rightarrow> rate_limit_family \<Rightarrow> (string, fixed_window) tbl" where
  "family_windows l f = (case map_of l f of None \<Rightarrow> [] | Some ws \<Rightarrow> ws)"

definition window_live :: "int \<Rightarrow> fixed_window \<Rightarrow> bool" where
  "window_live now w \<longleftrightarrow> now < i64_saturating (fw_started_at w + fw_window_seconds w)"

definition check_windows ::
  "nat \<Rightarrow> string \<Rightarrow> nat \<Rightarrow> int \<Rightarrow> int \<Rightarrow> (string, fixed_window) tbl \<Rightarrow> bool \<times> (string, fixed_window) tbl" where
  "check_windows capacity key max_requests window_seconds now ws0 =
     (let ws = delete_where (\<lambda>_ w. \<not> window_live now w) ws0
      in if \<not> tbl_exists ws key \<and> capacity \<le> length ws then (False, ws)
         else let w0 = (case map_of ws key of
                          Some w \<Rightarrow> w
                        | None \<Rightarrow> \<lparr> fw_started_at = now, fw_window_seconds = window_seconds, fw_count = 0 \<rparr>);
                  w = (if i64_saturating (fw_started_at w0 + window_seconds) \<le> now
                       then \<lparr> fw_started_at = now, fw_window_seconds = window_seconds, fw_count = 0 \<rparr>
                       else w0)
              in if max_requests \<le> fw_count w then (False, upsert_row key w ws)
                 else (True, upsert_row key (w\<lparr>fw_count := fw_count w + 1\<rparr>) ws))"

definition rate_check ::
  "rate_limit_family \<Rightarrow> string \<Rightarrow> u64 \<Rightarrow> u64 \<Rightarrow> int \<Rightarrow> rate_limiters \<Rightarrow> bool \<times> rate_limiters" where
  "rate_check family key max_requests window_seconds now l =
     (if max_requests = 0 \<or> window_seconds = 0 then (True, l)
      else let (ok, ws) = check_windows DEFAULT_LIMITER_FAMILY_CAPACITY key (unat max_requests)
                 (min (int (unat window_seconds)) (2 ^ 63 - 1)) now (family_windows l family)
           in (ok, upsert_row family ws l))"

section \<open>Source identity\<close>

datatype ip_addr = V4 u32 | V6 "128 word"

datatype ip_cidr = CidrV4 u32 u8 | CidrV6 "128 word" u8

unbundle bit_operations_syntax

definition v4_mask :: "u8 \<Rightarrow> u32" where
  "v4_mask prefix = (if prefix = 0 then 0 else push_bit (32 - unat prefix) (- 1))"

definition v6_mask :: "u8 \<Rightarrow> 128 word" where
  "v6_mask prefix = (if prefix = 0 then 0 else push_bit (128 - unat prefix) (- 1))"

fun cidr_contains :: "ip_cidr \<Rightarrow> ip_addr \<Rightarrow> bool" where
  "cidr_contains (CidrV4 network prefix) (V4 addr) = ((addr AND v4_mask prefix) = network)"
| "cidr_contains (CidrV6 network prefix) (V6 addr) = ((addr AND v6_mask prefix) = network)"
| "cidr_contains _ _ = False"

text \<open>The text of an address, its parser, and a decimal \<open>u8\<close>: Rust's formatting of addresses.\<close>

record ip_text =
  it_parse :: "string \<Rightarrow> ip_addr option"
  it_show :: "ip_addr \<Rightarrow> string"
  it_parse_u8 :: "string \<Rightarrow> u8 option"

definition parse_prefix :: "ip_text \<Rightarrow> string option \<Rightarrow> u8 \<Rightarrow> unit + u8" where
  "parse_prefix it prefix dflt =
     (case prefix of
        None \<Rightarrow> Inr dflt
      | Some p \<Rightarrow> and_then (ok_or (it_parse_u8 it p) ()) (\<lambda>n. if dflt < n then Inl () else Inr n))"

definition parse_cidr :: "ip_text \<Rightarrow> string \<Rightarrow> unit + ip_cidr" where
  "parse_cidr it v =
     (let (ip, prefix) = (case split_once (CHR ''/'') v of
                            Some (ip, p) \<Rightarrow> (ip, Some p) | None \<Rightarrow> (v, None))
      in and_then (ok_or (it_parse it ip) ()) (\<lambda>a. case a of
             V4 addr \<Rightarrow> and_then (parse_prefix it prefix 32) (\<lambda>p. Inr (CidrV4 (addr AND v4_mask p) p))
           | V6 addr \<Rightarrow> and_then (parse_prefix it prefix 128) (\<lambda>p. Inr (CidrV6 (addr AND v6_mask p) p))))"

definition parse_csv :: "ip_text \<Rightarrow> string \<Rightarrow> unit + ip_cidr list" where
  "parse_csv it v =
     collect_results (map (parse_cidr it) (filter (\<lambda>p. p \<noteq> []) (map trim (split_on (CHR '','') v))))"

definition is_trusted :: "ip_cidr list \<Rightarrow> ip_addr \<Rightarrow> bool" where
  "is_trusted cidrs ip \<longleftrightarrow> list_ex (\<lambda>c. cidr_contains c ip) cidrs"

text \<open>The two headers the gateway reads: the first value of each, when it is readable text.\<close>

record forwarding_headers =
  fh_forwarded :: "string option"
  fh_x_forwarded_for :: "string option"

definition trim_quotes :: "string \<Rightarrow> string" where
  "trim_quotes s = rev (dropWhile (\<lambda>c. c = CHR 0x22) (rev (dropWhile (\<lambda>c. c = CHR 0x22) s)))"

definition parse_forwarded_ip :: "ip_text \<Rightarrow> string \<Rightarrow> ip_addr option" where
  "parse_forwarded_ip it s =
     (let v = trim (trim_quotes s)
      in case it_parse it v of
           Some ip \<Rightarrow> Some ip
         | None \<Rightarrow>
             if starts_with ''['' v then it_parse it (hd (split_on (CHR '']'') (tl v)))
             else it_parse it (hd (split_on (CHR '':'') v)))"

definition forwarded_param :: "ip_text \<Rightarrow> string \<Rightarrow> ip_addr option" where
  "forwarded_param it p =
     (case split_once (CHR ''='') (trim p) of
        Some (name, v) \<Rightarrow>
          if to_ascii_lowercase (trim name) = ''for'' then parse_forwarded_ip it (trim v) else None
      | None \<Rightarrow> None)"

definition select_client_from_forwarded_chain ::
  "ip_addr list \<Rightarrow> ip_cidr list option \<Rightarrow> ip_addr option" where
  "select_client_from_forwarded_chain chain trusted =
     (case trusted of
        None \<Rightarrow> None
      | Some proxies \<Rightarrow>
          (case List.find (\<lambda>ip. \<not> is_trusted proxies ip) (rev chain) of
             Some ip \<Rightarrow> Some ip
           | None \<Rightarrow> (case chain of [] \<Rightarrow> None | ip # _ \<Rightarrow> Some ip)))"

definition forwarded_chain :: "ip_text \<Rightarrow> forwarding_headers \<Rightarrow> ip_addr list" where
  "forwarded_chain it hs =
     (let chain = (case fh_forwarded hs of
                     None \<Rightarrow> []
                   | Some v \<Rightarrow> List.map_filter (forwarded_param it)
                       (concat (map (split_on (CHR '';'')) (split_on (CHR '','') v))))
      in if chain = []
         then (case fh_x_forwarded_for hs of
                 None \<Rightarrow> []
               | Some v \<Rightarrow> List.map_filter (\<lambda>ip. parse_forwarded_ip it (trim ip)) (split_on (CHR '','') v))
         else chain)"

definition forwarded_for :: "ip_text \<Rightarrow> forwarding_headers \<Rightarrow> ip_cidr list option \<Rightarrow> ip_addr option" where
  "forwarded_for it hs trusted = select_client_from_forwarded_chain (forwarded_chain it hs) trusted"

text \<open>An IPv6 source is its first four segments, an IPv4 source the address.\<close>

definition normalize_source_prefix :: "ip_text \<Rightarrow> ip_addr \<Rightarrow> string" where
  "normalize_source_prefix it ip =
     (case ip of
        V4 a \<Rightarrow> it_show it (V4 a)
      | V6 a \<Rightarrow> it_show it (V6 (a AND push_bit 64 (- 1))) @ ''/64'')"

definition effective_source_prefix ::
  "ip_text \<Rightarrow> ip_addr option \<Rightarrow> forwarding_headers \<Rightarrow> ip_cidr list option \<Rightarrow> string" where
  "effective_source_prefix it peer hs trusted =
     (case peer of
        None \<Rightarrow> normalize_source_prefix it (V4 2130706433)
      | Some direct \<Rightarrow>
          normalize_source_prefix it
            (if (case trusted of None \<Rightarrow> False | Some proxies \<Rightarrow> is_trusted proxies direct)
             then (case forwarded_for it hs trusted of Some ip \<Rightarrow> ip | None \<Rightarrow> direct)
             else direct))"

section \<open>Facts\<close>

text \<open>A live window never holds more accepted requests than the limit it is checked with.\<close>

definition windows_within :: "nat \<Rightarrow> (string, fixed_window) tbl \<Rightarrow> bool" where
  "windows_within n ws \<longleftrightarrow> keyed ws \<and> (\<forall>(_, w) \<in> set ws. fw_count w \<le> n)"

lemma set_upsert_row: "set (upsert_row k v t) \<subseteq> insert (k, v) (set t)"
  by (auto simp: upsert_row_def update_where_def split: if_splits)

lemma windows_within_upsert:
  "windows_within n ws \<Longrightarrow> fw_count w \<le> n \<Longrightarrow> windows_within n (upsert_row k w ws)"
  using set_upsert_row [of k w ws] by (auto simp: windows_within_def keyed_upsert_row)

lemma check_windows_within:
  assumes "windows_within n ws"
  shows "windows_within n (snd (check_windows c key n secs now ws))"
proof -
  let ?ws = "delete_where (\<lambda>_ w. \<not> window_live now w) ws"
  have w: "windows_within n ?ws"
    using assms by (auto simp: windows_within_def keyed_delete_where set_delete_where)
  then have "map_of ?ws key = Some w \<Longrightarrow> fw_count w \<le> n" for w
    by (auto simp: windows_within_def dest!: map_of_SomeD)
  with w show ?thesis
    by (auto simp: check_windows_def Let_def windows_within_upsert split: option.splits if_splits)
qed

text \<open>
  Behind trusted proxies the selected client is the last address of the chain that is not itself
  a trusted proxy: everything to its right was added by a trusted proxy.
\<close>

lemma find_rev_Some:
  "List.find P (rev xs) = Some x \<Longrightarrow> \<exists>ys zs. xs = ys @ x # zs \<and> P x \<and> (\<forall>z \<in> set zs. \<not> P z)"
proof (induction xs rule: rev_induct)
  case (snoc y xs)
  show ?case
  proof (cases "P y")
    case True
    with snoc.prems show ?thesis by (intro exI [of _ xs] exI [of _ "[]"]) auto
  next
    case False
    with snoc.prems have "List.find P (rev xs) = Some x" by simp
    from snoc.IH [OF this] obtain ys zs where "xs = ys @ x # zs" "P x" "\<forall>z \<in> set zs. \<not> P z" by blast
    with False show ?thesis by (intro exI [of _ ys] exI [of _ "zs @ [y]"]) auto
  qed
qed simp

lemma selected_client_is_rightmost_untrusted:
  assumes "select_client_from_forwarded_chain chain (Some proxies) = Some ip"
    and "\<not> is_trusted proxies ip"
  shows "\<exists>before after. chain = before @ ip # after \<and> (\<forall>p \<in> set after. is_trusted proxies p)"
proof -
  have "List.find (\<lambda>ip. \<not> is_trusted proxies ip) (rev chain) = Some ip"
    using assms
    by (cases chain)
       (auto simp: select_client_from_forwarded_chain_def find_None_iff split: option.splits)
  from find_rev_Some [OF this] show ?thesis by blast
qed

end
