(* ===== verification/Gateway_Service.thy ===== *)
theory Gateway_Service
  imports Gateway_Hooks Delivery_Outbox Rate_Limits
begin

text \<open>
  The request handlers of the push gateway (\<open>src/crates/push-gateway/src\<close>): validation, the
  in-memory limits, the acceptance transaction of a hook invocation, and the management of hooks
  and registrations. An error is its HTTP status and its code; the message is a function of both.
  A handler's argument \<open>admitted\<close> says whether the write queue had room for the request.
\<close>

section \<open>Errors and validation\<close>

datatype api_error = ApiError nat string

definition internal_error :: api_error where
  "internal_error = ApiError 500 ''internal_error''"

definition bad_request :: "string \<Rightarrow> api_error" where
  "bad_request code = ApiError 400 code"

definition MAX_ID_LEN :: nat where "MAX_ID_LEN = 128"
definition MAX_LABEL_LEN :: nat where "MAX_LABEL_LEN = 120"
definition MAX_TITLE_LEN :: nat where "MAX_TITLE_LEN = 120"
definition MAX_BODY_LEN :: nat where "MAX_BODY_LEN = 512"
definition MAX_KIND_LEN :: nat where "MAX_KIND_LEN = 128"
definition MAX_FCM_TOKEN_LEN :: nat where "MAX_FCM_TOKEN_LEN = 4096"
definition MAX_PLATFORM_LEN :: nat where "MAX_PLATFORM_LEN = 32"
definition MAX_DATA_JSON_LEN :: nat where "MAX_DATA_JSON_LEN = 4096"
definition MAX_DATA_KEYS :: nat where "MAX_DATA_KEYS = 32"
definition MAX_DATA_KEY_LEN :: nat where "MAX_DATA_KEY_LEN = 64"
definition MAX_FCM_DATA_BYTES :: nat where "MAX_FCM_DATA_BYTES = 4096"

lemmas gateway_lengths =
  MAX_ID_LEN_def MAX_LABEL_LEN_def MAX_TITLE_LEN_def MAX_BODY_LEN_def MAX_KIND_LEN_def
  MAX_FCM_TOKEN_LEN_def MAX_PLATFORM_LEN_def MAX_DATA_JSON_LEN_def MAX_DATA_KEYS_def
  MAX_DATA_KEY_LEN_def MAX_FCM_DATA_BYTES_def

definition validate_optional_string :: "string option \<Rightarrow> nat \<Rightarrow> api_error + unit" where
  "validate_optional_string v max_len =
     (case v of
        None \<Rightarrow> Inr ()
      | Some s \<Rightarrow> if max_len < length s then Inl (bad_request ''field_too_long'') else Inr ())"

definition validate_required_string :: "string \<Rightarrow> nat \<Rightarrow> api_error + unit" where
  "validate_required_string v max_len =
     (if trim v = [] then Inl (bad_request ''field_required'')
      else if max_len < length v then Inl (bad_request ''field_too_long'')
      else Inr ())"

definition validate_data :: "gateway_codec \<Rightarrow> json_map \<Rightarrow> api_error + unit" where
  "validate_data gc data =
     (if MAX_DATA_KEYS < length data then Inl (bad_request ''data_too_many_keys'')
      else if list_ex (\<lambda>(k, _). k = [] \<or> MAX_DATA_KEY_LEN < length k) data
      then Inl (bad_request ''data_key_invalid'')
      else if MAX_DATA_JSON_LEN < length (gc_data_to_json gc data) then Inl (bad_request ''data_too_large'')
      else Inr ())"

definition is_reserved_data_key :: "string \<Rightarrow> bool" where
  "is_reserved_data_key k \<longleftrightarrow>
     starts_with ''pg.'' k
     \<or> k \<in> set [''recipient_id'', ''notification_id'', ''kind'', ''workflow'', ''action'', ''deep_link'',
                ''open_behavior'', ''event_id'']"

definition is_fcm_reserved_data_key :: "string \<Rightarrow> bool" where
  "is_fcm_reserved_data_key k \<longleftrightarrow>
     (let k = to_ascii_lowercase k
      in k = ''from'' \<or> k = ''message_type'' \<or> starts_with ''google'' k \<or> starts_with ''gcm.'' k)"

definition validate_no_reserved_data_keys :: "json_map \<Rightarrow> api_error + unit" where
  "validate_no_reserved_data_keys data =
     (if list_ex (\<lambda>(k, _). is_reserved_data_key k \<or> is_fcm_reserved_data_key k) data
      then Inl (bad_request ''data_key_reserved'') else Inr ())"

fun fcm_data_value :: "gateway_codec \<Rightarrow> json \<Rightarrow> string" where
  "fcm_data_value gc (JString v) = v"
| "fcm_data_value gc v = gc_value_to_string gc v"

definition fcm_data_size :: "gateway_codec \<Rightarrow> json_map \<Rightarrow> nat" where
  "fcm_data_size gc data = sum_list (map (\<lambda>(k, v). length k + length (fcm_data_value gc v)) data)"

definition fcm_outbound_data :: "notification \<Rightarrow> json_map" where
  "fcm_outbound_data nt =
     json_insert ''kind'' (JString (nt_kind nt))
       (json_insert ''notification_id'' (JString (nt_notification_id nt))
         (json_insert ''recipient_id'' (JString (nt_recipient_id nt)) (nt_data nt)))"

definition validate_fcm_outbound_notification :: "gateway_codec \<Rightarrow> notification \<Rightarrow> api_error + unit" where
  "validate_fcm_outbound_notification gc nt =
     (let data = fcm_outbound_data nt
      in if list_ex (\<lambda>(k, _). is_fcm_reserved_data_key k) data
         then Inl (bad_request ''data_key_reserved'')
         else if MAX_FCM_DATA_BYTES < fcm_data_size gc data
         then Inl (bad_request ''data_too_large'')
         else Inr ())"

section \<open>Limits of the configuration\<close>

record gateway_limits =
  gl_hook_invocations_per_source_prefix :: u64
  gl_hook_invocations_per_hook :: u64
  gl_hook_invocation_window_seconds :: u64
  gl_hook_creations_per_recipient :: u64
  gl_hook_creation_window_seconds :: u64
  gl_registration_changes_per_source_prefix :: u64
  gl_registration_changes_per_recipient_source :: u64
  gl_registration_change_window_seconds :: u64
  gl_max_global_outbox_backlog :: u64
  gl_max_recipient_outbox_backlog :: u64
  gl_max_active_hooks_per_recipient :: u64
  gl_max_active_hooks_global :: u64
  gl_max_hook_rows_global :: u64
  gl_max_active_installations_per_recipient :: u64
  gl_max_active_installations_global :: u64
  gl_max_registration_rows_global :: u64
  gl_admission_gc_batch_size :: u64
  gl_trusted_proxy_cidrs :: "ip_cidr list option"

record gateway_config =
  gw_limits :: gateway_limits
  gw_production_mode :: bool
  gw_registration_ttl_seconds :: u64
  gw_retention_seconds :: u64
  gw_codec :: gateway_codec
  gw_ip_text :: ip_text

text \<open>\<open>now.saturating_sub(i64::try_from(seconds).unwrap_or(i64::MAX))\<close>.\<close>

definition cutoff_of :: "u64 \<Rightarrow> int \<Rightarrow> int" where
  "cutoff_of seconds now = i64_saturating (now - min (int (unat seconds)) (2 ^ 63 - 1))"

definition registration_cutoff :: "gateway_config \<Rightarrow> int \<Rightarrow> int" where
  "registration_cutoff cfg now = cutoff_of (gw_registration_ttl_seconds cfg) now"

section \<open>Invoking a hook\<close>

record invoke_request =
  iv_idempotency_key :: "string option"
  iv_data :: json_map

record invocation_outcome =
  io_target_count :: nat
  io_enqueued_rows :: bool

definition classify_hook_capability_terminated :: "hook_record \<Rightarrow> int \<Rightarrow> hook_use_outcome option" where
  "classify_hook_capability_terminated rec now =
     (if hr_revoked_at rec \<noteq> None then Some UseRevoked
      else if (case hp_expires_at (hr_policy rec) of None \<Rightarrow> False | Some e \<Rightarrow> e \<le> now) then Some UseExpired
      else None)"

definition classify_hook_before_target :: "hook_record \<Rightarrow> int \<Rightarrow> hook_use_outcome option" where
  "classify_hook_before_target rec now =
     (case classify_hook_capability_terminated rec now of
        Some r \<Rightarrow> Some r
      | None \<Rightarrow>
          if (case hp_max_uses (hr_policy rec) of None \<Rightarrow> False | Some m \<Rightarrow> m \<le> hr_use_count rec)
          then Some UseMaxUsesExceeded
          else if (case hp_rate_limit (hr_policy rec) of
                     None \<Rightarrow> False
                   | Some l \<Rightarrow> (case lr_window_started_at l of
                         None \<Rightarrow> False
                       | Some st \<Rightarrow> now < i64_saturating (st + lr_window_seconds l)
                           \<and> lr_max_requests l \<le> lr_count l))
          then Some UseRateLimited
          else None)"

definition rejection_to_error :: "hook_use_outcome \<Rightarrow> api_error" where
  "rejection_to_error rejection =
     (case rejection of
        UseAccepted _ \<Rightarrow> ApiError 409 ''hook_conflict''
      | UseNotFound \<Rightarrow> ApiError 404 ''hook_not_found''
      | UseExpired \<Rightarrow> ApiError 410 ''hook_expired''
      | UseRevoked \<Rightarrow> ApiError 410 ''hook_revoked''
      | UseMaxUsesExceeded \<Rightarrow> ApiError 429 ''hook_max_uses_exceeded''
      | UseRateLimited \<Rightarrow> ApiError 429 ''hook_rate_limited'')"

definition enforce_invocation_rate_limits ::
  "gateway_limits \<Rightarrow> string \<Rightarrow> string \<Rightarrow> int \<Rightarrow> int \<Rightarrow> rate_limiters \<Rightarrow> (api_error + unit) \<times> rate_limiters" where
  "enforce_invocation_rate_limits gl source hook_id now1 now2 l =
     (let (ok1, l1) = rate_check HookInvocationSource (''hook-invoke-source:'' @ source)
            (gl_hook_invocations_per_source_prefix gl) (gl_hook_invocation_window_seconds gl) now1 l
      in if \<not> ok1 then (Inl (ApiError 429 ''source_rate_limited''), l1)
         else let (ok2, l2) = rate_check HookInvocationHook (''hook-invoke-hook:'' @ hook_id)
                (gl_hook_invocations_per_hook gl) (gl_hook_invocation_window_seconds gl) now2 l1
              in if \<not> ok2 then (Inl (ApiError 429 ''hook_rate_limited''), l2) else (Inr (), l2))"

text \<open>
  The statement that consumes one use of a hook. In production mode a stored policy more
  permissive than the default is capped at the default; a null policy is unlimited otherwise.
\<close>

definition effective_window :: "bool \<Rightarrow> hook_row \<Rightarrow> int option" where
  "effective_window production h =
     (if production \<and> (case hk_rate_limit_window_seconds h of
                           None \<Rightarrow> True | Some w \<Rightarrow> w < DEFAULT_RATE_LIMIT_WINDOW_SECONDS)
      then Some DEFAULT_RATE_LIMIT_WINDOW_SECONDS else hk_rate_limit_window_seconds h)"

definition effective_max_requests :: "bool \<Rightarrow> hook_row \<Rightarrow> int option" where
  "effective_max_requests production h =
     (if production \<and> (case hk_rate_limit_max_requests h of
                           None \<Rightarrow> True | Some m \<Rightarrow> DEFAULT_RATE_LIMIT_MAX_REQUESTS < m)
      then Some DEFAULT_RATE_LIMIT_MAX_REQUESTS else hk_rate_limit_max_requests h)"

definition hook_unlimited :: "bool \<Rightarrow> hook_row \<Rightarrow> bool" where
  "hook_unlimited production h \<longleftrightarrow>
     \<not> production \<and> (hk_rate_limit_window_seconds h = None \<or> hk_rate_limit_max_requests h = None)"

definition hook_window_over :: "bool \<Rightarrow> int \<Rightarrow> hook_row \<Rightarrow> bool" where
  "hook_window_over production now h \<longleftrightarrow>
     (case hk_rate_limit_window_started_at h of
        None \<Rightarrow> True
      | Some st \<Rightarrow> (case effective_window production h of None \<Rightarrow> False | Some w \<Rightarrow> st + w \<le> now))"

definition hook_usable :: "bool \<Rightarrow> int \<Rightarrow> hook_row \<Rightarrow> bool" where
  "hook_usable production now h \<longleftrightarrow>
     hk_revoked_at h = None
     \<and> (case hk_expires_at h of None \<Rightarrow> True | Some e \<Rightarrow> now < e)
     \<and> (case hk_max_uses h of None \<Rightarrow> True | Some m \<Rightarrow> hk_use_count h < m)
     \<and> (hook_unlimited production h \<or> hook_window_over production now h
        \<or> (case effective_max_requests production h of
              None \<Rightarrow> False | Some m \<Rightarrow> hk_rate_limit_count h < m))"

definition use_hook_row :: "bool \<Rightarrow> int \<Rightarrow> hook_row \<Rightarrow> hook_row" where
  "use_hook_row production now h =
     h\<lparr>hk_use_count := hk_use_count h + 1, hk_last_used_at := Some now,
       hk_rate_limit_window_started_at :=
         (if hook_unlimited production h \<or> hook_window_over production now h then Some now
          else hk_rate_limit_window_started_at h),
       hk_rate_limit_count :=
         (if hook_unlimited production h then 0
          else if hook_window_over production now h then 1
          else hk_rate_limit_count h + 1)\<rparr>"

definition consume_hook :: "bool \<Rightarrow> string \<Rightarrow> int \<Rightarrow> gateway_db \<Rightarrow> nat \<times> gateway_db" where
  "consume_hook production k now s =
     (let p = (\<lambda>k' h. k' = k \<and> hook_usable production now h)
      in (matching p (notification_hooks s),
          s\<lparr>notification_hooks := update_where p (use_hook_row production now) (notification_hooks s)\<rparr>))"

text \<open>Decimal printing of a counter, as \<open>format!\<close> does it.\<close>

fun show_nat :: "nat \<Rightarrow> string" where
  "show_nat n = (if n < 10 then [char_of (48 + n)] else show_nat (n div 10) @ [char_of (48 + n mod 10)])"

declare show_nat.simps [simp del]

definition show_int :: "int \<Rightarrow> string" where
  "show_int i = (if i < 0 then ''-'' @ show_nat (nat (- i)) else show_nat (nat i))"

definition insert_opt :: "string \<Rightarrow> string option \<Rightarrow> json_map \<Rightarrow> json_map" where
  "insert_opt k v m = (case v of None \<Rightarrow> m | Some s \<Rightarrow> json_insert k (JString s) m)"

definition notification_from_hook_and_request :: "hook_record \<Rightarrow> invoke_request \<Rightarrow> notification" where
  "notification_from_hook_and_request rec req =
     (let open_record = hr_open rec;
          shown = hr_notification rec;
          data = insert_opt ''pg.deep_link'' (ho_deep_link open_record)
            (insert_opt ''pg.action'' (ho_action open_record)
              (insert_opt ''pg.workflow'' (ho_workflow open_record)
                (json_insert ''pg.privacy'' (JString (privacy_as_str (hn_privacy shown)))
                  (json_insert ''pg.open_behavior''
                     (JString (open_behavior_as_str (ho_open_behavior open_record))) (hr_data rec)))))
      in \<lparr> nt_recipient_id = hr_recipient_id rec,
           nt_notification_id = ''hook:'' @ hr_hook_id rec @ '':'' @ show_int (hr_use_count rec),
           nt_kind = (case hn_kind shown of None \<Rightarrow> ''hook'' | Some k \<Rightarrow> k),
           nt_title = (if hn_privacy shown = DataOnly then None else hn_title shown),
           nt_body = (if hn_privacy shown = DataOnly then None else hn_body shown),
           nt_data = fold (\<lambda>(k, v). json_insert k v) (iv_data req) data \<rparr>)"

definition backlog_of :: "string option \<Rightarrow> gateway_db \<Rightarrow> nat" where
  "backlog_of recipient s =
     matching (\<lambda>_ b. (case recipient of None \<Rightarrow> True | Some r \<Rightarrow> ob_recipient_id b = r) \<and> row_active b)
       (delivery_outbox s)"

definition enforce_outbox_backlog_caps ::
  "gateway_limits \<Rightarrow> string \<Rightarrow> nat \<Rightarrow> gateway_db \<Rightarrow> api_error + unit" where
  "enforce_outbox_backlog_caps gl r new_rows s =
     (if new_rows = 0 then Inr ()
      else if 0 < gl_max_global_outbox_backlog gl
           \<and> unat (gl_max_global_outbox_backlog gl) < backlog_of None s + new_rows
      then Inl (ApiError 503 ''outbox_backlog_full'')
      else if 0 < gl_max_recipient_outbox_backlog gl
           \<and> unat (gl_max_recipient_outbox_backlog gl) < backlog_of (Some r) s + new_rows
      then Inl (ApiError 429 ''recipient_outbox_backlog_full'')
      else Inr ())"

definition to_internal :: "gw_error + 'a \<Rightarrow> api_error + 'a" where
  "to_internal r = (case r of Inl _ \<Rightarrow> Inl internal_error | Inr x \<Rightarrow> Inr x)"

text \<open>The rows of an accepted invocation: event, marker of its key, one target row.\<close>

definition write_invocation ::
  "gateway_codec \<Rightarrow> string \<Rightarrow> string option \<Rightarrow> hook_record \<Rightarrow> notification \<Rightarrow> push_registration list
    \<Rightarrow> int \<Rightarrow> string \<Rightarrow> (nat \<Rightarrow> string) \<Rightarrow> gateway_db \<Rightarrow> gw_error + gateway_db" where
  "write_invocation gc hook_id key rec nt regs now event_id ids s =
     (let json = gc_notification_to_json gc nt
      in and_then (insert_event event_id
             (new_event_row hook_id key (nt_recipient_id nt) json (length regs) now) s) (\<lambda>s1.
           and_then (case key of
                 None \<Rightarrow> Inr s1
               | Some k \<Rightarrow> record_tombstone hook_id k (length regs) now (hp_expires_at (hr_policy rec)) s1)
             (insert_targets event_id json now ids 0 regs)))"

text \<open>The transaction from the consuming update on; an error leaves the database as it was.\<close>

definition commit_invocation ::
  "gateway_config \<Rightarrow> string \<Rightarrow> string \<Rightarrow> invoke_request \<Rightarrow> hook_record \<Rightarrow> push_registration list \<Rightarrow> int \<Rightarrow> int
    \<Rightarrow> string \<Rightarrow> (nat \<Rightarrow> string) \<Rightarrow> gateway_db \<Rightarrow> gateway_db
    \<Rightarrow> (api_error + invocation_outcome) \<times> gateway_db" where
  "commit_invocation cfg hook_id secret req rec0 regs now later event_id ids s0 s =
     (let gc = gw_codec cfg;
          (hits, s1) = consume_hook (gw_production_mode cfg) hook_id now s
      in if hits \<noteq> 1
         then (case verify_without_marking_used gc hook_id secret later s0 of
                 Inl _ \<Rightarrow> (Inl internal_error, s0)
               | Inr use_outcome \<Rightarrow>
                   (Inl (if gw_production_mode cfg \<and> (case use_outcome of UseAccepted _ \<Rightarrow> True | _ \<Rightarrow> False)
                         then ApiError 429 ''hook_rate_limited'' else rejection_to_error use_outcome), s0))
         else let rec = rec0\<lparr>hr_use_count := i64_saturating (hr_use_count rec0 + 1),
                             hr_last_used_at := Some now\<rparr>;
                  nt = notification_from_hook_and_request rec req
              in case and_then (enforce_outbox_backlog_caps (gw_limits cfg) (nt_recipient_id nt)
                          (length regs) s1) (\<lambda>_.
                        and_then (validate_fcm_outbound_notification gc nt) (\<lambda>_.
                          to_internal (write_invocation gc hook_id (iv_idempotency_key req) rec nt regs now
                            event_id ids s1))) of
                   Inl e \<Rightarrow> (Inl e, s0)
                 | Inr s2 \<Rightarrow>
                     (Inr \<lparr> io_target_count = length regs, io_enqueued_rows = (regs \<noteq> []) \<rparr>, s2))"

text \<open>
  \<open>accept_invocation\<close>: clock reading 0 opens it, 1 and 2 are those of the two limiter checks and 3
  that of the second verification.
\<close>

definition accept_invocation ::
  "gateway_config \<Rightarrow> string \<Rightarrow> string \<Rightarrow> string \<Rightarrow> invoke_request \<Rightarrow> (nat \<Rightarrow> int) \<Rightarrow> string \<Rightarrow> (nat \<Rightarrow> string)
    \<Rightarrow> rate_limiters \<Rightarrow> gateway_db \<Rightarrow> (api_error + invocation_outcome) \<times> rate_limiters \<times> gateway_db" where
  "accept_invocation cfg source hook_id secret req clk event_id ids l s =
     (let gc = gw_codec cfg; now = clk 0; key = iv_idempotency_key req
      in case map_of (notification_hooks s) hook_id of
        None \<Rightarrow> (Inl (ApiError 404 ''hook_not_found''), l, s)
      | Some h \<Rightarrow>
          if \<not> constant_time_eq (str_bytes (hk_secret_hash h)) (str_bytes (gc_hash_hex gc secret))
          then (Inl (ApiError 404 ''hook_not_found''), l, s)
          else case hook_record_from_row gc hook_id h of
            Inl _ \<Rightarrow> (Inl internal_error, l, s)
          | Inr rec \<Rightarrow>
              case classify_hook_capability_terminated rec now of
                Some rejection \<Rightarrow> (Inl (rejection_to_error rejection), l, s)
              | None \<Rightarrow>
                  case (case key of None \<Rightarrow> None | Some k \<Rightarrow> retained_target_count hook_id k s) of
                    Some n \<Rightarrow> (Inr \<lparr> io_target_count = n, io_enqueued_rows = False \<rparr>, l, s)
                  | None \<Rightarrow>
                      case classify_hook_before_target rec now of
                        Some rejection \<Rightarrow> (Inl (rejection_to_error rejection), l, s)
                      | None \<Rightarrow>
                          case eligible_installation (hr_recipient_id rec) (hr_installation_id rec)
                                 (registration_cutoff cfg now) s of
                            None \<Rightarrow> (Inl (ApiError 503 ''target_installation_unavailable''), l, s)
                          | Some reg \<Rightarrow>
                              let (fits, s1) = (if key = None then (True, s)
                                    else ensure_capacity now (gl_max_hook_rows_global (gw_limits cfg))
                                           (gl_admission_gc_batch_size (gw_limits cfg)) s)
                              in if \<not> fits then (Inl (ApiError 503 ''idempotency_capacity_exceeded''), l, s)
                                 else case enforce_invocation_rate_limits (gw_limits cfg) source hook_id
                                        (clk 1) (clk 2) l of
                                   (Inl e, l1) \<Rightarrow> (Inl e, l1, s)
                                 | (Inr _, l1) \<Rightarrow>
                                     (case commit_invocation cfg hook_id secret req rec [reg] now (clk 3)
                                             event_id ids s s1 of
                                        (r, s2) \<Rightarrow> (r, l1, s2)))"

definition validate_invoke_request :: "gateway_codec \<Rightarrow> invoke_request \<Rightarrow> api_error + unit" where
  "validate_invoke_request gc req =
     and_then (validate_optional_string (iv_idempotency_key req) 128) (\<lambda>_.
       and_then (validate_data gc (iv_data req)) (\<lambda>_. validate_no_reserved_data_keys (iv_data req)))"

definition queue_full :: api_error where
  "queue_full = ApiError 503 ''database_write_queue_full''"

definition invoke_hook ::
  "gateway_config \<Rightarrow> ip_addr option \<Rightarrow> forwarding_headers \<Rightarrow> bool \<Rightarrow> string \<Rightarrow> string \<Rightarrow> invoke_request
    \<Rightarrow> (nat \<Rightarrow> int) \<Rightarrow> string \<Rightarrow> (nat \<Rightarrow> string) \<Rightarrow> rate_limiters \<Rightarrow> gateway_db
    \<Rightarrow> (api_error + invocation_outcome) \<times> rate_limiters \<times> gateway_db" where
  "invoke_hook cfg peer headers admitted hook_id secret req clk event_id ids l s =
     (case and_then (validate_required_string hook_id 128) (\<lambda>_.
             and_then (validate_required_string secret 512) (\<lambda>_.
               validate_invoke_request (gw_codec cfg) req)) of
        Inl e \<Rightarrow> (Inl e, l, s)
      | Inr _ \<Rightarrow>
          if \<not> admitted then (Inl queue_full, l, s)
          else accept_invocation cfg
                 (effective_source_prefix (gw_ip_text cfg) peer headers (gl_trusted_proxy_cidrs (gw_limits cfg)))
                 hook_id secret req clk event_id ids l s)"

section \<open>Hook management\<close>

definition validate_deep_link :: "string \<Rightarrow> api_error + unit" where
  "validate_deep_link link =
     (let rest = drop (length ''fedi://'') link;
          fedi = starts_with ''fedi://'' link \<and> trim rest \<noteq> [] \<and> \<not> starts_with ''/'' rest;
          app = starts_with ''/'' link \<and> \<not> starts_with ''//'' link
      in if fedi \<or> app then Inr () else Inl (bad_request ''deep_link_invalid''))"

definition validate_app_open_contract :: "create_hook_request \<Rightarrow> api_error + unit" where
  "validate_app_open_contract req =
     (let behavior = (case os_open_behavior (ch_open req) of None \<Rightarrow> OpenApp | Some b \<Rightarrow> b);
          blank = (\<lambda>v. v = None \<or> v = Some [])
      in if behavior = OpenWorkflow \<and> blank (os_workflow (ch_open req))
         then Inl (bad_request ''workflow_required'')
         else if behavior = OpenDeepLink \<and> blank (os_deep_link (ch_open req))
         then Inl (bad_request ''deep_link_required'')
         else case os_deep_link (ch_open req) of None \<Rightarrow> Inr () | Some link \<Rightarrow> validate_deep_link link)"

definition requested_window :: "create_hook_request \<Rightarrow> int" where
  "requested_window req =
     (case ps_rate_limit (ch_policy req) of
        None \<Rightarrow> DEFAULT_RATE_LIMIT_WINDOW_SECONDS
      | Some l \<Rightarrow> (case ls_window_seconds l of None \<Rightarrow> DEFAULT_RATE_LIMIT_WINDOW_SECONDS | Some w \<Rightarrow> w))"

definition requested_max_requests :: "create_hook_request \<Rightarrow> int" where
  "requested_max_requests req =
     (case ps_rate_limit (ch_policy req) of
        None \<Rightarrow> DEFAULT_RATE_LIMIT_MAX_REQUESTS
      | Some l \<Rightarrow> (case ls_max_requests l of None \<Rightarrow> DEFAULT_RATE_LIMIT_MAX_REQUESTS | Some m \<Rightarrow> m))"

definition validate_hook_policy :: "create_hook_request \<Rightarrow> bool \<Rightarrow> api_error + unit" where
  "validate_hook_policy req production =
     (let expires = ps_expires_in_seconds (ch_policy req);
          window = requested_window req; max_requests = requested_max_requests req
      in if (case expires of None \<Rightarrow> False | Some n \<Rightarrow> n \<le> 0 \<or> 31536000 < n)
         then Inl (bad_request ''expires_in_seconds_out_of_range'')
         else if expires = None then Inl (bad_request ''ttl_seconds_required'')
         else if (case ps_max_uses (ch_policy req) of None \<Rightarrow> False | Some m \<Rightarrow> m \<le> 0)
         then Inl (bad_request ''max_uses_out_of_range'')
         else if \<not> (1 \<le> window \<and> window \<le> MAX_RATE_LIMIT_WINDOW_SECONDS)
         then Inl (bad_request ''rate_limit_window_seconds_out_of_range'')
         else if \<not> (1 \<le> max_requests \<and> max_requests \<le> MAX_RATE_LIMIT_REQUESTS_PER_WINDOW)
         then Inl (bad_request ''rate_limit_max_requests_out_of_range'')
         else if production \<and> (DEFAULT_RATE_LIMIT_MAX_REQUESTS < max_requests
                 \<or> window < DEFAULT_RATE_LIMIT_WINDOW_SECONDS)
         then Inl (bad_request ''production_hook_rate_limit_too_permissive'')
         else Inr ())"

definition validate_create_hook_request ::
  "gateway_codec \<Rightarrow> create_hook_request \<Rightarrow> bool \<Rightarrow> api_error + unit" where
  "validate_create_hook_request gc req production =
     and_then (validate_required_string (ch_installation_id req) MAX_ID_LEN) (\<lambda>_.
     and_then (validate_optional_string (ch_label req) MAX_LABEL_LEN) (\<lambda>_.
     and_then (case ns_kind (ch_notification req) of
                 None \<Rightarrow> Inr () | Some k \<Rightarrow> validate_required_string k MAX_KIND_LEN) (\<lambda>_.
     and_then (validate_optional_string (os_workflow (ch_open req)) 64) (\<lambda>_.
     and_then (validate_optional_string (os_action (ch_open req)) 64) (\<lambda>_.
     and_then (validate_optional_string (os_deep_link (ch_open req)) 256) (\<lambda>_.
     and_then (validate_app_open_contract req) (\<lambda>_.
     and_then (validate_optional_string (ns_title (ch_notification req)) MAX_TITLE_LEN) (\<lambda>_.
     and_then (validate_optional_string (ns_body (ch_notification req)) MAX_BODY_LEN) (\<lambda>_.
     and_then (validate_data gc (ch_data req)) (\<lambda>_.
     and_then (validate_no_reserved_data_keys (ch_data req)) (\<lambda>_.
       validate_hook_policy req production)))))))))))"

definition enforce_hook_creation_rate_limit ::
  "gateway_limits \<Rightarrow> string \<Rightarrow> int \<Rightarrow> rate_limiters \<Rightarrow> (api_error + unit) \<times> rate_limiters" where
  "enforce_hook_creation_rate_limit gl r now l =
     (if 0 < gl_hook_creations_per_recipient gl
      then let (ok, l') = rate_check HookCreationRecipient (''hook-create:'' @ r)
                 (gl_hook_creations_per_recipient gl) (gl_hook_creation_window_seconds gl) now l
           in (if ok then Inr () else Inl (ApiError 429 ''hook_creation_rate_limited''), l')
      else (Inr (), l))"

definition hook_limits_of :: "gateway_limits \<Rightarrow> hook_limits" where
  "hook_limits_of gl =
     \<lparr> hl_max_active_per_recipient = gl_max_active_hooks_per_recipient gl,
       hl_max_active_global = gl_max_active_hooks_global gl,
       hl_max_total_rows = gl_max_hook_rows_global gl,
       hl_reclamation_batch_size = gl_admission_gc_batch_size gl \<rparr>"

text \<open>Clock readings: 0 in the limiter, 1 for the eligibility, 2 in the admission.\<close>

definition create_hook ::
  "gateway_config \<Rightarrow> string \<Rightarrow> create_hook_request \<Rightarrow> bool \<Rightarrow> (nat \<Rightarrow> int) \<Rightarrow> string \<Rightarrow> string
    \<Rightarrow> rate_limiters \<Rightarrow> gateway_db \<Rightarrow> (api_error + hook_record \<times> string) \<times> rate_limiters \<times> gateway_db" where
  "create_hook cfg r req admitted clk hook_id token l s =
     (case validate_create_hook_request (gw_codec cfg) req (gw_production_mode cfg) of
        Inl e \<Rightarrow> (Inl e, l, s)
      | Inr _ \<Rightarrow>
          case enforce_hook_creation_rate_limit (gw_limits cfg) r (clk 0) l of
            (Inl e, l1) \<Rightarrow> (Inl e, l1, s)
          | (Inr _, l1) \<Rightarrow>
              if \<not> admitted then (Inl queue_full, l1, s)
              else case admit_hook (gw_codec cfg) r req (registration_cutoff cfg (clk 1))
                     (hook_limits_of (gw_limits cfg)) (clk 2) hook_id token s of
                (Inl _, s1) \<Rightarrow> (Inl internal_error, l1, s1)
              | (Inr admission, s1) \<Rightarrow>
                  (case admission of
                     HookCreated rec tok \<Rightarrow> Inr (rec, tok)
                   | HookTargetUnavailable \<Rightarrow> Inl (ApiError 404 ''registration_not_found'')
                   | HookRecipientCapacityExceeded \<Rightarrow> Inl (ApiError 429 ''max_active_hooks_exceeded'')
                   | HookGlobalCapacityExceeded \<Rightarrow> Inl (ApiError 503 ''global_hook_capacity_exceeded'')
                   | HookGlobalRowCapacityExceeded \<Rightarrow> Inl (ApiError 503 ''hook_row_capacity_exceeded''),
                   l1, s1))"

definition list_hooks :: "gateway_config \<Rightarrow> string \<Rightarrow> gateway_db \<Rightarrow> api_error + hook_record list" where
  "list_hooks cfg r s = to_internal (list_hooks_for_recipient (gw_codec cfg) r s)"

definition revoke_hook ::
  "string \<Rightarrow> string \<Rightarrow> bool \<Rightarrow> int \<Rightarrow> gateway_db \<Rightarrow> (api_error + unit) \<times> gateway_db" where
  "revoke_hook r hook_id admitted now s =
     (case validate_required_string hook_id MAX_ID_LEN of
        Inl e \<Rightarrow> (Inl e, s)
      | Inr _ \<Rightarrow>
          if \<not> admitted then (Inl queue_full, s)
          else let (revoked, s') = revoke_hook_row hook_id r now s
               in (if revoked then Inr () else Inl (ApiError 404 ''hook_not_found''), s'))"

section \<open>Registration management\<close>

datatype provider_error_kind = ProviderInvalidToken | ProviderInvalidPayload | ProviderUnavailable

record provider_error =
  pe_reason :: string
  pe_kind :: provider_error_kind

definition registration_validation_error :: "provider_error \<Rightarrow> api_error" where
  "registration_validation_error e =
     (case pe_kind e of
        ProviderInvalidToken \<Rightarrow> ApiError 422 ''invalid_fcm_token''
      | _ \<Rightarrow> ApiError 503 ''registration_validation_unavailable'')"

definition validate_register_installation_request :: "register_request \<Rightarrow> api_error + unit" where
  "validate_register_installation_request req =
     and_then (validate_required_string (rq_installation_id req) MAX_ID_LEN) (\<lambda>_.
     and_then (validate_required_string (rq_fcm_token req) MAX_FCM_TOKEN_LEN) (\<lambda>_.
       validate_optional_string (rq_platform req) MAX_PLATFORM_LEN))"

definition enforce_registration_write_rate_limit ::
  "gateway_config \<Rightarrow> forwarding_headers \<Rightarrow> ip_addr option \<Rightarrow> string \<Rightarrow> int \<Rightarrow> int \<Rightarrow> rate_limiters
    \<Rightarrow> (api_error + unit) \<times> rate_limiters" where
  "enforce_registration_write_rate_limit cfg headers peer r now1 now2 l =
     (let gl = gw_limits cfg;
          source = effective_source_prefix (gw_ip_text cfg) peer headers (gl_trusted_proxy_cidrs gl);
          (ok1, l1) = (if 0 < gl_registration_changes_per_source_prefix gl
             then rate_check RegistrationSource source (gl_registration_changes_per_source_prefix gl)
                    (gl_registration_change_window_seconds gl) now1 l
             else (True, l))
      in if \<not> ok1 then (Inl (ApiError 429 ''registration_source_rate_limited''), l1)
         else let (ok2, l2) = (if 0 < gl_registration_changes_per_recipient_source gl
                 then rate_check RegistrationRecipientSource (r @ '':'' @ source)
                        (gl_registration_changes_per_recipient_source gl)
                        (gl_registration_change_window_seconds gl) now2 l1
                 else (True, l1))
              in if \<not> ok2 then (Inl (ApiError 429 ''registration_rate_limited''), l2) else (Inr (), l2))"

definition registration_limits_of :: "gateway_limits \<Rightarrow> registration_limits" where
  "registration_limits_of gl =
     \<lparr> rl_max_active_per_recipient = gl_max_active_installations_per_recipient gl,
       rl_max_active_global = gl_max_active_installations_global gl,
       rl_max_total_rows = gl_max_registration_rows_global gl,
       rl_reclamation_batch_size = gl_admission_gc_batch_size gl \<rparr>"

text \<open>
  Clock readings: 0 and 1 in the limiters, 2 for the eligibility, 3 in the admission. The
  provider's answer to the validation request is the argument \<open>validation\<close>.
\<close>

definition register_installation ::
  "gateway_config \<Rightarrow> ip_addr option \<Rightarrow> forwarding_headers \<Rightarrow> string \<Rightarrow> register_request
    \<Rightarrow> provider_error + unit \<Rightarrow> bool \<Rightarrow> (nat \<Rightarrow> int) \<Rightarrow> rate_limiters \<Rightarrow> gateway_db
    \<Rightarrow> (api_error + unit) \<times> rate_limiters \<times> gateway_db" where
  "register_installation cfg peer headers r req validation admitted clk l s =
     (case validate_register_installation_request req of
        Inl e \<Rightarrow> (Inl e, l, s)
      | Inr _ \<Rightarrow>
          case enforce_registration_write_rate_limit cfg headers peer r (clk 0) (clk 1) l of
            (Inl e, l1) \<Rightarrow> (Inl e, l1, s)
          | (Inr _, l1) \<Rightarrow>
              case validation of
                Inl e \<Rightarrow> (Inl (registration_validation_error e), l1, s)
              | Inr _ \<Rightarrow>
                  if \<not> admitted then (Inl queue_full, l1, s)
                  else case admit_installation r req (registration_cutoff cfg (clk 2))
                         (registration_limits_of (gw_limits cfg)) (clk 3) s of
                    (Inl _, s1) \<Rightarrow> (Inl internal_error, l1, s1)
                  | (Inr admission, s1) \<Rightarrow>
                      (case admission of
                         Registered \<Rightarrow> Inr ()
                       | RecipientCapacityExceeded \<Rightarrow> Inl (ApiError 429 ''max_active_installations_exceeded'')
                       | GlobalCapacityExceeded \<Rightarrow>
                           Inl (ApiError 503 ''global_installation_capacity_exceeded'')
                       | GlobalRowCapacityExceeded \<Rightarrow>
                           Inl (ApiError 503 ''registration_row_capacity_exceeded'')
                       | TokenBoundToDifferentInstallation \<Rightarrow>
                           Inl (ApiError 409 ''fcm_token_bound_to_different_installation''), l1, s1))"

definition unregister_installation ::
  "gateway_config \<Rightarrow> ip_addr option \<Rightarrow> forwarding_headers \<Rightarrow> string \<Rightarrow> string \<Rightarrow> bool \<Rightarrow> (nat \<Rightarrow> int)
    \<Rightarrow> rate_limiters \<Rightarrow> gateway_db \<Rightarrow> (api_error + unit) \<times> rate_limiters \<times> gateway_db" where
  "unregister_installation cfg peer headers r i admitted clk l s =
     (case validate_required_string i MAX_ID_LEN of
        Inl e \<Rightarrow> (Inl e, l, s)
      | Inr _ \<Rightarrow>
          case enforce_registration_write_rate_limit cfg headers peer r (clk 0) (clk 1) l of
            (Inl e, l1) \<Rightarrow> (Inl e, l1, s)
          | (Inr _, l1) \<Rightarrow>
              if \<not> admitted then (Inl queue_full, l1, s)
              else case delete_installation r i (clk 2) s of
                (Inl _, s1) \<Rightarrow> (Inl internal_error, l1, s1)
              | (Inr deleted, s1) \<Rightarrow>
                  (if deleted then Inr () else Inl (ApiError 404 ''registration_not_found''), l1, s1))"

definition disable_registration ::
  "gateway_config \<Rightarrow> ip_addr option \<Rightarrow> forwarding_headers \<Rightarrow> string \<Rightarrow> string \<Rightarrow> string option \<Rightarrow> bool
    \<Rightarrow> (nat \<Rightarrow> int) \<Rightarrow> rate_limiters \<Rightarrow> gateway_db \<Rightarrow> (api_error + unit) \<times> rate_limiters \<times> gateway_db" where
  "disable_registration cfg peer headers r i reason admitted clk l s =
     (case and_then (validate_optional_string reason 120) (\<lambda>_. validate_required_string i MAX_ID_LEN) of
        Inl e \<Rightarrow> (Inl e, l, s)
      | Inr _ \<Rightarrow>
          case enforce_registration_write_rate_limit cfg headers peer r (clk 0) (clk 1) l of
            (Inl e, l1) \<Rightarrow> (Inl e, l1, s)
          | (Inr _, l1) \<Rightarrow>
              if \<not> admitted then (Inl queue_full, l1, s)
              else let (disabled, s1) = disable_installation r i reason (clk 2) s
                   in (if disabled then Inr () else Inl (ApiError 404 ''registration_not_found''), l1, s1))"

end
