(* ===== verification/Delivery_Worker.thy ===== *)
theory Delivery_Worker
  imports Gateway_Service
begin

text \<open>
  The delivery worker (\<open>src/crates/push-gateway/src/delivery_worker.rs\<close>) and the startup of the
  gateway (\<open>app_state.rs\<close>). The provider is an argument: how many seconds a call takes and what it
  answers. Rounds of the worker's loop are \<open>worker_round\<close>; \<open>claim_loop\<close> is its inner loop, whose
  iteration \<open>n\<close> reads the stop flag \<open>stop n\<close>, the clock \<open>clk n\<close> (\<open>later n\<close> when it dead-letters a
  row) and draws the claim id \<open>ids n\<close>.
\<close>

definition PROVIDER_DELIVERY_TIMEOUT :: nat where
  "PROVIDER_DELIVERY_TIMEOUT = 15"

definition provider_unavailable :: "string \<Rightarrow> provider_error" where
  "provider_unavailable reason = \<lparr> pe_reason = reason, pe_kind = ProviderUnavailable \<rparr>"

text \<open>A negative remainder does not convert to an unsigned number and becomes the largest one.\<close>

definition provider_call_timeout :: "int \<Rightarrow> int \<Rightarrow> nat" where
  "provider_call_timeout created_at now =
     (let deadline = i64_saturating (created_at + DELIVERY_RESOLUTION_DEADLINE_SECONDS);
          remaining = i64_saturating (deadline - now)
      in min PROVIDER_DELIVERY_TIMEOUT (if remaining < 0 then 2 ^ 64 - 1 else nat remaining))"

definition await_provider_delivery :: "nat \<Rightarrow> nat \<times> (provider_error + unit) \<Rightarrow> provider_error + unit" where
  "await_provider_delivery timeout call =
     (if fst call \<le> timeout then snd call else Inl (provider_unavailable ''provider_timeout''))"

definition deliver_provider_call :: "int \<Rightarrow> int \<Rightarrow> nat \<times> (provider_error + unit) \<Rightarrow> provider_error + unit" where
  "deliver_provider_call created_at now call =
     await_provider_delivery (provider_call_timeout created_at now) call"

definition disables_registration :: "provider_error \<Rightarrow> bool" where
  "disables_registration e \<longleftrightarrow> pe_kind e = ProviderInvalidToken"

definition outbox_failure_from_delivery_error :: "provider_error \<Rightarrow> delivery_failure option" where
  "outbox_failure_from_delivery_error e =
     (case pe_kind e of
        ProviderInvalidToken \<Rightarrow> None
      | ProviderInvalidPayload \<Rightarrow> Some \<lparr> df_reason = pe_reason e, df_kind = PermanentPayload \<rparr>
      | ProviderUnavailable \<Rightarrow> Some \<lparr> df_reason = pe_reason e, df_kind = Transient \<rparr>)"

text \<open>What a delivery task does with the provider's answer.\<close>

definition complete_delivery ::
  "claimed_delivery \<Rightarrow> provider_error + unit \<Rightarrow> int \<Rightarrow> int \<Rightarrow> gateway_db \<Rightarrow> gateway_db" where
  "complete_delivery d answer now db_now s =
     (case answer of
        Inr _ \<Rightarrow> snd (mark_succeeded (cd_outbox_id d) (cd_claim_id d) now db_now s)
      | Inl e \<Rightarrow>
          if disables_registration e
          then snd (mark_invalid_token_and_disable_registration d (pe_reason e) now s)
          else case outbox_failure_from_delivery_error e of
                 None \<Rightarrow> s
               | Some failure \<Rightarrow> snd (mark_failed (cd_outbox_id d) (cd_claim_id d) failure now db_now s))"

partial_function (option) claim_loop ::
  "gateway_codec \<Rightarrow> nat \<Rightarrow> (nat \<Rightarrow> bool) \<Rightarrow> (nat \<Rightarrow> int) \<Rightarrow> (nat \<Rightarrow> int) \<Rightarrow> (nat \<Rightarrow> string) \<Rightarrow> nat
    \<Rightarrow> claimed_delivery list \<Rightarrow> gateway_db \<Rightarrow> (claimed_delivery list \<times> gateway_db) option" where
  "claim_loop gc max_concurrency stop clk later ids n tasks s =
     (if max_concurrency \<le> length tasks \<or> stop n then Some (tasks, s)
      else case claim_due gc (clk n) (later n) (ids n) s of
             (Inr (Claimed d), s') \<Rightarrow>
               claim_loop gc max_concurrency stop clk later ids (Suc n) (tasks @ [d]) s'
           | (Inr CorruptedDeadLetter, s') \<Rightarrow>
               claim_loop gc max_concurrency stop clk later ids (Suc n) tasks s'
           | (Inr ClaimEmpty, s') \<Rightarrow> Some (tasks, s')
           | (Inl _, s') \<Rightarrow> Some (tasks, s'))"

text \<open>One round: the deadline sweep, then claims up to the concurrency limit.\<close>

definition worker_round ::
  "gateway_codec \<Rightarrow> nat \<Rightarrow> (nat \<Rightarrow> bool) \<Rightarrow> int \<Rightarrow> int \<Rightarrow> (nat \<Rightarrow> int) \<Rightarrow> (nat \<Rightarrow> int) \<Rightarrow> (nat \<Rightarrow> string)
    \<Rightarrow> claimed_delivery list \<Rightarrow> gateway_db \<Rightarrow> (claimed_delivery list \<times> gateway_db) option" where
  "worker_round gc max_concurrency stop now db_now clk later ids tasks s =
     claim_loop gc (max max_concurrency 1) stop clk later ids 0 tasks
       (snd (expire_delivery_resolution_deadlines now db_now s))"

definition FALLBACK_IDLE_POLL :: nat where
  "FALLBACK_IDLE_POLL = 1"

definition next_claim_delay :: "int \<Rightarrow> gateway_db \<Rightarrow> nat" where
  "next_claim_delay now s =
     (case next_claim_due_at s of
        None \<Rightarrow> FALLBACK_IDLE_POLL
      | Some t \<Rightarrow>
          let delay = i64_saturating (t - now)
          in min (if delay < 0 then 2 ^ 64 - 1 else nat delay) FALLBACK_IDLE_POLL)"

section \<open>Startup\<close>

definition purge_expired_admission_data :: "gateway_config \<Rightarrow> int \<Rightarrow> gateway_db \<Rightarrow> gw_error + gateway_db" where
  "purge_expired_admission_data cfg now s =
     (case purge_stale (registration_cutoff cfg now) now s of
        (Inl e, _) \<Rightarrow> Inl e
      | (Inr _, s1) \<Rightarrow> Inr (snd (purge_terminal_unreferenced now s1)))"

definition purge_sensitive_terminal_data :: "gateway_config \<Rightarrow> int \<Rightarrow> gateway_db \<Rightarrow> gateway_db" where
  "purge_sensitive_terminal_data cfg now s =
     snd (purge_retained_sensitive_data (cutoff_of (gw_retention_seconds cfg) now) now s)"

text \<open>\<open>AppState::connect\<close> and the start of the worker, which returns interrupted rows to the queue.\<close>

definition connect_gateway :: "gateway_config \<Rightarrow> (nat \<Rightarrow> int) \<Rightarrow> gateway_db \<Rightarrow> gw_error + gateway_db" where
  "connect_gateway cfg clk s =
     purge_expired_admission_data cfg (clk 1) (purge_sensitive_terminal_data cfg (clk 0) s)"

definition start_gateway :: "gateway_config \<Rightarrow> (nat \<Rightarrow> int) \<Rightarrow> gateway_db \<Rightarrow> gw_error + gateway_db" where
  "start_gateway cfg clk s =
     and_then (connect_gateway cfg clk s) (\<lambda>s1. Inr (snd (reset_in_progress (clk 2) s1)))"

section \<open>The claim loop ends\<close>

definition open_rows :: "gateway_db \<Rightarrow> nat" where
  "open_rows s = matching (\<lambda>_ b. row_active b) (delivery_outbox s)"

lemma row_active_claim_outbox_row [simp]: "row_active (claim_outbox_row now c b)"
  by (simp add: row_active_def claim_outbox_row_def)

lemma not_row_active_corrupt_row [simp]: "\<not> row_active (corrupt_row now b)"
  by (simp add: row_active_def corrupt_row_def)

lemma open_rows_claim:
  assumes "\<And>k b. p k b \<Longrightarrow> row_active b"
  shows "open_rows (s\<lparr>delivery_outbox := update_where p (claim_outbox_row now c) (delivery_outbox s)\<rparr>) = open_rows s"
  using assms by (auto simp: open_rows_def matching_update_where intro!: matching_cong)

lemma mark_corrupted_closes_row:
  assumes "mark_corrupted_notification_dead_letter k c now s = (True, s')"
  shows "open_rows s' < open_rows s"
proof -
  let ?p = "claim_holds k c"
  have s': "delivery_outbox s' = update_where ?p (corrupt_row now) (delivery_outbox s)"
    and pos: "0 < matching ?p (delivery_outbox s)"
    using assms by (auto simp: mark_corrupted_notification_dead_letter_def)
  have act: "?p k' b \<Longrightarrow> row_active b" for k' b
    by (simp add: claim_holds_def row_active_def)
  have "open_rows s' = matching (\<lambda>k' b. row_active b \<and> \<not> ?p k' b) (delivery_outbox s)"
    by (auto simp: open_rows_def s' matching_update_where intro!: matching_cong)
  moreover have "matching (\<lambda>k' b. row_active b \<and> ?p k' b) (delivery_outbox s) = matching ?p (delivery_outbox s)"
    using act by (auto intro!: matching_cong)
  ultimately show ?thesis
    using pos matching_split [of "\<lambda>_ b. row_active b" "delivery_outbox s" ?p]
    by (simp add: open_rows_def)
qed

lemma claimable_active: "claimable now b \<Longrightarrow> row_active b"
  by (auto simp: claimable_def row_active_def)

lemma claim_due_Claimed_open:
  assumes "claim_due gc now later c s = (Inr (Claimed d), s')"
  shows "open_rows s' = open_rows s"
  using assms
  by (auto simp: claim_due_def Let_def claimable_active
      intro!: open_rows_claim split: option.splits prod.splits if_splits)

lemma claim_due_Corrupted_open:
  assumes "claim_due gc now later c s = (Inr CorruptedDeadLetter, s')"
  shows "open_rows s' < open_rows s"
proof -
  from assms obtain k b where
    m: "mark_corrupted_notification_dead_letter k c later
         (s\<lparr>delivery_outbox := update_where (\<lambda>k' b. k' = k \<and> claimable now b) (claim_outbox_row now c)
             (delivery_outbox s)\<rparr>) = (True, s')"
    by (auto simp: claim_due_def Let_def split: option.splits prod.splits if_splits)
  have "open_rows (s\<lparr>delivery_outbox := update_where (\<lambda>k' b. k' = k \<and> claimable now b)
      (claim_outbox_row now c) (delivery_outbox s)\<rparr>) = open_rows s"
    by (rule open_rows_claim) (simp add: claimable_active)
  with mark_corrupted_closes_row [OF m] show ?thesis by simp
qed

lemma claim_loop_returns:
  "\<exists>tasks' s'. claim_loop gc m stop clk later ids n tasks s = Some (tasks', s')
     \<and> length tasks' \<le> max m (length tasks)"
proof (induction "(m - length tasks) + open_rows s" arbitrary: n tasks s rule: less_induct)
  case less
  show ?case
  proof (cases "m \<le> length tasks \<or> stop n")
    case True
    then show ?thesis by (subst claim_loop.simps) auto
  next
    case False
    note unfold = claim_loop.simps [of gc m stop clk later ids n tasks s]
    obtain r s' where c: "claim_due gc (clk n) (later n) (ids n) s = (r, s')" by fastforce
    show ?thesis
    proof (cases r)
      case (Inl e)
      with False c show ?thesis by (simp add: unfold)
    next
      case (Inr v)
      show ?thesis
      proof (cases v)
        case (Claimed d)
        have "open_rows s' = open_rows s"
          using c Inr Claimed by (intro claim_due_Claimed_open) simp
        with False have "(m - length (tasks @ [d])) + open_rows s' < (m - length tasks) + open_rows s"
          by (simp add: diff_less_mono2)
        from less [OF this, of "Suc n"] False c Inr Claimed show ?thesis by (auto simp: unfold)
      next
        case CorruptedDeadLetter
        have "open_rows s' < open_rows s"
          using c Inr CorruptedDeadLetter by (intro claim_due_Corrupted_open) simp
        then have "(m - length tasks) + open_rows s' < (m - length tasks) + open_rows s" by simp
        from less [OF this, of "Suc n"] False c Inr CorruptedDeadLetter show ?thesis by (auto simp: unfold)
      next
        case ClaimEmpty
        with False c Inr show ?thesis by (simp add: unfold)
      qed
    qed
  qed
qed

end
