(* ===== verification/Gateway_System.thy ===== *)
theory Gateway_System
  imports Delivery_Worker
begin

text \<open>
  The running gateway as a transition system. One step is one critical section under the
  database write lock (\<open>database_write_lock.rs\<close>): a request handler, a statement of the worker, the
  completion of a delivery, a restart, or an operator command on the stopped service.

  A step's clock readings, those of the database included, lie between the clock before and after
  it (\<open>readings\<close>); the clock never reaches \<open>2 ^ 62\<close>. Identifiers drawn at random are new:
  \<open>g_issued\<close> records those drawn so far. Both are assumptions on the environment, stated as
  premises of the rules.
\<close>

section \<open>State and steps\<close>

record gateway =
  g_db :: gateway_db
  g_limiters :: rate_limiters
  g_in_flight :: "claimed_delivery list"
  g_clock :: int
  g_issued :: "string list"

definition initial_gateway :: "int \<Rightarrow> gateway" where
  "initial_gateway now =
     \<lparr> g_db = migrated_db, g_limiters = [], g_in_flight = [], g_clock = now, g_issued = [] \<rparr>"

definition gateway_init :: "gateway \<Rightarrow> bool" where
  "gateway_init g \<longleftrightarrow> 0 \<le> g_clock g \<and> g_clock g < 2 ^ 62 \<and> g = initial_gateway (g_clock g)"

definition readings :: "gateway \<Rightarrow> (nat \<Rightarrow> int) \<Rightarrow> int \<Rightarrow> bool" where
  "readings g clk c \<longleftrightarrow> c < 2 ^ 62 \<and> (\<forall>i j. i \<le> j \<longrightarrow> g_clock g \<le> clk i \<and> clk i \<le> clk j \<and> clk j \<le> c)"

text \<open>The state after a handler: its database and limiters, the clock, the identifiers it drew.\<close>

definition advance :: "gateway_db \<Rightarrow> rate_limiters \<Rightarrow> int \<Rightarrow> string list \<Rightarrow> gateway \<Rightarrow> gateway" where
  "advance s l c new g =
     g\<lparr>g_db := s, g_limiters := l, g_clock := c, g_issued := new @ g_issued g\<rparr>"

definition fresh :: "string list \<Rightarrow> gateway \<Rightarrow> bool" where
  "fresh new g \<longleftrightarrow> distinct new \<and> set new \<inter> set (g_issued g) = {}"

inductive gateway_step :: "gateway_config \<Rightarrow> gateway \<Rightarrow> gateway \<Rightarrow> bool" for cfg where
  step_register:
    "readings g clk c \<Longrightarrow>
     register_installation cfg peer headers r req validation admitted clk (g_limiters g) (g_db g) = (res, l, s) \<Longrightarrow>
     gateway_step cfg g (advance s l c [] g)"
| step_unregister:
    "readings g clk c \<Longrightarrow>
     unregister_installation cfg peer headers r i admitted clk (g_limiters g) (g_db g) = (res, l, s) \<Longrightarrow>
     gateway_step cfg g (advance s l c [] g)"
| step_disable:
    "readings g clk c \<Longrightarrow>
     disable_registration cfg peer headers r i reason admitted clk (g_limiters g) (g_db g) = (res, l, s) \<Longrightarrow>
     gateway_step cfg g (advance s l c [] g)"
| step_create_hook:
    "readings g clk c \<Longrightarrow> fresh [hook_id] g \<Longrightarrow>
     create_hook cfg r hreq admitted clk hook_id token (g_limiters g) (g_db g) = (hres, l, s) \<Longrightarrow>
     gateway_step cfg g (advance s l c [hook_id] g)"
| step_revoke_hook:
    "readings g clk c \<Longrightarrow>
     revoke_hook r hook_id admitted (clk 0) (g_db g) = (res, s) \<Longrightarrow>
     gateway_step cfg g (advance s (g_limiters g) c [] g)"
| step_invoke:
    "readings g clk c \<Longrightarrow> fresh [event_id, ids 0] g \<Longrightarrow>
     invoke_hook cfg peer headers admitted hook_id secret ireq clk event_id ids (g_limiters g) (g_db g)
       = (ires, l, s) \<Longrightarrow>
     gateway_step cfg g (advance s l c [event_id, ids 0] g)"
| step_expire:
    "readings g clk c \<Longrightarrow>
     expire_delivery_resolution_deadlines (clk 0) (clk 1) (g_db g) = (n, s) \<Longrightarrow>
     gateway_step cfg g (advance s (g_limiters g) c [] g)"
| step_claim:
    "readings g clk c \<Longrightarrow> fresh [claim_id] g \<Longrightarrow>
     claim_due (gw_codec cfg) (clk 0) (clk 1) claim_id (g_db g) = (cres, s) \<Longrightarrow>
     gateway_step cfg g
       ((advance s (g_limiters g) c [claim_id] g)
          \<lparr>g_in_flight := (case cres of Inr (Claimed d) \<Rightarrow> d # g_in_flight g | _ \<Rightarrow> g_in_flight g)\<rparr>)"
| step_complete:
    "readings g clk c \<Longrightarrow> d \<in> set (g_in_flight g) \<Longrightarrow>
     answer = deliver_provider_call (cd_created_at d) started call \<Longrightarrow>
     complete_delivery d answer (clk 0) (clk 1) (g_db g) = s \<Longrightarrow>
     gateway_step cfg g
       ((advance s (g_limiters g) c [] g)\<lparr>g_in_flight := remove1 d (g_in_flight g)\<rparr>)"
| step_restart:
    "readings g clk c \<Longrightarrow>
     start_gateway cfg clk (g_db g) = Inr s \<Longrightarrow>
     gateway_step cfg g ((advance s [] c [] g)\<lparr>g_in_flight := []\<rparr>)"
| step_replay:
    "readings g clk c \<Longrightarrow>
     replay_dead_letter_rows selector dry_run (clk 0) (clk 1) (g_db g) = (rres, s) \<Longrightarrow>
     gateway_step cfg g (advance s (g_limiters g) c [] g)"
| step_delete_dead:
    "readings g clk c \<Longrightarrow>
     delete_dead_letter_rows selector dry_run (g_db g) = (rres, s) \<Longrightarrow>
     gateway_step cfg g (advance s (g_limiters g) c [] g)"

section \<open>The invariant\<close>

text \<open>
  Every predicate takes the clock and the drawn identifiers, and is monotone in both. The rows
  satisfy the \<open>CHECK\<close> clauses, the indexes and the foreign keys of the schema; what is beyond the
  schema is said at the definition.
\<close>

text \<open>Registrations: a registered token has an owner row that names the same installation.\<close>

definition registrations_ok :: "gateway_db \<Rightarrow> bool" where
  "registrations_ok s \<longleftrightarrow>
     keyed (push_registrations s) \<and> keyed (token_owners s)
     \<and> unique_under (\<lambda>v v'. pr_fcm_token v = pr_fcm_token v') (push_registrations s)
     \<and> (\<forall>(k, v) \<in> set (push_registrations s). registration_row_check v
          \<and> (\<exists>w. map_of (token_owners s) (pr_fcm_token v) = Some w
                \<and> (ow_recipient_id w, ow_installation_id w) = k))
     \<and> (\<forall>(_, w) \<in> set (token_owners s). token_owner_row_check w)"

text \<open>Hooks: they expire, and their counters respect their policy.\<close>

definition hook_ok :: "int \<Rightarrow> hook_row \<Rightarrow> bool" where
  "hook_ok c h \<longleftrightarrow>
     hook_row_check h \<and> hk_created_at h \<le> c
     \<and> (\<exists>e. hk_expires_at h = Some e \<and> hk_created_at h < e \<and> e \<le> hk_created_at h + MAX_HOOK_LIFETIME_SECONDS)
     \<and> (\<forall>m. hk_max_uses h = Some m \<longrightarrow> hk_use_count h \<le> m)
     \<and> (\<forall>m. hk_rate_limit_max_requests h = Some m \<longrightarrow> hk_rate_limit_count h \<le> m)"

definition hooks_ok :: "int \<Rightarrow> string set \<Rightarrow> gateway_db \<Rightarrow> bool" where
  "hooks_ok c I s \<longleftrightarrow>
     keyed (notification_hooks s)
     \<and> unique_under (\<lambda>h h'. hk_secret_hash h = hk_secret_hash h') (notification_hooks s)
     \<and> (\<forall>(k, h) \<in> set (notification_hooks s). k \<in> I \<and> hook_ok c h)"

text \<open>Markers: a marker outlives its hook; an event's key is marked until the hook has expired.\<close>

definition hook_ended :: "int \<Rightarrow> gateway_db \<Rightarrow> string \<Rightarrow> bool" where
  "hook_ended c s k \<longleftrightarrow>
     (case map_of (notification_hooks s) k of
        None \<Rightarrow> True
      | Some h \<Rightarrow> (case hk_expires_at h of None \<Rightarrow> False | Some e \<Rightarrow> e \<le> c))"

definition tombstones_ok :: "gateway_db \<Rightarrow> bool" where
  "tombstones_ok s \<longleftrightarrow>
     keyed (hook_tombstones s)
     \<and> (\<forall>(k, v) \<in> set (hook_tombstones s). tombstone_row_check v
          \<and> (\<exists>h e. map_of (notification_hooks s) (fst k) = Some h \<and> hk_expires_at h = Some e
                \<and> e \<le> tb_retain_until v))"

definition events_ok :: "int \<Rightarrow> string set \<Rightarrow> gateway_db \<Rightarrow> bool" where
  "events_ok c I s \<longleftrightarrow>
     keyed (notification_events s)
     \<and> (\<forall>(k, e) \<in> set (notification_events s). event_row_check e \<and> k \<in> I
          \<and> tbl_exists (notification_hooks s) (ev_hook_id e)
          \<and> (\<forall>key. ev_caller_idempotency_key e = Some key \<longrightarrow>
                tbl_exists (hook_tombstones s) (ev_hook_id e, key) \<or> hook_ended c s (ev_hook_id e)))
     \<and> unique_under same_event_key (notification_events s)"

text \<open>
  Outbox rows: a row that carries a claim, live or interrupted, and a row that failed four times
  are due again only when the resolution deadline has passed.
\<close>

definition outbox_row_ok :: "int \<Rightarrow> string set \<Rightarrow> outbox_row \<Rightarrow> bool" where
  "outbox_row_ok c I b \<longleftrightarrow>
     outbox_row_check b \<and> ob_created_at b \<le> c
     \<and> (\<forall>x. ob_claim_id b = Some x \<longrightarrow> x \<in> I
          \<and> ob_created_at b + DELIVERY_RESOLUTION_DEADLINE_SECONDS \<le> ob_next_attempt_at b)
     \<and> (ob_status b = InProgress \<longrightarrow> ob_claim_id b \<noteq> None)
     \<and> (ob_status b = Retrying \<and> 4 \<le> ob_attempts b \<longrightarrow>
          ob_created_at b + DELIVERY_RESOLUTION_DEADLINE_SECONDS \<le> ob_next_attempt_at b)"

definition outbox_ok :: "int \<Rightarrow> string set \<Rightarrow> gateway_db \<Rightarrow> bool" where
  "outbox_ok c I s \<longleftrightarrow>
     keyed (delivery_outbox s)
     \<and> (\<forall>(k, b) \<in> set (delivery_outbox s). k \<in> I \<and> outbox_row_ok c I b
          \<and> tbl_exists (notification_events s) (ob_event_id b))
     \<and> unique_under same_target (delivery_outbox s)"

definition locks_ok :: "gateway_db \<Rightarrow> bool" where
  "locks_ok s \<longleftrightarrow> tbl_exists (admission_locks s) ''registration'' \<and> tbl_exists (admission_locks s) ''hook''"

definition db_ok :: "int \<Rightarrow> string set \<Rightarrow> gateway_db \<Rightarrow> bool" where
  "db_ok c I s \<longleftrightarrow>
     registrations_ok s \<and> hooks_ok c I s \<and> tombstones_ok s \<and> events_ok c I s \<and> outbox_ok c I s \<and> locks_ok s"

definition gateway_inv :: "gateway \<Rightarrow> bool" where
  "gateway_inv g \<longleftrightarrow> 0 \<le> g_clock g \<and> g_clock g < 2 ^ 62 \<and> db_ok (g_clock g) (set (g_issued g)) (g_db g)"

lemmas db_ok_defs = registrations_ok_def hooks_ok_def tombstones_ok_def events_ok_def outbox_ok_def locks_ok_def

lemma hook_ok_mono: "hook_ok c h \<Longrightarrow> c \<le> c' \<Longrightarrow> hook_ok c' h"
  by (auto simp: hook_ok_def)

lemma hook_ended_mono: "hook_ended c s k \<Longrightarrow> c \<le> c' \<Longrightarrow> hook_ended c' s k"
  by (auto simp: hook_ended_def split: option.splits)

lemma outbox_row_ok_mono: "outbox_row_ok c I b \<Longrightarrow> c \<le> c' \<Longrightarrow> I \<subseteq> J \<Longrightarrow> outbox_row_ok c' J b"
  by (auto simp: outbox_row_ok_def)

lemma db_ok_mono:
  assumes "db_ok c I s" and "c \<le> c'" and "I \<subseteq> J"
  shows "db_ok c' J s"
proof -
  have "hooks_ok c' J s"
    using assms by (fastforce simp: db_ok_def hooks_ok_def intro: hook_ok_mono)
  moreover have "events_ok c' J s"
    using assms unfolding db_ok_def events_ok_def
    by (fastforce intro: hook_ended_mono)
  moreover have "outbox_ok c' J s"
    using assms unfolding db_ok_def outbox_ok_def
    by (fastforce intro: outbox_row_ok_mono)
  ultimately show ?thesis using assms by (simp add: db_ok_def)
qed

lemma readings_clock:
  assumes "readings g clk c"
  shows "g_clock g \<le> clk i" and "clk i \<le> c" and "g_clock g \<le> c" and "c < 2 ^ 62"
    and "i \<le> j \<Longrightarrow> clk i \<le> clk j"
  using assms by (auto simp: readings_def intro: order_trans)

lemma db_ok_migrated: "db_ok c I migrated_db"
  by (simp add: db_ok_def db_ok_defs migrated_db_def tbl_exists_def)

lemma gateway_inv_init:
  assumes "gateway_init g"
  shows "gateway_inv g"
proof -
  from assms have "g_db g = migrated_db" "0 \<le> g_clock g" "g_clock g < 2 ^ 62"
    by (metis gateway_init_def initial_gateway_def gateway.select_convs(1), simp_all add: gateway_init_def)
  then show ?thesis by (simp add: gateway_inv_def db_ok_migrated)
qed

end
