(* ===== verification/Gateway_Invariant.thy ===== *)
theory Gateway_Invariant
  imports Gateway_System
begin

text \<open>
  The invariant of the gateway under the statements on the outbox and under the admission of a
  registration: one lemma per kind of statement, one per operation.
\<close>

named_theorems frame \<open>a predicate on some tables does not see the others\<close>

lemma registrations_ok_frame [frame]:
  "registrations_ok (s\<lparr>notification_hooks := a\<rparr>) = registrations_ok s"
  "registrations_ok (s\<lparr>notification_events := b\<rparr>) = registrations_ok s"
  "registrations_ok (s\<lparr>delivery_outbox := d\<rparr>) = registrations_ok s"
  "registrations_ok (s\<lparr>hook_tombstones := e\<rparr>) = registrations_ok s"
  "registrations_ok (s\<lparr>admission_locks := f\<rparr>) = registrations_ok s"
  by (simp_all add: registrations_ok_def)

lemma hooks_ok_frame [frame]:
  "hooks_ok c I (s\<lparr>push_registrations := a\<rparr>) = hooks_ok c I s"
  "hooks_ok c I (s\<lparr>token_owners := a'\<rparr>) = hooks_ok c I s"
  "hooks_ok c I (s\<lparr>notification_events := b\<rparr>) = hooks_ok c I s"
  "hooks_ok c I (s\<lparr>delivery_outbox := d\<rparr>) = hooks_ok c I s"
  "hooks_ok c I (s\<lparr>hook_tombstones := e\<rparr>) = hooks_ok c I s"
  "hooks_ok c I (s\<lparr>admission_locks := f\<rparr>) = hooks_ok c I s"
  by (simp_all add: hooks_ok_def)

lemma tombstones_ok_frame [frame]:
  "tombstones_ok (s\<lparr>push_registrations := a\<rparr>) = tombstones_ok s"
  "tombstones_ok (s\<lparr>token_owners := a'\<rparr>) = tombstones_ok s"
  "tombstones_ok (s\<lparr>notification_events := b\<rparr>) = tombstones_ok s"
  "tombstones_ok (s\<lparr>delivery_outbox := d\<rparr>) = tombstones_ok s"
  "tombstones_ok (s\<lparr>admission_locks := f\<rparr>) = tombstones_ok s"
  by (simp_all add: tombstones_ok_def)

lemma hook_ended_frame [frame]:
  "hook_ended c (s\<lparr>push_registrations := a\<rparr>) k = hook_ended c s k"
  "hook_ended c (s\<lparr>token_owners := a'\<rparr>) k = hook_ended c s k"
  "hook_ended c (s\<lparr>notification_events := b\<rparr>) k = hook_ended c s k"
  "hook_ended c (s\<lparr>delivery_outbox := d\<rparr>) k = hook_ended c s k"
  "hook_ended c (s\<lparr>hook_tombstones := e\<rparr>) k = hook_ended c s k"
  "hook_ended c (s\<lparr>admission_locks := f\<rparr>) k = hook_ended c s k"
  by (simp_all add: hook_ended_def)

lemma events_ok_frame [frame]:
  "events_ok c I (s\<lparr>push_registrations := a\<rparr>) = events_ok c I s"
  "events_ok c I (s\<lparr>token_owners := a'\<rparr>) = events_ok c I s"
  "events_ok c I (s\<lparr>delivery_outbox := d\<rparr>) = events_ok c I s"
  "events_ok c I (s\<lparr>admission_locks := f\<rparr>) = events_ok c I s"
  by (simp_all add: events_ok_def frame)

lemma outbox_ok_frame [frame]:
  "outbox_ok c I (s\<lparr>push_registrations := a\<rparr>) = outbox_ok c I s"
  "outbox_ok c I (s\<lparr>token_owners := a'\<rparr>) = outbox_ok c I s"
  "outbox_ok c I (s\<lparr>notification_hooks := b\<rparr>) = outbox_ok c I s"
  "outbox_ok c I (s\<lparr>hook_tombstones := e\<rparr>) = outbox_ok c I s"
  "outbox_ok c I (s\<lparr>admission_locks := f\<rparr>) = outbox_ok c I s"
  by (simp_all add: outbox_ok_def)

lemma locks_ok_frame [frame]:
  "locks_ok (s\<lparr>push_registrations := a\<rparr>) = locks_ok s"
  "locks_ok (s\<lparr>token_owners := a'\<rparr>) = locks_ok s"
  "locks_ok (s\<lparr>notification_hooks := b\<rparr>) = locks_ok s"
  "locks_ok (s\<lparr>notification_events := b'\<rparr>) = locks_ok s"
  "locks_ok (s\<lparr>delivery_outbox := d\<rparr>) = locks_ok s"
  "locks_ok (s\<lparr>hook_tombstones := e\<rparr>) = locks_ok s"
  by (simp_all add: locks_ok_def)

lemma acquire_admission_lock_ok:
  assumes "acquire_admission_lock resource now s = Inr s'" and "db_ok c I s"
  shows "db_ok c I s'"
proof -
  from assms(1) have s': "s' = s\<lparr>admission_locks := update_where (\<lambda>k _. k = resource) (\<lambda>_. now) (admission_locks s)\<rparr>"
    by (auto simp: acquire_admission_lock_def split: if_splits)
  have "locks_ok s'" using assms(2) by (simp add: db_ok_def locks_ok_def s' tbl_exists_update_where)
  with assms(2) show ?thesis by (simp add: db_ok_def s' frame)
qed

lemma acquire_registration_lock: "locks_ok s \<Longrightarrow> \<exists>s'. acquire_admission_lock ''registration'' now s = Inr s'"
  by (simp add: locks_ok_def acquire_admission_lock_def)

lemma acquire_hook_lock: "locks_ok s \<Longrightarrow> \<exists>s'. acquire_admission_lock ''hook'' now s = Inr s'"
  by (simp add: locks_ok_def acquire_admission_lock_def)

section \<open>The outbox\<close>

text \<open>An update keeps the target of a row.\<close>

definition keeps_target :: "(outbox_row \<Rightarrow> outbox_row) \<Rightarrow> bool" where
  "keeps_target f \<longleftrightarrow>
     (\<forall>b. ob_event_id (f b) = ob_event_id b \<and> ob_recipient_id (f b) = ob_recipient_id b
        \<and> ob_installation_id (f b) = ob_installation_id b \<and> ob_created_at (f b) = ob_created_at b)"

lemma keeps_target_rows [simp]:
  "keeps_target (expire_row now)" "keeps_target (claim_outbox_row now x)" "keeps_target (corrupt_row now)"
  "keeps_target (succeed_row now)" "keeps_target (fail_row st n e now db_now)"
  "keeps_target (invalid_token_row now e)" "keeps_target (replay_row now)"
  "keeps_target (\<lambda>b. b\<lparr>ob_status := Pending, ob_updated_at := now\<rparr>)"
  by (simp_all add: keeps_target_def expire_row_def claim_outbox_row_def corrupt_row_def succeed_row_def
      fail_row_def invalid_token_row_def replay_row_def)

lemma db_ok_outbox_update:
  assumes "db_ok c I s" and "keeps_target f"
    and "\<And>k b. (k, b) \<in> set (delivery_outbox s) \<Longrightarrow> p k b \<Longrightarrow> outbox_row_ok c I b \<Longrightarrow> outbox_row_ok c I (f b)"
  shows "db_ok c I (s\<lparr>delivery_outbox := update_where p f (delivery_outbox s)\<rparr>)"
proof -
  let ?t = "update_where p f (delivery_outbox s)"
  have ok: "outbox_ok c I s" using assms(1) by (simp add: db_ok_def)
  have "unique_under same_target ?t"
    using ok assms(2)
    by (intro unique_under_update_where) (auto simp: outbox_ok_def same_target_def keeps_target_def)
  moreover have "k \<in> I \<and> outbox_row_ok c I b \<and> tbl_exists (notification_events s) (ob_event_id b)"
    if kb: "(k, b) \<in> set ?t" for k b
  proof -
    from kb obtain b0 where b0: "(k, b0) \<in> set (delivery_outbox s)" "b = (if p k b0 then f b0 else b0)"
      by (auto simp: set_update_where)
    with ok have "k \<in> I" "outbox_row_ok c I b0" "tbl_exists (notification_events s) (ob_event_id b0)"
      by (auto simp: outbox_ok_def)
    then show ?thesis using b0 assms(2,3) by (auto simp: keeps_target_def)
  qed
  ultimately have "outbox_ok c I (s\<lparr>delivery_outbox := ?t\<rparr>)"
    using ok by (auto simp: outbox_ok_def keyed_update_where)
  with assms(1) show ?thesis by (simp add: db_ok_def frame)
qed

lemma db_ok_outbox_delete:
  assumes "db_ok c I s"
  shows "db_ok c I (s\<lparr>delivery_outbox := delete_where p (delivery_outbox s)\<rparr>)"
proof -
  have "set (delete_where p (delivery_outbox s)) \<subseteq> set (delivery_outbox s)"
    by (auto simp: set_delete_where)
  with assms have "outbox_ok c I (s\<lparr>delivery_outbox := delete_where p (delivery_outbox s)\<rparr>)"
    unfolding db_ok_def outbox_ok_def
    by (auto simp: keyed_delete_where intro: unique_under_subset)
  with assms show ?thesis by (simp add: db_ok_def frame)
qed

lemma outbox_row_ok_changes:
  assumes "outbox_row_ok c I b" and "0 \<le> now"
  shows "outbox_row_ok c I (expire_row now b)"
    and "outbox_row_ok c I (corrupt_row now b)"
    and "outbox_row_ok c I (succeed_row now b)"
    and "outbox_row_ok c I (invalid_token_row now e b)"
    and "outbox_row_ok c I (replay_row now b)"
    and "outbox_row_ok c I (b\<lparr>ob_status := Pending, ob_updated_at := now\<rparr>)"
  using assms
  by (auto simp: outbox_row_ok_def outbox_row_check_def expire_row_def corrupt_row_def succeed_row_def
      invalid_token_row_def replay_row_def)

lemma outbox_row_ok_claim:
  "outbox_row_ok c I b \<Longrightarrow> 0 \<le> now \<Longrightarrow> c \<le> now \<Longrightarrow> x \<in> I \<Longrightarrow> outbox_row_ok c I (claim_outbox_row now x b)"
  by (auto simp: outbox_row_ok_def outbox_row_check_def claim_outbox_row_def outbox_consts)

lemma outbox_row_ok_fail:
  assumes "outbox_row_ok c I b" and "0 \<le> now" and "c \<le> now"
    and "plan = (DeadLetter, now) \<or>
         ob_attempts b + 1 < MAX_DELIVERY_ATTEMPTS \<and> plan = (Retrying, now + backoff_seconds (ob_attempts b + 1))"
  shows "outbox_row_ok c I (fail_row (fst plan) (snd plan) e now db_now b)"
  using assms
  by (auto simp: outbox_row_ok_def outbox_row_check_def fail_row_def outbox_consts backoff_seconds_def)

lemma reset_in_progress_ok:
  "db_ok c I s \<Longrightarrow> 0 \<le> now \<Longrightarrow> db_ok c I (snd (reset_in_progress now s))"
  by (simp add: reset_in_progress_def db_ok_outbox_update outbox_row_ok_changes)

lemma expire_ok:
  "db_ok c I s \<Longrightarrow> 0 \<le> now \<Longrightarrow> db_ok c I (snd (expire_delivery_resolution_deadlines now db_now s))"
  by (simp add: expire_delivery_resolution_deadlines_def Let_def db_ok_outbox_update outbox_row_ok_changes)

lemma mark_corrupted_ok:
  "db_ok c I s \<Longrightarrow> 0 \<le> now \<Longrightarrow> db_ok c I (snd (mark_corrupted_notification_dead_letter k x now s))"
  by (simp add: mark_corrupted_notification_dead_letter_def db_ok_outbox_update outbox_row_ok_changes)

lemma claim_due_ok:
  assumes "db_ok c I s" and "0 \<le> now" and "c \<le> now" and "now \<le> later" and "x \<in> I"
  shows "db_ok c I (snd (claim_due gc now later x s))"
proof -
  have step: "db_ok c I (s\<lparr>delivery_outbox := update_where p (claim_outbox_row now x) (delivery_outbox s)\<rparr>)" for p
    using assms by (intro db_ok_outbox_update) (auto intro: outbox_row_ok_claim)
  show ?thesis
    using assms step mark_corrupted_ok [OF step, of later]
    by (auto simp: claim_due_def Let_def split_beta split: option.split)
qed

lemma mark_succeeded_ok:
  "db_ok c I s \<Longrightarrow> 0 \<le> now \<Longrightarrow> db_ok c I (snd (mark_succeeded k x now db_now s))"
  by (simp add: mark_succeeded_def Let_def db_ok_outbox_update outbox_row_ok_changes)

lemma mark_failed_ok:
  assumes "db_ok c I s" and "0 \<le> now" and "c \<le> now"
  shows "db_ok c I (snd (mark_failed k x e now db_now s))"
proof -
  have keyed: "keyed (delivery_outbox s)" using assms(1) by (simp add: db_ok_def outbox_ok_def)
  have upd: "db_ok c I (s\<lparr>delivery_outbox := update_where (claim_holds k x)
      (fail_row (fst plan) (snd plan) r now db_now) (delivery_outbox s)\<rparr>)"
    if plan: "plan = (DeadLetter, now) \<or> (\<exists>b. map_of (delivery_outbox s) k = Some b
        \<and> ob_attempts b + 1 < MAX_DELIVERY_ATTEMPTS \<and> plan = (Retrying, now + backoff_seconds (ob_attempts b + 1)))"
    for plan r
  proof (rule db_ok_outbox_update [OF assms(1)])
    fix k' b
    assume "(k', b) \<in> set (delivery_outbox s)" "claim_holds k x k' b" "outbox_row_ok c I b"
    moreover from this have "map_of (delivery_outbox s) k = Some b"
      using keyed by (simp add: claim_holds_def map_of_in_set)
    ultimately show "outbox_row_ok c I (fail_row (fst plan) (snd plan) r now db_now b)"
      using plan assms(2,3) by (intro outbox_row_ok_fail) auto
  qed simp
  show ?thesis
  proof (cases "df_kind e")
    case PermanentPayload
    then show ?thesis using upd [of "(DeadLetter, now)"] by (simp add: mark_failed_def Let_def)
  next
    case Transient
    show ?thesis
    proof (cases "map_of (delivery_outbox s) k")
      case None
      with Transient assms(1) show ?thesis by (simp add: mark_failed_def)
    next
      case (Some b)
      then show ?thesis
        using Transient upd [of "(DeadLetter, now)"] upd [of "(Retrying, now + backoff_seconds (ob_attempts b + 1))"]
        by (simp add: mark_failed_def Let_def linorder_not_le)
    qed
  qed
qed

section \<open>Registrations\<close>

lemma db_ok_registrations:
  assumes "db_ok c I s" and "registrations_ok s'"
    and "s' = s\<lparr>push_registrations := push_registrations s', token_owners := token_owners s'\<rparr>"
  shows "db_ok c I s'"
proof -
  have "db_ok c I (s\<lparr>push_registrations := push_registrations s', token_owners := token_owners s'\<rparr>) \<longleftrightarrow>
    registrations_ok (s\<lparr>push_registrations := push_registrations s', token_owners := token_owners s'\<rparr>)"
    using assms(1) by (simp add: db_ok_def frame)
  with assms(2,3) show ?thesis by metis
qed

lemma registrations_ok_row:
  assumes "registrations_ok s" and "(k, v) \<in> set (push_registrations s)"
  obtains w where "map_of (token_owners s) (pr_fcm_token v) = Some w"
    and "(ow_recipient_id w, ow_installation_id w) = k"
  using assms by (fastforce simp: registrations_ok_def)

lemma registrations_ok_delete:
  assumes "registrations_ok s"
  shows "registrations_ok (s\<lparr>push_registrations := delete_where p (push_registrations s)\<rparr>)"
  using assms unfolding registrations_ok_def
  by (auto simp: keyed_delete_where set_delete_where intro: unique_under_subset)

text \<open>Owner rows may go when no registration names their token.\<close>

lemma registrations_ok_delete_owners:
  assumes "registrations_ok s"
    and "\<And>k v w. (k, v) \<in> set (push_registrations s) \<Longrightarrow> map_of (token_owners s) (pr_fcm_token v) = Some w \<Longrightarrow>
           \<not> p (pr_fcm_token v) w"
  shows "registrations_ok (s\<lparr>token_owners := delete_where p (token_owners s)\<rparr>)"
proof -
  have "\<exists>w. map_of (delete_where p (token_owners s)) (pr_fcm_token v) = Some w
      \<and> (ow_recipient_id w, ow_installation_id w) = k"
    if "(k, v) \<in> set (push_registrations s)" for k v
  proof -
    from assms(1) that obtain w where "map_of (token_owners s) (pr_fcm_token v) = Some w"
      "(ow_recipient_id w, ow_installation_id w) = k" by (rule registrations_ok_row)
    with assms that show ?thesis by (auto simp: registrations_ok_def map_of_delete_where)
  qed
  with assms(1) show ?thesis
    unfolding registrations_ok_def by (auto simp: keyed_delete_where set_delete_where)
qed

lemma token_registered_row: "(k, v) \<in> set (push_registrations s) \<Longrightarrow> token_registered s (pr_fcm_token v)"
  by (auto simp: token_registered_def)

lemma purge_orphaned_ok:
  assumes "registrations_ok s"
  shows "registrations_ok (snd (purge_orphaned_token_owners cutoff n s))"
proof -
  let ?sel = "select_ordered (\<lambda>k v. (ow_updated_at v, k)) n
    (\<lambda>k v. ow_updated_at v < cutoff \<and> \<not> token_registered s k) (token_owners s)"
  have orphan: "\<not> token_registered s k" if "k \<in> set (map fst ?sel)" for k
  proof -
    from that obtain v where "(k, v) \<in> set ?sel" by auto
    with select_ordered_subset show ?thesis by blast
  qed
  have "registrations_ok (s\<lparr>token_owners := delete_keys (map fst ?sel) (token_owners s)\<rparr>)"
    unfolding delete_keys_def
  proof (rule registrations_ok_delete_owners [OF assms])
    fix k v w
    assume "(k, v) \<in> set (push_registrations s)"
    then have "token_registered s (pr_fcm_token v)" by (rule token_registered_row)
    then show "\<not> pr_fcm_token v \<in> set (map fst ?sel)" using orphan by blast
  qed
  with assms show ?thesis by (auto simp: purge_orphaned_token_owners_def Let_def)
qed

lemma purge_stale_tx_ok:
  "registrations_ok s \<Longrightarrow> registrations_ok (purge_stale_in_transaction cutoff batch s)"
  by (simp add: purge_stale_in_transaction_def Let_def purge_orphaned_ok delete_keys_def registrations_ok_delete)

lemma registrations_ok_update:
  assumes "registrations_ok s" and "\<And>v. pr_fcm_token (f v) = pr_fcm_token v"
    and "\<And>v. registration_row_check v \<Longrightarrow> registration_row_check (f v)"
  shows "registrations_ok (s\<lparr>push_registrations := update_where p f (push_registrations s)\<rparr>)"
proof -
  have "unique_under (\<lambda>v v'. pr_fcm_token v = pr_fcm_token v') (update_where p f (push_registrations s))"
    using assms(1,2) by (intro unique_under_update_where) (auto simp: registrations_ok_def)
  then show ?thesis
    using assms unfolding registrations_ok_def by (auto simp: keyed_update_where set_update_where)
qed

lemma disable_row_facts:
  "pr_fcm_token (disable_row now reason v) = pr_fcm_token v"
  "registration_row_check v \<Longrightarrow> 0 \<le> now \<Longrightarrow> registration_row_check (disable_row now reason v)"
  by (auto simp: disable_row_def registration_row_check_def split: option.split)

lemma find_by_token_Some:
  "find_by_token tok s = Some (k, v) \<Longrightarrow> (k, v) \<in> set (push_registrations s) \<and> pr_fcm_token v = tok"
  by (auto simp: find_by_token_def dest: find_Some_set)

lemma find_by_token_None:
  "find_by_token tok s = None \<Longrightarrow> (k, v) \<in> set (push_registrations s) \<Longrightarrow> pr_fcm_token v \<noteq> tok"
  unfolding find_by_token_def find_None_iff by blast

text \<open>
  The writes of an admission. \<open>admission_rows\<close> is the table they leave: the target row with the new
  token, and every other row that does not carry the token.
\<close>

definition admission_rows ::
  "string \<times> string \<Rightarrow> string \<Rightarrow> registration_row \<Rightarrow> (string \<times> string, registration_row) tbl
    \<Rightarrow> ((string \<times> string) \<times> registration_row) set" where
  "admission_rows k tok new t = insert (k, new) {(k', v) \<in> set t. k' \<noteq> k \<and> pr_fcm_token v \<noteq> tok}"

lemma token_row_unique:
  assumes "registrations_ok s" and "(k, v) \<in> set (push_registrations s)" and "(k', v') \<in> set (push_registrations s)"
    and "pr_fcm_token v = pr_fcm_token v'"
  shows "(k', v') = (k, v)"
proof -
  have "k = k'"
    using assms unique_underD [of "\<lambda>v v'. pr_fcm_token v = pr_fcm_token v'" "push_registrations s" k v k' v']
    by (simp add: registrations_ok_def)
  with assms show ?thesis by (auto simp: registrations_ok_def keyed_def dest: eq_key_imp_eq_value)
qed

text \<open>The rows that stay when the other route of the token is deleted.\<close>

definition without_other_route :: "string \<Rightarrow> register_request \<Rightarrow> admission_view \<Rightarrow> gateway_db \<Rightarrow> gateway_db" where
  "without_other_route r req av s =
     (if other_route r req av
      then s\<lparr>push_registrations := delete_where (\<lambda>_ v. pr_fcm_token v = rq_fcm_token req) (push_registrations s)\<rparr>
      else s)"

lemma set_without_other_route:
  assumes "registrations_ok s" and "av = admission_view_of r req s"
  shows "set (push_registrations (without_other_route r req av s)) =
    {(k, v) \<in> set (push_registrations s). k = (r, rq_installation_id req) \<or> pr_fcm_token v \<noteq> rq_fcm_token req}"
proof (cases "find_by_token (rq_fcm_token req) s")
  case None
  then have "\<not> other_route r req av" by (simp add: assms(2) other_route_def admission_view_of_def Let_def)
  with find_by_token_None [OF None] show ?thesis by (auto simp: without_other_route_def)
next
  case (Some kv)
  obtain k' v' where kv: "kv = (k', v')" by fastforce
  have row: "(k', v') \<in> set (push_registrations s)" "pr_fcm_token v' = rq_fcm_token req"
    using find_by_token_Some Some kv by blast+
  have only: "(k, v) = (k', v')"
    if "(k, v) \<in> set (push_registrations s)" "pr_fcm_token v = rq_fcm_token req" for k v
    using token_row_unique [OF assms(1) row(1) that(1)] that(2) row(2) by simp
  have other: "other_route r req av \<longleftrightarrow> k' \<noteq> (r, rq_installation_id req)"
    using Some kv by (cases k') (auto simp: assms(2) other_route_def admission_view_of_def Let_def)
  show ?thesis
  proof (cases "k' = (r, rq_installation_id req)")
    case True
    with only other show ?thesis by (auto simp: without_other_route_def)
  next
    case False
    with only other show ?thesis by (auto simp: without_other_route_def set_delete_where)
  qed
qed

lemma keyed_without_other_route:
  "registrations_ok s \<Longrightarrow> keyed (push_registrations (without_other_route r req av s))"
  by (simp add: without_other_route_def registrations_ok_def keyed_delete_where)

lemma release_old_token_simps [simp]:
  "push_registrations (release_old_token r req av s) = push_registrations s"
  "s\<lparr>token_owners := token_owners (release_old_token r req av s)\<rparr> = release_old_token r req av s"
  by (simp_all add: release_old_token_def split: option.split)

lemma write_registration_alt:
  "write_registration r req now av s =
     and_then (upsert_registration (r, rq_installation_id req) req now
         (release_old_token r req av (without_other_route r req av s)))
       (bind_token_owner r req now av)"
  by (simp add: write_registration_def without_other_route_def Let_def)

definition written_row :: "register_request \<Rightarrow> int \<Rightarrow> registration_row option \<Rightarrow> registration_row" where
  "written_row req now old =
     (case old of
        None \<Rightarrow> \<lparr> pr_fcm_token = rq_fcm_token req, pr_platform = rq_platform req,
            pr_created_at = now, pr_updated_at = now, pr_last_seen_at = now,
            pr_disabled_at = None, pr_disabled_reason = None \<rparr>
      | Some v \<Rightarrow> v\<lparr>pr_fcm_token := rq_fcm_token req, pr_platform := rq_platform req,
            pr_updated_at := now, pr_last_seen_at := now,
            pr_disabled_at := None, pr_disabled_reason := None\<rparr>)"

lemma written_row_facts:
  "pr_fcm_token (written_row req now old) = rq_fcm_token req"
  "cutoff \<le> now \<Longrightarrow> registration_row_is_active (written_row req now old) cutoff"
  "0 \<le> now \<Longrightarrow> (\<And>v. old = Some v \<Longrightarrow> registration_row_check v) \<Longrightarrow>
     registration_row_check (written_row req now old)"
  by (auto simp: written_row_def registration_row_is_active_def registration_row_check_def split: option.split)

lemma bind_token_owner_spec:
  assumes "keyed (token_owners s)" and "0 \<le> now"
    and "(av_token_owner av \<noteq> None) = tbl_exists (token_owners s) (rq_fcm_token req)"
  obtains ts where "bind_token_owner r req now av s = Inr (s\<lparr>token_owners := ts\<rparr>)"
    and "keyed ts"
    and "length ts = length (token_owners s) + of_bool (av_token_owner av = None)"
    and "\<And>t. map_of ts t = (if t = rq_fcm_token req
           then Some \<lparr> ow_recipient_id = r, ow_installation_id = rq_installation_id req, ow_updated_at = now \<rparr>
           else map_of (token_owners s) t)"
proof (cases "av_token_owner av")
  case None
  let ?w = "\<lparr> ow_recipient_id = r, ow_installation_id = rq_installation_id req, ow_updated_at = now \<rparr>"
  have new: "\<not> tbl_exists (token_owners s) (rq_fcm_token req)" using None assms(3) by simp
  then have "bind_token_owner r req now av s =
      Inr (s\<lparr>token_owners := token_owners s @ [(rq_fcm_token req, ?w)]\<rparr>)"
    using None assms(2)
    by (simp add: bind_token_owner_def insert_token_owner_def insert_checked_def token_owner_row_check_def insert_row_def)
  moreover have "keyed (token_owners s @ [(rq_fcm_token req, ?w)])"
    using new assms(1) by (simp add: keyed_snoc)
  ultimately show ?thesis
    using None new by (intro that) (auto simp: map_add_new)
next
  case (Some w0)
  let ?f = "\<lambda>w. w\<lparr>ow_installation_id := rq_installation_id req, ow_updated_at := now, ow_recipient_id := r\<rparr>"
  let ?ts = "update_where (\<lambda>k _. k = rq_fcm_token req) ?f (token_owners s)"
  obtain w where w: "map_of (token_owners s) (rq_fcm_token req) = Some w"
    using Some assms(3) by (auto simp: tbl_exists_def)
  have "bind_token_owner r req now av s = Inr (s\<lparr>token_owners := ?ts\<rparr>)"
    using Some by (simp add: bind_token_owner_def)
  moreover have "map_of ?ts t = (if t = rq_fcm_token req
      then Some \<lparr> ow_recipient_id = r, ow_installation_id = rq_installation_id req, ow_updated_at = now \<rparr>
      else map_of (token_owners s) t)" for t
    using w by (cases w) (auto simp: map_of_update_where map_option_case split: option.split)
  ultimately show ?thesis
    using assms(1) Some by (intro that [of ?ts]) (simp_all add: keyed_update_where, simp add: update_where_def)
qed

text \<open>Releasing the target's previous token removes one owner row, and only that one.\<close>

lemma release_old_token_owners:
  assumes "registrations_ok s" and "av = admission_view_of r req s"
    and "token_owners s1 = token_owners s"
  obtains ts where "release_old_token r req av s1 = s1\<lparr>token_owners := ts\<rparr>" and "keyed ts"
    and "length ts + of_bool (av_releases_target_old_owner av) = length (token_owners s)"
    and "\<And>t w. map_of ts t = Some w \<Longrightarrow> map_of (token_owners s) t = Some w"
    and "\<And>t. (\<And>v. map_of (push_registrations s) (r, rq_installation_id req) = Some v \<Longrightarrow>
              pr_fcm_token v = t \<Longrightarrow> t = rq_fcm_token req) \<Longrightarrow> map_of ts t = map_of (token_owners s) t"
proof (cases "av_releases_target_old_owner av")
  case False
  then have "release_old_token r req av s1 = s1\<lparr>token_owners := token_owners s\<rparr>"
    using assms(3) by (simp add: release_old_token_def split: option.split)
  then show ?thesis using assms(1) False by (intro that) (auto simp: registrations_ok_def)
next
  case True
  then obtain v where v: "map_of (push_registrations s) (r, rq_installation_id req) = Some v"
    and neq: "pr_fcm_token v \<noteq> rq_fcm_token req"
    and one: "token_owner_matches_installation (pr_fcm_token v) r (rq_installation_id req) s"
    unfolding assms(2) admission_view_of_def Let_def by (auto split: option.splits)
  let ?p = "\<lambda>k w. k = pr_fcm_token v \<and> ow_recipient_id w = r \<and> ow_installation_id w = rq_installation_id req"
  have keyed: "keyed (token_owners s)" using assms(1) by (simp add: registrations_ok_def)
  have "av_target av = Some v" using v by (simp add: assms(2) admission_view_of_def Let_def)
  with True assms(3) have "release_old_token r req av s1 = s1\<lparr>token_owners := delete_where ?p (token_owners s)\<rparr>"
    by (simp add: release_old_token_def)
  moreover have "length (delete_where ?p (token_owners s)) + 1 = length (token_owners s)"
    using one length_delete_where [of ?p "token_owners s"]
    by (simp add: token_owner_matches_installation_def)
  moreover have "map_of (delete_where ?p (token_owners s)) t = map_of (token_owners s) t"
    if "\<And>v. map_of (push_registrations s) (r, rq_installation_id req) = Some v \<Longrightarrow>
          pr_fcm_token v = t \<Longrightarrow> t = rq_fcm_token req" for t
    using that [OF v] neq keyed by (auto simp: map_of_delete_where split: option.split)
  ultimately show ?thesis
    using keyed True
    by (intro that [of "delete_where ?p (token_owners s)"])
       (auto simp: keyed_delete_where map_of_delete_where split: option.splits if_splits)
qed

lemma target_row:
  assumes "registrations_ok s"
  shows "map_of (push_registrations (without_other_route r req (admission_view_of r req s) s)) (r, rq_installation_id req)
    = map_of (push_registrations s) (r, rq_installation_id req)" (is "map_of ?t ?k = map_of ?u ?k")
proof -
  have "(?k, v) \<in> set ?t \<longleftrightarrow> (?k, v) \<in> set ?u" for v
    using set_without_other_route [OF assms refl, of r req] by auto
  then have "map_of ?t ?k = Some v \<longleftrightarrow> map_of ?u ?k = Some v" for v
    using keyed_without_other_route [OF assms] assms by (simp add: map_of_in_set registrations_ok_def)
  then show ?thesis by (metis not_None_eq)
qed

text \<open>The tables an admission leaves satisfy the invariant again.\<close>

lemma unique_admission_rows:
  assumes "registrations_ok s" and "set t = admission_rows k tok new (push_registrations s)"
    and "pr_fcm_token new = tok"
  shows "unique_under (\<lambda>v v'. pr_fcm_token v = pr_fcm_token v') t"
proof -
  have "k1 = k2" if rows: "(k1, v1) \<in> set t" "(k2, v2) \<in> set t" and eq: "pr_fcm_token v1 = pr_fcm_token v2"
    for k1 v1 k2 v2
  proof (cases "(k1, v1) = (k, new) \<or> (k2, v2) = (k, new)")
    case True
    with rows eq assms(2,3) show ?thesis by (auto simp: admission_rows_def)
  next
    case False
    with rows assms(2) have "(k1, v1) \<in> set (push_registrations s)" "(k2, v2) \<in> set (push_registrations s)"
      by (auto simp: admission_rows_def)
    from token_row_unique [OF assms(1) this eq] show ?thesis by simp
  qed
  then show ?thesis unfolding unique_under_def by blast
qed

lemma registrations_ok_written:
  assumes ok: "registrations_ok s" and keyed: "keyed (push_registrations s')" "keyed (token_owners s')"
    and rows: "set (push_registrations s') = admission_rows k tok new (push_registrations s)"
    and new: "pr_fcm_token new = tok" "registration_row_check new"
    and owner: "map_of (token_owners s') tok = Some w" "(ow_recipient_id w, ow_installation_id w) = k"
      "token_owner_row_check w"
    and others: "\<And>k' v. (k', v) \<in> set (push_registrations s) \<Longrightarrow> k' \<noteq> k \<Longrightarrow> pr_fcm_token v \<noteq> tok \<Longrightarrow>
      map_of (token_owners s') (pr_fcm_token v) = map_of (token_owners s) (pr_fcm_token v)"
    and sub: "\<And>t w. t \<noteq> tok \<Longrightarrow> map_of (token_owners s') t = Some w \<Longrightarrow> map_of (token_owners s) t = Some w"
  shows "registrations_ok s'"
proof -
  have row: "registration_row_check v \<and> (\<exists>w. map_of (token_owners s') (pr_fcm_token v) = Some w
      \<and> (ow_recipient_id w, ow_installation_id w) = k')" if kv: "(k', v) \<in> set (push_registrations s')" for k' v
  proof (cases "(k', v) = (k, new)")
    case True
    with new owner show ?thesis by simp
  next
    case False
    with kv rows have v: "(k', v) \<in> set (push_registrations s)" "k' \<noteq> k" "pr_fcm_token v \<noteq> tok"
      by (auto simp: admission_rows_def)
    from ok v(1) obtain w where "map_of (token_owners s) (pr_fcm_token v) = Some w"
      "(ow_recipient_id w, ow_installation_id w) = k'" by (rule registrations_ok_row)
    moreover have "registration_row_check v" using ok v(1) by (auto simp: registrations_ok_def)
    ultimately show ?thesis using others [OF v] by simp
  qed
  have check: "token_owner_row_check x" if "(t, x) \<in> set (token_owners s')" for t x
  proof (cases "t = tok")
    case True
    with that owner keyed show ?thesis by (simp add: map_of_in_set [symmetric])
  next
    case False
    with that sub keyed have "(t, x) \<in> set (token_owners s)"
      by (metis map_of_SomeD map_of_in_set)
    with ok show ?thesis by (auto simp: registrations_ok_def)
  qed
  show ?thesis
    unfolding registrations_ok_def
    using keyed unique_admission_rows [OF ok rows new(1)] row check by blast
qed

lemma upsert_registration_written:
  assumes "map_of (push_registrations s) k = old" and "registration_row_check (written_row req now old)"
    and "\<And>k' v. (k', v) \<in> set (push_registrations s) \<Longrightarrow> k' \<noteq> k \<Longrightarrow> pr_fcm_token v \<noteq> rq_fcm_token req"
  shows "upsert_registration k req now s =
    Inr (s\<lparr>push_registrations := upsert_row k (written_row req now old) (push_registrations s)\<rparr>)"
proof -
  have "upsert_registration k req now s =
    (let new = written_row req now (map_of (push_registrations s) k)
     in if registration_row_check new
          \<and> (\<forall>(k', v) \<in> set (push_registrations s). k' \<noteq> k \<longrightarrow> pr_fcm_token v \<noteq> rq_fcm_token req)
        then Inr (s\<lparr>push_registrations := upsert_row k new (push_registrations s)\<rparr>)
        else Inl SqlxDatabase)"
    unfolding upsert_registration_def written_row_def by (rule refl)
  moreover have "\<forall>(k', v) \<in> set (push_registrations s). k' \<noteq> k \<longrightarrow> pr_fcm_token v \<noteq> rq_fcm_token req"
    using assms(3) by blast
  ultimately show ?thesis using assms(1,2) by simp
qed

lemma write_registration_spec:
  assumes ok: "registrations_ok s" and av: "av = admission_view_of r req s" and now: "0 \<le> now"
    and k: "k = (r, rq_installation_id req)" and tok: "tok = rq_fcm_token req"
  obtains s' where "write_registration r req now av s = Inr s'"
    and "s' = s\<lparr>push_registrations := push_registrations s', token_owners := token_owners s'\<rparr>"
    and "registrations_ok s'"
    and "set (push_registrations s') =
           admission_rows k tok (written_row req now (map_of (push_registrations s) k)) (push_registrations s)"
    and "length (token_owners s') + of_bool (av_releases_target_old_owner av)
           = length (token_owners s) + of_bool (av_token_owner av = None)"
proof -
  let ?s1 = "without_other_route r req av s"
  let ?new = "written_row req now (map_of (push_registrations s) k)"
  have owners1: "token_owners ?s1 = token_owners s" by (simp add: without_other_route_def)
  from release_old_token_owners [OF ok av owners1]
  obtain ts where rel: "release_old_token r req av ?s1 = ?s1\<lparr>token_owners := ts\<rparr>" and ts: "keyed ts"
    and len1: "length ts + of_bool (av_releases_target_old_owner av) = length (token_owners s)"
    and sub: "\<And>t w. map_of ts t = Some w \<Longrightarrow> map_of (token_owners s) t = Some w"
    and same: "\<And>t. (\<And>v. map_of (push_registrations s) k = Some v \<Longrightarrow> pr_fcm_token v = t \<Longrightarrow> t = tok) \<Longrightarrow>
        map_of ts t = map_of (token_owners s) t"
    unfolding k tok by blast
  have keyed1: "keyed (push_registrations ?s1)" by (rule keyed_without_other_route [OF ok])
  have set1: "set (push_registrations ?s1) = {(k', v) \<in> set (push_registrations s). k' = k \<or> pr_fcm_token v \<noteq> tok}"
    unfolding k tok by (rule set_without_other_route [OF ok av])
  have check: "registration_row_check ?new"
    using ok now by (intro written_row_facts) (auto simp: registrations_ok_def dest: map_of_SomeD)
  let ?s3 = "?s1\<lparr>token_owners := ts, push_registrations := upsert_row k ?new (push_registrations ?s1)\<rparr>"
  have ups: "upsert_registration k req now (?s1\<lparr>token_owners := ts\<rparr>) = Inr ?s3"
    using check set1 target_row [OF ok, of r req] av k tok
      upsert_registration_written [of "?s1\<lparr>token_owners := ts\<rparr>" k "map_of (push_registrations s) k" req now]
    by auto
  have "(av_token_owner av \<noteq> None) = tbl_exists (token_owners ?s3) (rq_fcm_token req)"
    using same [of tok] by (simp add: av admission_view_of_def Let_def tbl_exists_def tok)
  moreover have "keyed (token_owners ?s3)" using ts by simp
  ultimately obtain us where bind: "bind_token_owner r req now av ?s3 = Inr (?s3\<lparr>token_owners := us\<rparr>)"
    and us: "keyed us" and len2: "length us = length (token_owners ?s3) + of_bool (av_token_owner av = None)"
    and look: "\<And>t. map_of us t = (if t = rq_fcm_token req
           then Some \<lparr> ow_recipient_id = r, ow_installation_id = rq_installation_id req, ow_updated_at = now \<rparr>
           else map_of (token_owners ?s3) t)"
    using bind_token_owner_spec now by metis
  let ?s' = "?s3\<lparr>token_owners := us\<rparr>"
  have rows: "set (push_registrations ?s') = admission_rows k tok ?new (push_registrations s)"
    using set_upsert_keyed [OF keyed1, of k ?new] set1 by (auto simp: admission_rows_def)
  have others: "map_of ts (pr_fcm_token v) = map_of (token_owners s) (pr_fcm_token v)"
    if "(k', v) \<in> set (push_registrations s)" "k' \<noteq> k" for k' v
  proof (rule same)
    fix v' assume "map_of (push_registrations s) k = Some v'" "pr_fcm_token v' = pr_fcm_token v"
    with that token_row_unique [OF ok that(1), of k v'] show "pr_fcm_token v = tok"
      by (auto dest: map_of_SomeD)
  qed
  let ?w = "\<lparr> ow_recipient_id = r, ow_installation_id = rq_installation_id req, ow_updated_at = now \<rparr>"
  have "registrations_ok ?s'"
  proof (rule registrations_ok_written [OF ok _ _ rows, where w = ?w])
    show "keyed (push_registrations ?s')" using keyed1 by (simp add: keyed_upsert_row)
    show "keyed (token_owners ?s')" using us by simp
    show "pr_fcm_token ?new = tok" by (simp add: written_row_facts(1) tok)
    show "map_of (token_owners ?s') tok = Some ?w" by (simp add: look tok)
    show "(ow_recipient_id ?w, ow_installation_id ?w) = k" "token_owner_row_check ?w"
      using now by (simp_all add: k token_owner_row_check_def)
    fix t w assume "t \<noteq> tok" "map_of (token_owners ?s') t = Some w"
    then have "map_of ts t = Some w" by (simp add: look tok)
    then show "map_of (token_owners s) t = Some w" by (rule sub)
  next
    fix k' v assume v: "(k', v) \<in> set (push_registrations s)" "k' \<noteq> k" "pr_fcm_token v \<noteq> tok"
    have "map_of (token_owners ?s') (pr_fcm_token v) = map_of ts (pr_fcm_token v)"
      using v(3) by (simp add: look tok)
    with others [OF v(1,2)] show "map_of (token_owners ?s') (pr_fcm_token v) = map_of (token_owners s) (pr_fcm_token v)"
      by simp
  qed (rule check)
  moreover have "write_registration r req now av s = Inr ?s'"
    unfolding write_registration_alt rel using ups bind by (simp add: k)
  moreover have "?s' = s\<lparr>push_registrations := push_registrations ?s', token_owners := token_owners ?s'\<rparr>"
    by (simp add: without_other_route_def)
  ultimately show ?thesis using rows len1 len2 by (intro that [of ?s']) simp_all
qed

section \<open>Counting the rows of an admission\<close>

lemma card_key_rows:
  assumes "keyed t"
  shows "card {x \<in> set t. fst x = k \<and> P (fst x) (snd x)} =
    of_bool (\<exists>v. map_of t k = Some v \<and> P k v)" (is "card ?A = _")
proof (cases "\<exists>v. map_of t k = Some v \<and> P k v")
  case True
  then obtain v where v: "map_of t k = Some v" "P k v" by blast
  have "x = (k, v)" if "x \<in> ?A" for x
    using that v assms by (cases x) (auto simp: map_of_in_set [symmetric])
  moreover have "(k, v) \<in> ?A" using v by (auto dest: map_of_SomeD)
  ultimately have "?A = {(k, v)}" by blast
  with True show ?thesis by simp
next
  case False
  then have "?A = {}" using assms by (auto simp: map_of_in_set)
  then have "card ?A = 0" by (simp only: card.empty)
  moreover have "of_bool (\<exists>v. map_of t k = Some v \<and> P k v) = (0 :: nat)"
    using False by (subst of_bool_eq_0_iff)
  ultimately show ?thesis by (simp only:)
qed

lemma card_other_route:
  assumes ok: "registrations_ok s" and av: "av = admission_view_of r req s" and k: "k = (r, rq_installation_id req)"
  shows "card {x \<in> set (push_registrations s). fst x \<noteq> k \<and> pr_fcm_token (snd x) = rq_fcm_token req \<and> P (fst x) (snd x)}
    = of_bool (other_route r req av \<and> (\<exists>k' v. av_token_registration av = Some (k', v) \<and> P k' v))" (is "card ?A = _")
proof (cases "find_by_token (rq_fcm_token req) s")
  case None
  have "?A = {}"
  proof (rule ccontr)
    assume "?A \<noteq> {}"
    then obtain x where "x \<in> set (push_registrations s)" "pr_fcm_token (snd x) = rq_fcm_token req" by blast
    with find_by_token_None [OF None, of "fst x" "snd x"] show False by simp
  qed
  moreover have "\<not> other_route r req av" using None by (simp add: av other_route_def admission_view_of_def Let_def)
  ultimately show ?thesis by simp
next
  case (Some kv)
  obtain k' v' where kv: "kv = (k', v')" by fastforce
  have row: "(k', v') \<in> set (push_registrations s)" "pr_fcm_token v' = rq_fcm_token req"
    using find_by_token_Some Some kv by blast+
  have other: "other_route r req av \<longleftrightarrow> k' \<noteq> k" and reg: "av_token_registration av = Some (k', v')"
    using Some kv
    by (cases k', auto simp: av k other_route_def admission_view_of_def Let_def)
  have "x = (k', v')" if "x \<in> ?A" for x
    using that row token_row_unique [OF ok row(1), of "fst x" "snd x"] by simp
  then have sub: "?A \<subseteq> {(k', v')}" by blast
  show ?thesis
  proof (cases "k' \<noteq> k \<and> P k' v'")
    case True
    with row sub have "?A = {(k', v')}" by fastforce
    with True show ?thesis by (simp add: other reg)
  next
    case False
    with sub have "?A = {}" by fastforce
    with False show ?thesis by (simp only: other reg card.empty) auto
  qed
qed

text \<open>
  A predicate on rows that the new row satisfies: the rows that satisfy it after the admission are
  those before, less the replaced target and the deleted other route, plus one.
\<close>

lemma matching_after_admission:
  assumes ok: "registrations_ok s" "keyed (push_registrations s')" and av: "av = admission_view_of r req s"
    and k: "k = (r, rq_installation_id req)"
    and rows: "set (push_registrations s') = admission_rows k (rq_fcm_token req) new (push_registrations s)"
    and P: "P k new"
  shows "matching P (push_registrations s')
      + (of_bool (\<exists>v. av_target av = Some v \<and> P k v)
         + of_bool (other_route r req av \<and> (\<exists>k' v. av_token_registration av = Some (k', v) \<and> P k' v)))
    = matching P (push_registrations s) + 1"
proof -
  let ?R = "set (push_registrations s)"
  let ?A = "{x \<in> ?R. (fst x \<noteq> k \<and> pr_fcm_token (snd x) \<noteq> rq_fcm_token req) \<and> P (fst x) (snd x)}"
  let ?B = "{x \<in> ?R. fst x = k \<and> P (fst x) (snd x)}"
  let ?C = "{x \<in> ?R. fst x \<noteq> k \<and> pr_fcm_token (snd x) = rq_fcm_token req \<and> P (fst x) (snd x)}"
  have keyed: "keyed (push_registrations s)" using ok by (simp add: registrations_ok_def)
  have "{x \<in> ?R. P (fst x) (snd x)} = ?A \<union> (?B \<union> ?C)" by blast
  then have "matching P (push_registrations s) = card (?A \<union> (?B \<union> ?C))"
    using matching_card_rows [OF keyed] by simp
  also have "\<dots> = card ?A + (card ?B + card ?C)"
    by (subst card_Un_disjoint, simp, simp, blast, subst card_Un_disjoint, simp, simp, blast, rule refl)
  finally have before: "matching P (push_registrations s) = card ?A + (card ?B + card ?C)" .
  have "{x \<in> set (push_registrations s'). P (fst x) (snd x)} = insert (k, new) ?A"
    using P by (auto simp: rows admission_rows_def)
  then have "matching P (push_registrations s') = card ?A + 1"
    using matching_card_rows [OF ok(2)] by simp
  moreover have "card ?B = of_bool (\<exists>v. av_target av = Some v \<and> P k v)"
    using card_key_rows [OF keyed] by (simp add: av k admission_view_of_def Let_def)
  moreover note card_other_route [OF ok(1) av k, of P]
  ultimately show ?thesis using before by simp
qed

lemma length_as_matching: "length t = matching (\<lambda>_ _. True) t"
  by (simp add: matching_def)

end
