(* ===== verification/Gateway_Preservation.thy ===== *)
theory Gateway_Preservation
  imports Gateway_Invariant
begin

text \<open>
  Every operation of the gateway keeps the invariant, and so does every step. The interpretation
  at the end makes the facts about reachable gateways available.
\<close>

section \<open>Registration management\<close>

definition only_registrations :: "gateway_db \<Rightarrow> gateway_db \<Rightarrow> bool" where
  "only_registrations s s' \<longleftrightarrow>
     s' = s\<lparr>push_registrations := push_registrations s', token_owners := token_owners s'\<rparr>"

lemma only_registrations_trans:
  assumes "only_registrations s t" and "only_registrations t u"
  shows "only_registrations s u"
proof -
  have "u = (s\<lparr>push_registrations := push_registrations t, token_owners := token_owners t\<rparr>)
      \<lparr>push_registrations := push_registrations u, token_owners := token_owners u\<rparr>"
    using assms unfolding only_registrations_def by metis
  then show ?thesis by (simp add: only_registrations_def)
qed

lemma only_registrations_updates:
  "only_registrations s s"
  "only_registrations s (s\<lparr>push_registrations := t\<rparr>)"
  "only_registrations s (s\<lparr>token_owners := u\<rparr>)"
  "only_registrations s (s\<lparr>push_registrations := t, token_owners := u\<rparr>)"
  by (simp_all add: only_registrations_def)

lemma db_ok_only_registrations:
  "db_ok c I s \<Longrightarrow> only_registrations s s' \<Longrightarrow> registrations_ok s' \<Longrightarrow> db_ok c I s'"
  unfolding only_registrations_def by (rule db_ok_registrations)

lemma purge_orphaned_only: "only_registrations s (snd (purge_orphaned_token_owners cutoff n s))"
  by (simp add: purge_orphaned_token_owners_def Let_def only_registrations_def)

lemma purge_stale_tx_only: "only_registrations s (purge_stale_in_transaction cutoff batch s)"
proof -
  let ?s1 = "s\<lparr>push_registrations := delete_keys (map fst (select_ordered (\<lambda>_ v. pr_last_seen_at v) (sql_limit batch)
      (\<lambda>_ v. pr_last_seen_at v < cutoff) (push_registrations s))) (push_registrations s)\<rparr>"
  have "only_registrations s ?s1" by (rule only_registrations_updates)
  from only_registrations_trans [OF this purge_orphaned_only] show ?thesis
    by (simp add: purge_stale_in_transaction_def Let_def only_registrations_updates)
qed

lemma write_registration_InrD:
  assumes "write_registration r req now av s = Inr s'" and "registrations_ok s"
    and "av = admission_view_of r req s" and "0 \<le> now"
  shows "only_registrations s s'" and "registrations_ok s'"
    and "set (push_registrations s') = admission_rows (r, rq_installation_id req) (rq_fcm_token req)
           (written_row req now (map_of (push_registrations s) (r, rq_installation_id req))) (push_registrations s)"
    and "length (token_owners s') + of_bool (av_releases_target_old_owner av)
           = length (token_owners s) + of_bool (av_token_owner av = None)"
  using assms(1) write_registration_spec [OF assms(2,3,4) refl refl]
  by (metis only_registrations_def sum.inject(2))+

text \<open>What a committed admission did: the sweep, then the writes.\<close>

lemma admit_installation_cases:
  assumes "db_ok c I s0" and "0 \<le> now"
  obtains (refused) o' where "admit_installation r req cutoff limits now s0 = (Inr o', s0)" and "o' \<noteq> Registered"
  | (admitted) s s' where "admit_installation r req cutoff limits now s0 = (Inr Registered, s')"
      and "registrations_ok s" and "db_ok c I s"
      and "\<not> token_conflict r req (admission_view_of r req s)"
      and "rl_max_active_per_recipient limits = 0 \<or>
             projected_recipient r req cutoff (admission_view_of r req s) s \<le> unat (rl_max_active_per_recipient limits)"
      and "rl_max_active_global limits = 0 \<or>
             projected_global r req cutoff (admission_view_of r req s) s \<le> unat (rl_max_active_global limits)"
      and "rl_max_total_rows limits = 0 \<or>
             projected_rows r req (admission_view_of r req s) s \<le> unat (rl_max_total_rows limits)"
      and "write_registration r req now (admission_view_of r req s) s = Inr s'"
proof -
  obtain s1 where s1: "acquire_admission_lock ''registration'' now s0 = Inr s1"
    using assms(1) acquire_registration_lock by (auto simp: db_ok_def)
  then have ok1: "db_ok c I s1" using acquire_admission_lock_ok assms(1) by blast
  define s where "s = purge_stale_in_transaction cutoff (rl_reclamation_batch_size limits) s1"
  have reg: "registrations_ok s"
    using ok1 by (simp add: s_def db_ok_def purge_stale_tx_ok)
  then have ok: "db_ok c I s"
    using ok1 db_ok_only_registrations purge_stale_tx_only unfolding s_def by blast
  from write_registration_spec [OF reg refl assms(2) refl refl]
  obtain s' where w: "write_registration r req now (admission_view_of r req s) s = Inr s'" by metis
  have positive: "(0 < x) = (x \<noteq> 0)" for x :: u64 by (simp add: word_neq_0_conv)
  show ?thesis
  proof (cases "fst (admit_installation r req cutoff limits now s0) = Inr Registered")
    case True
    then show ?thesis
      using s1 w reg ok
      by (intro admitted [of s' s])
         (auto simp: admit_installation_def Let_def s_def [symmetric] positive not_less split: if_splits)
  next
    case False
    then have "\<exists>o'. admit_installation r req cutoff limits now s0 = (Inr o', s0) \<and> o' \<noteq> Registered"
      using s1 w by (auto simp: admit_installation_def Let_def s_def [symmetric] split: if_splits)
    then show ?thesis using refused by blast
  qed
qed

lemma admit_installation_ok:
  assumes "db_ok c I s" and "0 \<le> now"
  shows "db_ok c I (snd (admit_installation r req cutoff limits now s))"
    and "\<exists>o'. fst (admit_installation r req cutoff limits now s) = Inr o'"
proof -
  have "db_ok c I (snd (admit_installation r req cutoff limits now s))
      \<and> (\<exists>o'. fst (admit_installation r req cutoff limits now s) = Inr o')"
  proof (rule admit_installation_cases [OF assms, of r req cutoff limits])
    fix o' assume "admit_installation r req cutoff limits now s = (Inr o', s)"
    with assms show ?thesis by simp
  next
    fix s1 s'
    assume reg: "registrations_ok s1" and w: "write_registration r req now (admission_view_of r req s1) s1 = Inr s'"
      and rest: "admit_installation r req cutoff limits now s = (Inr Registered, s')" "db_ok c I s1"
    from write_registration_InrD [OF w reg refl assms(2)] rest show ?thesis
      by (simp add: db_ok_only_registrations)
  qed
  then show "db_ok c I (snd (admit_installation r req cutoff limits now s))"
    and "\<exists>o'. fst (admit_installation r req cutoff limits now s) = Inr o'" by blast+
qed

lemma delete_installation_ok:
  assumes "db_ok c I s"
  shows "db_ok c I (snd (delete_installation r i now s))"
    and "\<exists>b. fst (delete_installation r i now s) = Inr b"
proof -
  obtain s1 where s1: "acquire_admission_lock ''registration'' now s = Inr s1"
    using assms acquire_registration_lock by (auto simp: db_ok_def)
  then have ok1: "db_ok c I s1" using acquire_admission_lock_ok assms by blast
  let ?s2 = "s1\<lparr>push_registrations := delete_where (\<lambda>k _. k = (r, i)) (push_registrations s1)\<rparr>"
  let ?p = "\<lambda>_ w. ow_recipient_id w = r \<and> ow_installation_id w = i"
  have reg2: "registrations_ok ?s2" using ok1 by (simp add: db_ok_def registrations_ok_delete)
  have "registrations_ok (?s2\<lparr>token_owners := delete_where ?p (token_owners ?s2)\<rparr>)"
  proof (rule registrations_ok_delete_owners [OF reg2])
    fix k v w
    assume kv: "(k, v) \<in> set (push_registrations ?s2)" and w: "map_of (token_owners ?s2) (pr_fcm_token v) = Some w"
    from kv have "k \<noteq> (r, i)" by (simp add: set_delete_where)
    moreover from registrations_ok_row [OF reg2 kv] w have "(ow_recipient_id w, ow_installation_id w) = k" by auto
    ultimately show "\<not> ?p (pr_fcm_token v) w" by auto
  qed
  then show "db_ok c I (snd (delete_installation r i now s))"
    using s1 ok1 by (simp add: delete_installation_def Let_def db_ok_only_registrations [OF ok1]
        only_registrations_updates)
  show "\<exists>b. fst (delete_installation r i now s) = Inr b"
    using s1 by (simp add: delete_installation_def Let_def)
qed

lemma disable_ok:
  assumes "db_ok c I s" and "0 \<le> now"
  shows "db_ok c I (s\<lparr>push_registrations := update_where p (disable_row now reason) (push_registrations s)\<rparr>)"
  using assms
  by (intro db_ok_only_registrations [OF assms(1)] only_registrations_updates registrations_ok_update)
     (simp_all add: db_ok_def disable_row_facts)

lemma purge_stale_ok:
  assumes "db_ok c I s"
  shows "db_ok c I (snd (purge_stale cutoff now s))"
proof -
  obtain s1 where s1: "acquire_admission_lock ''registration'' now s = Inr s1"
    using assms acquire_registration_lock by (auto simp: db_ok_def)
  then have ok1: "db_ok c I s1" using acquire_admission_lock_ok assms by blast
  let ?s2 = "s1\<lparr>push_registrations := delete_where (\<lambda>_ v. pr_last_seen_at v < cutoff) (push_registrations s1)\<rparr>"
  let ?s3 = "snd (purge_orphaned_token_owners cutoff (2 ^ 63 - 1) ?s2)"
  have "registrations_ok ?s3" using ok1 by (simp add: db_ok_def registrations_ok_delete purge_orphaned_ok)
  moreover have "only_registrations s1 ?s3"
    by (rule only_registrations_trans [OF only_registrations_updates(2) purge_orphaned_only])
  ultimately have "db_ok c I ?s3" using ok1 db_ok_only_registrations by blast
  then show ?thesis using s1 by (simp add: purge_stale_def Let_def split_beta)
qed

section \<open>Hooks, markers and events\<close>

lemma db_ok_delete_tombstones:
  assumes ok: "db_ok c I s"
    and old: "\<And>k v. (k, v) \<in> set (hook_tombstones s) \<Longrightarrow> p k v \<Longrightarrow> tb_retain_until v \<le> c"
  shows "db_ok c I (s\<lparr>hook_tombstones := delete_where p (hook_tombstones s)\<rparr>)" (is "db_ok c I ?s'")
proof -
  have keyed: "keyed (hook_tombstones s)" and tomb: "tombstones_ok s" and ev: "events_ok c I s"
    using ok by (simp_all add: db_ok_def tombstones_ok_def)
  have "tombstones_ok ?s'"
    using tomb unfolding tombstones_ok_def by (auto simp: keyed_delete_where set_delete_where)
  moreover have "tbl_exists (hook_tombstones ?s') (h, key) \<or> hook_ended c ?s' h"
    if "tbl_exists (hook_tombstones s) (h, key) \<or> hook_ended c s h" for h key
  proof (cases "hook_ended c s h")
    case True
    then show ?thesis by (simp add: frame)
  next
    case False
    with that obtain v where v: "map_of (hook_tombstones s) (h, key) = Some v" by (auto simp: tbl_exists_def)
    show ?thesis
    proof (cases "p (h, key) v")
      case True
      from v have "((h, key), v) \<in> set (hook_tombstones s)" by (rule map_of_SomeD)
      with tomb old [OF _ True] have "hook_ended c s h"
        by (fastforce simp: tombstones_ok_def hook_ended_def)
      with False show ?thesis by simp
    next
      case False
      with v keyed show ?thesis by (simp add: tbl_exists_def map_of_delete_where)
    qed
  qed
  then have "events_ok c I ?s'" using ev unfolding events_ok_def by fastforce
  ultimately show ?thesis using ok by (simp add: db_ok_def frame)
qed

lemma selected_row:
  assumes "keyed t" and "(k, v) \<in> set t" and "k \<in> set (map fst (select_ordered ord n p t))"
  shows "p k v"
proof -
  from assms(3) obtain v' where "(k, v') \<in> set (select_ordered ord n p t)" by auto
  with select_ordered_subset have "(k, v') \<in> set t" "p k v'" by blast+
  moreover have "v' = v"
    using assms(1,2) calculation(1) by (auto simp: keyed_def dest: eq_key_imp_eq_value)
  ultimately show ?thesis by simp
qed

lemma purge_expired_tombstones_ok:
  assumes "db_ok c I s" and "now \<le> c"
  shows "db_ok c I (purge_expired_tombstones now batch s)"
proof -
  let ?sel = "select_ordered (\<lambda>_ v. tb_retain_until v) (sql_limit batch) (\<lambda>_ v. tb_retain_until v < now) (hook_tombstones s)"
  have keyed: "keyed (hook_tombstones s)" using assms(1) by (simp add: db_ok_def tombstones_ok_def)
  have "tb_retain_until v \<le> c" if kv: "(k, v) \<in> set (hook_tombstones s)" "k \<in> set (map fst ?sel)" for k v
    using selected_row [OF keyed kv] assms(2) by simp
  then show ?thesis
    using assms(1) db_ok_delete_tombstones [OF assms(1), of "\<lambda>k _. k \<in> set (map fst ?sel)"]
    by (auto simp: purge_expired_tombstones_def delete_keys_def)
qed

lemma db_ok_delete_events:
  assumes "db_ok c I s"
  shows "db_ok c I (delete_events ks s)"
proof -
  let ?s' = "delete_events ks s"
  have ev: "events_ok c I s" and ob: "outbox_ok c I s" using assms by (simp_all add: db_ok_def)
  have "set (notification_events ?s') \<subseteq> set (notification_events s)" by (auto simp: delete_events_def set_delete_keys)
  with ev have "events_ok c I ?s'"
    unfolding events_ok_def
    by (auto simp: delete_events_def keyed_delete_keys set_delete_keys frame intro: unique_under_subset)
  moreover have "tbl_exists (notification_events ?s') (ob_event_id b)"
    if "(k, b) \<in> set (delivery_outbox ?s')" for k b
    using that ob ev
    by (auto simp: delete_events_def set_delete_where outbox_ok_def events_ok_def tbl_exists_def map_of_delete_keys)
  then have "outbox_ok c I ?s'"
    using ob unfolding outbox_ok_def
    by (auto simp: delete_events_def keyed_delete_where set_delete_where intro: unique_under_subset)
  ultimately show ?thesis using assms by (simp add: db_ok_def delete_events_def frame)
qed

lemma db_ok_delete_hooks:
  assumes "db_ok c I s"
  shows "db_ok c I (delete_hooks ks s)"
proof -
  let ?es = "map fst (filter (\<lambda>(_, e). ev_hook_id e \<in> set ks) (notification_events s))"
  define s1 where "s1 = delete_events ?es s"
  have ok1: "db_ok c I s1" using assms by (simp add: s1_def db_ok_delete_events)
  let ?s' = "s1\<lparr>notification_hooks := delete_keys ks (notification_hooks s1),
      hook_tombstones := delete_where (\<lambda>k _. fst k \<in> set ks) (hook_tombstones s1)\<rparr>"
  have keyed: "keyed (notification_hooks s1)" using ok1 by (simp add: db_ok_def hooks_ok_def)
  have look: "map_of (notification_hooks ?s') k = map_of (notification_hooks s1) k" if "k \<notin> set ks" for k
    using that keyed by (simp add: map_of_delete_keys)
  have "hooks_ok c I ?s'"
    using ok1 unfolding db_ok_def hooks_ok_def
    by (auto simp: keyed_delete_keys set_delete_keys intro: unique_under_subset)
  moreover have "tombstones_ok ?s'"
    using ok1 look unfolding db_ok_def tombstones_ok_def
    by (auto simp: keyed_delete_where set_delete_where)
  moreover have "ev_hook_id e \<notin> set ks" if "(k, e) \<in> set (notification_events s1)" for k e
    using that by (auto simp: s1_def delete_events_def set_delete_keys image_iff)
  then have "events_ok c I ?s'"
    using ok1 look unfolding db_ok_def events_ok_def tombstones_ok_def
    by (fastforce simp: tbl_exists_def hook_ended_def map_of_delete_where split: option.splits)
  ultimately have "db_ok c I ?s'" using ok1 by (simp add: db_ok_def frame)
  then show ?thesis by (simp add: delete_hooks_def Let_def s1_def)
qed

lemma purge_terminal_ok:
  "db_ok c I s \<Longrightarrow> now \<le> c \<Longrightarrow> db_ok c I (purge_terminal_in_transaction now batch s)"
  by (simp add: purge_terminal_in_transaction_def Let_def db_ok_delete_hooks purge_expired_tombstones_ok)

lemma insert_hook_ok:
  assumes "insert_hook k h s = Inr s'" and ok: "db_ok c I s" and "hook_ok c h" and "k \<in> I"
  shows "db_ok c I s'"
proof -
  from assms(1) have s': "s' = s\<lparr>notification_hooks := notification_hooks s @ [(k, h)]\<rparr>"
    and new: "\<not> tbl_exists (notification_hooks s) k"
    and hash: "\<forall>(k', h') \<in> set (notification_hooks s). hk_secret_hash h' \<noteq> hk_secret_hash h"
    by (auto simp: insert_hook_def and_then_eq_Inr insert_checked_Inr)
  have look: "map_of (notification_hooks s') k' = map_of (notification_hooks s) k'"
    if "tbl_exists (notification_hooks s) k'" for k'
    using that new map_of_snoc_new [OF new, of h k'] by (auto simp: s' tbl_exists_def)
  have "unique_under (\<lambda>h h'. hk_secret_hash h = hk_secret_hash h') (notification_hooks s @ [(k, h)])"
    by (rule unique_under_snoc) (use ok hash in \<open>force simp: db_ok_def hooks_ok_def\<close>)+
  then have "hooks_ok c I s'"
    using ok new assms(3,4) by (auto simp: db_ok_def hooks_ok_def s' keyed_snoc)
  moreover have "tombstones_ok s'"
  proof -
    have "map_of (notification_hooks s') (fst kk) = Some h'"
      if "map_of (notification_hooks s) (fst kk) = Some h'" for kk :: "string \<times> string" and h'
      using that look [of "fst kk"] by (simp add: tbl_exists_def)
    moreover have "hook_tombstones s' = hook_tombstones s" by (simp add: s')
    ultimately show ?thesis using ok unfolding db_ok_def tombstones_ok_def by fastforce
  qed
  moreover have "events_ok c I s'"
  proof -
    have "hook_ended c s' k' = hook_ended c s k'" "tbl_exists (notification_hooks s') k'"
      if "tbl_exists (notification_hooks s) k'" for k'
      using that look [OF that] by (simp_all add: hook_ended_def tbl_exists_def)
    moreover have "notification_events s' = notification_events s" "hook_tombstones s' = hook_tombstones s"
      by (simp_all add: s')
    ultimately show ?thesis using ok unfolding db_ok_def events_ok_def by fastforce
  qed
  ultimately show ?thesis using ok by (simp add: db_ok_def s' frame)
qed

lemma db_ok_hook_update:
  assumes ok: "db_ok c I s"
    and f: "\<And>h. hk_secret_hash (f h) = hk_secret_hash h" "\<And>h. hk_expires_at (f h) = hk_expires_at h"
    and keep: "\<And>k h. (k, h) \<in> set (notification_hooks s) \<Longrightarrow> p k h \<Longrightarrow> hook_ok c h \<Longrightarrow> hook_ok c (f h)"
  shows "db_ok c I (s\<lparr>notification_hooks := update_where p f (notification_hooks s)\<rparr>)" (is "db_ok c I ?s'")
proof -
  have look: "map_of (notification_hooks ?s') k =
      map_option (\<lambda>h. if p k h then f h else h) (map_of (notification_hooks s) k)" for k
    by (simp add: map_of_update_where)
  have ended: "hook_ended c ?s' k = hook_ended c s k" for k
    using f(2) by (auto simp: hook_ended_def map_of_update_where split: option.splits)
  have "unique_under (\<lambda>h h'. hk_secret_hash h = hk_secret_hash h') (notification_hooks ?s')"
    using ok f(1) by (auto simp: db_ok_def hooks_ok_def intro!: unique_under_update_where)
  then have "hooks_ok c I ?s'"
    using ok keep unfolding db_ok_def hooks_ok_def
    by (fastforce simp: keyed_update_where set_update_where)
  moreover have "tombstones_ok ?s'"
  proof -
    have "\<exists>h' e'. map_of (notification_hooks ?s') k = Some h' \<and> hk_expires_at h' = Some e' \<and> e' \<le> t"
      if "\<exists>h e. map_of (notification_hooks s) k = Some h \<and> hk_expires_at h = Some e \<and> e \<le> t" for k t
    proof -
      from that obtain h e where "map_of (notification_hooks s) k = Some h" "hk_expires_at h = Some e" "e \<le> t"
        by blast
      then show ?thesis using look [of k] f(2) by simp
    qed
    then show ?thesis using ok unfolding db_ok_def tombstones_ok_def by fastforce
  qed
  moreover have "events_ok c I ?s'"
    using ok ended unfolding db_ok_def events_ok_def by (simp add: tbl_exists_update_where)
  ultimately show ?thesis using ok by (simp add: db_ok_def frame)
qed

lemma hook_ok_use:
  assumes "hook_ok c h" and "hook_usable production now h" and "0 \<le> now"
  shows "hook_ok c (use_hook_row production now h)"
proof -
  from assms(1) obtain w m where w: "hk_rate_limit_window_seconds h = Some w" "hk_rate_limit_max_requests h = Some m" "0 < m"
    by (auto simp: hook_ok_def hook_row_check_def split: option.splits)
  then have "\<not> hook_unlimited production h" by (simp add: hook_unlimited_def)
  with w assms show ?thesis
    by (auto simp: hook_ok_def hook_row_check_def use_hook_row_def hook_usable_def effective_max_requests_def
        split: option.splits if_splits)
qed

lemma use_hook_row_keeps:
  "hk_secret_hash (use_hook_row production now h) = hk_secret_hash h"
  "hk_expires_at (use_hook_row production now h) = hk_expires_at h"
  by (simp_all add: use_hook_row_def)

lemma consume_hook_ok:
  "db_ok c I s \<Longrightarrow> 0 \<le> now \<Longrightarrow> db_ok c I (snd (consume_hook production k now s))"
  unfolding consume_hook_def Let_def snd_conv
  by (rule db_ok_hook_update) (auto simp: use_hook_row_keeps intro: hook_ok_use)

lemma revoke_hook_row_ok:
  "db_ok c I s \<Longrightarrow> 0 \<le> now \<Longrightarrow> db_ok c I (snd (revoke_hook_row k r now s))"
  unfolding revoke_hook_row_def snd_conv
  by (rule db_ok_hook_update) (auto simp: hook_ok_def hook_row_check_def split: option.splits)

section \<open>Creating a hook\<close>

lemma new_hook_row_ok:
  assumes "validate_hook_policy req production = Inr u" and "0 \<le> now" and "now \<le> c"
  shows "hook_ok c (new_hook_row gc r req now token)"
proof -
  from assms(1) obtain n where n: "ps_expires_in_seconds (ch_policy req) = Some n" "0 < n" "n \<le> 31536000"
    by (auto simp: validate_hook_policy_def Let_def split: if_splits option.splits)
  from assms(1) have window: "1 \<le> requested_window req" and requests: "1 \<le> requested_max_requests req"
    by (auto simp: validate_hook_policy_def Let_def split: if_splits)
  have same: "hk_rate_limit_window_seconds (new_hook_row gc r req now token) = Some (requested_window req)"
    "hk_rate_limit_max_requests (new_hook_row gc r req now token) = Some (requested_max_requests req)"
    by (simp_all add: new_hook_row_def requested_window_def requested_max_requests_def)
  have rest: "hk_created_at (new_hook_row gc r req now token) = now"
    "hk_expires_at (new_hook_row gc r req now token) = Some (now + n)"
    "hk_use_count (new_hook_row gc r req now token) = 0" "hk_rate_limit_count (new_hook_row gc r req now token) = 0"
    "hk_revoked_at (new_hook_row gc r req now token) = None" "hk_last_used_at (new_hook_row gc r req now token) = None"
    "hk_rate_limit_window_started_at (new_hook_row gc r req now token) = None"
    "\<And>m. hk_max_uses (new_hook_row gc r req now token) = Some m \<Longrightarrow> 0 < m"
    using n by (auto simp: new_hook_row_def split: option.splits if_splits)
  show ?thesis
    using window requests assms(2,3) n rest(8)
    by (auto simp: hook_ok_def hook_row_check_def same rest gateway_consts split: option.split
        dest: less_imp_le [OF rest(8)])
qed

lemma admit_hook_ok:
  assumes ok: "db_ok c I s" and "validate_hook_policy req production = Inr u"
    and "0 \<le> now" and "now \<le> c" and "hook_id \<in> I"
  shows "db_ok c I (snd (admit_hook gc r req cutoff limits now hook_id token s))"
proof -
  obtain s1 where s1: "acquire_admission_lock ''hook'' now s = Inr s1"
    using ok acquire_hook_lock by (auto simp: db_ok_def)
  then have "db_ok c I s1" using acquire_admission_lock_ok ok by blast
  then have ok2: "db_ok c I (purge_terminal_in_transaction now (hl_reclamation_batch_size limits) s1)" (is "db_ok c I ?s2")
    using assms(4) by (rule purge_terminal_ok)
  show ?thesis
  proof (cases "insert_hook hook_id (new_hook_row gc r req now token) ?s2")
    case (Inl e)
    with s1 ok show ?thesis by (simp add: admit_hook_def Let_def)
  next
    case (Inr s')
    from insert_hook_ok [OF Inr ok2 new_hook_row_ok [OF assms(2-4)] assms(5)] have "db_ok c I s'" .
    with s1 ok Inr show ?thesis
      by (auto simp: admit_hook_def Let_def gw_tx_def and_then_def ok_or_def split: sum.splits option.splits)
  qed
qed

lemma create_hook_ok:
  assumes "db_ok c I s" and "\<And>i. 0 \<le> clk i" and "\<And>i. clk i \<le> c" and "hook_id \<in> I"
    and "create_hook cfg r req admitted clk hook_id token l s = (res, l', s')"
  shows "db_ok c I s'"
proof (cases "validate_create_hook_request (gw_codec cfg) req (gw_production_mode cfg)")
  case (Inl e)
  with assms show ?thesis by (simp add: create_hook_def)
next
  case (Inr u)
  then have "validate_hook_policy req (gw_production_mode cfg) = Inr u"
    by (simp add: validate_create_hook_request_def and_then_eq_Inr)
  from admit_hook_ok [OF assms(1) this assms(2,3,4)]
  have "db_ok c I (snd (admit_hook (gw_codec cfg) r req (registration_cutoff cfg (clk 1))
      (hook_limits_of (gw_limits cfg)) (clk 2) hook_id token s))" .
  with assms(1,5) Inr show ?thesis
    by (auto simp: create_hook_def split: prod.splits sum.splits if_splits)
qed

section \<open>Invoking a hook\<close>

lemma db_ok_add_tombstone:
  assumes ok: "db_ok c I s" and new: "\<not> tbl_exists (hook_tombstones s) k" and "tombstone_row_check v"
    and "map_of (notification_hooks s) (fst k) = Some h" and "hk_expires_at h = Some e" and "e \<le> tb_retain_until v"
  shows "db_ok c I (s\<lparr>hook_tombstones := hook_tombstones s @ [(k, v)]\<rparr>)" (is "db_ok c I ?s'")
proof -
  have "tombstones_ok ?s'"
    using assms by (auto simp: db_ok_def tombstones_ok_def keyed_snoc)
  moreover have "tbl_exists (hook_tombstones ?s') k'" if "tbl_exists (hook_tombstones s) k'" for k'
    using that by (simp add: tbl_exists_def map_add_def split: option.split)
  then have "events_ok c I ?s'" using ok unfolding db_ok_def events_ok_def by (fastforce simp: frame)
  ultimately show ?thesis using ok by (simp add: db_ok_def frame)
qed

lemma db_ok_add_event:
  assumes ok: "db_ok c I s" and new: "\<not> tbl_exists (notification_events s) k" and "k \<in> I" and "event_row_check e"
    and "tbl_exists (notification_hooks s) (ev_hook_id e)"
    and "\<And>key. ev_caller_idempotency_key e = Some key \<Longrightarrow> tbl_exists (hook_tombstones s) (ev_hook_id e, key)"
    and clash: "\<And>k' e'. (k', e') \<in> set (notification_events s) \<Longrightarrow> \<not> same_event_key e e'"
  shows "db_ok c I (s\<lparr>notification_events := notification_events s @ [(k, e)]\<rparr>)" (is "db_ok c I ?s'")
proof -
  have "unique_under same_event_key (notification_events s @ [(k, e)])"
  proof (rule unique_under_snoc)
    show "unique_under same_event_key (notification_events s)" using ok by (simp add: db_ok_def events_ok_def)
    show "\<not> same_event_key e e' \<and> \<not> same_event_key e' e" if "(k', e') \<in> set (notification_events s)" for k' e'
      using clash [OF that] by (auto simp: same_event_key_def)
  qed
  then have "events_ok c I ?s'"
    using assms(1-6) by (auto simp: db_ok_def events_ok_def keyed_snoc frame)
  moreover have "tbl_exists (notification_events ?s') k'" if "tbl_exists (notification_events s) k'" for k'
    using that by (simp add: tbl_exists_def map_add_def split: option.split)
  then have "outbox_ok c I ?s'" using ok unfolding db_ok_def outbox_ok_def by fastforce
  ultimately show ?thesis using ok by (simp add: db_ok_def frame)
qed

lemma db_ok_add_outbox:
  assumes ok: "db_ok c I s" and new: "\<not> tbl_exists (delivery_outbox s) k" and "k \<in> I" and "outbox_row_ok c I b"
    and "tbl_exists (notification_events s) (ob_event_id b)"
    and clash: "\<And>k' b'. (k', b') \<in> set (delivery_outbox s) \<Longrightarrow> \<not> same_target b b'"
  shows "db_ok c I (s\<lparr>delivery_outbox := delivery_outbox s @ [(k, b)]\<rparr>)" (is "db_ok c I ?s'")
proof -
  have "unique_under same_target (delivery_outbox s @ [(k, b)])"
  proof (rule unique_under_snoc)
    show "unique_under same_target (delivery_outbox s)" using ok by (simp add: db_ok_def outbox_ok_def)
    show "\<not> same_target b b' \<and> \<not> same_target b' b" if "(k', b') \<in> set (delivery_outbox s)" for k' b'
      using clash [OF that] by (auto simp: same_target_def)
  qed
  then have "outbox_ok c I ?s'"
    using assms(1-5) by (auto simp: db_ok_def outbox_ok_def keyed_snoc)
  then show ?thesis using ok by (simp add: db_ok_def frame)
qed

text \<open>The marker of an accepted key, and the database after the writes of an accepted invocation.\<close>

definition key_marker :: "int \<Rightarrow> int \<Rightarrow> tombstone_row" where
  "key_marker now expires =
     \<lparr> tb_target_count = 1, tb_accepted_at = now,
       tb_retain_until = max expires now + IDEMPOTENCY_CLEANUP_MARGIN_SECONDS \<rparr>"

definition invocation_written ::
  "string \<Rightarrow> string option \<Rightarrow> int \<Rightarrow> string \<Rightarrow> string \<Rightarrow> push_registration \<Rightarrow> int \<Rightarrow> string \<Rightarrow> string
    \<Rightarrow> gateway_db \<Rightarrow> gateway_db" where
  "invocation_written k key expires recipient json reg now event_id outbox_id s =
     s\<lparr>notification_events := notification_events s @ [(event_id, new_event_row k key recipient json 1 now)],
       hook_tombstones := hook_tombstones s
         @ (case key of None \<Rightarrow> [] | Some kk \<Rightarrow> [((k, kk), key_marker now expires)]),
       delivery_outbox := delivery_outbox s @ [(outbox_id, pending_row event_id json reg now)]\<rparr>"

lemma key_marker_ok:
  "0 \<le> now \<Longrightarrow> tombstone_row_check (key_marker now expires)"
  "expires \<le> tb_retain_until (key_marker now expires)"
  by (auto simp: tombstone_row_check_def key_marker_def gateway_consts)

lemma record_tombstone_marker:
  assumes "0 \<le> now" and "now < 2 ^ 62" and "expires < 2 ^ 62 + MAX_HOOK_LIFETIME_SECONDS"
    and "tbl_exists (notification_hooks s) k" and "\<not> tbl_exists (hook_tombstones s) (k, kk)"
  shows "record_tombstone k kk 1 now (Some expires) s =
    Inr (s\<lparr>hook_tombstones := hook_tombstones s @ [((k, kk), key_marker now expires)]\<rparr>)"
proof -
  have "i64_saturating (max expires now + IDEMPOTENCY_CLEANUP_MARGIN_SECONDS)
      = max expires now + IDEMPOTENCY_CLEANUP_MARGIN_SECONDS"
    using assms(1-3) by (intro i64_saturating_id) (auto simp: gateway_consts)
  then have "record_tombstone k kk 1 now (Some expires) s = insert_tombstone (k, kk) (key_marker now expires) s"
    by (simp add: record_tombstone_def key_marker_def)
  also have "insert_checked tombstone_row_check (\<lambda>_ _. False) (k, kk) (key_marker now expires) (hook_tombstones s)
      = Inr (hook_tombstones s @ [((k, kk), key_marker now expires)])"
    using assms(1,5) by (simp add: insert_checked_Inr key_marker_ok)
  then have "insert_tombstone (k, kk) (key_marker now expires) s =
      Inr (s\<lparr>hook_tombstones := hook_tombstones s @ [((k, kk), key_marker now expires)]\<rparr>)"
    using assms(4) by (simp add: insert_tombstone_def)
  finally show ?thesis .
qed

lemma unused_ids:
  assumes "db_ok c I s" and "x \<notin> I"
  shows "\<not> tbl_exists (notification_events s) x" and "\<not> tbl_exists (delivery_outbox s) x"
    and "(k, b) \<in> set (delivery_outbox s) \<Longrightarrow> ob_event_id b \<noteq> x"
proof -
  show ev: "\<not> tbl_exists (notification_events s) x"
    using assms by (fastforce simp: db_ok_def events_ok_def tbl_exists_def dest: map_of_SomeD)
  show "\<not> tbl_exists (delivery_outbox s) x"
    using assms by (fastforce simp: db_ok_def outbox_ok_def tbl_exists_def dest: map_of_SomeD)
  show "ob_event_id b \<noteq> x" if "(k, b) \<in> set (delivery_outbox s)"
  proof -
    from assms(1) that have "tbl_exists (notification_events s) (ob_event_id b)"
      by (auto simp: db_ok_def outbox_ok_def)
    with ev show ?thesis by auto
  qed
qed

lemma unmarked_key_no_event:
  assumes "db_ok now I s" and "map_of (notification_hooks s) k = Some h" and "hk_expires_at h = Some e" and "now < e"
    and "\<not> tbl_exists (hook_tombstones s) (k, kk)" and "(k', ev) \<in> set (notification_events s)"
  shows "ev_hook_id ev = k \<Longrightarrow> ev_caller_idempotency_key ev \<noteq> Some kk"
proof
  assume ev: "ev_hook_id ev = k" "ev_caller_idempotency_key ev = Some kk"
  have "\<not> hook_ended now s k" using assms(2-4) by (simp add: hook_ended_def)
  moreover have "tbl_exists (hook_tombstones s) (k, kk) \<or> hook_ended now s k"
    using assms(1,6) ev unfolding db_ok_def events_ok_def by blast
  ultimately show False using assms(5) by simp
qed

lemma write_invocation_written:
  assumes ok: "db_ok now I s" and now: "0 \<le> now" "now < 2 ^ 62"
    and fresh: "event_id \<notin> I" "ids 0 \<notin> I"
    and h: "map_of (notification_hooks s) k = Some h" "hk_expires_at h = Some e" "now < e"
    and rec: "hp_expires_at (hr_policy rec) = Some e"
    and unmarked: "\<And>kk. key = Some kk \<Longrightarrow> \<not> tbl_exists (hook_tombstones s) (k, kk)"
  shows "write_invocation gc k key rec nt [reg] now event_id ids s =
    Inr (invocation_written k key e (nt_recipient_id nt) (gc_notification_to_json gc nt) reg now event_id (ids 0) s)"
proof -
  let ?json = "gc_notification_to_json gc nt"
  let ?ev = "new_event_row k key (nt_recipient_id nt) ?json 1 now"
  let ?row = "pending_row event_id ?json reg now"
  have clash: "\<not> same_event_key ?ev ev" if "(k', ev) \<in> set (notification_events s)" for k' ev
    using unmarked_key_no_event [OF ok h unmarked that]
    by (auto simp: same_event_key_def new_event_row_def)
  have hook: "tbl_exists (notification_hooks s) k" using h by (simp add: tbl_exists_def)
  have "insert_checked event_row_check (\<lambda>_. same_event_key ?ev) event_id ?ev (notification_events s)
      = Inr (notification_events s @ [(event_id, ?ev)])"
    unfolding insert_checked_Inr
    using clash now unused_ids(1) [OF ok fresh(1)] by (auto simp: event_row_check_def new_event_row_def)
  then have ev: "insert_event event_id ?ev s = Inr (s\<lparr>notification_events := notification_events s @ [(event_id, ?ev)]\<rparr>)"
    using hook by (simp add: insert_event_def new_event_row_def)
  have "e < 2 ^ 62 + MAX_HOOK_LIFETIME_SECONDS"
    using ok h(1,2) now by (fastforce simp: db_ok_def hooks_ok_def hook_ok_def dest: map_of_SomeD)
  note tomb = record_tombstone_marker [OF now this]
  have out: "insert_outbox (ids 0) ?row t = Inr (t\<lparr>delivery_outbox := delivery_outbox t @ [(ids 0, ?row)]\<rparr>)"
    if t: "delivery_outbox t = delivery_outbox s" "tbl_exists (notification_events t) event_id" for t
  proof -
    have "insert_checked outbox_row_check (\<lambda>_. same_target ?row) (ids 0) ?row (delivery_outbox t)
        = Inr (delivery_outbox t @ [(ids 0, ?row)])"
      unfolding insert_checked_Inr
      using now unused_ids(2) [OF ok fresh(2)] unused_ids(3) [OF ok fresh(1)]
      by (auto simp: t outbox_row_check_def pending_row_def same_target_def)
    then show ?thesis using t by (simp add: insert_outbox_def pending_row_def)
  qed
  have snoc: "tbl_exists (notification_events s @ [(event_id, ?ev)]) event_id"
    by (simp add: tbl_exists_def map_add_def split: option.split)
  show ?thesis
  proof (cases key)
    case None
    then show ?thesis using ev out [of "s\<lparr>notification_events := notification_events s @ [(event_id, ?ev)]\<rparr>"] snoc
      by (simp add: write_invocation_def invocation_written_def Let_def)
  next
    case (Some kk)
    let ?s1 = "s\<lparr>notification_events := notification_events s @ [(event_id, ?ev)]\<rparr>"
    let ?s2 = "?s1\<lparr>hook_tombstones := hook_tombstones s @ [((k, kk), key_marker now e)]\<rparr>"
    have "record_tombstone k kk 1 now (Some e) ?s1 = Inr ?s2"
      using tomb [of ?s1 k kk] hook unmarked [OF Some] by simp
    then show ?thesis using ev out [of ?s2] snoc Some rec
      by (simp add: write_invocation_def invocation_written_def Let_def)
  qed
qed

lemma invocation_written_ok:
  assumes ok: "db_ok now I s" and now: "0 \<le> now"
    and fresh: "event_id \<notin> I" "x \<notin> I" "event_id \<noteq> x"
    and h: "map_of (notification_hooks s) k = Some h" "hk_expires_at h = Some e" "now < e"
    and unmarked: "\<And>kk. key = Some kk \<Longrightarrow> \<not> tbl_exists (hook_tombstones s) (k, kk)"
  shows "db_ok now (insert event_id (insert x I)) (invocation_written k key e r json reg now event_id x s)"
proof -
  let ?J = "insert event_id (insert x I)"
  let ?s1 = "s\<lparr>hook_tombstones := hook_tombstones s
      @ (case key of None \<Rightarrow> [] | Some kk \<Rightarrow> [((k, kk), key_marker now e)])\<rparr>"
  let ?ev = "new_event_row k key r json 1 now"
  let ?s2 = "?s1\<lparr>notification_events := notification_events ?s1 @ [(event_id, ?ev)]\<rparr>"
  have "db_ok now ?J s" by (rule db_ok_mono [OF ok]) auto
  then have s1: "db_ok now ?J ?s1"
    using db_ok_add_tombstone [OF _ unmarked key_marker_ok(1) [OF now] _ h(2) key_marker_ok(2)] h(1)
    by (auto split: option.split)
  then have s2: "db_ok now ?J ?s2"
  proof (rule db_ok_add_event)
    show "\<not> tbl_exists (notification_events ?s1) event_id"
      using unused_ids(1) [OF ok fresh(1)] by simp
    show "event_row_check ?ev" using now by (simp add: event_row_check_def new_event_row_def)
    show "tbl_exists (notification_hooks ?s1) (ev_hook_id ?ev)" using h(1) by (simp add: tbl_exists_def new_event_row_def)
    show "tbl_exists (hook_tombstones ?s1) (ev_hook_id ?ev, kk)" if "ev_caller_idempotency_key ?ev = Some kk" for kk
      using that by (simp add: new_event_row_def tbl_exists_def map_add_def split: option.split)
    show "\<not> same_event_key ?ev e'" if "(k', e') \<in> set (notification_events ?s1)" for k' e'
      using unmarked_key_no_event [OF ok h unmarked, of _ k' e'] that
      by (auto simp: same_event_key_def new_event_row_def)
  qed simp
  have "db_ok now ?J (?s2\<lparr>delivery_outbox := delivery_outbox ?s2 @ [(x, pending_row event_id json reg now)]\<rparr>)"
    (is "db_ok now ?J ?s3")
    using s2
  proof (rule db_ok_add_outbox)
    show "\<not> tbl_exists (delivery_outbox ?s2) x" using unused_ids(2) [OF ok fresh(2)] by simp
    show "outbox_row_ok now ?J (pending_row event_id json reg now)"
      using now by (simp add: outbox_row_ok_def outbox_row_check_def pending_row_def)
    show "tbl_exists (notification_events ?s2) (ob_event_id (pending_row event_id json reg now))"
      by (simp add: pending_row_def tbl_exists_def map_add_def split: option.split)
    show "\<not> same_target (pending_row event_id json reg now) b'" if "(k', b') \<in> set (delivery_outbox ?s2)" for k' b'
      using unused_ids(3) [OF ok fresh(1), of k' b'] that by (auto simp: same_target_def pending_row_def)
  qed simp
  moreover have "?s3 = invocation_written k key e r json reg now event_id x s"
    by (rule gateway_db.equality) (simp_all add: invocation_written_def)
  ultimately show ?thesis by simp
qed

lemma hook_record_from_row_facts:
  assumes "hook_record_from_row gc k h = Inr rec"
  shows "hp_expires_at (hr_policy rec) = hk_expires_at h" and "hr_recipient_id rec = hk_recipient_id h"
    and "hr_installation_id rec = hk_installation_id h" and "hr_hook_id rec = k"
    and "hr_use_count rec = hk_use_count h" and "hr_revoked_at rec = hk_revoked_at h"
    and "hp_max_uses (hr_policy rec) = hk_max_uses h"
  using assms by (auto simp: hook_record_from_row_def and_then_eq_Inr)

lemma consume_hook_once:
  assumes "keyed (notification_hooks s)" and "fst (consume_hook production k now s) = 1"
  obtains h where "map_of (notification_hooks s) k = Some h" and "hook_usable production now h"
proof -
  let ?p = "\<lambda>k' h. k' = k \<and> hook_usable production now h"
  from assms(2) have "filter (\<lambda>(k', h). ?p k' h) (notification_hooks s) \<noteq> []"
    by (auto simp: consume_hook_def Let_def matching_def)
  then obtain k' h where "(k', h) \<in> set (notification_hooks s)" "?p k' h"
    by (auto simp: filter_empty_conv)
  then show ?thesis using assms(1) that [of h] by (auto simp: map_of_in_set)
qed

lemma consume_hook_frame [simp]:
  "hook_tombstones (snd (consume_hook production k now s)) = hook_tombstones s"
  "notification_events (snd (consume_hook production k now s)) = notification_events s"
  "delivery_outbox (snd (consume_hook production k now s)) = delivery_outbox s"
  "push_registrations (snd (consume_hook production k now s)) = push_registrations s"
  by (simp_all add: consume_hook_def Let_def)

lemma map_of_consume_hook:
  "map_of (notification_hooks (snd (consume_hook production k now s))) k' =
     map_option (\<lambda>h. if k' = k \<and> hook_usable production now h then use_hook_row production now h else h)
       (map_of (notification_hooks s) k')"
  by (simp add: consume_hook_def Let_def map_of_update_where)

lemma backlog_caps_outbox:
  "delivery_outbox s = delivery_outbox t \<Longrightarrow>
     enforce_outbox_backlog_caps gl r n s = enforce_outbox_backlog_caps gl r n t"
  by (simp add: enforce_outbox_backlog_caps_def backlog_of_def)

text \<open>A committed invocation wrote its event, marker and row on the database with the hook used.\<close>

lemma commit_invocation_cases:
  assumes ok: "db_ok now I s" and now: "0 \<le> now" "now < 2 ^ 62"
    and fresh: "event_id \<notin> I" "ids 0 \<notin> I"
    and h: "map_of (notification_hooks s) k = Some h" and rec: "hook_record_from_row (gw_codec cfg) k h = Inr rec"
    and unmarked: "\<And>kk. iv_idempotency_key req = Some kk \<Longrightarrow> \<not> tbl_exists (hook_tombstones s) (k, kk)"
  obtains (refused) e where "commit_invocation cfg k secret req rec [reg] now later event_id ids s0 s = (Inl e, s0)"
  | (committed) e nt where "hk_expires_at h = Some e" and "hook_usable (gw_production_mode cfg) now h"
      and "nt = notification_from_hook_and_request
             (rec\<lparr>hr_use_count := i64_saturating (hr_use_count rec + 1), hr_last_used_at := Some now\<rparr>) req"
      and "enforce_outbox_backlog_caps (gw_limits cfg) (hk_recipient_id h) 1 s = Inr ()"
      and "commit_invocation cfg k secret req rec [reg] now later event_id ids s0 s =
        (Inr \<lparr> io_target_count = 1, io_enqueued_rows = True \<rparr>,
         invocation_written k (iv_idempotency_key req) e (hk_recipient_id h)
           (gc_notification_to_json (gw_codec cfg) nt) reg now event_id (ids 0)
           (snd (consume_hook (gw_production_mode cfg) k now s)))"
proof (cases "fst (consume_hook (gw_production_mode cfg) k now s) = 1")
  case False
  then have "\<exists>e. commit_invocation cfg k secret req rec [reg] now later event_id ids s0 s = (Inl e, s0)"
    by (auto simp: commit_invocation_def Let_def split_beta split: sum.split)
  then show ?thesis using refused by blast
next
  case True
  let ?s1 = "snd (consume_hook (gw_production_mode cfg) k now s)"
  let ?rec = "rec\<lparr>hr_use_count := i64_saturating (hr_use_count rec + 1), hr_last_used_at := Some now\<rparr>"
  let ?nt = "notification_from_hook_and_request ?rec req"
  have keyed: "keyed (notification_hooks s)" using ok by (simp add: db_ok_def hooks_ok_def)
  from consume_hook_once [OF keyed True] h have usable: "hook_usable (gw_production_mode cfg) now h" by auto
  from ok h have "hook_ok now h" by (auto simp: db_ok_def hooks_ok_def dest!: map_of_SomeD)
  then obtain e where e: "hk_expires_at h = Some e" by (auto simp: hook_ok_def)
  have "now < e" using usable e by (simp add: hook_usable_def)
  have r: "nt_recipient_id ?nt = hk_recipient_id h"
    using hook_record_from_row_facts(2) [OF rec] by (simp add: notification_from_hook_and_request_def Let_def)
  have "hp_expires_at (hr_policy ?rec) = Some e" using hook_record_from_row_facts(1) [OF rec] e by simp
  moreover have "map_of (notification_hooks ?s1) k = Some (use_hook_row (gw_production_mode cfg) now h)"
    using h usable by (simp add: map_of_consume_hook)
  ultimately have w: "write_invocation (gw_codec cfg) k (iv_idempotency_key req) ?rec ?nt [reg] now event_id ids ?s1 =
      Inr (invocation_written k (iv_idempotency_key req) e (nt_recipient_id ?nt)
        (gc_notification_to_json (gw_codec cfg) ?nt) reg now event_id (ids 0) ?s1)"
    using e unmarked \<open>now < e\<close>
    by (intro write_invocation_written [where I = I and h = "use_hook_row (gw_production_mode cfg) now h"]
        consume_hook_ok ok now fresh) (simp_all add: use_hook_row_keeps)
  have caps: "enforce_outbox_backlog_caps gl r' n ?s1 = enforce_outbox_backlog_caps gl r' n s" for gl r' n
    by (rule backlog_caps_outbox) simp
  show ?thesis
  proof (cases "and_then (enforce_outbox_backlog_caps (gw_limits cfg) (hk_recipient_id h) 1 s)
      (\<lambda>_. validate_fcm_outbound_notification (gw_codec cfg) ?nt)")
    case (Inl e')
    then have "commit_invocation cfg k secret req rec [reg] now later event_id ids s0 s = (Inl e', s0)"
      using True by (auto simp: commit_invocation_def Let_def split_beta r caps and_then_eq_Inl)
    then show ?thesis by (rule refused)
  next
    case (Inr u)
    then have "enforce_outbox_backlog_caps (gw_limits cfg) (hk_recipient_id h) 1 s = Inr ()"
      "validate_fcm_outbound_notification (gw_codec cfg) ?nt = Inr u"
      by (auto simp: and_then_eq_Inr)
    then show ?thesis
      using True w by (intro committed [OF e usable refl])
        (simp_all add: commit_invocation_def Let_def split_beta r caps to_internal_def)
  qed
qed

text \<open>The database an invocation commits on: expired markers swept when it carries a key.\<close>

definition swept_markers :: "gateway_config \<Rightarrow> invoke_request \<Rightarrow> int \<Rightarrow> gateway_db \<Rightarrow> gateway_db" where
  "swept_markers cfg req now s =
     (if iv_idempotency_key req = None then s
      else purge_expired_tombstones now (gl_admission_gc_batch_size (gw_limits cfg)) s)"

lemma purge_expired_tombstones_frame [simp]:
  "notification_hooks (purge_expired_tombstones now batch s) = notification_hooks s"
  "notification_events (purge_expired_tombstones now batch s) = notification_events s"
  "delivery_outbox (purge_expired_tombstones now batch s) = delivery_outbox s"
  "push_registrations (purge_expired_tombstones now batch s) = push_registrations s"
  by (simp_all add: purge_expired_tombstones_def)

lemma swept_markers_frame [simp]:
  "notification_hooks (swept_markers cfg req now s) = notification_hooks s"
  "notification_events (swept_markers cfg req now s) = notification_events s"
  "delivery_outbox (swept_markers cfg req now s) = delivery_outbox s"
  "push_registrations (swept_markers cfg req now s) = push_registrations s"
  by (simp_all add: swept_markers_def)

lemma swept_markers_ok: "db_ok c I s \<Longrightarrow> now \<le> c \<Longrightarrow> db_ok c I (swept_markers cfg req now s)"
  by (simp add: swept_markers_def purge_expired_tombstones_ok)

lemma swept_markers_none:
  assumes "tombstones_ok s" and "\<not> tbl_exists (hook_tombstones s) k"
  shows "\<not> tbl_exists (hook_tombstones (swept_markers cfg req now s)) k"
  using assms
  by (auto simp: swept_markers_def purge_expired_tombstones_def tbl_exists_def tombstones_ok_def map_of_delete_keys)

text \<open>Up to the transaction's writes: refused, answered from the marker, or tried.\<close>

lemma accept_invocation_attempts:
  obtains (no) e l' where "accept_invocation cfg source k secret req clk event_id ids l s = (Inl e, l', s)"
  | (old) h kk n where "map_of (notification_hooks s) k = Some h"
      and "constant_time_eq (str_bytes (hk_secret_hash h)) (str_bytes (gc_hash_hex (gw_codec cfg) secret))"
      and "\<And>e. hk_expires_at h = Some e \<Longrightarrow> clk 0 < e"
      and "iv_idempotency_key req = Some kk" and "retained_target_count k kk s = Some n"
      and "accept_invocation cfg source k secret req clk event_id ids l s =
        (Inr \<lparr> io_target_count = n, io_enqueued_rows = False \<rparr>, l, s)"
  | (tried) h rec reg l1 where "map_of (notification_hooks s) k = Some h"
      and "constant_time_eq (str_bytes (hk_secret_hash h)) (str_bytes (gc_hash_hex (gw_codec cfg) secret))"
      and "hook_record_from_row (gw_codec cfg) k h = Inr rec"
      and "(case iv_idempotency_key req of None \<Rightarrow> None | Some kk \<Rightarrow> retained_target_count k kk s) = None"
      and "eligible_installation (hr_recipient_id rec) (hr_installation_id rec) (registration_cutoff cfg (clk 0)) s = Some reg"
      and "accept_invocation cfg source k secret req clk event_id ids l s =
        (case commit_invocation cfg k secret req rec [reg] (clk 0) (clk 3) event_id ids s
                (swept_markers cfg req (clk 0) s) of (r, s2) \<Rightarrow> (r, l1, s2))"
proof -
  note accept = accept_invocation_def [of cfg source k secret req clk event_id ids l s]
  let ?marked = "case iv_idempotency_key req of None \<Rightarrow> None | Some kk \<Rightarrow> retained_target_count k kk s"
  show ?thesis
  proof (cases "map_of (notification_hooks s) k")
    case None
    then show ?thesis by (intro no) (simp add: accept)
  next
    case h: (Some h)
    show ?thesis
    proof (cases "constant_time_eq (str_bytes (hk_secret_hash h)) (str_bytes (gc_hash_hex (gw_codec cfg) secret))")
      case False
      with h show ?thesis by (intro no) (simp add: accept)
    next
      case secret: True
      show ?thesis
      proof (cases "hook_record_from_row (gw_codec cfg) k h")
        case (Inl e)
        with h secret show ?thesis by (intro no) (simp add: accept)
      next
        case rec: (Inr rec)
        show ?thesis
        proof (cases "classify_hook_capability_terminated rec (clk 0)")
          case (Some rejection)
          with h secret rec show ?thesis by (intro no) (simp add: accept)
        next
          case live: None
          note known = h secret rec live
          show ?thesis
          proof (cases ?marked)
            case (Some n)
            then obtain kk where "iv_idempotency_key req = Some kk" "retained_target_count k kk s = Some n"
              by (auto split: option.splits)
            with known hook_record_from_row_facts(1) [OF rec] show ?thesis
              by (intro old [OF h secret])
                 (auto simp: accept classify_hook_capability_terminated_def split: if_splits option.splits)
          next
            case unmarked: None
            show ?thesis
            proof (cases "classify_hook_before_target rec (clk 0)")
              case (Some rejection)
              with known unmarked show ?thesis by (intro no) (simp add: accept)
            next
              case usable: None
              show ?thesis
              proof (cases "eligible_installation (hr_recipient_id rec) (hr_installation_id rec)
                  (registration_cutoff cfg (clk 0)) s")
                case None
                with known unmarked usable show ?thesis by (intro no) (simp add: accept)
              next
                case reg: (Some reg)
                let ?fit = "if iv_idempotency_key req = None then (True, s)
                  else ensure_capacity (clk 0) (gl_max_hook_rows_global (gw_limits cfg))
                         (gl_admission_gc_batch_size (gw_limits cfg)) s"
                obtain lim l1 where lim: "enforce_invocation_rate_limits (gw_limits cfg) source k (clk 1) (clk 2) l = (lim, l1)"
                  by fastforce
                have s1: "snd ?fit = swept_markers cfg req (clk 0) s"
                  by (simp add: swept_markers_def ensure_capacity_def Let_def)
                show ?thesis
                proof (cases "fst ?fit \<and> lim = Inr ()")
                  case False
                  with known unmarked usable reg lim show ?thesis
                    by (intro no [of "if fst ?fit then projl lim else ApiError 503 ''idempotency_capacity_exceeded''"
                              "if fst ?fit then l1 else l"])
                       (cases lim; simp add: accept Let_def split_beta)
                next
                  case True
                  with known unmarked usable reg lim s1 show ?thesis
                    by (intro tried [OF h secret rec unmarked reg, of l1]) (simp add: accept Let_def split_beta)
                qed
              qed
            qed
          qed
        qed
      qed
    qed
  qed
qed

lemma accept_invocation_cases:
  assumes ok: "db_ok (clk 0) I s" and now: "0 \<le> clk 0" "clk 0 < 2 ^ 62"
    and fresh: "event_id \<notin> I" "ids 0 \<notin> I"
  obtains (refused) e l' where "accept_invocation cfg source k secret req clk event_id ids l s = (Inl e, l', s)"
  | (repeated) h kk n where "map_of (notification_hooks s) k = Some h"
      and "constant_time_eq (str_bytes (hk_secret_hash h)) (str_bytes (gc_hash_hex (gw_codec cfg) secret))"
      and "\<And>e. hk_expires_at h = Some e \<Longrightarrow> clk 0 < e"
      and "iv_idempotency_key req = Some kk" and "retained_target_count k kk s = Some n"
      and "accept_invocation cfg source k secret req clk event_id ids l s =
        (Inr \<lparr> io_target_count = n, io_enqueued_rows = False \<rparr>, l, s)"
  | (accepted) h e rec nt reg l' where "map_of (notification_hooks s) k = Some h"
      and "constant_time_eq (str_bytes (hk_secret_hash h)) (str_bytes (gc_hash_hex (gw_codec cfg) secret))"
      and "hk_expires_at h = Some e" and "hook_usable (gw_production_mode cfg) (clk 0) h"
      and "\<And>kk. iv_idempotency_key req = Some kk \<Longrightarrow> retained_target_count k kk s = None"
      and "eligible_installation (hk_recipient_id h) (hk_installation_id h) (registration_cutoff cfg (clk 0)) s = Some reg"
      and "hook_record_from_row (gw_codec cfg) k h = Inr rec"
      and "nt = notification_from_hook_and_request
             (rec\<lparr>hr_use_count := i64_saturating (hr_use_count rec + 1), hr_last_used_at := Some (clk 0)\<rparr>) req"
      and "enforce_outbox_backlog_caps (gw_limits cfg) (hk_recipient_id h) 1 s = Inr ()"
      and "accept_invocation cfg source k secret req clk event_id ids l s =
        (Inr \<lparr> io_target_count = 1, io_enqueued_rows = True \<rparr>, l',
         invocation_written k (iv_idempotency_key req) e (hk_recipient_id h)
           (gc_notification_to_json (gw_codec cfg) nt) reg (clk 0) event_id (ids 0)
           (snd (consume_hook (gw_production_mode cfg) k (clk 0) (swept_markers cfg req (clk 0) s))))"
proof -
  let ?s1 = "swept_markers cfg req (clk 0) s"
  show ?thesis
  proof (rule accept_invocation_attempts [of cfg source k secret req clk event_id ids l s])
    fix e l' assume "accept_invocation cfg source k secret req clk event_id ids l s = (Inl e, l', s)"
    then show ?thesis by (rule refused)
  next
    fix h kk n
    assume "map_of (notification_hooks s) k = Some h"
      "constant_time_eq (str_bytes (hk_secret_hash h)) (str_bytes (gc_hash_hex (gw_codec cfg) secret))"
      "\<And>e. hk_expires_at h = Some e \<Longrightarrow> clk 0 < e"
      "iv_idempotency_key req = Some kk" "retained_target_count k kk s = Some n"
      "accept_invocation cfg source k secret req clk event_id ids l s =
         (Inr \<lparr> io_target_count = n, io_enqueued_rows = False \<rparr>, l, s)"
    then show ?thesis by (rule repeated)
  next
    fix h rec reg l1
    assume tried: "map_of (notification_hooks s) k = Some h"
      "constant_time_eq (str_bytes (hk_secret_hash h)) (str_bytes (gc_hash_hex (gw_codec cfg) secret))"
      "hook_record_from_row (gw_codec cfg) k h = Inr rec"
      "(case iv_idempotency_key req of None \<Rightarrow> None | Some kk \<Rightarrow> retained_target_count k kk s) = None"
      "eligible_installation (hr_recipient_id rec) (hr_installation_id rec) (registration_cutoff cfg (clk 0)) s = Some reg"
      "accept_invocation cfg source k secret req clk event_id ids l s =
         (case commit_invocation cfg k secret req rec [reg] (clk 0) (clk 3) event_id ids s ?s1 of
            (r, s2) \<Rightarrow> (r, l1, s2))"
    note facts = hook_record_from_row_facts [OF tried(3)]
    have ok1: "db_ok (clk 0) I ?s1" using ok by (simp add: swept_markers_ok)
    have h1: "map_of (notification_hooks ?s1) k = Some h" using tried(1) by simp
    have unmarked: "retained_target_count k kk s = None" if "iv_idempotency_key req = Some kk" for kk
      using tried(4) that by simp
    then have none: "\<not> tbl_exists (hook_tombstones ?s1) (k, kk)" if "iv_idempotency_key req = Some kk" for kk
      using that ok unmarked [OF that]
      by (intro swept_markers_none) (simp_all add: db_ok_def retained_target_count_def tbl_exists_def)
    show ?thesis
    proof (rule commit_invocation_cases [where ?s0.0 = s and secret = secret and reg = reg and later = "clk 3" and ids = ids and req = req,
          OF ok1 now fresh h1 tried(3)])
      fix kk assume "iv_idempotency_key req = Some kk"
      then show "\<not> tbl_exists (hook_tombstones ?s1) (k, kk)" by (rule none)
    next
      fix e assume "commit_invocation cfg k secret req rec [reg] (clk 0) (clk 3) event_id ids s ?s1 = (Inl e, s)"
      with tried(6) show ?thesis by (intro refused) simp
    next
      fix e nt
      assume *: "hk_expires_at h = Some e" "hook_usable (gw_production_mode cfg) (clk 0) h"
        "nt = notification_from_hook_and_request
           (rec\<lparr>hr_use_count := i64_saturating (hr_use_count rec + 1), hr_last_used_at := Some (clk 0)\<rparr>) req"
        "enforce_outbox_backlog_caps (gw_limits cfg) (hk_recipient_id h) 1 ?s1 = Inr ()"
        "commit_invocation cfg k secret req rec [reg] (clk 0) (clk 3) event_id ids s ?s1 =
          (Inr \<lparr> io_target_count = 1, io_enqueued_rows = True \<rparr>,
           invocation_written k (iv_idempotency_key req) e (hk_recipient_id h)
             (gc_notification_to_json (gw_codec cfg) nt) reg (clk 0) event_id (ids 0)
             (snd (consume_hook (gw_production_mode cfg) k (clk 0) ?s1)))"
      show ?thesis
      proof (rule accepted [OF tried(1,2) *(1,2) unmarked _ tried(3) *(3)])
        show "eligible_installation (hk_recipient_id h) (hk_installation_id h) (registration_cutoff cfg (clk 0)) s = Some reg"
          using tried(5) facts by simp
        show "enforce_outbox_backlog_caps (gw_limits cfg) (hk_recipient_id h) 1 s = Inr ()"
          using *(4) by (simp add: backlog_caps_outbox [of ?s1 s])
      qed (simp_all add: tried(6) *(5))
    qed
  qed
qed

lemma invoke_hook_ok:
  assumes ok: "db_ok (clk 0) I s" and now: "0 \<le> clk 0" "clk 0 < 2 ^ 62"
    and fresh: "event_id \<notin> I" "ids 0 \<notin> I" "event_id \<noteq> ids 0"
    and "invoke_hook cfg peer headers admitted k secret req clk event_id ids l s = (res, l', s')"
  shows "db_ok (clk 0) (insert event_id (insert (ids 0) I)) s'"
proof -
  have old: "db_ok (clk 0) (insert event_id (insert (ids 0) I)) s"
    by (rule db_ok_mono [OF ok]) auto
  have acc: "db_ok (clk 0) (insert event_id (insert (ids 0) I))
      (snd (snd (accept_invocation cfg source k secret req clk event_id ids l s)))" for source
  proof (rule accept_invocation_cases [of clk I s event_id ids cfg source k secret req l, OF ok now fresh(1,2)])
    fix e l' assume "accept_invocation cfg source k secret req clk event_id ids l s = (Inl e, l', s)"
    with old show ?thesis by simp
  next
    fix h kk n assume "accept_invocation cfg source k secret req clk event_id ids l s =
        (Inr \<lparr> io_target_count = n, io_enqueued_rows = False \<rparr>, l, s)"
    with old show ?thesis by simp
  next
    fix h e rec nt reg l'
    let ?s1 = "swept_markers cfg req (clk 0) s"
    let ?s2 = "snd (consume_hook (gw_production_mode cfg) k (clk 0) ?s1)"
    assume h: "map_of (notification_hooks s) k = Some h" "hk_expires_at h = Some e"
        "hook_usable (gw_production_mode cfg) (clk 0) h"
      and unmarked: "\<And>kk. iv_idempotency_key req = Some kk \<Longrightarrow> retained_target_count k kk s = None"
      and res: "accept_invocation cfg source k secret req clk event_id ids l s =
        (Inr \<lparr> io_target_count = 1, io_enqueued_rows = True \<rparr>, l',
         invocation_written k (iv_idempotency_key req) e (hk_recipient_id h)
           (gc_notification_to_json (gw_codec cfg) nt) reg (clk 0) event_id (ids 0) ?s2)"
    have ok2: "db_ok (clk 0) I ?s2"
      by (intro consume_hook_ok swept_markers_ok ok now) simp
    have "db_ok (clk 0) (insert event_id (insert (ids 0) I))
        (invocation_written k (iv_idempotency_key req) e (hk_recipient_id h)
           (gc_notification_to_json (gw_codec cfg) nt) reg (clk 0) event_id (ids 0) ?s2)"
    proof (rule invocation_written_ok [OF ok2 now(1) fresh])
      show "map_of (notification_hooks ?s2) k = Some (use_hook_row (gw_production_mode cfg) (clk 0) h)"
        using h by (simp add: map_of_consume_hook)
      show "hk_expires_at (use_hook_row (gw_production_mode cfg) (clk 0) h) = Some e"
        using h by (simp add: use_hook_row_keeps)
      show "clk 0 < e" using h by (simp add: hook_usable_def)
      show "\<not> tbl_exists (hook_tombstones ?s2) (k, kk)" if "iv_idempotency_key req = Some kk" for kk
        using unmarked [OF that] ok swept_markers_none [of s "(k, kk)" cfg req "clk 0"]
        by (simp add: db_ok_def retained_target_count_def tbl_exists_def)
    qed
    with res show ?thesis by simp
  qed
  show ?thesis
    using assms(7) old acc [of "effective_source_prefix (gw_ip_text cfg) peer headers (gl_trusted_proxy_cidrs (gw_limits cfg))"]
    by (auto simp: invoke_hook_def split: sum.splits if_splits)
qed

section \<open>Completions, administration, startup\<close>

lemma mark_invalid_token_ok:
  assumes "db_ok c I s" and "0 \<le> now"
  shows "db_ok c I (snd (mark_invalid_token_and_disable_registration d reason now s))"
proof -
  have "db_ok c I (s\<lparr>delivery_outbox := update_where (claim_holds (cd_outbox_id d) (cd_claim_id d))
      (invalid_token_row now reason) (delivery_outbox s)\<rparr>)" (is "db_ok c I ?s1")
    using assms by (simp add: db_ok_outbox_update outbox_row_ok_changes)
  with disable_ok [OF this assms(2)] show ?thesis
    by (simp add: mark_invalid_token_and_disable_registration_def Let_def)
qed

lemma complete_delivery_ok:
  assumes "db_ok c I s" and "0 \<le> now" and "c \<le> now"
  shows "db_ok c I (complete_delivery d answer now db_now s)"
  using assms
  by (auto simp: complete_delivery_def mark_succeeded_ok mark_failed_ok mark_invalid_token_ok
      split: sum.split option.split)

lemma replay_rows_ok:
  "replay_rows now db_now ks s = Inr s' \<Longrightarrow> db_ok c I s \<Longrightarrow> 0 \<le> now \<Longrightarrow> db_ok c I s'"
proof (induction ks arbitrary: s)
  case (Cons k ks)
  let ?p = "\<lambda>k' b. k' = k \<and> ob_status b = DeadLetter \<and> \<not> deadline_passed db_now b"
  have "db_ok c I (s\<lparr>delivery_outbox := update_where ?p (replay_row now) (delivery_outbox s)\<rparr>)"
    using Cons.prems by (intro db_ok_outbox_update) (simp_all add: outbox_row_ok_changes)
  with Cons.prems Cons.IH show ?case by (auto simp: Let_def split: if_splits)
qed simp

lemma replay_dead_letter_rows_ok:
  assumes "db_ok c I s" and "0 \<le> now"
  shows "db_ok c I (snd (replay_dead_letter_rows sel dry_run now db_now s))"
  using assms replay_rows_ok [OF _ assms]
  by (auto simp: replay_dead_letter_rows_def gw_tx_def and_then_def split: sum.split)

lemma delete_dead_letters_ok: "db_ok c I s \<Longrightarrow> db_ok c I (snd (delete_dead_letters ks s))"
  by (induction ks arbitrary: s) (simp_all add: Let_def split_beta db_ok_outbox_delete)

lemma delete_dead_letter_rows_ok:
  "db_ok c I s \<Longrightarrow> db_ok c I (snd (delete_dead_letter_rows sel dry_run s))"
  using delete_dead_letters_ok [of c I s]
  by (auto simp: delete_dead_letter_rows_def gw_tx_def and_then_def split: sum.split) (metis snd_conv)

lemma purge_retained_ok:
  assumes "db_ok c I s" and "idempotency_cutoff \<le> c"
  shows "db_ok c I (snd (purge_retained_sensitive_data cutoff idempotency_cutoff s))"
proof -
  define s1 where "s1 = s\<lparr>delivery_outbox := delete_where (\<lambda>_ b. \<not> row_active b \<and> ob_updated_at b < cutoff) (delivery_outbox s)\<rparr>"
  define s2 where "s2 = s1\<lparr>push_registrations := delete_where
      (\<lambda>_ v. case pr_disabled_at v of None \<Rightarrow> False | Some d \<Rightarrow> d < cutoff) (push_registrations s1)\<rparr>"
  define s3 where "s3 = delete_events (map fst (filter (\<lambda>(k, e). ev_created_at e < cutoff
      \<and> (\<forall>(_, b) \<in> set (delivery_outbox s2). ob_event_id b \<noteq> k)) (notification_events s2))) s2"
  have ok1: "db_ok c I s1" using assms(1) by (simp add: s1_def db_ok_outbox_delete)
  have "registrations_ok s2" using ok1 by (simp add: s2_def db_ok_def registrations_ok_delete)
  then have "db_ok c I s2"
    using ok1 by (intro db_ok_only_registrations [OF ok1]) (simp_all add: s2_def only_registrations_updates)
  then have ok3: "db_ok c I s3" by (simp add: s3_def db_ok_delete_events)
  have "db_ok c I (s3\<lparr>hook_tombstones := delete_where (\<lambda>_ v. tb_retain_until v < idempotency_cutoff) (hook_tombstones s3)\<rparr>)"
    using assms(2) by (intro db_ok_delete_tombstones ok3) simp
  then show ?thesis
    by (simp add: purge_retained_sensitive_data_def Let_def s3_def s2_def s1_def)
qed

lemma start_gateway_ok:
  assumes "db_ok c I s" and "\<And>i. 0 \<le> clk i" and "\<And>i. clk i \<le> c" and "start_gateway cfg clk s = Inr s'"
  shows "db_ok c I s'"
proof -
  let ?s1 = "purge_sensitive_terminal_data cfg (clk 0) s"
  have "db_ok c I ?s1" using assms by (simp add: purge_sensitive_terminal_data_def purge_retained_ok)
  then have "db_ok c I (snd (purge_stale (registration_cutoff cfg (clk 1)) (clk 1) ?s1))"
    by (rule purge_stale_ok)
  then have "db_ok c I (snd (purge_terminal_unreferenced (clk 1) (snd (purge_stale (registration_cutoff cfg (clk 1)) (clk 1) ?s1))))"
    by (simp add: purge_terminal_unreferenced_def Let_def db_ok_delete_hooks)
  moreover from assms(4) obtain u where "u = snd (purge_terminal_unreferenced (clk 1)
      (snd (purge_stale (registration_cutoff cfg (clk 1)) (clk 1) ?s1)))" "s' = snd (reset_in_progress (clk 2) u)"
    by (auto simp: start_gateway_def connect_gateway_def purge_expired_admission_data_def and_then_eq_Inr
        split: prod.splits sum.splits)
  ultimately show ?thesis using assms(2) by (simp add: reset_in_progress_ok)
qed

section \<open>Every step keeps the invariant\<close>

lemma register_installation_ok:
  assumes "register_installation cfg peer headers r req validation admitted clk l s = (res, l', s')"
    and "db_ok c I s" and "\<And>i. 0 \<le> clk i"
  shows "db_ok c I s'"
proof -
  have "s' = s \<or> s' = snd (admit_installation r req (registration_cutoff cfg (clk 2))
      (registration_limits_of (gw_limits cfg)) (clk 3) s)"
    using assms(1) by (auto simp: register_installation_def split: sum.splits prod.splits if_splits)
  with assms(2,3) admit_installation_ok(1) show ?thesis by blast
qed

lemma unregister_installation_ok:
  assumes "unregister_installation cfg peer headers r i admitted clk l s = (res, l', s')" and "db_ok c I s"
  shows "db_ok c I s'"
proof -
  have "s' = s \<or> s' = snd (delete_installation r i (clk 2) s)"
    using assms(1) by (auto simp: unregister_installation_def split: sum.splits prod.splits if_splits)
  with assms(2) delete_installation_ok(1) show ?thesis by blast
qed

lemma disable_registration_ok:
  assumes "disable_registration cfg peer headers r i reason admitted clk l s = (res, l', s')"
    and "db_ok c I s" and "\<And>i. 0 \<le> clk i"
  shows "db_ok c I s'"
proof -
  have "s' = s \<or> s' = snd (disable_installation r i reason (clk 2) s)"
    using assms(1) by (auto simp: disable_registration_def Let_def split: sum.splits prod.splits if_splits)
  with disable_ok [OF assms(2,3)] assms(2) show ?thesis by (auto simp: disable_installation_def)
qed

lemma revoke_hook_ok:
  assumes "revoke_hook r k admitted now s = (res, s')" and "db_ok c I s" and "0 \<le> now"
  shows "db_ok c I s'"
proof -
  have "s' = s \<or> s' = snd (revoke_hook_row k r now s)"
    using assms(1) by (auto simp: revoke_hook_def Let_def split: sum.splits prod.splits if_splits)
  with assms(2,3) revoke_hook_row_ok show ?thesis by blast
qed

lemma readings_inv:
  assumes "readings g clk c" and "gateway_inv g"
  shows "db_ok (g_clock g) (set (g_issued g)) (g_db g)" and "db_ok c (set (g_issued g)) (g_db g)"
    and "db_ok (clk i) (set (g_issued g)) (g_db g)"
    and "0 \<le> clk i" and "clk i \<le> c" and "g_clock g \<le> clk i" and "clk i < 2 ^ 62" and "0 \<le> c" and "c < 2 ^ 62"
proof -
  note r = readings_clock [OF assms(1)]
  have "0 \<le> g_clock g" using assms(2) by (simp add: gateway_inv_def)
  with r(1,2) [of i] r(3,4)
  show "0 \<le> clk i" "clk i \<le> c" "g_clock g \<le> clk i" "clk i < 2 ^ 62" "0 \<le> c" "c < 2 ^ 62" by linarith+
  show ok: "db_ok (g_clock g) (set (g_issued g)) (g_db g)" using assms(2) by (simp add: gateway_inv_def)
  show "db_ok c (set (g_issued g)) (g_db g)" by (rule db_ok_mono [OF ok r(3)]) simp
  show "db_ok (clk i) (set (g_issued g)) (g_db g)" by (rule db_ok_mono [OF ok r(1)]) simp
qed

lemma gateway_step_inv:
  assumes "gateway_step cfg g g'" and "gateway_inv g"
  shows "gateway_inv g'"
proof -
  have clock: "0 \<le> g_clock g' \<and> g_clock g' < 2 ^ 62"
    using assms by (induction rule: gateway_step.induct) (auto simp: advance_def dest: readings_inv(8,9))
  have "db_ok (g_clock g') (set (g_issued g')) (g_db g')"
    using assms
  proof (induction rule: gateway_step.induct)
    case (step_register g clk c peer headers r req validation admitted res l s)
    note R = readings_inv [OF step_register(1,3)]
    from register_installation_ok [OF step_register(2) R(2) R(4)] show ?case by (simp add: advance_def)
  next
    case (step_unregister g clk c peer headers r i admitted res l s)
    note R = readings_inv [OF step_unregister(1,3)]
    from unregister_installation_ok [OF step_unregister(2) R(2)] show ?case by (simp add: advance_def)
  next
    case (step_disable g clk c peer headers r i reason admitted res l s)
    note R = readings_inv [OF step_disable(1,3)]
    from disable_registration_ok [OF step_disable(2) R(2) R(4)] show ?case by (simp add: advance_def)
  next
    case (step_create_hook g clk c hook_id r hreq admitted token hres l s)
    note R = readings_inv [OF step_create_hook(1,4)]
    have "db_ok c (insert hook_id (set (g_issued g))) (g_db g)" by (rule db_ok_mono [OF R(2)]) auto
    from create_hook_ok [OF this R(4) R(5) _ step_create_hook(3)] show ?case by (simp add: advance_def)
  next
    case (step_revoke_hook g clk c r hook_id admitted res s)
    note R = readings_inv [OF step_revoke_hook(1,3)]
    from revoke_hook_ok [OF step_revoke_hook(2) R(2) R(4)] show ?case by (simp add: advance_def)
  next
    case (step_invoke g clk c event_id ids peer headers admitted hook_id secret ireq ires l s)
    note R = readings_inv [OF step_invoke(1,4)]
    have "db_ok (clk 0) (insert event_id (insert (ids 0) (set (g_issued g)))) s"
      using step_invoke(2) by (intro invoke_hook_ok [OF R(3) R(4) R(7) _ _ _ step_invoke(3)]) (auto simp: fresh_def)
    from db_ok_mono [OF this R(5) order_refl] show ?case by (simp add: advance_def)
  next
    case (step_expire g clk c n s)
    note R = readings_inv [OF step_expire(1,3)]
    from expire_ok [OF R(2) R(4)] step_expire(2) show ?case by (simp add: advance_def) (metis snd_conv)
  next
    case (step_claim g clk c claim_id cres s)
    note R = readings_inv [OF step_claim(1,4)]
    have "db_ok (g_clock g) (insert claim_id (set (g_issued g))) (g_db g)" by (rule db_ok_mono [OF R(1)]) auto
    then have "db_ok (g_clock g) (insert claim_id (set (g_issued g))) (snd (claim_due (gw_codec cfg) (clk 0) (clk 1) claim_id (g_db g)))"
      using R(4,6) readings_clock(5) [OF step_claim(1)] by (intro claim_due_ok) auto
    with step_claim(3) have "db_ok (g_clock g) (insert claim_id (set (g_issued g))) s" by simp
    from db_ok_mono [OF this readings_clock(3) [OF step_claim(1)] order_refl] show ?case by (simp add: advance_def)
  next
    case (step_complete g clk c d answer started call s)
    note R = readings_inv [OF step_complete(1,5)]
    from complete_delivery_ok [OF R(1) R(4) R(6)] step_complete(4) have "db_ok (g_clock g) (set (g_issued g)) s" by blast
    from db_ok_mono [OF this readings_clock(3) [OF step_complete(1)] order_refl] show ?case by (simp add: advance_def)
  next
    case (step_restart g clk c s)
    note R = readings_inv [OF step_restart(1,3)]
    from start_gateway_ok [OF R(2) R(4) R(5) step_restart(2)] show ?case by (simp add: advance_def)
  next
    case (step_replay g clk c selector dry_run rres s)
    note R = readings_inv [OF step_replay(1,3)]
    from replay_dead_letter_rows_ok [OF R(2) R(4)] step_replay(2) show ?case by (simp add: advance_def) (metis snd_conv)
  next
    case (step_delete_dead g clk c selector dry_run rres s)
    note R = readings_inv [OF step_delete_dead(1,3)]
    from delete_dead_letter_rows_ok [OF R(2)] step_delete_dead(2) show ?case by (simp add: advance_def) (metis snd_conv)
  qed
  with clock show ?thesis by (simp add: gateway_inv_def)
qed

interpretation gateway: invariant_system gateway_init "gateway_step cfg" gateway_inv for cfg
  by unfold_locales (auto intro: gateway_inv_init gateway_step_inv)

end
