(* ===== verification/Gateway_Runs.thy ===== *)
theory Gateway_Runs
  imports Gateway_Preservation
begin

text \<open>
  What a step does to the markers of idempotency keys and to the outbox, summarised as relations
  between the databases before and after it, and what therefore holds along runs. The lifecycle
  of a delivery is stated here as the specification that the outbox refines.
\<close>

section \<open>Markers\<close>

text \<open>
  \<open>I\<close> are the identifiers drawn before: a deleted hook does not come back, an expiry is never
  changed, and a marker goes only with the life of its hook.
\<close>

definition marker_step :: "int \<Rightarrow> string set \<Rightarrow> gateway_db \<Rightarrow> gateway_db \<Rightarrow> bool" where
  "marker_step c I s s' \<longleftrightarrow>
     (\<forall>k. k \<in> I \<and> map_of (notification_hooks s) k = None \<longrightarrow> map_of (notification_hooks s') k = None)
     \<and> (\<forall>k h h'. map_of (notification_hooks s) k = Some h \<and> map_of (notification_hooks s') k = Some h'
          \<longrightarrow> hk_expires_at h' = hk_expires_at h)
     \<and> (\<forall>k v. map_of (hook_tombstones s) k = Some v
          \<longrightarrow> map_of (hook_tombstones s') k = Some v \<or> hook_ended c s' (fst k))"

definition keeps_markers :: "gateway_db \<Rightarrow> gateway_db \<Rightarrow> bool" where
  "keeps_markers s s' \<longleftrightarrow>
     notification_hooks s' = notification_hooks s \<and> hook_tombstones s' = hook_tombstones s"

lemma keeps_markers_refl [simp]: "keeps_markers s s"
  by (simp add: keeps_markers_def)

lemma marker_step_keeps: "keeps_markers s s' \<Longrightarrow> marker_step c I s s'"
  by (auto simp: marker_step_def keeps_markers_def)

lemma db_ok_hook_ids:
  assumes "db_ok c I s"
  shows "map_of (notification_hooks s) k = Some h \<Longrightarrow> k \<in> I"
    and "map_of (hook_tombstones s) kk = Some v \<Longrightarrow> fst kk \<in> I"
proof -
  show h: "k \<in> I" if "map_of (notification_hooks s) k = Some h" for k h
    using assms map_of_SomeD [OF that] by (auto simp: db_ok_def hooks_ok_def)
  show "fst kk \<in> I" if "map_of (hook_tombstones s) kk = Some v"
    using assms map_of_SomeD [OF that] h by (auto simp: db_ok_def tombstones_ok_def)
qed

lemma marker_step_trans:
  assumes "marker_step c I s t" and "marker_step c I t u" and ok: "db_ok c' I s"
  shows "marker_step c I s u"
proof -
  have mid: "\<exists>h1. map_of (notification_hooks t) k = Some h1"
    if "map_of (notification_hooks s) k = Some h" "map_of (notification_hooks u) k = Some h2" for k h h2
  proof (rule ccontr)
    assume "\<nexists>h1. map_of (notification_hooks t) k = Some h1"
    then have "map_of (notification_hooks t) k = None" by simp
    moreover have "k \<in> I" using db_ok_hook_ids(1) [OF ok that(1)] .
    ultimately show False using assms(2) that(2) by (auto simp: marker_step_def)
  qed
  have ended: "hook_ended c u k" if over: "hook_ended c t k" and k: "k \<in> I" for k
  proof (cases "map_of (notification_hooks u) k")
    case None
    then show ?thesis by (simp add: hook_ended_def)
  next
    case (Some h2)
    then obtain h1 where h1: "map_of (notification_hooks t) k = Some h1"
      using assms(2) k by (cases "map_of (notification_hooks t) k") (auto simp: marker_step_def)
    with Some assms(2) have "hk_expires_at h2 = hk_expires_at h1" by (auto simp: marker_step_def)
    with over h1 Some show ?thesis by (simp add: hook_ended_def)
  qed
  show ?thesis
    unfolding marker_step_def
  proof (intro conjI allI impI)
    fix k assume "k \<in> I \<and> map_of (notification_hooks s) k = None"
    then show "map_of (notification_hooks u) k = None" using assms(1,2) by (simp add: marker_step_def)
  next
    fix k h h'
    assume *: "map_of (notification_hooks s) k = Some h \<and> map_of (notification_hooks u) k = Some h'"
    with mid obtain h1 where "map_of (notification_hooks t) k = Some h1" by blast
    with * assms(1,2) show "hk_expires_at h' = hk_expires_at h" by (auto simp: marker_step_def)
  next
    fix k v assume v: "map_of (hook_tombstones s) k = Some v"
    have "map_of (hook_tombstones t) k = Some v \<or> hook_ended c t (fst k)"
      using assms(1) v unfolding marker_step_def by blast
    then show "map_of (hook_tombstones u) k = Some v \<or> hook_ended c u (fst k)"
      using assms(2) ended [OF _ db_ok_hook_ids(2) [OF ok v]] unfolding marker_step_def by blast
  qed
qed

lemma marker_step_hook_update:
  assumes "\<And>h. hk_expires_at (f h) = hk_expires_at h"
  shows "marker_step c I s (s\<lparr>notification_hooks := update_where p f (notification_hooks s)\<rparr>)"
  using assms by (auto simp: marker_step_def map_of_update_where)

lemma marker_step_delete_hooks:
  assumes ok: "db_ok c' J s"
  shows "marker_step c I s (delete_hooks ks s)"
proof -
  have hooks: "map_of (notification_hooks (delete_hooks ks s)) k =
      (if k \<in> set ks then None else map_of (notification_hooks s) k)" for k
    using ok by (simp add: delete_hooks_def Let_def delete_events_def map_of_delete_keys db_ok_def hooks_ok_def)
  have tombs: "map_of (hook_tombstones (delete_hooks ks s)) k =
      (if fst k \<in> set ks then None else map_of (hook_tombstones s) k)" for k
    using ok by (simp add: delete_hooks_def Let_def delete_events_def map_of_delete_where db_ok_def
        tombstones_ok_def split: option.split)
  show ?thesis by (auto simp: marker_step_def hooks tombs hook_ended_def)
qed

lemma marker_step_delete_tombstones:
  assumes ok: "db_ok c' J s" and "\<And>k v. (k, v) \<in> set (hook_tombstones s) \<Longrightarrow> p k v \<Longrightarrow> tb_retain_until v \<le> c"
  shows "marker_step c I s (s\<lparr>hook_tombstones := delete_where p (hook_tombstones s)\<rparr>)" (is "marker_step c I s ?s'")
proof -
  have "map_of (hook_tombstones ?s') k = Some v \<or> hook_ended c ?s' (fst k)"
    if v: "map_of (hook_tombstones s) k = Some v" for k v
  proof (cases "p k v")
    case True
    have "(k, v) \<in> set (hook_tombstones s)" using v by (rule map_of_SomeD)
    with ok assms(2) [OF this True] show ?thesis
      by (fastforce simp: db_ok_def tombstones_ok_def hook_ended_def)
  next
    case False
    with v ok show ?thesis by (simp add: db_ok_def tombstones_ok_def map_of_delete_where)
  qed
  then show ?thesis by (auto simp: marker_step_def)
qed

lemma marker_step_purge_tombstones:
  assumes ok: "db_ok c' J s" and "now \<le> c"
  shows "marker_step c I s (purge_expired_tombstones now batch s)"
proof -
  let ?sel = "select_ordered (\<lambda>_ v. tb_retain_until v) (sql_limit batch) (\<lambda>_ v. tb_retain_until v < now) (hook_tombstones s)"
  have keyed: "keyed (hook_tombstones s)" using ok by (simp add: db_ok_def tombstones_ok_def)
  have "tb_retain_until v \<le> c" if kv: "(k, v) \<in> set (hook_tombstones s)" "k \<in> set (map fst ?sel)" for k v
    using selected_row [OF keyed kv] assms(2) by simp
  then show ?thesis
    using marker_step_delete_tombstones [OF ok, of "\<lambda>k _. k \<in> set (map fst ?sel)" c I]
      marker_step_keeps [of s s c I]
    by (auto simp: purge_expired_tombstones_def delete_keys_def keeps_markers_def)
qed

text \<open>The statements on registrations and on the outbox leave the markers alone.\<close>

definition keeps_deliveries :: "gateway_db \<Rightarrow> gateway_db \<Rightarrow> bool" where
  "keeps_deliveries s s' \<longleftrightarrow> keeps_markers s s' \<and> delivery_outbox s' = delivery_outbox s"

lemma keeps_deliveries_refl [simp]: "keeps_deliveries s s"
  by (simp add: keeps_deliveries_def keeps_markers_def)

lemma keeps_deliveries_trans [trans]:
  "keeps_deliveries s t \<Longrightarrow> keeps_deliveries t u \<Longrightarrow> keeps_deliveries s u"
  by (simp add: keeps_deliveries_def keeps_markers_def)

lemma keeps_deliveries_lock: "acquire_admission_lock r now s = Inr s' \<Longrightarrow> keeps_deliveries s s'"
  by (auto simp: acquire_admission_lock_def keeps_deliveries_def keeps_markers_def split: if_splits)

lemma keeps_deliveries_only: "only_registrations s s' \<Longrightarrow> keeps_deliveries s s'"
  unfolding only_registrations_def keeps_deliveries_def keeps_markers_def
  by (metis gateway_db.surjective gateway_db.update_convs(1,2) gateway_db.select_convs(3,5,6))

lemma write_registration_keeps:
  assumes "write_registration r req now av s = Inr s'"
  shows "keeps_deliveries s s'"
proof -
  from assms obtain s3 where
    s3: "upsert_registration (r, rq_installation_id req) req now
           (release_old_token r req av (without_other_route r req av s)) = Inr s3"
    and s': "bind_token_owner r req now av s3 = Inr s'"
    by (auto simp: write_registration_alt and_then_eq_Inr)
  have "keeps_deliveries s (release_old_token r req av (without_other_route r req av s))"
    by (simp add: keeps_deliveries_def keeps_markers_def release_old_token_def without_other_route_def split: option.split)
  moreover have "keeps_deliveries (release_old_token r req av (without_other_route r req av s)) s3"
    using s3 by (auto simp: upsert_registration_def Let_def keeps_deliveries_def keeps_markers_def
        simp del: release_old_token_simps split: if_splits)
  moreover have "keeps_deliveries s3 s'"
    using s' by (auto simp: bind_token_owner_def insert_token_owner_def and_then_eq_Inr keeps_deliveries_def
        keeps_markers_def split: if_splits)
  ultimately show ?thesis using keeps_deliveries_trans by blast
qed

lemma admit_installation_keeps: "keeps_deliveries s (snd (admit_installation r req cutoff limits now s))"
proof -
  have "keeps_deliveries s s'"
    if "acquire_admission_lock ''registration'' now s = Inr s1"
      "write_registration r req now av (purge_stale_in_transaction cutoff batch s1) = Inr s'" for s1 av batch s'
    using keeps_deliveries_lock [OF that(1)] keeps_deliveries_only [OF purge_stale_tx_only]
      write_registration_keeps [OF that(2)] keeps_deliveries_trans by blast
  then show ?thesis
    by (auto simp: admit_installation_def Let_def gw_tx_def and_then_def split: sum.split)
qed

lemma registration_keeps:
  "keeps_deliveries s (snd (delete_installation r i now s))"
  "keeps_deliveries s (snd (disable_installation r i reason now s))"
  "keeps_deliveries s (snd (purge_stale cutoff now s))"
proof -
  show "keeps_deliveries s (snd (disable_installation r i reason now s))"
    by (simp add: disable_installation_def keeps_deliveries_def keeps_markers_def)
  show "keeps_deliveries s (snd (delete_installation r i now s))"
    by (simp add: delete_installation_def acquire_admission_lock_def Let_def keeps_deliveries_def keeps_markers_def)
  show "keeps_deliveries s (snd (purge_stale cutoff now s))"
    by (simp add: purge_stale_def purge_orphaned_token_owners_def acquire_admission_lock_def Let_def
        keeps_deliveries_def keeps_markers_def)
qed

lemma outbox_keeps_markers:
  "keeps_markers s (snd (expire_delivery_resolution_deadlines now db_now s))"
  "keeps_markers s (snd (claim_due gc now later x s))"
  "keeps_markers s (snd (mark_succeeded k x now db_now s))"
  "keeps_markers s (snd (mark_failed k x err now db_now s))"
  "keeps_markers s (snd (mark_invalid_token_and_disable_registration d reason now s))"
  "keeps_markers s (snd (reset_in_progress now s))"
  by (auto simp: expire_delivery_resolution_deadlines_def claim_due_def mark_succeeded_def mark_failed_def
      mark_invalid_token_and_disable_registration_def mark_corrupted_notification_dead_letter_def
      reset_in_progress_def keeps_markers_def Let_def split: option.split sum.split)

lemma complete_delivery_keeps_markers: "keeps_markers s (complete_delivery d answer now db_now s)"
  unfolding complete_delivery_def
  by (simp add: outbox_keeps_markers split: sum.split option.split)

lemma replay_rows_keeps_markers: "replay_rows now db_now ks s = Inr s' \<Longrightarrow> keeps_markers s s'"
  by (induction ks arbitrary: s) (auto simp: keeps_markers_def Let_def split: if_splits)

lemma delete_dead_letters_keeps_markers: "keeps_markers s (snd (delete_dead_letters ks s))"
  by (induction ks arbitrary: s) (simp_all add: keeps_markers_def Let_def split_beta)

lemma admin_keeps_markers:
  "keeps_markers s (snd (replay_dead_letter_rows sel dry_run now db_now s))"
  "keeps_markers s (snd (delete_dead_letter_rows sel dry_run s))"
proof -
  show "keeps_markers s (snd (replay_dead_letter_rows sel dry_run now db_now s))"
    using replay_rows_keeps_markers [of now db_now _ s]
    by (auto simp: replay_dead_letter_rows_def gw_tx_def and_then_def split: sum.split)
  show "keeps_markers s (snd (delete_dead_letter_rows sel dry_run s))"
    using delete_dead_letters_keeps_markers [of s]
    by (auto simp: delete_dead_letter_rows_def gw_tx_def and_then_def split: sum.split) (metis snd_conv)
qed

lemma marker_step_insert_hook:
  assumes "insert_hook k h s = Inr s'" and "k \<notin> I"
  shows "marker_step c I s s'"
proof -
  from assms(1) have "s' = s\<lparr>notification_hooks := notification_hooks s @ [(k, h)]\<rparr>"
    and new: "\<not> tbl_exists (notification_hooks s) k"
    by (auto simp: insert_hook_def and_then_eq_Inr insert_checked_Inr)
  with assms(2) show ?thesis
    by (auto simp: marker_step_def map_of_snoc_new [OF new] split: if_splits)
qed

lemma marker_step_purge_terminal:
  assumes ok: "db_ok c I s" and "now \<le> c"
  shows "marker_step c I s (purge_terminal_in_transaction now batch s)"
proof -
  let ?s1 = "purge_expired_tombstones now batch s"
  have "marker_step c I s ?s1" using assms by (rule marker_step_purge_tombstones)
  from marker_step_trans [OF this marker_step_delete_hooks [OF purge_expired_tombstones_ok [OF assms]] ok]
  show ?thesis by (simp add: purge_terminal_in_transaction_def Let_def marker_step_keeps)
qed

lemma marker_step_admit_hook:
  assumes ok: "db_ok c I s" and "now \<le> c" and "hook_id \<notin> I"
  shows "marker_step c I s (snd (admit_hook gc r req cutoff limits now hook_id token s))"
proof -
  obtain s1 where s1: "acquire_admission_lock ''hook'' now s = Inr s1"
    using ok acquire_hook_lock by (auto simp: db_ok_def)
  let ?s2 = "purge_terminal_in_transaction now (hl_reclamation_batch_size limits) s1"
  have ok1: "db_ok c I s1" using acquire_admission_lock_ok s1 ok by blast
  have "marker_step c I s s1"
    using keeps_deliveries_lock [OF s1] by (simp add: keeps_deliveries_def marker_step_keeps)
  from marker_step_trans [OF this marker_step_purge_terminal [OF ok1 assms(2)] ok]
  have swept: "marker_step c I s ?s2" .
  show ?thesis
  proof (cases "insert_hook hook_id (new_hook_row gc r req now token) ?s2")
    case (Inl e)
    with s1 show ?thesis by (simp add: admit_hook_def Let_def marker_step_keeps)
  next
    case (Inr s')
    from marker_step_trans [OF swept marker_step_insert_hook [OF Inr assms(3)] ok] have "marker_step c I s s'" .
    with s1 Inr show ?thesis
      by (auto simp: admit_hook_def Let_def gw_tx_def and_then_def ok_or_def marker_step_keeps split: sum.splits option.splits)
  qed
qed

lemma marker_step_create_hook:
  assumes "create_hook cfg r req admitted clk hook_id token l s = (res, l', s')"
    and "db_ok c I s" and "clk 2 \<le> c" and "hook_id \<notin> I"
  shows "marker_step c I s s'"
proof -
  have "s' = s \<or> s' = snd (admit_hook (gw_codec cfg) r req (registration_cutoff cfg (clk 1))
      (hook_limits_of (gw_limits cfg)) (clk 2) hook_id token s)"
    using assms(1) by (auto simp: create_hook_def split: sum.splits prod.splits if_splits)
  then show ?thesis using marker_step_admit_hook [OF assms(2-4)] marker_step_keeps by auto
qed

lemma marker_step_written:
  assumes "\<And>kk. key = Some kk \<Longrightarrow> \<not> tbl_exists (hook_tombstones s) (k, kk)"
  shows "marker_step c I s (invocation_written k key e r json reg now event_id x s)"
  using assms
  by (auto simp: marker_step_def invocation_written_def map_add_def tbl_exists_def split: option.split)

lemma start_gateway_parts:
  assumes "start_gateway cfg clk s = Inr s'"
  obtains s1 s2 where "s1 = snd (purge_retained_sensitive_data (cutoff_of (gw_retention_seconds cfg) (clk 0)) (clk 0) s)"
    and "s2 = snd (purge_stale (registration_cutoff cfg (clk 1)) (clk 1) s1)"
    and "s' = snd (reset_in_progress (clk 2) (snd (purge_terminal_unreferenced (clk 1) s2)))"
  using assms
  by (auto simp: start_gateway_def connect_gateway_def purge_expired_admission_data_def
      purge_sensitive_terminal_data_def and_then_eq_Inr split: prod.splits sum.splits)

section \<open>The lifecycle of a delivery\<close>

text \<open>
  The specification: the statuses a row can move to, and what never changes of it. A delivery
  succeeds, and a dead letter is replayed, only before the resolution deadline; \<open>c\<close> is the clock
  before the step. A claim is new, kept or released; a row disappears only when it is resolved.
\<close>

fun delivery_moves :: "outbox_status \<Rightarrow> outbox_status list" where
  "delivery_moves Pending = [Pending, InProgress, DeadLetter]"
| "delivery_moves Retrying = [Retrying, InProgress, DeadLetter]"
| "delivery_moves InProgress = [InProgress, Succeeded, Retrying, InvalidToken, DeadLetter, Pending]"
| "delivery_moves DeadLetter = [DeadLetter, Pending]"
| "delivery_moves Succeeded = [Succeeded]"
| "delivery_moves InvalidToken = [InvalidToken]"

definition same_delivery :: "outbox_row \<Rightarrow> outbox_row \<Rightarrow> bool" where
  "same_delivery b b' \<longleftrightarrow>
     ob_event_id b' = ob_event_id b \<and> ob_recipient_id b' = ob_recipient_id b
     \<and> ob_installation_id b' = ob_installation_id b \<and> ob_fcm_token b' = ob_fcm_token b
     \<and> ob_platform b' = ob_platform b \<and> ob_notification_json b' = ob_notification_json b
     \<and> ob_created_at b' = ob_created_at b"

definition before_deadline :: "int \<Rightarrow> outbox_row \<Rightarrow> bool" where
  "before_deadline c b \<longleftrightarrow> c < ob_created_at b + DELIVERY_RESOLUTION_DEADLINE_SECONDS"

definition row_moves :: "int \<Rightarrow> string set \<Rightarrow> outbox_row \<Rightarrow> outbox_row \<Rightarrow> bool" where
  "row_moves c I b b' \<longleftrightarrow>
     same_delivery b b'
     \<and> ob_status b' \<in> set (delivery_moves (ob_status b))
     \<and> (ob_status b \<noteq> Succeeded \<and> ob_status b' = Succeeded \<longrightarrow> before_deadline c b)
     \<and> (ob_status b = DeadLetter \<and> ob_status b' = Pending \<longrightarrow> before_deadline c b)
     \<and> (\<forall>x. ob_claim_id b' = Some x \<longrightarrow> ob_claim_id b = Some x \<or> x \<notin> I)
     \<and> ob_attempts b \<le> ob_attempts b'"

definition outbox_moves :: "int \<Rightarrow> string set \<Rightarrow> gateway_db \<Rightarrow> gateway_db \<Rightarrow> bool" where
  "outbox_moves c I s s' \<longleftrightarrow>
     (\<forall>k b. map_of (delivery_outbox s) k = Some b \<longrightarrow>
        (case map_of (delivery_outbox s') k of None \<Rightarrow> \<not> row_active b | Some b' \<Rightarrow> row_moves c I b b'))
     \<and> (\<forall>k b'. map_of (delivery_outbox s) k = None \<and> map_of (delivery_outbox s') k = Some b' \<longrightarrow>
          k \<notin> I \<and> ob_status b' = Pending \<and> ob_attempts b' = 0 \<and> ob_claim_id b' = None)"

lemma delivery_moves_refl [simp]: "st \<in> set (delivery_moves st)"
  by (cases st) simp_all

lemma row_moves_refl [simp]: "row_moves c I b b"
  by (auto simp: row_moves_def same_delivery_def)

lemma before_deadline: "\<not> deadline_passed db_now b \<Longrightarrow> c \<le> db_now \<Longrightarrow> before_deadline c b"
  by (auto simp: deadline_passed_def before_deadline_def)

lemma row_moves_changes:
  "row_active b \<Longrightarrow> row_moves c I b (expire_row now b)"
  "ob_status b = InProgress \<Longrightarrow> row_moves c I b (b\<lparr>ob_status := Pending, ob_updated_at := now\<rparr>)"
  "claimable now b \<Longrightarrow> x \<notin> I \<Longrightarrow> row_moves c I b (claim_outbox_row now x b)"
  "claimable now b \<Longrightarrow> row_moves c I b (corrupt_row later (claim_outbox_row now x b))"
  "ob_status b = InProgress \<Longrightarrow> \<not> deadline_passed db_now b \<Longrightarrow> c \<le> db_now \<Longrightarrow> row_moves c I b (succeed_row now b)"
  "ob_status b = InProgress \<Longrightarrow> st \<in> {DeadLetter, Retrying} \<Longrightarrow> row_moves c I b (fail_row st n err now db_now b)"
  "ob_status b = InProgress \<Longrightarrow> row_moves c I b (invalid_token_row now err b)"
  "ob_status b = DeadLetter \<Longrightarrow> \<not> deadline_passed db_now b \<Longrightarrow> c \<le> db_now \<Longrightarrow> row_moves c I b (replay_row now b)"
  using before_deadline [of db_now b c]
  by (auto simp: row_moves_def same_delivery_def row_active_def claimable_def expire_row_def claim_outbox_row_def
      corrupt_row_def succeed_row_def fail_row_def invalid_token_row_def replay_row_def)

lemma outbox_moves_refl: "delivery_outbox s' = delivery_outbox s \<Longrightarrow> outbox_moves c I s s'"
  by (auto simp: outbox_moves_def split: option.split)

lemma outbox_moves_update:
  assumes "keyed (delivery_outbox s)"
    and "delivery_outbox s' = update_where p f (delete_where q (delivery_outbox s))"
    and "\<And>k b. q k b \<Longrightarrow> \<not> row_active b" and "\<And>k b. p k b \<Longrightarrow> row_moves c I b (f b)"
  shows "outbox_moves c I s s'"
  using assms
  by (auto simp: outbox_moves_def map_of_update_where map_of_delete_where split: option.splits if_splits)

lemma outbox_moves_update_only:
  assumes "keyed (delivery_outbox s)" and "delivery_outbox s' = update_where p f (delivery_outbox s)"
    and "\<And>k b. p k b \<Longrightarrow> row_moves c I b (f b)"
  shows "outbox_moves c I s s'"
  using assms(2) by (intro outbox_moves_update [OF assms(1), of s' p f "\<lambda>_ _. False"] assms(3))
    (simp_all add: delete_where_def)

lemma worker_moves:
  assumes keyed: "keyed (delivery_outbox s)"
  shows "outbox_moves c I s (snd (expire_delivery_resolution_deadlines now db_now s))"
    and "c \<le> db_now \<Longrightarrow> outbox_moves c I s (snd (mark_succeeded k x now db_now s))"
    and "outbox_moves c I s (snd (mark_invalid_token_and_disable_registration d reason now s))"
    and "outbox_moves c I s (snd (reset_in_progress now s))"
proof -
  show "outbox_moves c I s (snd (expire_delivery_resolution_deadlines now db_now s))"
    by (rule outbox_moves_update_only [OF keyed, of _ "\<lambda>_ b. row_active b \<and> deadline_passed db_now b" "expire_row now"])
       (simp_all add: expire_delivery_resolution_deadlines_def Let_def row_moves_changes)
  show "outbox_moves c I s (snd (mark_succeeded k x now db_now s))" if "c \<le> db_now"
    using that
    by (intro outbox_moves_update_only [OF keyed,
          of _ "\<lambda>k' b. claim_holds k x k' b \<and> \<not> deadline_passed db_now b" "succeed_row now"])
       (auto simp: mark_succeeded_def Let_def claim_holds_def intro: row_moves_changes)
  show "outbox_moves c I s (snd (mark_invalid_token_and_disable_registration d reason now s))"
    by (rule outbox_moves_update_only [OF keyed, of _ "claim_holds (cd_outbox_id d) (cd_claim_id d)" "invalid_token_row now reason"])
       (simp_all add: mark_invalid_token_and_disable_registration_def Let_def claim_holds_def row_moves_changes)
  show "outbox_moves c I s (snd (reset_in_progress now s))"
    by (rule outbox_moves_update_only [OF keyed, of _ "\<lambda>_ b. ob_status b = InProgress"
          "\<lambda>b. b\<lparr>ob_status := Pending, ob_updated_at := now\<rparr>"])
       (simp_all add: reset_in_progress_def row_moves_changes)
qed

lemma mark_failed_moves:
  assumes keyed: "keyed (delivery_outbox s)"
  shows "outbox_moves c I s (snd (mark_failed k x err now db_now s))"
proof -
  have upd: "outbox_moves c I s (s\<lparr>delivery_outbox := update_where (claim_holds k x)
      (fail_row st n r now db_now) (delivery_outbox s)\<rparr>)" if "st \<in> {DeadLetter, Retrying}" for st n r
    using that by (intro outbox_moves_update_only [OF keyed, of _ "claim_holds k x" "fail_row st n r now db_now"])
      (auto simp: claim_holds_def intro: row_moves_changes)
  show ?thesis
    by (cases "df_kind err"; cases "map_of (delivery_outbox s) k")
       (auto simp: mark_failed_def Let_def upd intro: outbox_moves_refl)
qed

lemma complete_delivery_moves:
  assumes "keyed (delivery_outbox s)" and "c \<le> db_now"
  shows "outbox_moves c I s (complete_delivery d answer now db_now s)"
  using worker_moves [OF assms(1)] mark_failed_moves [OF assms(1)] assms(2)
  by (auto simp: complete_delivery_def intro: outbox_moves_refl split: sum.split option.split)

lemma due_row_claimable:
  assumes "due_row now s = Some (k, b)" and "keyed (delivery_outbox s)"
  shows "map_of (delivery_outbox s) k = Some b" and "claimable now b" and "ob_next_attempt_at b \<le> now"
proof -
  let ?p = "\<lambda>_ b. claimable now b \<and> ob_next_attempt_at b \<le> now"
  have "(k, b) \<in> set (select_ordered (\<lambda>_ b. (ob_next_attempt_at b, ob_created_at b)) 1 ?p (delivery_outbox s))"
    using assms(1) by (auto simp: due_row_def split: list.splits)
  with select_ordered_subset [of _ 1 ?p "delivery_outbox s"]
  have "(k, b) \<in> set (delivery_outbox s)" "claimable now b" "ob_next_attempt_at b \<le> now" by blast+
  with assms(2) show "map_of (delivery_outbox s) k = Some b" "claimable now b" "ob_next_attempt_at b \<le> now"
    by (simp_all add: map_of_in_set)
qed

lemma claim_due_rows:
  assumes "keyed (delivery_outbox s)"
  shows "map_of (delivery_outbox (snd (claim_due gc now later x s))) k = map_of (delivery_outbox s) k
   \<or> (\<exists>b. map_of (delivery_outbox s) k = Some b \<and> claimable now b
        \<and> map_of (delivery_outbox (snd (claim_due gc now later x s))) k
            \<in> {Some (claim_outbox_row now x b), Some (corrupt_row later (claim_outbox_row now x b))})"
proof (cases "due_row now s")
  case None
  then show ?thesis by (simp add: claim_due_def)
next
  case (Some kb)
  obtain k0 b0 where kb: "kb = (k0, b0)" by fastforce
  let ?t = "update_where (\<lambda>k b. k = k0 \<and> claimable now b) (claim_outbox_row now x) (delivery_outbox s)"
  have "delivery_outbox (snd (claim_due gc now later x s)) = ?t
      \<or> delivery_outbox (snd (claim_due gc now later x s)) = update_where (claim_holds k0 x) (corrupt_row later) ?t"
    using Some kb
    by (auto simp: claim_due_def Let_def mark_corrupted_notification_dead_letter_def split: option.split)
  moreover note due_row_claimable(1,2) [OF Some [unfolded kb] assms]
  ultimately show ?thesis
    by (cases "k = k0"; cases "map_of (delivery_outbox s) k") (auto simp: map_of_update_where claim_holds_def)
qed

lemma outbox_moves_rows:
  assumes "\<And>k. map_of (delivery_outbox s') k = map_of (delivery_outbox s) k
     \<or> (\<exists>b. map_of (delivery_outbox s) k = Some b
          \<and> (case map_of (delivery_outbox s') k of None \<Rightarrow> \<not> row_active b | Some b' \<Rightarrow> row_moves c I b b'))"
  shows "outbox_moves c I s s'"
  unfolding outbox_moves_def
proof (intro conjI allI impI)
  fix k b assume "map_of (delivery_outbox s) k = Some b"
  with assms [of k] show "case map_of (delivery_outbox s') k of None \<Rightarrow> \<not> row_active b | Some b' \<Rightarrow> row_moves c I b b'"
    by auto
next
  fix k b' assume "map_of (delivery_outbox s) k = None \<and> map_of (delivery_outbox s') k = Some b'"
  with assms [of k] show "k \<notin> I" "ob_status b' = Pending" "ob_attempts b' = 0" "ob_claim_id b' = None" by auto
qed

lemma claim_due_moves:
  assumes "x \<notin> I" and "keyed (delivery_outbox s)"
  shows "outbox_moves c I s (snd (claim_due gc now later x s))" (is "outbox_moves c I s ?s'")
proof (rule outbox_moves_rows)
  show "map_of (delivery_outbox ?s') k = map_of (delivery_outbox s) k
     \<or> (\<exists>b. map_of (delivery_outbox s) k = Some b
          \<and> (case map_of (delivery_outbox ?s') k of None \<Rightarrow> \<not> row_active b | Some b' \<Rightarrow> row_moves c I b b'))" for k
    using claim_due_rows [OF assms(2), of gc now later x k] assms(1) by (auto intro: row_moves_changes)
qed

lemma replay_rows_rows:
  "replay_rows now db_now ks s = Inr s' \<Longrightarrow>
     map_of (delivery_outbox s') k = map_of (delivery_outbox s) k
     \<or> (\<exists>b. map_of (delivery_outbox s) k = Some b \<and> ob_status b = DeadLetter \<and> \<not> deadline_passed db_now b
          \<and> map_of (delivery_outbox s') k = Some (replay_row now b))"
proof (induction ks arbitrary: s)
  case (Cons j ks)
  let ?p = "\<lambda>k' b. k' = j \<and> ob_status b = DeadLetter \<and> \<not> deadline_passed db_now b"
  let ?s1 = "s\<lparr>delivery_outbox := update_where ?p (replay_row now) (delivery_outbox s)\<rparr>"
  have "replay_rows now db_now ks ?s1 = Inr s'" using Cons.prems by (simp add: Let_def split: if_splits)
  from Cons.IH [OF this] show ?case
    by (cases "map_of (delivery_outbox s) k") (auto simp: map_of_update_where replay_row_def split: if_splits)
qed simp

lemma delete_dead_letters_rows:
  "keyed (delivery_outbox s) \<Longrightarrow>
     map_of (delivery_outbox (snd (delete_dead_letters ks s))) k = map_of (delivery_outbox s) k
     \<or> (\<exists>b. map_of (delivery_outbox s) k = Some b \<and> ob_status b = DeadLetter
          \<and> map_of (delivery_outbox (snd (delete_dead_letters ks s))) k = None)"
proof (induction ks arbitrary: s)
  case (Cons j ks)
  let ?s1 = "s\<lparr>delivery_outbox := delete_where (\<lambda>k' b. k' = j \<and> ob_status b = DeadLetter) (delivery_outbox s)\<rparr>"
  have "keyed (delivery_outbox ?s1)" using Cons.prems by (simp add: keyed_delete_where)
  from Cons.IH [OF this] Cons.prems show ?case
    by (cases "map_of (delivery_outbox s) k")
       (auto simp: map_of_delete_where Let_def split_beta split: if_splits)
qed simp

lemma admin_moves:
  assumes "keyed (delivery_outbox s)" and "c \<le> db_now"
  shows "outbox_moves c I s (snd (replay_dead_letter_rows sel dry_run now db_now s))"
    and "outbox_moves c I s (snd (delete_dead_letter_rows sel dry_run s))"
proof -
  have "outbox_moves c I s s'" if "replay_rows now db_now ks s = Inr s'" for ks s'
  proof (rule outbox_moves_rows)
    show "map_of (delivery_outbox s') k = map_of (delivery_outbox s) k
     \<or> (\<exists>b. map_of (delivery_outbox s) k = Some b
          \<and> (case map_of (delivery_outbox s') k of None \<Rightarrow> \<not> row_active b | Some b' \<Rightarrow> row_moves c I b b'))" for k
      using replay_rows_rows [OF that, of k] assms(2) by (auto intro: row_moves_changes)
  qed
  then show "outbox_moves c I s (snd (replay_dead_letter_rows sel dry_run now db_now s))"
    by (auto simp: replay_dead_letter_rows_def gw_tx_def and_then_def outbox_moves_refl split: sum.split)
  have "outbox_moves c I s (snd (delete_dead_letters ks s))" for ks
  proof (rule outbox_moves_rows)
    show "map_of (delivery_outbox (snd (delete_dead_letters ks s))) k = map_of (delivery_outbox s) k
     \<or> (\<exists>b. map_of (delivery_outbox s) k = Some b
          \<and> (case map_of (delivery_outbox (snd (delete_dead_letters ks s))) k of
                None \<Rightarrow> \<not> row_active b | Some b' \<Rightarrow> row_moves c I b b'))" for k
      using delete_dead_letters_rows [OF assms(1), of ks k] by (auto simp: row_active_def)
  qed
  then show "outbox_moves c I s (snd (delete_dead_letter_rows sel dry_run s))"
    by (auto simp: delete_dead_letter_rows_def gw_tx_def and_then_def outbox_moves_refl split: sum.split)
       (metis snd_conv)
qed

section \<open>One step\<close>

lemma delete_hooks_unreferenced:
  assumes "\<And>k. k \<in> set ks \<Longrightarrow> hook_unreferenced s k"
  shows "delivery_outbox (delete_hooks ks s) = delivery_outbox s"
proof -
  have "filter (\<lambda>(_, e). ev_hook_id e \<in> set ks) (notification_events s) = []"
    using assms by (fastforce simp: filter_empty_conv hook_unreferenced_def)
  then show ?thesis by (simp add: delete_hooks_def Let_def delete_events_def delete_where_def)
qed

lemma purge_terminal_outbox:
  "delivery_outbox (purge_terminal_in_transaction now batch s) = delivery_outbox s"
proof -
  let ?s1 = "purge_expired_tombstones now batch s"
  let ?ks = "map fst (select_ordered (\<lambda>_ h. hk_created_at h) (sql_limit batch)
                (\<lambda>k h. hook_is_terminal now h \<and> hook_unreferenced ?s1 k) (notification_hooks ?s1))"
  have "delivery_outbox (delete_hooks ?ks ?s1) = delivery_outbox ?s1"
    using select_ordered_subset [of _ _ "\<lambda>k h. hook_is_terminal now h \<and> hook_unreferenced ?s1 k"]
    by (intro delete_hooks_unreferenced) fastforce
  then show ?thesis by (simp add: purge_terminal_in_transaction_def Let_def)
qed

lemma purge_terminal_unreferenced_outbox:
  "delivery_outbox (snd (purge_terminal_unreferenced now s)) = delivery_outbox s"
  by (auto simp: purge_terminal_unreferenced_def Let_def intro!: delete_hooks_unreferenced)

lemma admit_hook_outbox:
  "delivery_outbox (snd (admit_hook gc r req cutoff limits now hook_id token s)) = delivery_outbox s"
proof (cases "acquire_admission_lock ''hook'' now s")
  case (Inl e)
  then show ?thesis by (simp add: admit_hook_def)
next
  case s1: (Inr s1)
  let ?s2 = "purge_terminal_in_transaction now (hl_reclamation_batch_size limits) s1"
  show ?thesis
  proof (cases "insert_hook hook_id (new_hook_row gc r req now token) ?s2")
    case (Inl e)
    with s1 show ?thesis by (simp add: admit_hook_def Let_def)
  next
    case (Inr s')
    then have "delivery_outbox s' = delivery_outbox s"
      using keeps_deliveries_lock [OF s1]
      by (auto simp: insert_hook_def and_then_eq_Inr purge_terminal_outbox keeps_deliveries_def)
    with s1 Inr show ?thesis
      by (auto simp: admit_hook_def Let_def gw_tx_def and_then_def ok_or_def split: sum.splits option.splits)
  qed
qed

lemma purge_retained_outbox:
  "delivery_outbox (snd (purge_retained_sensitive_data cutoff ic s)) =
     delete_where (\<lambda>_ b. \<not> row_active b \<and> ob_updated_at b < cutoff) (delivery_outbox s)"
proof -
  have "delete_where (\<lambda>_ b. ob_event_id b \<in> set (map fst (filter (\<lambda>(k, e). P k e \<and>
      (\<forall>(_, b) \<in> set t. ob_event_id b \<noteq> k)) es))) t = t" for P es and t :: "(string, outbox_row) tbl"
    unfolding delete_where_def by (rule filter_True) fastforce
  then show ?thesis
    by (simp add: purge_retained_sensitive_data_def Let_def delete_events_def)
qed

lemma start_gateway_moves:
  assumes "start_gateway cfg clk s = Inr s'" and "keyed (delivery_outbox s)"
  shows "outbox_moves c I s s'"
proof (rule start_gateway_parts [OF assms(1)])
  fix s1 s2
  assume s1: "s1 = snd (purge_retained_sensitive_data (cutoff_of (gw_retention_seconds cfg) (clk 0)) (clk 0) s)"
    and s2: "s2 = snd (purge_stale (registration_cutoff cfg (clk 1)) (clk 1) s1)"
    and s': "s' = snd (reset_in_progress (clk 2) (snd (purge_terminal_unreferenced (clk 1) s2)))"
  have "delivery_outbox s2 = delivery_outbox s1"
    using registration_keeps(3) by (simp add: s2 keeps_deliveries_def)
  then have "delivery_outbox s' = update_where (\<lambda>_ b. ob_status b = InProgress)
      (\<lambda>b. b\<lparr>ob_status := Pending, ob_updated_at := clk 2\<rparr>)
      (delete_where (\<lambda>_ b. \<not> row_active b \<and> ob_updated_at b < cutoff_of (gw_retention_seconds cfg) (clk 0)) (delivery_outbox s))"
    by (simp add: s' s1 reset_in_progress_def purge_terminal_unreferenced_outbox purge_retained_outbox)
  then show ?thesis
    by (rule outbox_moves_update [OF assms(2)]) (simp_all add: row_moves_changes)
qed

lemma marker_step_start_gateway:
  assumes "start_gateway cfg clk s = Inr s'" and ok: "db_ok c I s" and "\<And>i. clk i \<le> c"
  shows "marker_step c I s s'"
proof (rule start_gateway_parts [OF assms(1)])
  fix s1 s2
  assume s1: "s1 = snd (purge_retained_sensitive_data (cutoff_of (gw_retention_seconds cfg) (clk 0)) (clk 0) s)"
    and s2: "s2 = snd (purge_stale (registration_cutoff cfg (clk 1)) (clk 1) s1)"
    and s': "s' = snd (reset_in_progress (clk 2) (snd (purge_terminal_unreferenced (clk 1) s2)))"
  have ok1: "db_ok c I s1" using ok assms(3) by (simp add: s1 purge_retained_ok)
  have ok2: "db_ok c I s2" using ok1 by (simp add: s2 purge_stale_ok)
  have "keeps_markers (s\<lparr>hook_tombstones := delete_where (\<lambda>_ v. tb_retain_until v < clk 0) (hook_tombstones s)\<rparr>) s1"
    by (simp add: s1 purge_retained_sensitive_data_def Let_def delete_events_def keeps_markers_def)
  moreover have "marker_step c I s (s\<lparr>hook_tombstones := delete_where (\<lambda>_ v. tb_retain_until v < clk 0) (hook_tombstones s)\<rparr>)"
    using assms(3) [of 0] by (intro marker_step_delete_tombstones [OF ok]) simp
  ultimately have "marker_step c I s s1" using ok marker_step_trans marker_step_keeps by blast
  moreover have "marker_step c I s1 s2"
    using registration_keeps(3) by (simp add: s2 keeps_deliveries_def marker_step_keeps)
  moreover have "marker_step c I s2 (snd (purge_terminal_unreferenced (clk 1) s2))"
    using marker_step_delete_hooks [OF ok2] by (simp add: purge_terminal_unreferenced_def Let_def)
  moreover have "marker_step c I (snd (purge_terminal_unreferenced (clk 1) s2)) s'"
    using outbox_keeps_markers(6) by (simp add: s' marker_step_keeps)
  ultimately show ?thesis using marker_step_trans ok by blast
qed

text \<open>An invocation adds a row and a marker, or leaves the database as it was.\<close>

lemma invoke_hook_steps:
  assumes inv: "invoke_hook cfg peer headers admitted k secret req clk event_id ids l s = (res, l', s')"
    and ok: "db_ok (clk 0) I s" and now: "0 \<le> clk 0" "clk 0 < 2 ^ 62"
    and fresh: "event_id \<notin> I" "ids 0 \<notin> I" and c: "clk 0 \<le> c"
  shows "marker_step c I s s'" and "outbox_moves c0 I s s'"
proof -
  have "marker_step c I s s' \<and> outbox_moves c0 I s s'"
  proof (cases "s' = s")
    case True
    then show ?thesis by (simp add: marker_step_keeps outbox_moves_refl)
  next
    case False
    let ?src = "effective_source_prefix (gw_ip_text cfg) peer headers (gl_trusted_proxy_cidrs (gw_limits cfg))"
    from inv False have acc: "accept_invocation cfg ?src k secret req clk event_id ids l s = (res, l', s')"
      by (auto simp: invoke_hook_def split: sum.splits if_splits)
    let ?s1 = "swept_markers cfg req (clk 0) s"
    let ?s2 = "snd (consume_hook (gw_production_mode cfg) k (clk 0) ?s1)"
    show ?thesis
    proof (rule accept_invocation_cases [of clk I s event_id ids cfg ?src k secret req l, OF ok now fresh])
      fix h e rec nt reg l1
      assume unmarked: "\<And>kk. iv_idempotency_key req = Some kk \<Longrightarrow> retained_target_count k kk s = None"
        and res: "accept_invocation cfg ?src k secret req clk event_id ids l s =
        (Inr \<lparr> io_target_count = 1, io_enqueued_rows = True \<rparr>, l1,
         invocation_written k (iv_idempotency_key req) e (hk_recipient_id h)
           (gc_notification_to_json (gw_codec cfg) nt) reg (clk 0) event_id (ids 0) ?s2)"
      have s': "s' = invocation_written k (iv_idempotency_key req) e (hk_recipient_id h)
           (gc_notification_to_json (gw_codec cfg) nt) reg (clk 0) event_id (ids 0) ?s2"
        using acc res by simp
      have "marker_step c I s ?s1"
        using marker_step_purge_tombstones [OF ok c] by (simp add: swept_markers_def marker_step_keeps)
      moreover have "marker_step c I ?s1 ?s2"
        unfolding consume_hook_def Let_def snd_conv
        by (rule marker_step_hook_update) (simp add: use_hook_row_keeps)
      moreover have "marker_step c I ?s2 s'"
        unfolding s'
      proof (rule marker_step_written)
        show "\<not> tbl_exists (hook_tombstones ?s2) (k, kk)" if "iv_idempotency_key req = Some kk" for kk
          using unmarked [OF that] ok swept_markers_none [of s "(k, kk)" cfg req "clk 0"]
          by (simp add: db_ok_def retained_target_count_def tbl_exists_def)
      qed
      ultimately have "marker_step c I s s'" using marker_step_trans ok by blast
      moreover have "delivery_outbox s' = delivery_outbox s @ [(ids 0, pending_row event_id
          (gc_notification_to_json (gw_codec cfg) nt) reg (clk 0))]"
        by (simp add: s' invocation_written_def)
      then have "outbox_moves c0 I s s'"
        using fresh(2) by (auto simp: outbox_moves_def map_of_snoc_new [OF unused_ids(2) [OF ok fresh(2)]]
            pending_row_def split: option.splits if_splits)
      ultimately show ?thesis ..
    qed (use acc False in simp_all)
  qed
  then show "marker_step c I s s'" and "outbox_moves c0 I s s'" by simp_all
qed

definition delivery_step :: "gateway \<Rightarrow> gateway \<Rightarrow> bool" where
  "delivery_step g g' \<longleftrightarrow>
     g_clock g \<le> g_clock g' \<and> set (g_issued g) \<subseteq> set (g_issued g')
     \<and> marker_step (g_clock g') (set (g_issued g)) (g_db g) (g_db g')
     \<and> outbox_moves (g_clock g) (set (g_issued g)) (g_db g) (g_db g')"

lemma delivery_stepI:
  assumes "readings g clk c" and "g_clock g' = c" and "set (g_issued g) \<subseteq> set (g_issued g')"
    and "marker_step c (set (g_issued g)) (g_db g) (g_db g')"
    and "outbox_moves (g_clock g) (set (g_issued g)) (g_db g) (g_db g')"
  shows "delivery_step g g'"
  using assms readings_clock(3) [OF assms(1)] by (simp add: delivery_step_def)

lemma delivery_step_keeps:
  assumes "readings g clk c" and "g_clock g' = c" and "set (g_issued g) \<subseteq> set (g_issued g')"
    and "keeps_deliveries (g_db g) (g_db g')"
  shows "delivery_step g g'"
  using assms by (intro delivery_stepI) (auto simp: keeps_deliveries_def intro: marker_step_keeps outbox_moves_refl)

lemma inv_keyed_outbox: "gateway_inv g \<Longrightarrow> keyed (delivery_outbox (g_db g))"
  by (simp add: gateway_inv_def db_ok_def outbox_ok_def)

lemma gateway_step_deliveries:
  assumes "gateway_step cfg g g'" and "gateway_inv g"
  shows "delivery_step g g'"
  using assms
proof (induction rule: gateway_step.induct)
  case (step_register g clk c peer headers r req validation admitted res l s)
  have "s = g_db g \<or> s = snd (admit_installation r req (registration_cutoff cfg (clk 2))
      (registration_limits_of (gw_limits cfg)) (clk 3) (g_db g))"
    using step_register(2) by (auto simp: register_installation_def split: sum.splits prod.splits if_splits)
  then show ?case
    using admit_installation_keeps by (intro delivery_step_keeps [OF step_register(1)]) (auto simp: advance_def)
next
  case (step_unregister g clk c peer headers r i admitted res l s)
  have "s = g_db g \<or> s = snd (delete_installation r i (clk 2) (g_db g))"
    using step_unregister(2) by (auto simp: unregister_installation_def split: sum.splits prod.splits if_splits)
  then show ?case
    using registration_keeps(1) by (intro delivery_step_keeps [OF step_unregister(1)]) (auto simp: advance_def)
next
  case (step_disable g clk c peer headers r i reason admitted res l s)
  have "s = g_db g \<or> s = snd (disable_installation r i reason (clk 2) (g_db g))"
    using step_disable(2) by (auto simp: disable_registration_def Let_def split: sum.splits prod.splits if_splits)
  then show ?case
    using registration_keeps(2) by (intro delivery_step_keeps [OF step_disable(1)]) (auto simp: advance_def)
next
  case (step_create_hook g clk c hook_id r hreq admitted token hres l s)
  note R = readings_inv [OF step_create_hook(1,4)]
  have "hook_id \<notin> set (g_issued g)" using step_create_hook(2) by (simp add: fresh_def)
  with marker_step_create_hook [OF step_create_hook(3) R(2) R(5)]
  have "marker_step c (set (g_issued g)) (g_db g) s" by simp
  moreover have "delivery_outbox s = delivery_outbox (g_db g)"
    using step_create_hook(3) admit_hook_outbox [of "gw_codec cfg" r hreq "registration_cutoff cfg (clk 1)"
        "hook_limits_of (gw_limits cfg)" "clk 2" hook_id token "g_db g"]
    by (auto simp: create_hook_def split: sum.splits prod.splits if_splits)
  ultimately show ?case
    by (intro delivery_stepI [OF step_create_hook(1)]) (auto simp: advance_def intro: outbox_moves_refl)
next
  case (step_revoke_hook g clk c r hook_id admitted res s)
  have "s = g_db g \<or> s = snd (revoke_hook_row hook_id r (clk 0) (g_db g))"
    using step_revoke_hook(2) by (auto simp: revoke_hook_def Let_def split: sum.splits prod.splits if_splits)
  moreover have "marker_step c (set (g_issued g)) (g_db g) (snd (revoke_hook_row hook_id r (clk 0) (g_db g)))"
    unfolding revoke_hook_row_def snd_conv by (rule marker_step_hook_update) simp
  ultimately show ?case
    by (intro delivery_stepI [OF step_revoke_hook(1)])
       (auto simp: advance_def revoke_hook_row_def intro: outbox_moves_refl marker_step_keeps)
next
  case (step_invoke g clk c event_id ids peer headers admitted hook_id secret ireq ires l s)
  note R = readings_inv [OF step_invoke(1,4)]
  have "event_id \<notin> set (g_issued g)" "ids 0 \<notin> set (g_issued g)" using step_invoke(2) by (simp_all add: fresh_def)
  from invoke_hook_steps [OF step_invoke(3) R(3) R(4) R(7) this R(5)] show ?case
    by (intro delivery_stepI [OF step_invoke(1)]) (auto simp: advance_def)
next
  case (step_expire g clk c n s)
  have "s = snd (expire_delivery_resolution_deadlines (clk 0) (clk 1) (g_db g))" using step_expire(2) by simp
  then show ?case
    using outbox_keeps_markers(1) worker_moves(1) [OF inv_keyed_outbox [OF step_expire(3)]]
    by (intro delivery_stepI [OF step_expire(1)]) (simp_all add: advance_def marker_step_keeps)
next
  case (step_claim g clk c claim_id cres s)
  have "s = snd (claim_due (gw_codec cfg) (clk 0) (clk 1) claim_id (g_db g))" using step_claim(3) by simp
  moreover have "claim_id \<notin> set (g_issued g)" using step_claim(2) by (simp add: fresh_def)
  ultimately show ?case
    using outbox_keeps_markers(2) claim_due_moves [OF _ inv_keyed_outbox [OF step_claim(4)]]
    by (intro delivery_stepI [OF step_claim(1)]) (auto simp: advance_def marker_step_keeps)
next
  case (step_complete g clk c d answer started call s)
  have "outbox_moves (g_clock g) (set (g_issued g)) (g_db g) s"
    unfolding step_complete(4) [symmetric]
    by (rule complete_delivery_moves [OF inv_keyed_outbox [OF step_complete(5)] readings_clock(1) [OF step_complete(1)]])
  then show ?case
    using complete_delivery_keeps_markers step_complete(4)
    by (intro delivery_stepI [OF step_complete(1)]) (auto simp: advance_def intro: marker_step_keeps)
next
  case (step_restart g clk c s)
  note R = readings_inv [OF step_restart(1,3)]
  show ?case
    using start_gateway_moves [OF step_restart(2) inv_keyed_outbox [OF step_restart(3)]]
      marker_step_start_gateway [OF step_restart(2) R(2) R(5)]
    by (intro delivery_stepI [OF step_restart(1)]) (simp_all add: advance_def)
next
  case (step_replay g clk c selector dry_run rres s)
  have "s = snd (replay_dead_letter_rows selector dry_run (clk 0) (clk 1) (g_db g))" using step_replay(2) by simp
  then show ?case
    using admin_keeps_markers(1)
      admin_moves(1) [OF inv_keyed_outbox [OF step_replay(3)] readings_clock(1) [OF step_replay(1)]]
    by (intro delivery_stepI [OF step_replay(1)]) (simp_all add: advance_def marker_step_keeps)
next
  case (step_delete_dead g clk c selector dry_run rres s)
  have "s = snd (delete_dead_letter_rows selector dry_run (g_db g))" using step_delete_dead(2) by simp
  then show ?case
    using admin_keeps_markers(2) admin_moves(2) [OF inv_keyed_outbox [OF step_delete_dead(3)] order_refl]
    by (intro delivery_stepI [OF step_delete_dead(1)]) (simp_all add: advance_def marker_step_keeps)
qed

section \<open>Runs\<close>

text \<open>
  What holds for good: a key is marked, with its target count, until its hook has ended; a claim
  that lost its row never gets it back; a resolved delivery keeps its outcome until it is deleted.
\<close>

definition marker_kept :: "string \<Rightarrow> string \<Rightarrow> nat \<Rightarrow> gateway \<Rightarrow> bool" where
  "marker_kept k key n g \<longleftrightarrow>
     k \<in> set (g_issued g)
     \<and> (retained_target_count k key (g_db g) = Some n \<or> hook_ended (g_clock g) (g_db g) k)"

definition claim_lost :: "string \<Rightarrow> string \<Rightarrow> gateway \<Rightarrow> bool" where
  "claim_lost k x g \<longleftrightarrow>
     x \<in> set (g_issued g) \<and> (\<forall>b. map_of (delivery_outbox (g_db g)) k = Some b \<longrightarrow> ob_claim_id b \<noteq> Some x)"

definition outcome_kept :: "string \<Rightarrow> outbox_row \<Rightarrow> gateway \<Rightarrow> bool" where
  "outcome_kept k b g \<longleftrightarrow>
     k \<in> set (g_issued g)
     \<and> (\<forall>b'. map_of (delivery_outbox (g_db g)) k = Some b' \<longrightarrow>
          same_delivery b b' \<and> ob_status b' = ob_status b)"

definition settles :: "gateway \<Rightarrow> gateway \<Rightarrow> bool" where
  "settles g g' \<longleftrightarrow>
     (\<forall>k key n. marker_kept k key n g \<longrightarrow> marker_kept k key n g')
     \<and> (\<forall>k x. claim_lost k x g \<longrightarrow> claim_lost k x g')
     \<and> (\<forall>k b. ob_status b \<in> {Succeeded, InvalidToken} \<longrightarrow> outcome_kept k b g \<longrightarrow> outcome_kept k b g')"

lemma marker_kept_step:
  assumes "delivery_step g g'" and "marker_kept k key n g"
  shows "marker_kept k key n g'"
proof -
  let ?I = "set (g_issued g)"
  from assms(1) have clock: "g_clock g \<le> g_clock g'" and issued: "?I \<subseteq> set (g_issued g')"
    and m: "marker_step (g_clock g') ?I (g_db g) (g_db g')" by (simp_all add: delivery_step_def)
  from assms(2) have k: "k \<in> ?I" by (simp add: marker_kept_def)
  have "hook_ended (g_clock g') (g_db g') k" if over: "hook_ended (g_clock g) (g_db g) k"
  proof (cases "map_of (notification_hooks (g_db g')) k")
    case None
    then show ?thesis by (simp add: hook_ended_def)
  next
    case (Some h')
    then obtain h where h: "map_of (notification_hooks (g_db g)) k = Some h"
      using m k by (cases "map_of (notification_hooks (g_db g)) k") (auto simp: marker_step_def)
    with Some m have "hk_expires_at h' = hk_expires_at h" unfolding marker_step_def by blast
    with over h Some clock show ?thesis by (auto simp: hook_ended_def split: option.splits)
  qed
  moreover have "retained_target_count k key (g_db g') = Some n \<or> hook_ended (g_clock g') (g_db g') k"
    if "retained_target_count k key (g_db g) = Some n"
    using that m unfolding marker_step_def retained_target_count_def by fastforce
  ultimately show ?thesis using assms(2) k issued by (auto simp: marker_kept_def)
qed

lemma claim_lost_step:
  assumes "delivery_step g g'" and "claim_lost k x g"
  shows "claim_lost k x g'"
proof -
  have moves: "outbox_moves (g_clock g) (set (g_issued g)) (g_db g) (g_db g')"
    and issued: "set (g_issued g) \<subseteq> set (g_issued g')" using assms(1) by (simp_all add: delivery_step_def)
  have "ob_claim_id b' \<noteq> Some x" if b': "map_of (delivery_outbox (g_db g')) k = Some b'" for b'
  proof (cases "map_of (delivery_outbox (g_db g)) k")
    case None
    with moves b' have "ob_claim_id b' = None" unfolding outbox_moves_def by blast
    then show ?thesis by simp
  next
    case (Some b)
    with moves b' have "row_moves (g_clock g) (set (g_issued g)) b b'" by (fastforce simp: outbox_moves_def)
    with Some assms(2) show ?thesis by (auto simp: row_moves_def claim_lost_def)
  qed
  then show ?thesis using assms(2) issued by (auto simp: claim_lost_def)
qed

lemma outcome_kept_step:
  assumes "delivery_step g g'" and "outcome_kept k b g" and final: "ob_status b \<in> {Succeeded, InvalidToken}"
  shows "outcome_kept k b g'"
proof -
  have moves: "outbox_moves (g_clock g) (set (g_issued g)) (g_db g) (g_db g')"
    and issued: "set (g_issued g) \<subseteq> set (g_issued g')" using assms(1) by (simp_all add: delivery_step_def)
  have "same_delivery b b' \<and> ob_status b' = ob_status b" if b': "map_of (delivery_outbox (g_db g')) k = Some b'" for b'
  proof (cases "map_of (delivery_outbox (g_db g)) k")
    case None
    with moves b' have "k \<notin> set (g_issued g)" unfolding outbox_moves_def by blast
    with assms(2) show ?thesis by (simp add: outcome_kept_def)
  next
    case (Some b1)
    with moves b' have "row_moves (g_clock g) (set (g_issued g)) b1 b'" by (fastforce simp: outbox_moves_def)
    moreover have "same_delivery b b1" "ob_status b1 = ob_status b" using Some assms(2) by (auto simp: outcome_kept_def)
    ultimately show ?thesis using final by (auto simp: row_moves_def same_delivery_def)
  qed
  then show ?thesis using assms(2) issued by (auto simp: outcome_kept_def)
qed

lemma gateway_step_settles: "gateway_inv g \<Longrightarrow> gateway_step cfg g g' \<Longrightarrow> settles g g'"
  using gateway_step_deliveries unfolding settles_def
  by (blast intro: marker_kept_step claim_lost_step outcome_kept_step)

interpretation deliveries: monotone_system gateway_init "gateway_step cfg" gateway_inv settles for cfg
  by unfold_locales (simp add: settles_def, simp add: settles_def, rule gateway_step_settles)

text \<open>The claims of the deliveries in flight were drawn before.\<close>

definition claims_issued :: "gateway \<Rightarrow> bool" where
  "claims_issued g \<longleftrightarrow> (\<forall>d \<in> set (g_in_flight g). cd_claim_id d \<in> set (g_issued g))"

lemma claim_due_claim_id:
  "claim_due gc now later x s = (Inr (Claimed d), s') \<Longrightarrow> cd_claim_id d = x"
  by (auto simp: claim_due_def row_to_claimed_def Let_def split: option.splits prod.splits if_splits)

lemma claims_issued_step: "claims_issued g \<Longrightarrow> gateway_step cfg g g' \<Longrightarrow> claims_issued g'"
  by (rotate_tac 1, induction rule: gateway_step.induct)
     (auto simp: claims_issued_def advance_def dest: claim_due_claim_id notin_set_remove1
       split: sum.splits claim_due_outcome.splits)

lemma claims_issued_init: "gateway_init g \<Longrightarrow> claims_issued g"
  unfolding gateway_init_def claims_issued_def initial_gateway_def
  by (metis empty_iff gateway.select_convs(3) list.set(1))

interpretation flights: invariant_system gateway_init "gateway_step cfg" claims_issued for cfg
  by unfold_locales (rule claims_issued_init, assumption, rule claims_issued_step)

end
