(* ===== verification/Sample_Gateway.thy ===== *)
theory Sample_Gateway
  imports Gateway_Runs "HOL-Library.Code_Target_Nat"
begin

text \<open>
  A concrete gateway and a run of it: a registration, a hook, an invocation and claims, for the
  facts about reachable gateways to be applied to. The printer, the parser and the digest are
  small executable functions.
\<close>

definition sample_gw_codec :: gateway_codec where
  "sample_gw_codec =
     \<lparr> gc_notification_to_json = nt_notification_id,
       gc_notification_from_json = (\<lambda>j. Some \<lparr> nt_recipient_id = ''alice'', nt_notification_id = j,
          nt_kind = ''hook'', nt_title = None, nt_body = None, nt_data = [] \<rparr>),
       gc_data_to_json = (\<lambda>_. ''{}''),
       gc_data_from_json = (\<lambda>_. Some []),
       gc_value_to_string = (\<lambda>_. ''v''),
       gc_hash_hex = (\<lambda>t. CHR ''h'' # t) \<rparr>"

definition sample_gw_limits :: gateway_limits where
  "sample_gw_limits =
     \<lparr> gl_hook_invocations_per_source_prefix = 5, gl_hook_invocations_per_hook = 5,
       gl_hook_invocation_window_seconds = 60, gl_hook_creations_per_recipient = 5,
       gl_hook_creation_window_seconds = 60, gl_registration_changes_per_source_prefix = 5,
       gl_registration_changes_per_recipient_source = 5, gl_registration_change_window_seconds = 60,
       gl_max_global_outbox_backlog = 10, gl_max_recipient_outbox_backlog = 5,
       gl_max_active_hooks_per_recipient = 3, gl_max_active_hooks_global = 10,
       gl_max_hook_rows_global = 20, gl_max_active_installations_per_recipient = 2,
       gl_max_active_installations_global = 10, gl_max_registration_rows_global = 20,
       gl_admission_gc_batch_size = 4, gl_trusted_proxy_cidrs = None \<rparr>"

definition sample_gw :: gateway_config where
  "sample_gw =
     \<lparr> gw_limits = sample_gw_limits, gw_production_mode = True, gw_registration_ttl_seconds = 86400,
       gw_retention_seconds = 86400, gw_codec = sample_gw_codec,
       gw_ip_text = \<lparr> it_parse = (\<lambda>_. None), it_show = (\<lambda>_. ''ip''), it_parse_u8 = (\<lambda>_. None) \<rparr> \<rparr>"

definition no_headers :: forwarding_headers where
  "no_headers = \<lparr> fh_forwarded = None, fh_x_forwarded_for = None \<rparr>"

definition sample_registration :: register_request where
  "sample_registration =
     \<lparr> rq_installation_id = ''phone'', rq_fcm_token = ''tok'', rq_platform = Some ''android'' \<rparr>"

definition sample_hook_request :: create_hook_request where
  "sample_hook_request =
     \<lparr> ch_installation_id = ''phone'', ch_label = None,
       ch_notification = \<lparr> ns_kind = None, ns_title = Some ''t'', ns_body = None, ns_privacy = None \<rparr>,
       ch_open = \<lparr> os_open_behavior = None, os_workflow = None, os_action = None, os_deep_link = None \<rparr>,
       ch_data = [],
       ch_policy = \<lparr> ps_expires_in_seconds = Some 3600, ps_max_uses = Some 3, ps_rate_limit = None \<rparr> \<rparr>"

definition sample_invocation :: invoke_request where
  "sample_invocation = \<lparr> iv_idempotency_key = Some ''k1'', iv_data = [(''amount'', JNumber ''1'')] \<rparr>"

definition gw_ids :: "nat \<Rightarrow> string" where
  "gw_ids n = ''outbox1''"

section \<open>The states of the run\<close>

definition sample_phone :: registration_row where
  "sample_phone =
     \<lparr> pr_fcm_token = ''tok'', pr_platform = Some ''android'', pr_created_at = 1000, pr_updated_at = 1000,
       pr_last_seen_at = 1000, pr_disabled_at = None, pr_disabled_reason = None \<rparr>"

definition sample_hook :: "int \<Rightarrow> int option \<Rightarrow> hook_row" where
  "sample_hook n used =
     \<lparr> hk_secret_hash = ''hsecret'', hk_recipient_id = ''alice'', hk_installation_id = ''phone'',
       hk_label = None, hk_kind = None, hk_workflow = None, hk_action = None, hk_deep_link = None,
       hk_open_behavior = ''open_app'', hk_privacy = ''display_text'', hk_title = Some ''t'', hk_body = None,
       hk_data_json = ''{}'', hk_created_at = 1001, hk_expires_at = Some 4601, hk_revoked_at = None,
       hk_max_uses = Some 3, hk_use_count = n, hk_last_used_at = used,
       hk_rate_limit_window_seconds = Some 3600, hk_rate_limit_max_requests = Some 2,
       hk_rate_limit_window_started_at = used, hk_rate_limit_count = n \<rparr>"

definition sample_row :: "outbox_status \<Rightarrow> int \<Rightarrow> string option \<Rightarrow> int \<Rightarrow> outbox_row" where
  "sample_row st due claim updated =
     \<lparr> ob_event_id = ''event1'', ob_recipient_id = ''alice'', ob_installation_id = ''phone'',
       ob_fcm_token = ''tok'', ob_platform = Some ''android'', ob_notification_json = ''hook:hook1:1'',
       ob_status = st, ob_attempts = 0, ob_next_attempt_at = due, ob_last_attempt_at = None,
       ob_last_error = None, ob_claim_id = claim, ob_created_at = 1002, ob_updated_at = updated \<rparr>"

definition gw_db1 :: gateway_db where
  "gw_db1 = migrated_db\<lparr>push_registrations := [((''alice'', ''phone''), sample_phone)],
     token_owners := [(''tok'', \<lparr> ow_recipient_id = ''alice'', ow_installation_id = ''phone'', ow_updated_at = 1000 \<rparr>)],
     admission_locks := [(''registration'', 1000), (''hook'', 0)]\<rparr>"

definition gw_db2 :: gateway_db where
  "gw_db2 = gw_db1\<lparr>notification_hooks := [(''hook1'', sample_hook 0 None)],
     admission_locks := [(''registration'', 1000), (''hook'', 1001)]\<rparr>"

definition gw_db3 :: "outbox_row \<Rightarrow> gateway_db" where
  "gw_db3 b = gw_db2\<lparr>notification_hooks := [(''hook1'', sample_hook 1 (Some 1002))],
     notification_events := [(''event1'', \<lparr> ev_hook_id = ''hook1'', ev_caller_idempotency_key = Some ''k1'',
       ev_recipient_id = ''alice'', ev_notification_json = ''hook:hook1:1'', ev_target_count = 1, ev_created_at = 1002 \<rparr>)],
     hook_tombstones := [((''hook1'', ''k1''), \<lparr> tb_target_count = 1, tb_accepted_at = 1002, tb_retain_until = 609401 \<rparr>)],
     delivery_outbox := [(''outbox1'', b)]\<rparr>"

definition gw_window :: "int \<Rightarrow> fixed_window" where
  "gw_window t = \<lparr> fw_started_at = t, fw_window_seconds = 60, fw_count = 1 \<rparr>"

definition gw_lim1 :: rate_limiters where
  "gw_lim1 = [(RegistrationSource, [(''ip'', gw_window 1000)]),
     (RegistrationRecipientSource, [(''alice:ip'', gw_window 1000)])]"

definition gw_lim2 :: rate_limiters where
  "gw_lim2 = gw_lim1 @ [(HookCreationRecipient, [(''hook-create:alice'', gw_window 1001)])]"

definition gw_lim3 :: rate_limiters where
  "gw_lim3 = gw_lim2 @ [(HookInvocationSource, [(''hook-invoke-source:ip'', gw_window 1002)]),
     (HookInvocationHook, [(''hook-invoke-hook:hook1'', gw_window 1002)])]"

definition sample_claimed :: "string \<Rightarrow> claimed_delivery" where
  "sample_claimed x =
     \<lparr> cd_outbox_id = ''outbox1'',
       cd_registration = \<lparr> reg_recipient_id = ''alice'', reg_installation_id = ''phone'', reg_fcm_token = ''tok'',
         reg_platform = Some ''android'', reg_created_at = 1002, reg_last_seen_at = 1002,
         reg_disabled_at = None, reg_disabled_reason = None \<rparr>,
       cd_notification = \<lparr> nt_recipient_id = ''alice'', nt_notification_id = ''hook:hook1:1'', nt_kind = ''hook'',
         nt_title = None, nt_body = None, nt_data = [] \<rparr>,
       cd_claim_id = x, cd_created_at = 1002 \<rparr>"

lemma sample_register_eval:
  "register_installation sample_gw None no_headers ''alice'' sample_registration (Inr ()) True (\<lambda>_. 1000)
     [] migrated_db = (Inr (), gw_lim1, gw_db1)"
  by code_simp

lemma sample_create_eval:
  "(case create_hook sample_gw ''alice'' sample_hook_request True (\<lambda>_. 1001) ''hook1'' ''secret'' gw_lim1 gw_db1 of
      (r, l, s) \<Rightarrow> (\<not> isl r, l, s)) = (True, gw_lim2, gw_db2)"
  by code_simp

lemma sample_invoke_eval:
  "invoke_hook sample_gw None no_headers True ''hook1'' ''secret'' sample_invocation (\<lambda>_. 1002) ''event1'' gw_ids
     gw_lim2 gw_db2 =
   (Inr \<lparr> io_target_count = 1, io_enqueued_rows = True \<rparr>, gw_lim3, gw_db3 (sample_row Pending 1002 None 1002))"
  by code_simp

lemma sample_claim_eval:
  "claim_due (gw_codec sample_gw) 1003 1003 ''claim1'' (gw_db3 (sample_row Pending 1002 None 1002)) =
   (Inr (Claimed (sample_claimed ''claim1'')), gw_db3 (sample_row InProgress 1303 (Some ''claim1'') 1003))"
  by code_simp

lemma sample_reclaim_eval:
  "claim_due (gw_codec sample_gw) 1303 1303 ''claim2'' (gw_db3 (sample_row InProgress 1303 (Some ''claim1'') 1003)) =
   (Inr (Claimed (sample_claimed ''claim2'')), gw_db3 (sample_row InProgress 1603 (Some ''claim2'') 1303))"
  by code_simp

lemma sample_restart_eval:
  "start_gateway sample_gw (\<lambda>_. 1010) (gw_db3 (sample_row InProgress 1303 (Some ''claim1'') 1003)) =
   Inr ((gw_db3 (sample_row Pending 1303 (Some ''claim1'') 1010))
     \<lparr>admission_locks := [(''registration'', 1010), (''hook'', 1001)]\<rparr>)"
  by code_simp

section \<open>The run\<close>

definition gw0 :: gateway where
  "gw0 = initial_gateway 1000"

definition gw1 :: gateway where
  "gw1 = advance gw_db1 gw_lim1 1000 [] gw0"

definition gw2 :: gateway where
  "gw2 = advance gw_db2 gw_lim2 1001 [''hook1''] gw1"

definition gw3 :: gateway where
  "gw3 = advance (gw_db3 (sample_row Pending 1002 None 1002)) gw_lim3 1002 [''event1'', ''outbox1''] gw2"

text \<open>The row is claimed; then its lease runs out and it is claimed again, or the gateway restarts.\<close>

definition gw4 :: gateway where
  "gw4 = (advance (gw_db3 (sample_row InProgress 1303 (Some ''claim1'') 1003)) gw_lim3 1003 [''claim1''] gw3)
     \<lparr>g_in_flight := [sample_claimed ''claim1'']\<rparr>"

definition gw5 :: gateway where
  "gw5 = (advance (gw_db3 (sample_row InProgress 1603 (Some ''claim2'') 1303)) gw_lim3 1303 [''claim2''] gw4)
     \<lparr>g_in_flight := [sample_claimed ''claim2'', sample_claimed ''claim1'']\<rparr>"

definition gw6 :: gateway where
  "gw6 = (advance ((gw_db3 (sample_row Pending 1303 (Some ''claim1'') 1010))
     \<lparr>admission_locks := [(''registration'', 1010), (''hook'', 1001)]\<rparr>) [] 1010 [] gw4)\<lparr>g_in_flight := []\<rparr>"

definition gw7 :: gateway where
  "gw7 = (advance (gw_db3 ((sample_row Succeeded 1303 None 1005)\<lparr>ob_last_attempt_at := Some 1005\<rparr>))
     (g_limiters gw4) 1005 [] gw4)\<lparr>g_in_flight := remove1 (sample_claimed ''claim1'') (g_in_flight gw4)\<rparr>"

definition gw8 :: gateway where
  "gw8 = advance (g_db gw7) (g_limiters gw7) 1400 [] gw7"

lemmas gw_states = gw0_def gw1_def gw2_def gw3_def gw4_def gw5_def gw6_def initial_gateway_def advance_def

lemma gw_readings: "g_clock g \<le> t \<Longrightarrow> t < 2 ^ 62 \<Longrightarrow> readings g (\<lambda>_. t) t"
  by (simp add: readings_def)

lemma gw_init: "gateway_init gw0"
  by (simp add: gateway_init_def gw_states)

lemma gw_step1: "gateway_step sample_gw gw0 gw1"
proof -
  have "readings gw0 (\<lambda>_. 1000) 1000" by (rule gw_readings) (simp_all add: gw_states)
  from step_register [OF this, of sample_gw None no_headers "''alice''" sample_registration "Inr ()" True]
  show ?thesis using sample_register_eval by (simp add: gw_states)
qed

lemma gw_step2: "gateway_step sample_gw gw1 gw2"
proof -
  have "readings gw1 (\<lambda>_. 1001) 1001" by (rule gw_readings) (simp_all add: gw_states)
  moreover have "fresh [''hook1''] gw1" by (simp add: fresh_def gw_states)
  moreover obtain r where
    "create_hook sample_gw ''alice'' sample_hook_request True (\<lambda>_. 1001) ''hook1'' ''secret'' (g_limiters gw1) (g_db gw1)
      = (r, gw_lim2, gw_db2)"
    using sample_create_eval by (auto simp: gw_states split: prod.splits)
  ultimately have "gateway_step sample_gw gw1 (advance gw_db2 gw_lim2 1001 [''hook1''] gw1)" by (rule step_create_hook)
  then show ?thesis by (simp add: gw2_def)
qed

lemma gw_step3: "gateway_step sample_gw gw2 gw3"
proof -
  have "readings gw2 (\<lambda>_. 1002) 1002" by (rule gw_readings) (simp_all add: gw_states)
  moreover have "fresh [''event1'', gw_ids 0] gw2" by (simp add: fresh_def gw_states gw_ids_def)
  moreover have
    "invoke_hook sample_gw None no_headers True ''hook1'' ''secret'' sample_invocation (\<lambda>_. 1002) ''event1'' gw_ids
       (g_limiters gw2) (g_db gw2) = (Inr \<lparr> io_target_count = 1, io_enqueued_rows = True \<rparr>, gw_lim3,
         gw_db3 (sample_row Pending 1002 None 1002))"
    using sample_invoke_eval by (simp add: gw_states)
  ultimately have "gateway_step sample_gw gw2
      (advance (gw_db3 (sample_row Pending 1002 None 1002)) gw_lim3 1002 [''event1'', gw_ids 0] gw2)"
    by (rule step_invoke)
  then show ?thesis by (simp add: gw3_def gw_ids_def)
qed

lemma gw_step4: "gateway_step sample_gw gw3 gw4"
proof -
  have "readings gw3 (\<lambda>_. 1003) 1003" by (rule gw_readings) (simp_all add: gw_states)
  moreover have "fresh [''claim1''] gw3" by (simp add: fresh_def gw_states)
  ultimately show ?thesis
    using step_claim [of gw3 "\<lambda>_. 1003" 1003 "''claim1''" sample_gw] sample_claim_eval
    by (simp add: gw4_def gw3_def gw2_def gw1_def gw0_def initial_gateway_def advance_def)
qed

lemma gw_step5: "gateway_step sample_gw gw4 gw5"
proof -
  have "readings gw4 (\<lambda>_. 1303) 1303" by (rule gw_readings) (simp_all add: gw_states)
  moreover have "fresh [''claim2''] gw4" by (simp add: fresh_def gw_states)
  ultimately show ?thesis
    using step_claim [of gw4 "\<lambda>_. 1303" 1303 "''claim2''" sample_gw] sample_reclaim_eval
    by (simp add: gw_states)
qed

lemma gw_step6: "gateway_step sample_gw gw4 gw6"
proof -
  have "readings gw4 (\<lambda>_. 1010) 1010" by (rule gw_readings) (simp_all add: gw_states)
  from step_restart [OF this, of sample_gw] sample_restart_eval show ?thesis by (simp add: gw_states)
qed

lemma gw_reach:
  "reach gateway_init (gateway_step sample_gw) gw0" "reach gateway_init (gateway_step sample_gw) gw1"
  "reach gateway_init (gateway_step sample_gw) gw2" "reach gateway_init (gateway_step sample_gw) gw3"
  "reach gateway_init (gateway_step sample_gw) gw4" "reach gateway_init (gateway_step sample_gw) gw5"
  "reach gateway_init (gateway_step sample_gw) gw6"
proof -
  show r0: "reach gateway_init (gateway_step sample_gw) gw0" by (rule reach_init, rule gw_init)
  show r1: "reach gateway_init (gateway_step sample_gw) gw1" by (rule reach_step, rule r0, rule gw_step1)
  show r2: "reach gateway_init (gateway_step sample_gw) gw2" by (rule reach_step, rule r1, rule gw_step2)
  show r3: "reach gateway_init (gateway_step sample_gw) gw3" by (rule reach_step, rule r2, rule gw_step3)
  show r4: "reach gateway_init (gateway_step sample_gw) gw4" by (rule reach_step, rule r3, rule gw_step4)
  show "reach gateway_init (gateway_step sample_gw) gw5" by (rule reach_step, rule r4, rule gw_step5)
  show "reach gateway_init (gateway_step sample_gw) gw6" by (rule reach_step, rule r4, rule gw_step6)
qed

lemma sample_late_eval:
  "claim_due (gw_codec sample_gw) 1303 1303 ''claim2'' (g_db gw6) =
   (Inr (Claimed (sample_claimed ''claim2'')), (gw_db3 (sample_row InProgress 1603 (Some ''claim2'') 1303))
     \<lparr>admission_locks := [(''registration'', 1010), (''hook'', 1001)]\<rparr>)"
  by code_simp

lemma sample_repeat_eval:
  "invoke_hook sample_gw None no_headers True ''hook1'' ''secret'' sample_invocation (\<lambda>_. 1004) ''event2'' (\<lambda>_. ''outbox2'')
     (g_limiters gw4) (g_db gw4) =
   (Inr \<lparr> io_target_count = 1, io_enqueued_rows = False \<rparr>, g_limiters gw4, g_db gw4)"
  by code_simp

lemma sample_success_eval:
  "complete_delivery (sample_claimed ''claim1'') (Inr ()) 1005 1005 (g_db gw4) =
     gw_db3 ((sample_row Succeeded 1303 None 1005)\<lparr>ob_last_attempt_at := Some 1005\<rparr>)"
  by code_simp

lemma sample_success_expire_eval:
  "expire_delivery_resolution_deadlines 1400 1400
     (gw_db3 ((sample_row Succeeded 1303 None 1005)\<lparr>ob_last_attempt_at := Some 1005\<rparr>)) =
   (0, gw_db3 ((sample_row Succeeded 1303 None 1005)\<lparr>ob_last_attempt_at := Some 1005\<rparr>))"
  by code_simp

lemma gw_step7: "gateway_step sample_gw gw4 gw7"
proof -
  have "readings gw4 (\<lambda>_. 1005) 1005" by (rule gw_readings) (simp_all add: gw_states)
  moreover have "sample_claimed ''claim1'' \<in> set (g_in_flight gw4)" by (simp add: gw_states)
  moreover have "Inr () = deliver_provider_call (cd_created_at (sample_claimed ''claim1'')) 1003 (2, Inr ())"
    by code_simp
  ultimately show ?thesis
    using step_complete [of gw4 "\<lambda>_. 1005" 1005 "sample_claimed ''claim1''" "Inr ()" 1003 "(2, Inr ())" _ sample_gw]
      sample_success_eval
    by (simp add: gw7_def)
qed

lemma gw_step8: "gateway_step sample_gw gw7 gw8"
proof -
  have "readings gw7 (\<lambda>_. 1400) 1400" by (rule gw_readings) (simp_all add: gw7_def gw_states)
  from step_expire [OF this, of 0 "g_db gw7" sample_gw] sample_success_expire_eval
  show ?thesis by (simp add: gw8_def gw7_def advance_def)
qed

end
