(* ===== verification/Gateway_Properties.thy ===== *)
theory Gateway_Properties
  imports Sample_Gateway
begin

text \<open>
  The properties of the push gateway: idempotent invocations, fenced deliveries and their
  lifecycle, the worker's round, registration ceilings, what a caller can put into a notification,
  and the integrity of the database.
\<close>

text \<open>What a notification carries without the caller's data.\<close>

definition hook_data :: "hook_record \<Rightarrow> json_map" where
  "hook_data rec = nt_data (notification_from_hook_and_request rec \<lparr> iv_idempotency_key = None, iv_data = [] \<rparr>)"

text \<open>
  The declarations of the migrations: primary keys, \<open>CHECK\<close> clauses, unique indexes, foreign keys
  and the two mutex rows.
\<close>

definition schema_holds :: "gateway_db \<Rightarrow> bool" where
  "schema_holds s \<longleftrightarrow>
     keyed (push_registrations s) \<and> keyed (token_owners s) \<and> keyed (notification_hooks s)
     \<and> keyed (notification_events s) \<and> keyed (delivery_outbox s) \<and> keyed (hook_tombstones s)
     \<and> list_all (\<lambda>(_, v). registration_row_check v) (push_registrations s)
     \<and> list_all (\<lambda>(_, v). token_owner_row_check v) (token_owners s)
     \<and> list_all (\<lambda>(_, v). hook_row_check v) (notification_hooks s)
     \<and> list_all (\<lambda>(_, v). event_row_check v) (notification_events s)
     \<and> list_all (\<lambda>(_, v). outbox_row_check v) (delivery_outbox s)
     \<and> list_all (\<lambda>(_, v). tombstone_row_check v) (hook_tombstones s)
     \<and> unique_under (\<lambda>v v'. pr_fcm_token v = pr_fcm_token v') (push_registrations s)
     \<and> unique_under (\<lambda>h h'. hk_secret_hash h = hk_secret_hash h') (notification_hooks s)
     \<and> unique_under same_event_key (notification_events s)
     \<and> unique_under same_target (delivery_outbox s)
     \<and> list_all (\<lambda>(_, e). tbl_exists (notification_hooks s) (ev_hook_id e)) (notification_events s)
     \<and> list_all (\<lambda>(_, b). tbl_exists (notification_events s) (ob_event_id b)) (delivery_outbox s)
     \<and> list_all (\<lambda>((h, _), _). tbl_exists (notification_hooks s) h) (hook_tombstones s)
     \<and> tbl_exists (admission_locks s) ''registration'' \<and> tbl_exists (admission_locks s) ''hook''"

section \<open>Invocations\<close>

lemma invoke_hook_accept:
  assumes "invoke_hook cfg peer headers admitted k secret req clk event_id ids l s = (Inr out, l', s')"
  shows "accept_invocation cfg
      (effective_source_prefix (gw_ip_text cfg) peer headers (gl_trusted_proxy_cidrs (gw_limits cfg)))
      k secret req clk event_id ids l s = (Inr out, l', s')"
    and "validate_no_reserved_data_keys (iv_data req) = Inr ()"
  using assms by (auto simp: invoke_hook_def validate_invoke_request_def and_then_eq_Inr split: sum.splits if_splits)

text \<open>After an accepted keyed invocation the key is marked with its target count.\<close>

lemma accepted_key_is_marked:
  assumes inv: "gateway_inv g" and r: "readings g clk c" and f: "fresh [event_id, ids 0] g"
    and call: "invoke_hook cfg peer headers admitted k secret req clk event_id ids (g_limiters g) (g_db g) = (Inr out, l, s)"
    and key: "iv_idempotency_key req = Some key"
  shows "marker_kept k key (io_target_count out) (advance s l c [event_id, ids 0] g)"
proof -
  note R = readings_inv [OF r inv]
  let ?src = "effective_source_prefix (gw_ip_text cfg) peer headers (gl_trusted_proxy_cidrs (gw_limits cfg))"
  have fresh: "event_id \<notin> set (g_issued g)" "ids 0 \<notin> set (g_issued g)" using f by (simp_all add: fresh_def)
  have issued: "k \<in> set (g_issued g)" if "map_of (notification_hooks (g_db g)) k = Some h" for h
    using db_ok_hook_ids(1) [OF R(1) that] .
  note acc = invoke_hook_accept(1) [OF call]
  have "k \<in> set (g_issued g) \<and> retained_target_count k key s = Some (io_target_count out)"
  proof (rule accept_invocation_cases [of clk "set (g_issued g)" "g_db g" event_id ids cfg ?src k secret req "g_limiters g",
        OF R(3) R(4) R(7) fresh])
    fix e l' assume "accept_invocation cfg ?src k secret req clk event_id ids (g_limiters g) (g_db g) = (Inl e, l', g_db g)"
    with acc show ?thesis by simp
  next
    fix h kk n
    assume "map_of (notification_hooks (g_db g)) k = Some h" "iv_idempotency_key req = Some kk"
      "retained_target_count k kk (g_db g) = Some n"
      "accept_invocation cfg ?src k secret req clk event_id ids (g_limiters g) (g_db g) =
        (Inr \<lparr> io_target_count = n, io_enqueued_rows = False \<rparr>, g_limiters g, g_db g)"
    with acc key issued show ?thesis by auto
  next
    fix h e rec nt reg l'
    let ?s1 = "swept_markers cfg req (clk 0) (g_db g)"
    let ?s2 = "snd (consume_hook (gw_production_mode cfg) k (clk 0) ?s1)"
    assume h: "map_of (notification_hooks (g_db g)) k = Some h"
      and unmarked: "\<And>kk. iv_idempotency_key req = Some kk \<Longrightarrow> retained_target_count k kk (g_db g) = None"
      and res: "accept_invocation cfg ?src k secret req clk event_id ids (g_limiters g) (g_db g) =
        (Inr \<lparr> io_target_count = 1, io_enqueued_rows = True \<rparr>, l',
         invocation_written k (iv_idempotency_key req) e (hk_recipient_id h)
           (gc_notification_to_json (gw_codec cfg) nt) reg (clk 0) event_id (ids 0) ?s2)"
    have "\<not> tbl_exists (hook_tombstones ?s2) (k, key)"
      using unmarked [OF key] R(1) swept_markers_none [of "g_db g" "(k, key)" cfg req "clk 0"]
      by (simp add: db_ok_def retained_target_count_def tbl_exists_def)
    with acc res key issued [OF h] show ?thesis
      by (auto simp: invocation_written_def retained_target_count_def key_marker_def tbl_exists_def map_add_def)
  qed
  then show ?thesis by (simp add: marker_kept_def advance_def)
qed

lemma marked_key_is_repeated:
  assumes inv: "gateway_inv g" and r: "readings g clk c" and f: "fresh [event_id, ids 0] g"
    and call: "invoke_hook cfg peer headers admitted k secret req clk event_id ids (g_limiters g) (g_db g) = (Inr out, l, s)"
    and key: "iv_idempotency_key req = Some key" and marked: "marker_kept k key n g"
  shows "out = \<lparr> io_target_count = n, io_enqueued_rows = False \<rparr>" and "s = g_db g"
proof -
  note R = readings_inv [OF r inv]
  let ?src = "effective_source_prefix (gw_ip_text cfg) peer headers (gl_trusted_proxy_cidrs (gw_limits cfg))"
  have fresh: "event_id \<notin> set (g_issued g)" "ids 0 \<notin> set (g_issued g)" using f by (simp_all add: fresh_def)
  have live: "retained_target_count k key (g_db g) = Some n"
    if h: "map_of (notification_hooks (g_db g)) k = Some h" "hk_expires_at h = Some e" "clk 0 < e" for h e
  proof -
    have "\<not> hook_ended (g_clock g) (g_db g) k" using h R(6) [of 0] by (simp add: hook_ended_def)
    with marked show ?thesis by (simp add: marker_kept_def)
  qed
  have expires: "\<exists>e. hk_expires_at h = Some e" if "map_of (notification_hooks (g_db g)) k = Some h" for h
    using R(1) map_of_SomeD [OF that] by (auto simp: db_ok_def hooks_ok_def hook_ok_def)
  note acc = invoke_hook_accept(1) [OF call]
  have "out = \<lparr> io_target_count = n, io_enqueued_rows = False \<rparr> \<and> s = g_db g"
  proof (rule accept_invocation_cases [of clk "set (g_issued g)" "g_db g" event_id ids cfg ?src k secret req "g_limiters g",
        OF R(3) R(4) R(7) fresh])
    fix e l' assume "accept_invocation cfg ?src k secret req clk event_id ids (g_limiters g) (g_db g) = (Inl e, l', g_db g)"
    with acc show ?thesis by simp
  next
    fix h kk m
    assume h: "map_of (notification_hooks (g_db g)) k = Some h" "\<And>e. hk_expires_at h = Some e \<Longrightarrow> clk 0 < e"
      and m: "iv_idempotency_key req = Some kk" "retained_target_count k kk (g_db g) = Some m"
      and res: "accept_invocation cfg ?src k secret req clk event_id ids (g_limiters g) (g_db g) =
        (Inr \<lparr> io_target_count = m, io_enqueued_rows = False \<rparr>, g_limiters g, g_db g)"
    from expires [OF h(1)] obtain e where "hk_expires_at h = Some e" by blast
    with live [OF h(1) this h(2)] m key acc res show ?thesis by simp
  next
    fix h e rec nt reg l'
    assume h: "map_of (notification_hooks (g_db g)) k = Some h" "hk_expires_at h = Some e"
        "hook_usable (gw_production_mode cfg) (clk 0) h"
      and "\<And>kk. iv_idempotency_key req = Some kk \<Longrightarrow> retained_target_count k kk (g_db g) = None"
    moreover from h have "clk 0 < e" by (simp add: hook_usable_def)
    ultimately show ?thesis using live key by fastforce
  qed
  then show "out = \<lparr> io_target_count = n, io_enqueued_rows = False \<rparr>" and "s = g_db g" by simp_all
qed

text \<open>
  C3. An invocation with an idempotency key that was accepted is never enqueued a second
  time: whatever the gateway does afterwards (sweeps, retention purges, restarts included), an
  accepted invocation of the same hook with the same key answers the same target count, reports
  that nothing was enqueued, and leaves the database as it is.
\<close>

theorem keyed_invocation_enqueues_once:
  assumes "reach gateway_init (gateway_step cfg) g"
    and "readings g clk c" and "fresh [event_id, ids 0] g"
    and "invoke_hook cfg peer headers admitted k secret req clk event_id ids (g_limiters g) (g_db g) = (Inr out, l, s)"
    and "iv_idempotency_key req = Some key"
    and "(gateway_step cfg)\<^sup>*\<^sup>* (advance s l c [event_id, ids 0] g) g'"
    and "readings g' clk' c'" and "fresh [event_id', ids' 0] g'"
    and "invoke_hook cfg peer' headers' admitted' k secret' req' clk' event_id' ids' (g_limiters g') (g_db g') = (Inr out', l', s')"
    and "iv_idempotency_key req' = Some key"
  shows "out' = \<lparr> io_target_count = io_target_count out, io_enqueued_rows = False \<rparr> \<and> s' = g_db g'"
proof -
  let ?g1 = "advance s l c [event_id, ids 0] g"
  have inv: "gateway_inv g" using assms(1) by (rule gateway.inv_reach)
  have "gateway_step cfg g ?g1" using assms(2-4) by (rule step_invoke)
  then have inv1: "gateway_inv ?g1" using inv gateway_step_inv by blast
  have inv': "gateway_inv g'" using gateway.inv_run [OF inv1 assms(6)] .
  have "settles ?g1 g'" using deliveries.rel_run [OF inv1 assms(6)] .
  with accepted_key_is_marked [OF inv assms(2-5)]
  have "marker_kept k key (io_target_count out) g'" by (simp add: settles_def)
  from marked_key_is_repeated [OF inv' assms(7-10) this] show ?thesis by simp
qed

theorem keyed_invocation_enqueues_once_witness:
  "invoke_hook sample_gw None no_headers True ''hook1'' ''secret'' sample_invocation (\<lambda>_. 1004) ''event2'' (\<lambda>_. ''outbox2'')
     (g_limiters gw4) (g_db gw4) =
   (Inr \<lparr> io_target_count = 1, io_enqueued_rows = False \<rparr>, g_limiters gw4, g_db gw4)
   \<and> io_target_count \<lparr> io_target_count = 1, io_enqueued_rows = True \<rparr> = 1"
proof -
  have "(gateway_step sample_gw)\<^sup>*\<^sup>* (advance (gw_db3 (sample_row Pending 1002 None 1002)) gw_lim3 1002 [''event1'', gw_ids 0] gw2) gw4"
    using gw_step4 by (simp add: gw3_def gw_ids_def)
  moreover have "readings gw2 (\<lambda>_. 1002) 1002" "fresh [''event1'', gw_ids 0] gw2"
    "readings gw4 (\<lambda>_. 1004) 1004" "fresh [''event2'', (\<lambda>_. ''outbox2'') (0::nat)] gw4"
    by (auto simp: readings_def fresh_def gw_states gw_ids_def)
  moreover have "invoke_hook sample_gw None no_headers True ''hook1'' ''secret'' sample_invocation (\<lambda>_. 1002) ''event1''
      gw_ids (g_limiters gw2) (g_db gw2)
      = (Inr \<lparr> io_target_count = 1, io_enqueued_rows = True \<rparr>, gw_lim3, gw_db3 (sample_row Pending 1002 None 1002))"
    using sample_invoke_eval by (simp add: gw_states)
  moreover have "iv_idempotency_key sample_invocation = Some ''k1''" by (simp add: sample_invocation_def)
  moreover note sample_repeat_eval gw_reach(3)
  ultimately show ?thesis
    using keyed_invocation_enqueues_once [of sample_gw gw2 "\<lambda>_. 1002" 1002 "''event1''" gw_ids None no_headers True
        "''hook1''" "''secret''" sample_invocation "\<lparr> io_target_count = 1, io_enqueued_rows = True \<rparr>" gw_lim3
        "gw_db3 (sample_row Pending 1002 None 1002)" "''k1''" gw4 "\<lambda>_. 1004" 1004 "''event2''" "\<lambda>_. ''outbox2''"
        None no_headers True "''secret''" sample_invocation] by simp
qed

lemma map_of_json_insert: "map_of (json_insert k v m) k' = (if k' = k then Some v else map_of m k')"
  by (induction k v m rule: json_insert.induct) auto

lemma map_of_fold_json_insert:
  "map_of (fold (\<lambda>(k, v). json_insert k v) kvs m) k = (case map_of (rev kvs) k of None \<Rightarrow> map_of m k | Some v \<Rightarrow> Some v)"
  by (induction kvs arbitrary: m)
     (auto simp: map_of_json_insert map_add_def split: option.splits)

lemma notification_data:
  "map_of (nt_data (notification_from_hook_and_request rec req)) k =
     (case map_of (rev (iv_data req)) k of None \<Rightarrow> map_of (hook_data rec) k | Some v \<Rightarrow> Some v)"
  by (simp add: notification_from_hook_and_request_def hook_data_def Let_def map_of_fold_json_insert split: option.split)

lemma hook_data_counters:
  "hook_data (rec\<lparr>hr_use_count := n, hr_last_used_at := t\<rparr>) = hook_data rec"
  by (simp add: hook_data_def notification_from_hook_and_request_def Let_def)

lemma notification_shown:
  assumes "hook_record_from_row gc k h = Inr rec"
    and "nt = notification_from_hook_and_request (rec\<lparr>hr_use_count := n, hr_last_used_at := t\<rparr>) req"
  shows "nt_recipient_id nt = hk_recipient_id h"
    and "nt_kind nt = (case hk_kind h of None \<Rightarrow> ''hook'' | Some x \<Rightarrow> x)"
    and "nt_title nt = (if hk_privacy h = ''data_only'' then None else hk_title h)"
    and "nt_body nt = (if hk_privacy h = ''data_only'' then None else hk_body h)"
    and "map_of (nt_data nt) key =
      (case map_of (rev (iv_data req)) key of None \<Rightarrow> map_of (hook_data rec) key | Some v \<Rightarrow> Some v)"
proof -
  show "nt_recipient_id nt = hk_recipient_id h" "nt_kind nt = (case hk_kind h of None \<Rightarrow> ''hook'' | Some x \<Rightarrow> x)"
    "nt_title nt = (if hk_privacy h = ''data_only'' then None else hk_title h)"
    "nt_body nt = (if hk_privacy h = ''data_only'' then None else hk_body h)"
    using assms(1) by (auto simp: assms(2) notification_from_hook_and_request_def Let_def
        hook_record_from_row_def and_then_eq_Inr privacy_from_def)
qed (simp add: assms(2) notification_data hook_data_counters split: option.split)

text \<open>What an invocation that enqueued its notification stored, and for which registration.\<close>

lemma enqueued_invocation_row:
  assumes "gateway_inv g" and "readings g clk c" and "fresh [event_id, ids 0] g"
    and "invoke_hook cfg peer headers admitted k secret req clk event_id ids (g_limiters g) (g_db g) = (Inr out, l, s)"
    and "io_enqueued_rows out"
  obtains h rec reg nt n t where "map_of (notification_hooks (g_db g)) k = Some h"
    and "hook_record_from_row (gw_codec cfg) k h = Inr rec"
    and "nt = notification_from_hook_and_request (rec\<lparr>hr_use_count := n, hr_last_used_at := t\<rparr>) req"
    and "reg_recipient_id reg = hk_recipient_id h" and "reg_installation_id reg = hk_installation_id h"
    and "map_of (delivery_outbox s) (ids 0) =
      Some (pending_row event_id (gc_notification_to_json (gw_codec cfg) nt) reg (clk 0))"
proof -
  note R = readings_inv [OF assms(2,1)]
  let ?src = "effective_source_prefix (gw_ip_text cfg) peer headers (gl_trusted_proxy_cidrs (gw_limits cfg))"
  have fresh: "event_id \<notin> set (g_issued g)" "ids 0 \<notin> set (g_issued g)" using assms(3) by (simp_all add: fresh_def)
  note acc = invoke_hook_accept [OF assms(4)]
  show thesis
  proof (rule accept_invocation_cases [of clk "set (g_issued g)" "g_db g" event_id ids cfg ?src k secret req "g_limiters g",
        OF R(3) R(4) R(7) fresh])
    fix e l' assume "accept_invocation cfg ?src k secret req clk event_id ids (g_limiters g) (g_db g) = (Inl e, l', g_db g)"
    with acc show thesis by simp
  next
    fix h kk m
    assume "accept_invocation cfg ?src k secret req clk event_id ids (g_limiters g) (g_db g) =
        (Inr \<lparr> io_target_count = m, io_enqueued_rows = False \<rparr>, g_limiters g, g_db g)"
    with acc assms(5) show thesis by auto
  next
    fix h e nt reg l' and rec :: hook_record
    assume hook: "map_of (notification_hooks (g_db g)) k = Some h" "hook_record_from_row (gw_codec cfg) k h = Inr rec"
        "nt = notification_from_hook_and_request
          (rec\<lparr>hr_use_count := i64_saturating (hr_use_count rec + 1), hr_last_used_at := Some (clk 0)\<rparr>) req"
      and reg: "eligible_installation (hk_recipient_id h) (hk_installation_id h) (registration_cutoff cfg (clk 0)) (g_db g) = Some reg"
      and res: "accept_invocation cfg ?src k secret req clk event_id ids (g_limiters g) (g_db g) =
        (Inr \<lparr> io_target_count = 1, io_enqueued_rows = True \<rparr>, l',
         invocation_written k (iv_idempotency_key req) e (hk_recipient_id h)
           (gc_notification_to_json (gw_codec cfg) nt) reg (clk 0) event_id (ids 0)
           (snd (consume_hook (gw_production_mode cfg) k (clk 0) (swept_markers cfg req (clk 0) (g_db g)))))"
    have "delivery_outbox s = delivery_outbox (g_db g)
        @ [(ids 0, pending_row event_id (gc_notification_to_json (gw_codec cfg) nt) reg (clk 0))]"
      using acc res by (auto simp: invocation_written_def)
    moreover have "reg_recipient_id reg = hk_recipient_id h" "reg_installation_id reg = hk_installation_id h"
      using reg by (auto simp: eligible_installation_def split: option.splits if_splits)
    ultimately show thesis
      using that [OF hook] map_of_snoc_new [OF unused_ids(2) [OF R(1) fresh(2)]] by simp
  qed
qed



section \<open>Deliveries\<close>

text \<open>
  C4. Every step of the gateway moves every outbox row along the lifecycle: its event, target,
  token and content never change; its status moves only as \<open>delivery_moves\<close> allows, so a resolved
  delivery is attempted again only by the replay of a dead letter; it succeeds, or is replayed,
  only before its resolution deadline; a claim appears only with a newly drawn id; a row
  disappears only when it is resolved, and a new row is pending, unclaimed and unattempted.
\<close>

theorem delivery_follows_lifecycle:
  assumes "reach gateway_init (gateway_step cfg) g" and "gateway_step cfg g g'"
  shows "outbox_moves (g_clock g) (set (g_issued g)) (g_db g) (g_db g')"
  using gateway_step_deliveries [OF assms(2) gateway.inv_reach [OF assms(1)]] by (simp add: delivery_step_def)

theorem delivery_follows_lifecycle_witness:
  "outbox_moves (g_clock gw3) (set (g_issued gw3)) (g_db gw3) (g_db gw4)
   \<and> map_option ob_status (map_of (delivery_outbox (g_db gw3)) ''outbox1'') = Some Pending
   \<and> map_option ob_status (map_of (delivery_outbox (g_db gw4)) ''outbox1'') = Some InProgress"
  using delivery_follows_lifecycle [OF gw_reach(4) gw_step4]
  by (simp add: gw_states gw_db3_def sample_row_def)

lemma update_where_none: "(\<And>k v. (k, v) \<in> set t \<Longrightarrow> \<not> p k v) \<Longrightarrow> update_where p f t = t"
  unfolding update_where_def by (rule map_idI) auto

lemma matching_none: "(\<And>k v. (k, v) \<in> set t \<Longrightarrow> \<not> p k v) \<Longrightarrow> matching p t = 0"
  by (auto simp: matching_def filter_empty_conv)

lemma lost_claim_completion:
  assumes "claim_lost (cd_outbox_id d) (cd_claim_id d) g" and "keyed (delivery_outbox (g_db g))"
  shows "complete_delivery d answer now db_now (g_db g) = g_db g"
proof -
  let ?t = "delivery_outbox (g_db g)"
  have no: "\<not> claim_holds (cd_outbox_id d) (cd_claim_id d) k b" if "(k, b) \<in> set ?t" for k b
    using assms that by (auto simp: claim_holds_def claim_lost_def map_of_in_set)
  then have same: "update_where (claim_holds (cd_outbox_id d) (cd_claim_id d)) f ?t = ?t"
    "update_where (\<lambda>k b. claim_holds (cd_outbox_id d) (cd_claim_id d) k b \<and> q b) f ?t = ?t"
    "matching (claim_holds (cd_outbox_id d) (cd_claim_id d)) ?t = 0" for f q
    by (auto intro: update_where_none matching_none)
  show ?thesis
    by (auto simp: complete_delivery_def mark_succeeded_def mark_failed_def Let_def same
        mark_invalid_token_and_disable_registration_def split: sum.split option.split)
qed

lemma claim_due_Claimed_row:
  assumes "claim_due gc now later x s = (Inr (Claimed d), s')" and "keyed (delivery_outbox s)"
  obtains b where "map_of (delivery_outbox s) (cd_outbox_id d) = Some b" and "claimable now b"
    and "ob_next_attempt_at b \<le> now" and "map_of (delivery_outbox s') (cd_outbox_id d) = Some (claim_outbox_row now x b)"
    and "cd_claim_id d = x" and "cd_created_at d = ob_created_at b"
proof -
  from assms(1) obtain k b where due: "due_row now s = Some (k, b)"
    by (auto simp: claim_due_def split: option.splits)
  note row = due_row_claimable [OF due assms(2)]
  let ?hit = "\<lambda>k' b. k' = k \<and> claimable now b"
  from assms(1) due have d: "row_to_claimed gc k x b = Some d"
    and s': "s' = s\<lparr>delivery_outbox := update_where ?hit (claim_outbox_row now x) (delivery_outbox s)\<rparr>"
    by (auto simp: claim_due_def Let_def split: option.splits if_splits prod.splits)
  from d have ids: "cd_outbox_id d = k" "cd_claim_id d = x" "cd_created_at d = ob_created_at b"
    by (auto simp: row_to_claimed_def)
  show ?thesis
    by (rule that [of b]) (use row ids in \<open>simp_all add: s' map_of_update_where\<close>)
qed

text \<open>
  C10. When a row whose delivery is still in flight is claimed again, the older delivery has lost
  it for good: at any later time, whatever the provider answered it, its completion changes nothing.
\<close>

theorem superseded_claim_is_fenced:
  assumes "reach gateway_init (gateway_step cfg) g" and "d \<in> set (g_in_flight g)"
    and "readings g clk c" and "fresh [claim_id] g"
    and "claim_due (gw_codec cfg) (clk 0) (clk 1) claim_id (g_db g) = (Inr (Claimed newer), s)"
    and "cd_outbox_id newer = cd_outbox_id d"
    and "(gateway_step cfg)\<^sup>*\<^sup>*
      ((advance s (g_limiters g) c [claim_id] g)\<lparr>g_in_flight := newer # g_in_flight g\<rparr>) g'"
  shows "complete_delivery d answer now db_now (g_db g') = g_db g'"
proof -
  let ?g1 = "(advance s (g_limiters g) c [claim_id] g)\<lparr>g_in_flight := newer # g_in_flight g\<rparr>"
  have inv: "gateway_inv g" using assms(1) by (rule gateway.inv_reach)
  have "gateway_step cfg g ?g1" using step_claim [OF assms(3-5)] by simp
  then have inv1: "gateway_inv ?g1" using inv gateway_step_inv by blast
  have issued: "cd_claim_id d \<in> set (g_issued g)"
    using flights.inv_reach [OF assms(1)] assms(2) by (simp add: claims_issued_def)
  with assms(4) have "cd_claim_id d \<noteq> claim_id" by (auto simp: fresh_def)
  moreover obtain b where "map_of (delivery_outbox s) (cd_outbox_id d) = Some (claim_outbox_row (clk 0) claim_id b)"
    using claim_due_Claimed_row [OF assms(5) inv_keyed_outbox [OF inv]] assms(6) by metis
  ultimately have "claim_lost (cd_outbox_id d) (cd_claim_id d) ?g1"
    using issued by (simp add: claim_lost_def advance_def claim_outbox_row_def)
  moreover have "settles ?g1 g'" using deliveries.rel_run [OF inv1 assms(7)] .
  ultimately have "claim_lost (cd_outbox_id d) (cd_claim_id d) g'" by (simp add: settles_def)
  then show ?thesis
    using lost_claim_completion inv_keyed_outbox gateway.inv_run [OF inv1 assms(7)] by blast
qed

theorem superseded_claim_is_fenced_witness:
  "complete_delivery (sample_claimed ''claim1'') (Inr ()) 1304 1304 (g_db gw5) = g_db gw5
   \<and> cd_claim_id (sample_claimed ''claim1'') = ''claim1''"
proof -
  have "readings gw4 (\<lambda>_. 1303) 1303" "fresh [''claim2''] gw4" "sample_claimed ''claim1'' \<in> set (g_in_flight gw4)"
    "cd_outbox_id (sample_claimed ''claim2'') = cd_outbox_id (sample_claimed ''claim1'')"
    by (auto simp: readings_def fresh_def gw_states sample_claimed_def)
  moreover have "claim_due (gw_codec sample_gw) ((\<lambda>_. 1303) (0::nat)) ((\<lambda>_. 1303) (1::nat)) ''claim2'' (g_db gw4)
      = (Inr (Claimed (sample_claimed ''claim2'')), gw_db3 (sample_row InProgress 1603 (Some ''claim2'') 1303))"
    using sample_reclaim_eval by (simp add: gw_states)
  moreover have "(gateway_step sample_gw)\<^sup>*\<^sup>* ((advance (gw_db3 (sample_row InProgress 1603 (Some ''claim2'') 1303))
      (g_limiters gw4) 1303 [''claim2''] gw4)\<lparr>g_in_flight := sample_claimed ''claim2'' # g_in_flight gw4\<rparr>) gw5"
    by (simp add: gw_states)
  ultimately show ?thesis
    using superseded_claim_is_fenced [OF gw_reach(5), of "sample_claimed ''claim1''" "\<lambda>_. 1303" 1303 "''claim2''"
        "sample_claimed ''claim2''" "gw_db3 (sample_row InProgress 1603 (Some ''claim2'') 1303)" gw5 "Inr ()" 1304 1304]
    by (simp add: sample_claimed_def)
qed

lemma claim_due_keyed:
  "keyed (delivery_outbox s) \<Longrightarrow> keyed (delivery_outbox (snd (claim_due gc now later x s)))"
  by (auto simp: claim_due_def Let_def mark_corrupted_notification_dead_letter_def keyed_update_where
      split: option.split)

lemma claim_due_dead_letter:
  assumes "keyed (delivery_outbox s)" and "map_of (delivery_outbox s) k = Some b" and "ob_status b = DeadLetter"
  shows "map_of (delivery_outbox (snd (claim_due gc now later x s))) k = Some b"
  using claim_due_rows [OF assms(1), of gc now later x k] assms(2,3) by (auto simp: claimable_def)

lemma claim_loop_invariant:
  assumes "\<And>s now later x. P s \<Longrightarrow> P (snd (claim_due gc now later x s))"
    and "claim_loop gc m stop clk later ids n tasks s = Some (tasks', s')" and "P s"
  shows "P s'"
  using assms(2,3)
proof (induction "(m - length tasks) + open_rows s" arbitrary: n tasks s rule: less_induct)
  case less
  show ?case
  proof (cases "m \<le> length tasks \<or> stop n")
    case True
    with less.prems claim_loop.simps [of gc m stop clk later ids n tasks s] show ?thesis by simp
  next
    case False
    obtain v s1 where c: "claim_due gc (clk n) (later n) (ids n) s = (v, s1)" by fastforce
    have s1: "P s1" using assms(1) [OF less.prems(2), of "clk n" "later n" "ids n"] c by simp
    consider (claimed) d where "v = Inr (Claimed d)" | (corrupted) "v = Inr CorruptedDeadLetter"
      | (stopped) "v = Inr ClaimEmpty \<or> isl v"
      by (cases v) (auto, metis claim_due_outcome.exhaust)
    then show ?thesis
    proof cases
      case claimed
      then have "claim_loop gc m stop clk later ids (Suc n) (tasks @ [d]) s1 = Some (tasks', s')"
        using less.prems(1) c False claim_loop.simps [of gc m stop clk later ids n tasks s] by simp
      moreover have "open_rows s1 = open_rows s" using c claimed by (intro claim_due_Claimed_open) simp
      ultimately show ?thesis using less.hyps [of "tasks @ [d]" s1 "Suc n"] False s1 by (simp add: diff_less_mono2)
    next
      case corrupted
      then have "claim_loop gc m stop clk later ids (Suc n) tasks s1 = Some (tasks', s')"
        using less.prems(1) c False claim_loop.simps [of gc m stop clk later ids n tasks s] by simp
      moreover have "open_rows s1 < open_rows s" using c corrupted by (intro claim_due_Corrupted_open) simp
      ultimately show ?thesis using less.hyps [of tasks s1 "Suc n"] s1 by simp
    next
      case stopped
      then show ?thesis
        using less.prems(1) c False s1 claim_loop.simps [of gc m stop clk later ids n tasks s]
        by (auto split: sum.splits)
    qed
  qed
qed

lemma claim_loop_dead_letter:
  assumes "claim_loop gc m stop clk later ids n tasks s = Some (tasks', s')"
    and "keyed (delivery_outbox s)" and "map_of (delivery_outbox s) k = Some b" and "ob_status b = DeadLetter"
  shows "map_of (delivery_outbox s') k = Some b"
proof -
  let ?P = "\<lambda>s. keyed (delivery_outbox s) \<and> map_of (delivery_outbox s) k = Some b"
  have "?P s'"
    by (rule claim_loop_invariant [of ?P, OF _ assms(1)])
       (use assms(2-4) in \<open>simp_all add: claim_due_keyed claim_due_dead_letter\<close>)
  then show ?thesis by simp
qed

text \<open>
  C11. A round of the delivery worker on a reachable database always returns, with at most the
  configured number of deliveries in flight (or those it started with), and every row that was
  still open past its resolution deadline when the round began is a dead letter afterwards.
\<close>

theorem worker_round_returns:
  assumes "reach gateway_init (gateway_step cfg) g"
  shows "\<exists>tasks' s'. worker_round (gw_codec cfg) m stop now db_now clk later ids tasks (g_db g) = Some (tasks', s')
    \<and> length tasks' \<le> max (max m 1) (length tasks)
    \<and> (\<forall>k b. map_of (delivery_outbox (g_db g)) k = Some b \<and> row_active b \<and> deadline_passed db_now b \<longrightarrow>
         map_of (delivery_outbox s') k = Some (expire_row now b))"
proof -
  let ?s1 = "snd (expire_delivery_resolution_deadlines now db_now (g_db g))"
  have keyed: "keyed (delivery_outbox (g_db g))"
    using gateway.inv_reach [OF assms] by (rule inv_keyed_outbox)
  then have keyed1: "keyed (delivery_outbox ?s1)"
    by (simp add: expire_delivery_resolution_deadlines_def Let_def keyed_update_where)
  obtain tasks' s' where r: "claim_loop (gw_codec cfg) (max m 1) stop clk later ids 0 tasks ?s1 = Some (tasks', s')"
    and len: "length tasks' \<le> max (max m 1) (length tasks)"
    using claim_loop_returns by blast
  have "map_of (delivery_outbox s') k = Some (expire_row now b)"
    if "map_of (delivery_outbox (g_db g)) k = Some b" "row_active b" "deadline_passed db_now b" for k b
  proof -
    have "map_of (delivery_outbox ?s1) k = Some (expire_row now b)"
      using that by (simp add: expire_delivery_resolution_deadlines_def Let_def map_of_update_where)
    from claim_loop_dead_letter [OF r keyed1 this] show ?thesis by (simp add: expire_row_def)
  qed
  with r len show ?thesis by (auto simp: worker_round_def)
qed

theorem worker_round_returns_witness:
  "\<exists>tasks' s'. worker_round (gw_codec sample_gw) 4 (\<lambda>_. False) 1302 1302 (\<lambda>_. 1302) (\<lambda>_. 1302) (\<lambda>_. ''claim3'') []
       (g_db gw4) = Some (tasks', s')
     \<and> length tasks' \<le> 4
     \<and> map_option ob_status (map_of (delivery_outbox s') ''outbox1'') = Some DeadLetter"
proof -
  let ?b = "sample_row InProgress 1303 (Some ''claim1'') 1003"
  have "map_of (delivery_outbox (g_db gw4)) ''outbox1'' = Some ?b" "row_active ?b" "deadline_passed 1302 ?b"
    by (simp_all add: gw_states gw_db3_def sample_row_def row_active_def deadline_passed_def outbox_consts)
  then show ?thesis
    using worker_round_returns [OF gw_reach(5), of 4 "\<lambda>_. False" 1302 1302 "\<lambda>_. 1302" "\<lambda>_. 1302" "\<lambda>_. ''claim3''" "[]"]
    by (fastforce simp: expire_row_def)
qed

text \<open>
  C21. The recorded outcome of a delivery is final: along any run, a row that was marked delivered,
  or whose token was found invalid, keeps that status and its content for as long as it is stored.
\<close>

theorem resolved_delivery_is_final:
  assumes "reach gateway_init (gateway_step cfg) g"
    and "map_of (delivery_outbox (g_db g)) k = Some b" and "ob_status b \<in> {Succeeded, InvalidToken}"
    and "(gateway_step cfg)\<^sup>*\<^sup>* g g'" and "map_of (delivery_outbox (g_db g')) k = Some b'"
  shows "same_delivery b b' \<and> ob_status b' = ob_status b"
proof -
  have inv: "gateway_inv g" using assms(1) by (rule gateway.inv_reach)
  then have "k \<in> set (g_issued g)"
    using map_of_SomeD [OF assms(2)] by (auto simp: gateway_inv_def db_ok_def outbox_ok_def)
  then have "outcome_kept k b g" using assms(2) by (simp add: outcome_kept_def same_delivery_def)
  moreover have "settles g g'" using deliveries.rel_run [OF inv assms(4)] .
  ultimately have "outcome_kept k b g'" using assms(3) unfolding settles_def by blast
  with assms(5) show ?thesis unfolding outcome_kept_def by blast
qed

theorem resolved_delivery_is_final_witness:
  "map_option ob_status (map_of (delivery_outbox (g_db gw8)) ''outbox1'') = Some Succeeded"
proof -
  let ?b = "(sample_row Succeeded 1303 None 1005)\<lparr>ob_last_attempt_at := Some 1005\<rparr>"
  have "reach gateway_init (gateway_step sample_gw) gw7" by (rule reach_step, rule gw_reach(5), rule gw_step7)
  moreover have "map_of (delivery_outbox (g_db gw7)) ''outbox1'' = Some ?b" "ob_status ?b \<in> {Succeeded, InvalidToken}"
    by (simp_all add: gw7_def advance_def gw_db3_def sample_row_def)
  moreover have "(gateway_step sample_gw)\<^sup>*\<^sup>* gw7 gw8" using gw_step8 by blast
  moreover obtain b' where b': "map_of (delivery_outbox (g_db gw8)) ''outbox1'' = Some b'"
    by (simp add: gw8_def gw7_def advance_def gw_db3_def)
  ultimately have "ob_status b' = ob_status ?b" using resolved_delivery_is_final by blast
  with b' show ?thesis by (simp add: sample_row_def)
qed

text \<open>
  C22. A delivery that was interrupted after its claim (its row returned to the queue by a
  restart), or that failed four times, is never delivered by the gateway's own retries: when it can be claimed
  again its resolution deadline has passed, so the success of that attempt is not recorded.
\<close>

theorem interrupted_delivery_cannot_succeed:
  assumes "reach gateway_init (gateway_step cfg) g" and "map_of (delivery_outbox (g_db g)) k = Some b"
    and "ob_status b = Pending \<and> ob_claim_id b \<noteq> None \<or> ob_status b = Retrying \<and> 4 \<le> ob_attempts b"
    and "claim_due (gw_codec cfg) now later claim_id (g_db g) = (Inr (Claimed d), s)" and "cd_outbox_id d = k"
    and "now \<le> db_now"
  shows "mark_succeeded k (cd_claim_id d) at db_now s = (False, s)"
proof -
  have inv: "gateway_inv g" using assms(1) by (rule gateway.inv_reach)
  then have "outbox_row_ok (g_clock g) (set (g_issued g)) b"
    using map_of_SomeD [OF assms(2)] by (auto simp: gateway_inv_def db_ok_def outbox_ok_def)
  with assms(3) have late: "ob_created_at b + DELIVERY_RESOLUTION_DEADLINE_SECONDS \<le> ob_next_attempt_at b"
    by (auto simp: outbox_row_ok_def)
  obtain b1 where b1: "map_of (delivery_outbox (g_db g)) k = Some b1" "ob_next_attempt_at b1 \<le> now"
    "map_of (delivery_outbox s) k = Some (claim_outbox_row now claim_id b1)"
    using claim_due_Claimed_row [OF assms(4) inv_keyed_outbox [OF inv]] assms(5) by metis
  have keyed: "keyed (delivery_outbox s)"
    using claim_due_keyed [OF inv_keyed_outbox [OF inv], of "gw_codec cfg" now later claim_id] assms(4) by simp
  have no: "\<not> (claim_holds k (cd_claim_id d) k' b' \<and> \<not> deadline_passed db_now b')"
    if "(k', b') \<in> set (delivery_outbox s)" for k' b'
  proof
    assume holds: "claim_holds k (cd_claim_id d) k' b' \<and> \<not> deadline_passed db_now b'"
    then have "b' = claim_outbox_row now claim_id b"
      using that b1 assms(2) keyed by (simp add: claim_holds_def map_of_in_set [symmetric])
    with holds late b1 assms(2,6) show False by (simp add: deadline_passed_def claim_outbox_row_def)
  qed
  show ?thesis by (simp add: mark_succeeded_def Let_def update_where_none [OF no] matching_none [OF no])
qed

theorem interrupted_delivery_cannot_succeed_witness:
  "fst (mark_succeeded ''outbox1'' ''claim2'' 1304 1304 ((gw_db3 (sample_row InProgress 1603 (Some ''claim2'') 1303))
     \<lparr>admission_locks := [(''registration'', 1010), (''hook'', 1001)]\<rparr>)) = False"
proof -
  let ?b = "sample_row Pending 1303 (Some ''claim1'') 1010"
  have "map_of (delivery_outbox (g_db gw6)) ''outbox1'' = Some ?b" "ob_status ?b = Pending \<and> ob_claim_id ?b \<noteq> None"
    by (simp_all add: gw_states gw_db3_def sample_row_def)
  moreover have "cd_outbox_id (sample_claimed ''claim2'') = ''outbox1''" "cd_claim_id (sample_claimed ''claim2'') = ''claim2''"
    by (simp_all add: sample_claimed_def)
  ultimately show ?thesis
    using interrupted_delivery_cannot_succeed [OF gw_reach(7) _ _ sample_late_eval, of "''outbox1''" ?b 1304 1304] by simp
qed

section \<open>Registrations\<close>

text \<open>The projections an admission checks are the counts its writes lead to.\<close>

lemma admission_projections_exact:
  assumes reg: "registrations_ok s" and w: "write_registration r req now (admission_view_of r req s) s = Inr s'"
    and now: "0 \<le> now" "cutoff \<le> now"
  shows "active_registration_count (Some r) cutoff s' = projected_recipient r req cutoff (admission_view_of r req s) s"
    and "active_registration_count None cutoff s' = projected_global r req cutoff (admission_view_of r req s) s"
    and "physical_registration_count s' = projected_rows r req (admission_view_of r req s) s"
proof -
  let ?av = "admission_view_of r req s"
  let ?k = "(r, rq_installation_id req)"
  let ?new = "written_row req now (map_of (push_registrations s) ?k)"
  note W = write_registration_InrD [OF w reg refl now(1)]
  have keyed: "keyed (push_registrations s')" using W(2) by (simp add: registrations_ok_def)
  have active: "registration_row_is_active ?new cutoff" using now(2) by (rule written_row_facts(2))
  have after: "matching P (push_registrations s')
      + (of_bool (\<exists>v. av_target ?av = Some v \<and> P ?k v)
         + of_bool (other_route r req ?av \<and> (\<exists>k' v. av_token_registration ?av = Some (k', v) \<and> P k' v)))
    = matching P (push_registrations s) + 1" if "P ?k ?new" for P
    using matching_after_admission [where P = P and new = ?new, OF reg keyed refl refl W(3) that] .
  have pos: "1 \<le> matching P (push_registrations s')" if "P ?k ?new" for P
  proof -
    have "(?k, ?new) \<in> set (push_registrations s')" using W(3) by (simp add: admission_rows_def)
    with that have "filter (\<lambda>(k, v). P k v) (push_registrations s') \<noteq> []" by (auto simp: filter_empty_conv)
    then show ?thesis by (simp add: matching_def Suc_le_eq)
  qed
  have target: "(\<exists>v. av_target ?av = Some v \<and> fst ?k = r \<and> registration_row_is_active v cutoff) = target_is_active cutoff ?av"
    "(\<exists>v. av_target ?av = Some v \<and> True \<and> registration_row_is_active v cutoff) = target_is_active cutoff ?av"
    by (auto simp: target_is_active_def split: option.split)
  have route: "(other_route r req ?av \<and> (\<exists>k' v. av_token_registration ?av = Some (k', v) \<and> fst k' = r
        \<and> registration_row_is_active v cutoff))
      = (other_route r req ?av \<and> token_registration_belongs_to r ?av \<and> token_registration_is_active cutoff ?av)"
    "(other_route r req ?av \<and> (\<exists>k' v. av_token_registration ?av = Some (k', v) \<and> True \<and> registration_row_is_active v cutoff))
      = (other_route r req ?av \<and> token_registration_is_active cutoff ?av)"
    by (auto simp: token_registration_is_active_def token_registration_belongs_to_def split: option.split)
  have truncate: "m' = m - j + 1" if "m' + j = m + 1" "1 \<le> m'" for m m' j :: nat using that by simp
  show "active_registration_count (Some r) cutoff s' = projected_recipient r req cutoff ?av s"
    using truncate [OF after pos, of "\<lambda>k v. fst k = r \<and> registration_row_is_active v cutoff"] active
    unfolding target route by (simp add: active_registration_count_def projected_recipient_def)
  show "active_registration_count None cutoff s' = projected_global r req cutoff ?av s"
    using truncate [OF after pos, of "\<lambda>_ v. True \<and> registration_row_is_active v cutoff"] active
    unfolding target route by (simp add: active_registration_count_def projected_global_def)
  have registered: "other_route r req ?av \<Longrightarrow> \<exists>k' v. av_token_registration ?av = Some (k', v)"
    by (auto simp: other_route_def split: option.splits)
  have "av_releases_target_old_owner ?av \<Longrightarrow> av_target ?av \<noteq> None"
    by (auto simp: admission_view_of_def Let_def split: option.splits)
  then show "physical_registration_count s' = projected_rows r req ?av s"
    using after [of "\<lambda>_ _. True"] W(4) registered pos [of "\<lambda>_ _. True"]
    by (cases "av_target ?av"; cases "other_route r req ?av"; cases "av_releases_target_old_owner ?av")
       (simp_all add: physical_registration_count_def projected_rows_def length_as_matching [symmetric])
qed

lemma set_singleton_distinct:
  assumes "set xs = {x}" and "distinct xs"
  shows "xs = [x]"
proof -
  have "length xs = Suc 0" using distinct_card [OF assms(2)] unfolding assms(1) by simp
  then obtain y where "xs = [y]" by (auto simp: length_Suc_conv)
  with assms(1) show ?thesis by simp
qed

lemma written_route:
  assumes w: "write_registration r req now (admission_view_of r req s) s = Inr s'" and reg: "registrations_ok s"
    and now: "0 \<le> now" "cutoff \<le> now"
  shows "\<exists>v. map_of (push_registrations s') (r, rq_installation_id req) = Some v
    \<and> pr_fcm_token v = rq_fcm_token req \<and> registration_row_is_active v cutoff
    \<and> filter (\<lambda>(_, v). pr_fcm_token v = rq_fcm_token req) (push_registrations s') = [((r, rq_installation_id req), v)]"
proof -
  let ?k = "(r, rq_installation_id req)"
  let ?new = "written_row req now (map_of (push_registrations s) ?k)"
  let ?p = "\<lambda>(_, v). pr_fcm_token v = rq_fcm_token req"
  note W = write_registration_InrD [OF w reg refl now(1)]
  have keyed: "keyed (push_registrations s')" using W(2) by (simp add: registrations_ok_def)
  have "set (filter ?p (push_registrations s')) = {(?k, ?new)}"
    by (auto simp: W(3) admission_rows_def written_row_facts(1))
  moreover have "distinct (filter ?p (push_registrations s'))"
    using keyed by (simp add: keyed_def distinct_map)
  ultimately have "filter ?p (push_registrations s') = [(?k, ?new)]"
    by (rule set_singleton_distinct)
  moreover have "map_of (push_registrations s') ?k = Some ?new"
    using keyed by (simp add: map_of_in_set W(3) admission_rows_def)
  ultimately show ?thesis using written_row_facts(1,2) now(2) by blast
qed

lemma cutoff_before: "0 \<le> now \<Longrightarrow> now < 2 ^ 62 \<Longrightarrow> cutoff_of seconds now \<le> now"
proof -
  assume "0 \<le> now" "now < 2 ^ 62"
  then have "i64_saturating (now - min (int (unat seconds)) (2 ^ 63 - 1)) \<le> i64_saturating now"
    by (intro i64_saturating_mono) simp
  also have "i64_saturating now = now" using \<open>0 \<le> now\<close> \<open>now < 2 ^ 62\<close> by simp
  finally show ?thesis by (simp add: cutoff_of_def)
qed

text \<open>
  C20. When a registration is accepted, the ceilings hold in the database it leaves: the
  recipient's active installations, all active installations, and the stored rows (registrations
  and token owners together) are within the configured limits, where zero means no limit. The
  installation is stored as active with the requested token, and no other route uses that token.
\<close>

theorem registration_respects_ceilings:
  assumes "reach gateway_init (gateway_step cfg) g" and "readings g clk c"
    and "register_installation cfg peer headers r req validation admitted clk (g_limiters g) (g_db g) = (Inr (), l, s)"
  shows "(gl_max_active_installations_per_recipient (gw_limits cfg) = 0
          \<or> active_registration_count (Some r) (registration_cutoff cfg (clk 2)) s
              \<le> unat (gl_max_active_installations_per_recipient (gw_limits cfg)))
    \<and> (gl_max_active_installations_global (gw_limits cfg) = 0
          \<or> active_registration_count None (registration_cutoff cfg (clk 2)) s
              \<le> unat (gl_max_active_installations_global (gw_limits cfg)))
    \<and> (gl_max_registration_rows_global (gw_limits cfg) = 0
          \<or> physical_registration_count s \<le> unat (gl_max_registration_rows_global (gw_limits cfg)))
    \<and> (\<exists>v. map_of (push_registrations s) (r, rq_installation_id req) = Some v
          \<and> pr_fcm_token v = rq_fcm_token req
          \<and> registration_row_is_active v (registration_cutoff cfg (clk 2))
          \<and> filter (\<lambda>(_, v). pr_fcm_token v = rq_fcm_token req) (push_registrations s)
              = [((r, rq_installation_id req), v)])"
proof -
  have inv: "gateway_inv g" using assms(1) by (rule gateway.inv_reach)
  note R = readings_inv [OF assms(2) inv]
  let ?cut = "registration_cutoff cfg (clk 2)"
  have adm: "admit_installation r req ?cut (registration_limits_of (gw_limits cfg)) (clk 3) (g_db g) = (Inr Registered, s)"
    using assms(3) by (auto simp: register_installation_def split: sum.splits prod.splits if_splits registration_outcome.splits)
  have cut: "?cut \<le> clk 3"
    using cutoff_before [OF R(4) R(7), of "gw_registration_ttl_seconds cfg" 2] readings_clock(5) [OF assms(2), of 2 3]
    by (simp add: registration_cutoff_def)
  show ?thesis
  proof (rule admit_installation_cases [OF R(1) R(4), of r req ?cut "registration_limits_of (gw_limits cfg)" 3])
    fix o' assume "admit_installation r req ?cut (registration_limits_of (gw_limits cfg)) (clk 3) (g_db g) = (Inr o', g_db g)"
      "o' \<noteq> Registered"
    with adm show ?thesis by simp
  next
    fix s1 s'
    assume res: "admit_installation r req ?cut (registration_limits_of (gw_limits cfg)) (clk 3) (g_db g) = (Inr Registered, s')"
      and reg: "registrations_ok s1"
      and limits: "rl_max_active_per_recipient (registration_limits_of (gw_limits cfg)) = 0 \<or>
             projected_recipient r req ?cut (admission_view_of r req s1) s1
               \<le> unat (rl_max_active_per_recipient (registration_limits_of (gw_limits cfg)))"
        "rl_max_active_global (registration_limits_of (gw_limits cfg)) = 0 \<or>
             projected_global r req ?cut (admission_view_of r req s1) s1
               \<le> unat (rl_max_active_global (registration_limits_of (gw_limits cfg)))"
        "rl_max_total_rows (registration_limits_of (gw_limits cfg)) = 0 \<or>
             projected_rows r req (admission_view_of r req s1) s1
               \<le> unat (rl_max_total_rows (registration_limits_of (gw_limits cfg)))"
      and w: "write_registration r req (clk 3) (admission_view_of r req s1) s1 = Inr s'"
    have s': "s' = s" using adm res by simp
    note exact = admission_projections_exact [OF reg w R(4) cut, unfolded s']
    have "\<exists>v. map_of (push_registrations s) (r, rq_installation_id req) = Some v
          \<and> pr_fcm_token v = rq_fcm_token req \<and> registration_row_is_active v ?cut
          \<and> filter (\<lambda>(_, v). pr_fcm_token v = rq_fcm_token req) (push_registrations s) = [((r, rq_installation_id req), v)]"
      using written_route [OF w reg R(4) cut] by (simp add: s')
    with exact limits show ?thesis by (simp add: registration_limits_of_def)
  qed
qed

theorem registration_respects_ceilings_witness:
  "active_registration_count (Some ''alice'') (registration_cutoff sample_gw 1000) gw_db1 \<le> 2
   \<and> physical_registration_count gw_db1 \<le> 20
   \<and> map_option pr_fcm_token (map_of (push_registrations gw_db1) (''alice'', ''phone'')) = Some ''tok''"
proof -
  have "readings gw0 (\<lambda>_. 1000) 1000" by (rule gw_readings) (simp_all add: gw_states)
  moreover have "register_installation sample_gw None no_headers ''alice'' sample_registration (Inr ()) True (\<lambda>_. 1000)
     (g_limiters gw0) (g_db gw0) = (Inr (), gw_lim1, gw_db1)"
    using sample_register_eval by (simp add: gw_states)
  ultimately show ?thesis
    using registration_respects_ceilings [OF gw_reach(1), of "\<lambda>_. 1000" 1000 None no_headers "''alice''" sample_registration
        "Inr ()" True gw_lim1 gw_db1]
    by (auto simp: sample_gw_def sample_gw_limits_def sample_registration_def)
qed

section \<open>The database\<close>

lemma db_ok_schema: "db_ok c I s \<Longrightarrow> schema_holds s"
  unfolding db_ok_def db_ok_defs schema_holds_def
  by (auto simp: list_all_iff hook_ok_def outbox_row_ok_def tbl_exists_def)

text \<open>
  C19. Every database the gateway can reach, however its handlers, its worker, restarts and
  operator commands interleave, has the shape the migrations declare: distinct keys, the \<open>CHECK\<close>
  clauses of every row, the unique indexes and the foreign keys. Moreover every registered token
  is owned by the installation it routes to, and no hook was used more often than its policy
  allows, in total or within its current window.
\<close>

theorem reachable_database_is_well_typed:
  assumes "reach gateway_init (gateway_step cfg) g"
  shows "schema_holds (g_db g)
    \<and> list_all (\<lambda>((r, i), v). \<exists>w. map_of (token_owners (g_db g)) (pr_fcm_token v) = Some w
          \<and> ow_recipient_id w = r \<and> ow_installation_id w = i) (push_registrations (g_db g))
    \<and> list_all (\<lambda>(_, h). (case hk_max_uses h of None \<Rightarrow> True | Some m \<Rightarrow> hk_use_count h \<le> m)
          \<and> (case hk_rate_limit_max_requests h of None \<Rightarrow> True | Some m \<Rightarrow> hk_rate_limit_count h \<le> m))
        (notification_hooks (g_db g))"
proof -
  have ok: "db_ok (g_clock g) (set (g_issued g)) (g_db g)"
    using gateway.inv_reach [OF assms] by (simp add: gateway_inv_def)
  have "list_all (\<lambda>((r, i), v). \<exists>w. map_of (token_owners (g_db g)) (pr_fcm_token v) = Some w
          \<and> ow_recipient_id w = r \<and> ow_installation_id w = i) (push_registrations (g_db g))"
    using ok by (fastforce simp: db_ok_def registrations_ok_def list_all_iff)
  moreover have "list_all (\<lambda>(_, h). (case hk_max_uses h of None \<Rightarrow> True | Some m \<Rightarrow> hk_use_count h \<le> m)
          \<and> (case hk_rate_limit_max_requests h of None \<Rightarrow> True | Some m \<Rightarrow> hk_rate_limit_count h \<le> m))
        (notification_hooks (g_db g))"
    using ok by (fastforce simp: db_ok_def hooks_ok_def hook_ok_def list_all_iff split: option.split)
  ultimately show ?thesis using db_ok_schema [OF ok] by blast
qed

theorem reachable_database_is_well_typed_witness:
  "schema_holds (g_db gw4) \<and> g_db gw4 \<noteq> migrated_db"
  using reachable_database_is_well_typed [OF gw_reach(5)]
  by (simp add: gw_states gw_db3_def gw_db2_def gw_db1_def migrated_db_def)

end
