(* ===== verification/Spec2Isabelle.thy ===== *)
theory Spec2Isabelle
  imports Denominations Guardian_Service Seat_Properties Gateway_Properties
begin

text \<open>
  Verification of two programs of the manifold repository: the guardian daemon (\<open>crates/mg/core\<close>
  with its wire crate \<open>crates/service-manifold-guardian\<close> and the payment crate
  \<open>crates/locked-payments\<close>) and the push gateway (\<open>crates/push-gateway\<close> with its storage, type and
  provider crates).

  \<^bold>\<open>The programs.\<close> The guardian daemon sells seats. It gives a quote, which is a price under an
  offer epoch together with blinded issuance requests; a federation assistant (FA) pays by
  presenting the issued notes with a signed request; the daemon then stores a seat, claims the
  payment, and starts a runtime that supervises one child process and takes it through key
  generation, running, transfer to another daemon and decommissioning. The push gateway stores
  installations of apps and hooks with a secret; a caller that knows the secret of a hook invokes
  it, which stores an event and a row of an outbox; a worker claims due rows, calls the message
  provider and records the result.

  \<^bold>\<open>Conventions.\<close> \<open>Prelude\<close> has the vocabulary. A fallible operation returns a sum with the error
  on the left; a panic of the daemon is an error of its own. A table is an association list in
  rowid order, and an SQL statement is an insertion, an update of the matching rows, a deletion
  or a filter over it; a transaction returns the old tables when it fails. The clock and freshly
  drawn identifiers are arguments. Integers have their width where it matters (\<open>64 word\<close> for limits
  and amounts, \<open>int\<close> with the saturation of the code for SQL columns). The locale \<open>keyed_table\<close> is the
  contract of tables; \<open>invariant_system\<close> and \<open>monotone_system\<close> carry an invariant, and a relation
  between earlier and later states, along the runs of a step relation. They are interpreted on
  the store of the daemon (\<open>Store_Lifecycle\<close>), on the runtime of a seat (\<open>Seat_Loop_Steps\<close>) and on
  the gateway (\<open>Gateway_Preservation\<close>, \<open>Gateway_Runs\<close>).

  \<^bold>\<open>The guardian daemon.\<close>

  \<^item> \<open>Denominations\<close>: \<open>denominations.rs\<close> and the refund of \<open>locked_payment.rs\<close>. A quote pays its
    price exactly, with the fewest notes on a divisor chain of tiers; the bounded dynamic program
    of the refund returns a representation with the fewest coins. Its walk back has fuel, the
    target plus one: every step lowers the value, so the fuel suffices, which is proved.
  \<^item> \<open>Seat_Facts\<close>, \<open>Quote_Terms\<close>, \<open>Signing\<close>: \<open>facts.rs\<close>, the quote and seat-id types, and the
    signed envelopes of \<open>signing.rs\<close>. Port blocks, seat-id text that round-trips, signatures that
    are separated by direction and verb, and requests that verify only when their FA signed them.
  \<^item> \<open>Store\<close>, \<open>Seat_Store\<close>, \<open>Transfer_Store\<close>: the tables of the migrations and the operations of
    \<open>db.rs\<close>, \<open>db/seats.rs\<close>, \<open>db/transfers.rs\<close> and \<open>transfer_state.rs\<close>. \<open>Store_Invariant\<close> and
    \<open>Store_Preservation\<close> show that every operation keeps keys, foreign keys and decodable rows;
    \<open>Store_History\<close> what is never forgotten; \<open>Store_Capacity\<close> what happens to the free slots.
    \<open>Store_Lifecycle\<close> is the step relation and \<open>Allocation\<close> the abstract ledger of sales that
    admission refines. \<open>Store_Properties\<close> has the results.
  \<^item> \<open>Fleet\<close>, \<open>Fleet_Properties\<close>, \<open>Guardian_Service\<close>: \<open>fleet.rs\<close> and \<open>service.rs\<close>. The registry
    agrees with the store; a seat is selected by its owner only; a quote is given only when it can
    be honoured, and creation with it sells a seat or returns the refund, at any later time.
  \<^item> \<open>Seat_Loop\<close>, \<open>Seat_Loop_Invariant\<close>, \<open>Seat_Loop_Steps\<close>, \<open>Seat_Properties\<close>: the loop of
    \<open>seat.rs\<close>, \<open>seat/transfer.rs\<close> and \<open>seat/import.rs\<close>. No child is live on a fenced or decommissioned
    seat, a runnable seat is supervised, a seat whose material was handed out never runs again, and
    ceremonies are the stored ones, in the same order for all participants.

  \<^bold>\<open>The push gateway.\<close>

  \<^item> \<open>Gateway_Store\<close>: the tables of the migrations of \<open>push-gateway-storage\<close> with their constraints.
    \<open>Gateway_Registrations\<close>, \<open>Gateway_Hooks\<close> and \<open>Delivery_Outbox\<close> are
    \<open>push_registration_repository.rs\<close>, \<open>hook_repository.rs\<close> with \<open>hook_idempotency_repository.rs\<close>, and
    \<open>delivery_outbox.rs\<close>, one definition per method.
  \<^item> \<open>Rate_Limits\<close>, \<open>Gateway_Service\<close>, \<open>Delivery_Worker\<close>: \<open>rate_limits.rs\<close>, the handlers of
    \<open>invoke_hook.rs\<close>, \<open>hook_management.rs\<close> and \<open>register.rs\<close> with \<open>validation.rs\<close>, and the worker and
    startup of \<open>delivery_worker.rs\<close> and \<open>app_state.rs\<close>. The claim loop is a partial function; that
    it returns on every reachable database is a theorem.
  \<^item> \<open>Gateway_System\<close>: the running gateway, whose step is one critical section under the write
    lock: a handler, a statement of the worker, the completion of a delivery in flight, a restart or
    an operator command. \<open>Gateway_Invariant\<close> and \<open>Gateway_Preservation\<close> show that every step keeps
    the invariant; \<open>Gateway_Runs\<close> states the lifecycle of a delivery and shows that the outbox
    refines it.
  \<^item> \<open>Gateway_Properties\<close>: a keyed invocation is enqueued once, the hook alone decides the routing,
    a superseded claim is fenced, recorded outcomes are final, ceilings hold after an admission,
    and the database is well typed. It also shows that an interrupted delivery cannot succeed any
    more, because the lease of a claim is as long as the resolution deadline.

  \<^bold>\<open>Samples.\<close> \<open>Sample_Codec\<close>, \<open>Sample_Run\<close>, \<open>Sample_Seat\<close> and \<open>Sample_Gateway\<close> hold executable
  instances of the parameters and concrete runs, on which the hypotheses of the properties are
  discharged. The parameters stand for code outside the repository: the codecs of wire and stored
  values (decoding what was encoded gives the value back), SHA-256, BIP-340, the blinded signatures,
  the text form of IP addresses, the wallet, and the message provider.

  \<^bold>\<open>Assumptions on the environment.\<close> A transaction is atomic and the write lock admits one critical
  section at a time. The clock of the gateway does not go back, and stays below \<open>2 ^ 62\<close> seconds.
  Random identifiers, claim ids and offer epochs differ from those drawn before. Spawning, process
  exits and file operations of a seat answer from a script, and the theorems hold for all scripts.

  \<^bold>\<open>Not modelled.\<close> Network transports, HTTP extraction and Nostr authentication (the authenticated
  recipient is an argument); backup archives, restore over relays and payouts, which call the
  fedimint packages; metrics, logs and telemetry; configuration parsing and process entry points;
  the FA client, the liquidity manager, the development environment and the operator interface,
  which are separate programs. Failures of the database engine itself are not among the results of
  the gateway's statements; a violated constraint is.
\<close>

end
